(* ===== verification/Prelude.thy ===== *)
theory Prelude
  imports Main "HOL-Library.Word" "HOL-Library.State_Monad"
begin

text \<open>
  What every component shares: identifiers and nullable columns, the table operations that SQL
  statements are made of (insert at the end, update where, delete where, partial unique indexes),
  the result-carrying state monad in which the services are written, and the theory of relations
  between the state before and after an action.
\<close>

named_theorems io_rel
  \<comment> \<open>effect rules: an action relates the state before it to the state after it\<close>
named_theorems act_simps
  \<comment> \<open>equations for running the monadic combinators\<close>

section \<open>Identifiers and nullable columns\<close>

text \<open>
  Go's \<open>uuid.UUID\<close> is an array of 16 bytes; \<open>uuid.Nil\<close> is the zero value. A nullable column
  (\<open>pgtype.UUID\<close>, \<open>pgtype.Text\<close>, ...) is an option: \<open>Valid = false\<close> is \<open>None\<close>. Reading
  \<open>.Bytes\<close> of an invalid \<open>pgtype.UUID\<close> gives the zero array.
\<close>

type_synonym uuid = "128 word"

abbreviation uuid_Nil :: uuid where
  "uuid_Nil \<equiv> 0"

definition pg_bytes :: "uuid option \<Rightarrow> uuid" where
  "pg_bytes u = (case u of None \<Rightarrow> uuid_Nil | Some b \<Rightarrow> b)"

definition pg_text :: "string option \<Rightarrow> string" where
  "pg_text t = (case t of None \<Rightarrow> [] | Some s \<Rightarrow> s)"

lemma pg_bytes_simps [simp]: "pg_bytes None = uuid_Nil" "pg_bytes (Some b) = b"
  by (simp_all add: pg_bytes_def)

lemma pg_text_simps [simp]: "pg_text None = []" "pg_text (Some s) = s"
  by (simp_all add: pg_text_def)

definition coalesce :: "'a option \<Rightarrow> 'a \<Rightarrow> 'a" where
  "coalesce x y = (case x of None \<Rightarrow> y | Some v \<Rightarrow> v)"

definition coalesce_opt :: "'a option \<Rightarrow> 'a option \<Rightarrow> 'a option" where
  "coalesce_opt x y = (case x of None \<Rightarrow> y | Some v \<Rightarrow> Some v)"

lemma coalesce_simps [simp]:
  "coalesce None y = y" "coalesce (Some v) y = v"
  "coalesce_opt None z = z" "coalesce_opt (Some v) z = Some v"
  by (simp_all add: coalesce_def coalesce_opt_def)

text \<open>Go's conversion \<open>int32(x)\<close> of an \<open>int\<close> keeps the low 32 bits, read as two's complement.\<close>

definition go_int32 :: "int \<Rightarrow> int" where
  "go_int32 x = sint (word_of_int x :: 32 word)"

lemma go_int32_id: "- (2 ^ 31) \<le> x \<Longrightarrow> x < 2 ^ 31 \<Longrightarrow> go_int32 x = x"
  by (simp add: go_int32_def sint_sbintrunc' signed_take_bit_int_eq_self)

section \<open>Tables\<close>

text \<open>
  A table is the list of its rows in insertion order. \<open>put_row\<close> is \<open>UPDATE ... WHERE\<close> on the
  rows that share the key of the new row; \<open>del_where\<close> is \<open>DELETE ... WHERE\<close>.
\<close>

definition put_row :: "('r \<Rightarrow> 'k) \<Rightarrow> 'r \<Rightarrow> 'r list \<Rightarrow> 'r list" where
  "put_row k r rs = map (\<lambda>x. if k x = k r then r else x) rs"

definition upd_where :: "('r \<Rightarrow> bool) \<Rightarrow> ('r \<Rightarrow> 'r) \<Rightarrow> 'r list \<Rightarrow> 'r list" where
  "upd_where p f rs = map (\<lambda>x. if p x then f x else x) rs"

definition del_where :: "('r \<Rightarrow> bool) \<Rightarrow> 'r list \<Rightarrow> 'r list" where
  "del_where p rs = filter (\<lambda>x. \<not> p x) rs"

lemma put_row_keys [simp]: "map k (put_row k r rs) = map k rs"
  by (simp add: put_row_def)

lemma length_put_row [simp]: "length (put_row k r rs) = length rs"
  by (simp add: put_row_def)

lemma put_row_Nil [simp]: "put_row k r [] = []"
  by (simp add: put_row_def)

lemma put_row_Cons: "put_row k r (x # xs) = (if k x = k r then r else x) # put_row k r xs"
  by (simp add: put_row_def)

lemma set_put_row: "x \<in> set (put_row k r rs) \<Longrightarrow> x = r \<or> (x \<in> set rs \<and> k x \<noteq> k r)"
  by (auto simp: put_row_def split: if_splits)

lemma set_put_rowD: "x \<in> set (put_row k r rs) \<Longrightarrow> x = r \<or> x \<in> set rs"
  by (auto simp: put_row_def split: if_splits)

lemma put_row_mem: "y \<in> set rs \<Longrightarrow> k y = k r \<Longrightarrow> r \<in> set (put_row k r rs)"
  by (auto simp: put_row_def image_iff)

lemma put_row_other: "x \<in> set rs \<Longrightarrow> k x \<noteq> k r \<Longrightarrow> x \<in> set (put_row k r rs)"
  by (auto simp: put_row_def image_iff)

lemma put_row_absent: "k r \<notin> k ` set rs \<Longrightarrow> put_row k r rs = rs"
  by (induction rs) (auto simp: put_row_def)

lemma find_Some_iff_mem: "find p xs = Some x \<Longrightarrow> x \<in> set xs \<and> p x"
  by (metis find_Some_iff nth_mem)

lemma find_None_mem: "find p xs = None \<Longrightarrow> x \<in> set xs \<Longrightarrow> \<not> p x"
  by (simp add: find_None_iff)

lemma find_append: "find p (xs @ ys) = (case find p xs of None \<Rightarrow> find p ys | Some x \<Rightarrow> Some x)"
  by (induction xs) auto

lemma find_distinct:
  "distinct (map k rs) \<Longrightarrow> r \<in> set rs \<Longrightarrow> find (\<lambda>x. k x = k r) rs = Some r"
  by (induction rs) (auto simp: image_iff)

lemma find_put_row:
  "find (\<lambda>x. k x = k r) rs = Some y \<Longrightarrow> find (\<lambda>x. k x = k r) (put_row k r rs) = Some r"
  by (induction rs) (auto simp: put_row_Cons split: if_splits)

lemma find_put_row_other:
  "a \<noteq> k r \<Longrightarrow> find (\<lambda>x. k x = a) (put_row k r rs) = find (\<lambda>x. k x = a) rs"
  by (induction rs) (auto simp: put_row_Cons)

lemma find_map_row:
  "(\<And>x. k (f x) = k x) \<Longrightarrow>
   find (\<lambda>x. k x = a) (map f rs) = map_option f (find (\<lambda>x. k x = a) rs)"
  by (induction rs) auto

section \<open>Partial unique indexes\<close>

text \<open>
  A partial unique index is a function from a row to its key, \<open>None\<close> for a row outside the
  index's \<open>WHERE\<close> clause; a table satisfies the index when the keys it yields are distinct.
\<close>

definition index_keys :: "('r \<Rightarrow> 'k option) \<Rightarrow> 'r list \<Rightarrow> 'k list" where
  "index_keys k rs = List.map_filter k rs"

definition uniq :: "('r \<Rightarrow> 'k option) \<Rightarrow> 'r list \<Rightarrow> bool" where
  "uniq k rs \<longleftrightarrow> distinct (index_keys k rs)"

definition index_conflict :: "('r \<Rightarrow> 'k option) \<Rightarrow> 'r \<Rightarrow> 'r list \<Rightarrow> bool" where
  "index_conflict k r rs \<longleftrightarrow> (case k r of None \<Rightarrow> False | Some v \<Rightarrow> v \<in> set (index_keys k rs))"

lemma index_keys_simps [simp]:
  "index_keys k [] = []"
  "index_keys k (x # xs) = (case k x of None \<Rightarrow> index_keys k xs | Some v \<Rightarrow> v # index_keys k xs)"
  "index_keys k (xs @ ys) = index_keys k xs @ index_keys k ys"
  by (simp_all add: index_keys_def List.map_filter_def split: option.splits)

lemma set_index_keys: "v \<in> set (index_keys k rs) \<longleftrightarrow> (\<exists>r \<in> set rs. k r = Some v)"
  by (induction rs) (auto split: option.splits)

lemma uniq_Nil [simp]: "uniq k []"
  by (simp add: uniq_def)

lemma uniq_snoc: "uniq k (rs @ [r]) \<longleftrightarrow> uniq k rs \<and> \<not> index_conflict k r rs"
  by (auto simp: uniq_def index_conflict_def split: option.splits)

lemma index_keys_map_same: "(\<And>x. x \<in> set rs \<Longrightarrow> k (f x) = k x) \<Longrightarrow> index_keys k (map f rs) = index_keys k rs"
  by (induction rs) (auto split: option.splits)

lemma uniq_map_same: "(\<And>x. x \<in> set rs \<Longrightarrow> k (f x) = k x) \<Longrightarrow> uniq k (map f rs) = uniq k rs"
  by (simp add: uniq_def index_keys_map_same)

lemma uniq_put_row:
  assumes "uniq k rs" and "\<And>x. x \<in> set rs \<Longrightarrow> i x = i r \<Longrightarrow> k x = k r"
  shows "uniq k (put_row i r rs)"
  unfolding put_row_def using assms by (subst uniq_map_same) auto

lemma uniq_del_where: "uniq k rs \<Longrightarrow> uniq k (del_where p rs)"
proof (induction rs)
  case (Cons x xs)
  have sub: "set (index_keys k (del_where p xs)) \<subseteq> set (index_keys k xs)"
    by (auto simp: set_index_keys del_where_def)
  from Cons sub show ?case
    by (auto simp: uniq_def del_where_def split: option.splits)
qed (simp add: del_where_def)

lemma uniq_inj: "uniq k rs \<Longrightarrow> a \<in> set rs \<Longrightarrow> b \<in> set rs \<Longrightarrow> k a = Some v \<Longrightarrow> k b = Some v \<Longrightarrow> a = b"
proof (induction rs)
  case (Cons x xs)
  then show ?case
    by (auto simp: uniq_def set_index_keys split: option.splits)
qed simp

lemma uniq_total: "uniq (\<lambda>x. Some (k x)) rs \<longleftrightarrow> distinct (map k rs)"
proof -
  have "index_keys (\<lambda>x. Some (k x)) rs = map k rs" by (induction rs) auto
  then show ?thesis by (simp add: uniq_def)
qed

lemma distinct_key_inj: "distinct (map k rs) \<Longrightarrow> a \<in> set rs \<Longrightarrow> b \<in> set rs \<Longrightarrow> k a = k b \<Longrightarrow> a = b"
  by (meson distinct_map inj_onD)

text \<open>A row's constraints in the order the server checks them: the first that fails is reported.\<close>

fun first_violation :: "(bool \<times> 'e) list \<Rightarrow> 'e option" where
  "first_violation [] = None"
| "first_violation ((holds, e) # cs) = (if holds then first_violation cs else Some e)"

definition checks_hold :: "(bool \<times> 'e) list \<Rightarrow> bool" where
  "checks_hold cs \<longleftrightarrow> list_all fst cs"

lemma first_violation_None [simp]: "first_violation cs = None \<longleftrightarrow> checks_hold cs"
  by (induction cs rule: first_violation.induct) (auto simp: checks_hold_def)

lemma first_violation_Some: "first_violation cs = Some e \<Longrightarrow> (False, e) \<in> set cs"
  by (induction cs rule: first_violation.induct) (auto split: if_splits)

lemma checks_hold_simps [simp]:
  "checks_hold []" "checks_hold ((b, e) # cs) \<longleftrightarrow> b \<and> checks_hold cs"
  "checks_hold (cs @ ds) \<longleftrightarrow> checks_hold cs \<and> checks_hold ds"
  by (simp_all add: checks_hold_def)

section \<open>Actions\<close>

text \<open>
  A Go function that returns \<open>(T, error)\<close> is an action whose value is a sum, \<open>Inl\<close> for the
  error. \<open>call m h k\<close> is the idiom \<^verbatim>\<open>x, err := m; if err != nil { return h(err) }; k(x)\<close>.
\<close>

definition ok :: "'a \<Rightarrow> ('s, 'e + 'a) state" where
  "ok x = State_Monad.return (Inr x)"

definition fail :: "'e \<Rightarrow> ('s, 'e + 'a) state" where
  "fail e = State_Monad.return (Inl e)"

definition call :: "('s, 'e + 'a) state \<Rightarrow> ('e \<Rightarrow> 'f) \<Rightarrow> ('a \<Rightarrow> ('s, 'f + 'b) state)
    \<Rightarrow> ('s, 'f + 'b) state" where
  "call m h k = State_Monad.bind m (\<lambda>r. case r of Inl e \<Rightarrow> fail (h e) | Inr x \<Rightarrow> k x)"

text \<open>\<open>ignoring m k\<close> runs \<open>m\<close> for its effect and drops its result, as a best-effort call does.\<close>

definition ignoring :: "('s, 'a) state \<Rightarrow> ('s, 'b) state \<Rightarrow> ('s, 'b) state" where
  "ignoring m k = State_Monad.bind m (\<lambda>_. k)"

fun for_each :: "('a \<Rightarrow> ('s, 'b) state) \<Rightarrow> 'a list \<Rightarrow> ('s, unit) state" where
  "for_each f [] = State_Monad.return ()"
| "for_each f (x # xs) = ignoring (f x) (for_each f xs)"

lemma run_ok [simp, act_simps]: "run_state (ok x) s = (Inr x, s)"
  by (simp add: ok_def)

lemma run_fail [simp, act_simps]: "run_state (fail e) s = (Inl e, s)"
  by (simp add: fail_def)

lemma run_call [act_simps]: "run_state (call m h k) s =
    (case run_state m s of
       (Inl e, s') \<Rightarrow> (Inl (h e), s')
     | (Inr x, s') \<Rightarrow> run_state (k x) s')"
  by (auto simp: call_def split: prod.splits sum.splits)

lemma run_call_Inr [simp]: "run_state m s = (Inr x, s') \<Longrightarrow> run_state (call m h k) s = run_state (k x) s'"
  by (simp add: run_call)

lemma run_call_Inl [simp]: "run_state m s = (Inl e, s') \<Longrightarrow> run_state (call m h k) s = (Inl (h e), s')"
  by (simp add: run_call)

lemma run_ignoring [simp, act_simps]: "run_state (ignoring m k) s = run_state k (snd (run_state m s))"
  by (simp add: ignoring_def split: prod.splits)

section \<open>What an action may change\<close>

text \<open>
  A relation between the state before and the state after is closed under sequencing when it is a
  preorder. \<open>State_Monad.state_io_rel\<close> says that every run of an action is in the relation; the
  lemmas of this locale lift it from the primitive actions to the programs built from them. Every
  invariant is an instance, with \<open>R s t = (I s \<longrightarrow> I t)\<close>.
\<close>

locale effect_rel =
  fixes R :: "'s \<Rightarrow> 's \<Rightarrow> bool"
  assumes R_refl: "R s s"
    and R_trans: "R s t \<Longrightarrow> R t u \<Longrightarrow> R s u"
begin

lemma rel_return [io_rel]: "state_io_rel R (State_Monad.return x)"
  by (auto simp: state_io_rel_def R_refl)

lemma rel_ok [io_rel]: "state_io_rel R (ok x)"
  by (simp add: ok_def rel_return)

lemma rel_fail [io_rel]: "state_io_rel R (fail e)"
  by (simp add: fail_def rel_return)

lemma rel_bind [io_rel]:
  assumes "state_io_rel R m" and "\<And>x. state_io_rel R (f x)"
  shows "state_io_rel R (State_Monad.bind m f)"
  using assms unfolding state_io_rel_def
  by (auto split: prod.splits) (metis R_trans snd_conv)

lemma rel_call [io_rel]:
  assumes "state_io_rel R m" and "\<And>x. state_io_rel R (k x)"
  shows "state_io_rel R (call m h k)"
  unfolding call_def by (rule rel_bind [OF assms(1)]) (auto intro: rel_fail assms(2) split: sum.splits)

lemma rel_ignoring [io_rel]:
  assumes "state_io_rel R m" and "state_io_rel R k"
  shows "state_io_rel R (ignoring m k)"
  unfolding ignoring_def by (rule rel_bind) (use assms in auto)

lemma rel_for_each [io_rel]: "(\<And>x. state_io_rel R (f x)) \<Longrightarrow> state_io_rel R (for_each f xs)"
  by (induction xs) (simp_all add: rel_return rel_ignoring)

lemma rel_if [io_rel]: "state_io_rel R a \<Longrightarrow> state_io_rel R b \<Longrightarrow> state_io_rel R (if c then a else b)"
  by simp

lemma rel_case_option [io_rel]:
  "state_io_rel R a \<Longrightarrow> (\<And>x. state_io_rel R (b x)) \<Longrightarrow>
   state_io_rel R (case v of None \<Rightarrow> a | Some x \<Rightarrow> b x)"
  by (simp split: option.splits)

lemma rel_case_sum [io_rel]:
  "(\<And>x. state_io_rel R (a x)) \<Longrightarrow> (\<And>x. state_io_rel R (b x)) \<Longrightarrow>
   state_io_rel R (case v of Inl x \<Rightarrow> a x | Inr x \<Rightarrow> b x)"
  by (simp split: sum.splits)

lemma rel_run: "state_io_rel R m \<Longrightarrow> R s (snd (run_state m s))"
  by (simp add: state_io_rel_def)

end

lemma rel_runD: "state_io_rel R m \<Longrightarrow> run_state m s = (r, s') \<Longrightarrow> R s s'"
  by (metis state_io_rel_def snd_conv)

lemma invariant_effect_rel: "effect_rel (\<lambda>s t. I s \<longrightarrow> I t)"
  by unfold_locales auto

lemma same_effect_rel: "effect_rel (\<lambda>s t. f t = f s)"
  by unfold_locales auto

section \<open>Well-formed tables\<close>

text \<open>
  A table is well-formed when its primary keys are distinct, each of its unique indexes holds and
  every row satisfies its row constraint; how the three kinds of statements preserve that.
\<close>

definition table_ok :: "('r \<Rightarrow> 'k) \<Rightarrow> ('r \<Rightarrow> 'u option) list \<Rightarrow> ('r \<Rightarrow> bool) \<Rightarrow> 'r list \<Rightarrow> bool" where
  "table_ok k us p rs \<longleftrightarrow>
     distinct (map k rs) \<and> list_all (\<lambda>u. uniq u rs) us \<and> (\<forall>r \<in> set rs. p r)"

lemma table_ok_Nil [simp]: "table_ok k us p []"
  by (simp add: table_ok_def list_all_iff)

lemma table_ok_mono: "table_ok k us p rs \<Longrightarrow> (\<And>r. r \<in> set rs \<Longrightarrow> p r \<Longrightarrow> q r) \<Longrightarrow> table_ok k us q rs"
  by (auto simp: table_ok_def)

lemma table_ok_snoc:
  assumes "table_ok k us p rs" and "k r \<notin> set (map k rs)"
    and "\<And>u. u \<in> set us \<Longrightarrow> \<not> index_conflict u r rs" and "p r"
  shows "table_ok k us p (rs @ [r])"
  using assms by (auto simp: table_ok_def list_all_iff uniq_snoc)

lemma table_ok_put:
  assumes "table_ok k us p rs"
    and "\<And>u x. u \<in> set us \<Longrightarrow> x \<in> set rs \<Longrightarrow> k x = k r \<Longrightarrow> u x = u r" and "p r"
  shows "table_ok k us p (put_row k r rs)"
  using assms by (auto simp: table_ok_def list_all_iff intro!: uniq_put_row dest: set_put_rowD)

lemma table_ok_del: "table_ok k us p rs \<Longrightarrow> table_ok k us p (del_where q rs)"
  by (auto simp: table_ok_def list_all_iff del_where_def intro: uniq_del_where [unfolded del_where_def]
      distinct_map_filter)

lemma table_ok_upd:
  assumes "table_ok k us p rs"
    and "\<And>x. x \<in> set rs \<Longrightarrow> q x \<Longrightarrow> k (f x) = k x"
    and "\<And>u x. u \<in> set us \<Longrightarrow> x \<in> set rs \<Longrightarrow> q x \<Longrightarrow> u (f x) = u x"
    and "\<And>x. x \<in> set rs \<Longrightarrow> q x \<Longrightarrow> p x \<Longrightarrow> p (f x)"
  shows "table_ok k us p (upd_where q f rs)"
proof -
  have "map k (upd_where q f rs) = map k rs" using assms(2) by (auto simp: upd_where_def)
  moreover have "list_all (\<lambda>u. uniq u (upd_where q f rs)) us"
    using assms(1,3) unfolding upd_where_def
    by (auto simp: table_ok_def list_all_iff uniq_map_same)
  moreover have "\<forall>r \<in> set (upd_where q f rs). p r"
    using assms(1,4) by (auto simp: table_ok_def upd_where_def)
  ultimately show ?thesis using assms(1) by (simp add: table_ok_def)
qed

lemma table_ok_row: "table_ok k us p rs \<Longrightarrow> r \<in> set rs \<Longrightarrow> p r"
  by (simp add: table_ok_def)

lemma table_ok_key: "table_ok k us p rs \<Longrightarrow> a \<in> set rs \<Longrightarrow> b \<in> set rs \<Longrightarrow> k a = k b \<Longrightarrow> a = b"
  by (auto simp: table_ok_def dest: distinct_key_inj)

lemma table_ok_index:
  "table_ok k us p rs \<Longrightarrow> u \<in> set us \<Longrightarrow> a \<in> set rs \<Longrightarrow> b \<in> set rs \<Longrightarrow> u a = Some v \<Longrightarrow>
   u b = Some v \<Longrightarrow> a = b"
  by (auto simp: table_ok_def list_all_iff dest: uniq_inj)

text \<open>A projection that an update does not touch.\<close>

lemma put_row_proj:
  "(\<And>x. x \<in> set rs \<Longrightarrow> k x = k r \<Longrightarrow> p x = p r) \<Longrightarrow> map p (put_row k r rs) = map p rs"
  by (simp add: put_row_def)

lemma upd_where_proj: "(\<And>x. x \<in> set rs \<Longrightarrow> q x \<Longrightarrow> p (f x) = p x) \<Longrightarrow> map p (upd_where q f rs) = map p rs"
  by (simp add: upd_where_def)

section \<open>What an action establishes\<close>

text \<open>\<open>post P m Q\<close>: from a state with \<open>P\<close>, the result and the final state of \<open>m\<close> satisfy \<open>Q\<close>.\<close>

definition post :: "('s \<Rightarrow> bool) \<Rightarrow> ('s, 'a) state \<Rightarrow> ('a \<Rightarrow> 's \<Rightarrow> bool) \<Rightarrow> bool" where
  "post P m Q \<longleftrightarrow> (\<forall>s. P s \<longrightarrow> Q (fst (run_state m s)) (snd (run_state m s)))"

named_theorems post_intro
  \<comment> \<open>rules that decompose a program into its steps\<close>

lemma postD: "post P m Q \<Longrightarrow> P s \<Longrightarrow> run_state m s = (r, s') \<Longrightarrow> Q r s'"
  by (force simp: post_def)

lemma postI: "(\<And>s r s'. P s \<Longrightarrow> run_state m s = (r, s') \<Longrightarrow> Q r s') \<Longrightarrow> post P m Q"
  by (metis post_def prod.collapse)

lemma post_conseq: "post P m Q \<Longrightarrow> (\<And>s. P' s \<Longrightarrow> P s) \<Longrightarrow> (\<And>r s. Q r s \<Longrightarrow> Q' r s) \<Longrightarrow> post P' m Q'"
  by (auto simp: post_def)

lemma post_weaken: "post P m Q \<Longrightarrow> (\<And>r s. Q r s \<Longrightarrow> Q' r s) \<Longrightarrow> post P m Q'"
  by (auto simp: post_def)

lemma post_return [post_intro]: "(\<And>s. P s \<Longrightarrow> Q x s) \<Longrightarrow> post P (State_Monad.return x) Q"
  by (simp add: post_def)

lemma post_ok [post_intro]: "(\<And>s. P s \<Longrightarrow> Q (Inr x) s) \<Longrightarrow> post P (ok x) Q"
  by (simp add: post_def)

lemma post_fail [post_intro]: "(\<And>s. P s \<Longrightarrow> Q (Inl e) s) \<Longrightarrow> post P (fail e) Q"
  by (simp add: post_def)

lemma post_bind:
  "post P m R \<Longrightarrow> (\<And>x. post (R x) (f x) Q) \<Longrightarrow> post P (State_Monad.bind m f) Q"
  by (auto simp: post_def split: prod.splits)

lemma post_call:
  assumes "post P m R" and "\<And>e s. R (Inl e) s \<Longrightarrow> Q (Inl (h e)) s" and "\<And>x. post (R (Inr x)) (k x) Q"
  shows "post P (call m h k) Q"
  unfolding call_def
  by (rule post_bind [OF assms(1)]) (auto intro: post_fail assms(2,3) split: sum.splits)

lemma post_ignoring: "post P m (\<lambda>_. R) \<Longrightarrow> post R k Q \<Longrightarrow> post P (ignoring m k) Q"
  unfolding ignoring_def by (rule post_bind) auto

lemma post_if [post_intro]:
  "(c \<Longrightarrow> post P a Q) \<Longrightarrow> (\<not> c \<Longrightarrow> post P b Q) \<Longrightarrow> post P (if c then a else b) Q"
  by simp

lemma post_case_option [post_intro]:
  "(v = None \<Longrightarrow> post P a Q) \<Longrightarrow> (\<And>x. v = Some x \<Longrightarrow> post P (b x) Q) \<Longrightarrow>
   post P (case v of None \<Rightarrow> a | Some x \<Rightarrow> b x) Q"
  by (simp split: option.splits)

lemma post_case_sum [post_intro]:
  "(\<And>e. v = Inl e \<Longrightarrow> post P (a e) Q) \<Longrightarrow> (\<And>x. v = Inr x \<Longrightarrow> post P (b x) Q) \<Longrightarrow>
   post P (case v of Inl e \<Rightarrow> a e | Inr x \<Rightarrow> b x) Q"
  by (simp split: sum.splits)

lemma post_for_each: "(\<And>x. x \<in> set xs \<Longrightarrow> post I (f x) (\<lambda>_. I)) \<Longrightarrow> post I (for_each f xs) (\<lambda>_. I)"
  by (induction xs) (auto intro: post_return post_ignoring)

lemma post_of_rel:
  "state_io_rel R m \<Longrightarrow> (\<And>s s'. P s \<Longrightarrow> R s s' \<Longrightarrow> Q s') \<Longrightarrow> post P m (\<lambda>_. Q)"
  by (auto simp: post_def state_io_rel_def)

lemma rel_of_post: "post I m (\<lambda>_. I) \<Longrightarrow> state_io_rel (\<lambda>s t. I s \<longrightarrow> I t) m"
  by (auto simp: post_def state_io_rel_def)

end
