(* ===== verification/Errs.thy ===== *)
theory Errs
  imports Prelude
begin

text \<open>
  Errors as values: the structured application error of \<^verbatim>\<open>pkg/errs\<close>, the errors of the database
  driver that the services tell apart (\<^verbatim>\<open>internal/pgutil\<close>, \<open>pgx.ErrNoRows\<close>), the chains that
  \<open>fmt.Errorf\<close> builds with its wrapping verb, and the translation of an error to an HTTP answer
  (\<^verbatim>\<open>internal/server/errors.go\<close>).
\<close>

section \<open>Application errors\<close>

type_synonym code = string

definition CodeInternalError :: code where "CodeInternalError = ''internal_error''"
definition CodeNotFound :: code where "CodeNotFound = ''not_found''"
definition CodeConflict :: code where "CodeConflict = ''conflict''"
definition CodeValidationFailed :: code where "CodeValidationFailed = ''validation_failed''"
definition CodeUnauthorized :: code where "CodeUnauthorized = ''unauthorized''"
definition CodeForbidden :: code where "CodeForbidden = ''forbidden''"
definition CodeNotImplemented :: code where "CodeNotImplemented = ''not_implemented''"

lemmas code_defs = CodeInternalError_def CodeNotFound_def CodeConflict_def
  CodeValidationFailed_def CodeUnauthorized_def CodeForbidden_def CodeNotImplemented_def

text \<open>
  \<open>AppErr\<close> is \<open>*errs.Error\<close> with its code, its message and the wrapped cause; \<open>Wrapped s e\<close> is
  \<open>fmt.Errorf\<close> of the text \<open>s\<close>, a colon and \<open>%w\<close>; \<open>Other s\<close> is an error of which the code only
  sees the text \<open>s\<close>. The remaining constructors are the sentinel and typed errors of libraries.
\<close>

datatype go_error =
    ErrNoRows
  | PgError (pg_code: string) (pg_constraint: string)
  | ErrPasswordTooLong
  | ErrMissingFile
  | MaxBytesError
  | Other string
  | Wrapped string go_error
  | AppErr code string "go_error option"

definition errs_New :: "code \<Rightarrow> string \<Rightarrow> go_error option \<Rightarrow> go_error" where
  "errs_New c msg cause = AppErr c msg cause"

text \<open>
  \<open>Error()\<close>: the text of an error. The texts of library errors are the argument \<open>txt\<close>.
\<close>

fun error_text :: "(go_error \<Rightarrow> string) \<Rightarrow> go_error \<Rightarrow> string" where
  "error_text txt (AppErr c m (Some e)) = c @ '': '' @ m @ '': '' @ error_text txt e"
| "error_text txt (AppErr c m None) = c @ '': '' @ m"
| "error_text txt (Wrapped s e) = s @ '': '' @ error_text txt e"
| "error_text txt (Other s) = s"
| "error_text txt e = txt e"

text \<open>\<open>Unwrap()\<close>, and the chain it spans, which \<open>errors.Is\<close> and \<open>errors.As\<close> walk.\<close>

fun err_Unwrap :: "go_error \<Rightarrow> go_error option" where
  "err_Unwrap (AppErr c m e) = e"
| "err_Unwrap (Wrapped s e) = Some e"
| "err_Unwrap e = None"

fun err_chain :: "go_error \<Rightarrow> go_error list" where
  "err_chain (AppErr c m (Some e)) = AppErr c m (Some e) # err_chain e"
| "err_chain (Wrapped s e) = Wrapped s e # err_chain e"
| "err_chain e = [e]"

lemma err_chain_unwrap:
  "err_chain e = e # (case err_Unwrap e of None \<Rightarrow> [] | Some e' \<Rightarrow> err_chain e')"
  by (cases e rule: err_chain.cases) auto

definition is_no_rows :: "go_error \<Rightarrow> bool" where
  "is_no_rows e \<longleftrightarrow> ErrNoRows \<in> set (err_chain e)"

definition is_password_too_long :: "go_error \<Rightarrow> bool" where
  "is_password_too_long e \<longleftrightarrow> ErrPasswordTooLong \<in> set (err_chain e)"

fun first_app_err :: "go_error list \<Rightarrow> (code \<times> string) option" where
  "first_app_err [] = None"
| "first_app_err (AppErr c m _ # _) = Some (c, m)"
| "first_app_err (_ # es) = first_app_err es"

definition as_app_err :: "go_error \<Rightarrow> (code \<times> string) option" where
  "as_app_err e = first_app_err (err_chain e)"

fun first_pg_err :: "go_error list \<Rightarrow> (string \<times> string) option" where
  "first_pg_err [] = None"
| "first_pg_err (PgError c k # _) = Some (c, k)"
| "first_pg_err (_ # es) = first_pg_err es"

definition as_pg_err :: "go_error \<Rightarrow> (string \<times> string) option" where
  "as_pg_err e = first_pg_err (err_chain e)"

section \<open>PostgreSQL error classes\<close>

definition IsUniqueViolation :: "go_error \<Rightarrow> string \<Rightarrow> bool" where
  "IsUniqueViolation e constraint =
     (case as_pg_err e of
        None \<Rightarrow> False
      | Some (c, k) \<Rightarrow> c = ''23505'' \<and> (constraint = [] \<or> k = constraint))"

definition IsForeignKeyViolation :: "go_error \<Rightarrow> string \<Rightarrow> bool" where
  "IsForeignKeyViolation e constraint =
     (case as_pg_err e of
        None \<Rightarrow> False
      | Some (c, k) \<Rightarrow> c = ''23503'' \<and> (constraint = [] \<or> k = constraint))"

abbreviation unique_violation :: "string \<Rightarrow> go_error" where
  "unique_violation k \<equiv> PgError ''23505'' k"

abbreviation fk_violation :: "string \<Rightarrow> go_error" where
  "fk_violation k \<equiv> PgError ''23503'' k"

abbreviation check_violation :: "string \<Rightarrow> go_error" where
  "check_violation k \<equiv> PgError ''23514'' k"

text \<open>\<open>RAISE EXCEPTION\<close> in a trigger function.\<close>

abbreviation raised :: "string \<Rightarrow> go_error" where
  "raised f \<equiv> PgError ''P0001'' f"

lemma no_rows_simps [simp]:
  "is_no_rows ErrNoRows" "\<not> is_no_rows (PgError c k)" "\<not> is_no_rows (Other s)"
  "\<not> is_no_rows ErrPasswordTooLong" "is_no_rows (Wrapped s e) = is_no_rows e"
  "is_no_rows (AppErr c m None) = False" "is_no_rows (AppErr c m (Some e)) = is_no_rows e"
  by (simp_all add: is_no_rows_def)

lemma as_pg_err_simps [simp]:
  "as_pg_err ErrNoRows = None" "as_pg_err (PgError c k) = Some (c, k)" "as_pg_err (Other s) = None"
  "as_pg_err (Wrapped s e) = as_pg_err e" "as_pg_err (AppErr c m None) = None"
  "as_pg_err (AppErr c m (Some e)) = as_pg_err e"
  by (simp_all add: as_pg_err_def)

lemma as_app_err_simps [simp]:
  "as_app_err (AppErr c m cause) = Some (c, m)" "as_app_err (Wrapped s e) = as_app_err e"
  "as_app_err (Other s) = None" "as_app_err ErrNoRows = None" "as_app_err (PgError k n) = None"
  by (cases cause) (simp_all add: as_app_err_def)

lemma unique_fk_disjoint: "IsUniqueViolation e k \<Longrightarrow> \<not> IsForeignKeyViolation e l"
  by (auto simp: IsUniqueViolation_def IsForeignKeyViolation_def split: option.splits)

section \<open>Answers\<close>

text \<open>
  \<open>codeToStatus\<close> and \<open>respondWithError\<close>. The answer carries the status and the body
  \<^verbatim>\<open>{"error": {"code": ..., "message": ...}}\<close>; log records are not modelled.
\<close>

record error_response =
  resp_status :: nat
  resp_code :: code
  resp_message :: string

definition codeToStatus :: "code \<Rightarrow> nat option" where
  "codeToStatus = map_of
     [(CodeNotFound, 404), (CodeConflict, 409), (CodeValidationFailed, 400),
      (CodeUnauthorized, 401), (CodeForbidden, 403), (CodeInternalError, 500),
      (CodeNotImplemented, 501)]"

definition respondWithError :: "go_error \<Rightarrow> error_response" where
  "respondWithError e =
     (case as_app_err e of
        Some (c, m) \<Rightarrow>
          (case codeToStatus c of
             Some st \<Rightarrow> \<lparr>resp_status = st, resp_code = c, resp_message = m\<rparr>
           | None \<Rightarrow> \<lparr>resp_status = 500, resp_code = CodeInternalError,
                       resp_message = ''internal server error''\<rparr>)
      | None \<Rightarrow> \<lparr>resp_status = 500, resp_code = CodeInternalError,
                  resp_message = ''internal server error''\<rparr>)"

lemma codeToStatus_dom: "codeToStatus c = Some st \<Longrightarrow> c \<in>
   {CodeNotFound, CodeConflict, CodeValidationFailed, CodeUnauthorized, CodeForbidden,
    CodeInternalError, CodeNotImplemented}"
  unfolding codeToStatus_def by (drule map_of_SomeD) auto

lemma respond_app [simp]: "codeToStatus c = Some st \<Longrightarrow>
   respondWithError (AppErr c m e) = \<lparr>resp_status = st, resp_code = c, resp_message = m\<rparr>"
  by (simp add: respondWithError_def)

text \<open>The answers that hide a cause are the same whatever the cause is.\<close>

lemma respond_cause: "respondWithError (AppErr c m e) = respondWithError (AppErr c m e')"
  by (simp add: respondWithError_def)

end
