(* ===== verification/Json.thy ===== *)
theory Json
  imports Prelude "HOL-Library.AList"
begin

text \<open>
  JSON values and the decoding of \<open>encoding/json\<close> that the services use. A \<open>JSONB\<close> column holds a
  parsed value, so the model stores values: \<open>json.RawMessage\<close> is a value, \<open>json.Marshal\<close> of a Go
  value is the value it denotes, and \<open>json.Unmarshal\<close> is decoding a value into a Go type. Decoding
  follows the library: \<open>null\<close> leaves the target unchanged, a member is matched to a field by its
  name up to the case of ASCII letters, later members overwrite earlier ones, unknown members are
  ignored, and a value of the wrong type makes the whole call fail (\<open>None\<close>).
\<close>

datatype json =
    JNull
  | JBool bool
  | JInt int
  | JDec string \<comment> \<open>a number that is not an integer literal, by its text\<close>
  | JStr string
  | JArr "json list"
  | JObj "(string \<times> json) list"

definition ascii_lower :: "char \<Rightarrow> char" where
  "ascii_lower c = (if of_char c \<in> {65..(90::nat)} then char_of (of_char c + (32::nat)) else c)"

definition same_name :: "string \<Rightarrow> string \<Rightarrow> bool" where
  "same_name a b \<longleftrightarrow> map ascii_lower a = map ascii_lower b"

lemma same_name_refl [simp]: "same_name a a"
  by (simp add: same_name_def)

text \<open>Decoders take the old contents of the target and give the new ones.\<close>

fun dec_string :: "json \<Rightarrow> string \<Rightarrow> string option" where
  "dec_string (JStr s) old = Some s"
| "dec_string JNull old = Some old"
| "dec_string _ old = None"

text \<open>Go's \<open>int\<close> has 64 bits; a number with a fraction or an exponent, or out of range, fails.\<close>

fun dec_int :: "json \<Rightarrow> int \<Rightarrow> int option" where
  "dec_int (JInt n) old = (if - (2 ^ 63) \<le> n \<and> n < 2 ^ 63 then Some n else None)"
| "dec_int JNull old = Some old"
| "dec_int _ old = None"

fun those_list :: "'a option list \<Rightarrow> 'a list option" where
  "those_list [] = Some []"
| "those_list (x # xs) =
     (case x of None \<Rightarrow> None
      | Some y \<Rightarrow> (case those_list xs of None \<Rightarrow> None | Some ys \<Rightarrow> Some (y # ys)))"

text \<open>A slice: each element is decoded into a zero value; \<open>null\<close> gives the nil slice.\<close>

fun dec_slice :: "(json \<Rightarrow> 'a option) \<Rightarrow> json \<Rightarrow> 'a list \<Rightarrow> 'a list option" where
  "dec_slice d (JArr js) old = those_list (map d js)"
| "dec_slice d JNull old = Some []"
| "dec_slice d _ old = None"

text \<open>A struct: the members in order, each through the decoder of the field it matches.\<close>

fun dec_members :: "(string \<Rightarrow> json \<Rightarrow> 'r \<Rightarrow> 'r option) \<Rightarrow> (string \<times> json) list \<Rightarrow> 'r \<Rightarrow> 'r option" where
  "dec_members f [] r = Some r"
| "dec_members f ((k, v) # ms) r =
     (case f k v r of None \<Rightarrow> None | Some r' \<Rightarrow> dec_members f ms r')"

fun dec_struct :: "(string \<Rightarrow> json \<Rightarrow> 'r \<Rightarrow> 'r option) \<Rightarrow> json \<Rightarrow> 'r \<Rightarrow> 'r option" where
  "dec_struct f (JObj ms) r = dec_members f ms r"
| "dec_struct f JNull r = Some r"
| "dec_struct f _ r = None"

text \<open>\<open>map[string]*string\<close>: a pointer is nil for \<open>null\<close>.\<close>

fun dec_string_ptr :: "json \<Rightarrow> string option option" where
  "dec_string_ptr (JStr s) = Some (Some s)"
| "dec_string_ptr JNull = Some None"
| "dec_string_ptr _ = None"

fun dec_map_members :: "(string \<times> json) list \<Rightarrow> (string \<times> string option) list
    \<Rightarrow> (string \<times> string option) list option" where
  "dec_map_members [] m = Some m"
| "dec_map_members ((k, v) # ms) m =
     (case dec_string_ptr v of None \<Rightarrow> None
      | Some p \<Rightarrow> dec_map_members ms (AList.update k p m))"

fun dec_string_map :: "json \<Rightarrow> (string \<times> string option) list option" where
  "dec_string_map (JObj ms) = dec_map_members ms []"
| "dec_string_map JNull = Some []"
| "dec_string_map _ = None"

definition enc_strings :: "string list \<Rightarrow> json" where
  "enc_strings ss = JArr (map JStr ss)"

definition dec_strings :: "json \<Rightarrow> string list option" where
  "dec_strings j = dec_slice (\<lambda>e. dec_string e []) j []"

lemma those_list_map_Some [simp]: "those_list (map (\<lambda>x. Some (f x)) xs) = Some (map f xs)"
  by (induction xs) auto

lemma those_list_inv: "(\<And>x. d (e x) = Some x) \<Longrightarrow> those_list (map d (map e xs)) = Some xs"
  by (induction xs) auto

lemma dec_enc_strings [simp]: "dec_strings (enc_strings ss) = Some ss"
  by (simp add: dec_strings_def enc_strings_def comp_def)

lemma dec_map_members_distinct:
  "distinct (map fst m) \<Longrightarrow> dec_map_members ms m = Some m' \<Longrightarrow> distinct (map fst m')"
  by (induction ms m arbitrary: m' rule: dec_map_members.induct)
     (auto split: option.splits simp: distinct_update)

lemma dec_string_map_distinct: "dec_string_map j = Some m \<Longrightarrow> distinct (map fst m)"
  by (cases j) (auto intro: dec_map_members_distinct [of "[]"])

end
