(* ===== verification/Schema.thy ===== *)
theory Schema
  imports Errs Json
begin

text \<open>
  The rows of \<^verbatim>\<open>internal/repository/models.go\<close> as records, the database as the record of its
  tables, and the constraints of \<^verbatim>\<open>sql/migrations\<close>: checks, unique and partial unique indexes,
  foreign keys and the tenant-isolation triggers, each with the error the driver reports for it.
  Timestamps are integers (microseconds). Length limits of the column types and text encoding
  are not modelled here; a rejection for such a reason is one of the faults of \<^verbatim>\<open>World\<close>.
\<close>

section \<open>Rows\<close>

record organization =
  org_id :: uuid
  org_name :: string
  org_inn :: "string option"
  org_settings :: json
  org_is_active :: bool
  org_created_at :: int
  org_updated_at :: int

record user =
  usr_id :: uuid
  usr_organization_id :: "uuid option"
  usr_email :: string
  usr_password_hash :: string
  usr_full_name :: string
  usr_role :: string
  usr_is_active :: bool
  usr_created_at :: int
  usr_updated_at :: int
  usr_last_login_at :: "int option"

record construction_site =
  site_id :: uuid
  site_organization_id :: uuid
  site_parent_id :: "uuid option"
  site_name :: string
  site_status :: string
  site_created_by :: "uuid option"
  site_created_at :: int
  site_updated_at :: int
  site_cover_image_path :: "string option"
  site_cover_image_uploaded_at :: "int option"
  site_site_type :: "string option"
  site_last_activity_at :: int

record document =
  doc_id :: uuid
  doc_organization_id :: uuid
  doc_site_id :: "uuid option"
  doc_uploaded_by :: uuid
  doc_parent_id :: "uuid option"
  doc_file_name :: string
  doc_storage_path :: string
  doc_mime_type :: "string option"
  doc_file_size_bytes :: "int option"
  doc_artifact_kind :: "string option"
  doc_created_at :: int
  doc_updated_at :: int
  doc_contract_kind_id :: "uuid option"
  doc_file_role_id :: "uuid option"
  doc_bundle_id :: "uuid option"

record document_task =
  task_id :: uuid
  task_document_id :: uuid
  task_module_name :: string
  task_status :: string
  task_celery_task_id :: "string option"
  task_result_payload :: json
  task_error_message :: "string option"
  task_retry_count :: int
  task_input_storage_path :: string
  task_created_at :: int
  task_updated_at :: int
  task_extraction_request_id :: "uuid option"

record extraction_request =
  req_id :: uuid
  req_document_id :: uuid
  req_organization_id :: uuid
  req_questions :: json
  req_anonymize :: bool
  req_status :: string
  req_resolved_schema :: "json option"
  req_error_message :: "string option"
  req_created_at :: int
  req_updated_at :: int

record extraction_key =
  key_id :: uuid
  key_organization_id :: "uuid option"
  key_name :: string
  key_source_query :: string
  key_data_type :: string
  key_created_at :: int
  key_display_name :: "string option"
  key_is_active :: bool
  key_category :: "string option"

record extracted_datum =
  dat_id :: uuid
  dat_organization_id :: uuid
  dat_document_id :: uuid
  dat_key_id :: uuid
  dat_extracted_value :: "string option"

text \<open>\<open>document_contract_kinds\<close> and \<open>document_file_roles\<close> have the same columns.\<close>

record catalog_entry =
  cat_id :: uuid
  cat_organization_id :: "uuid option"
  cat_display_name :: string
  cat_sort_order :: int
  cat_is_active :: bool
  cat_created_at :: int
  cat_updated_at :: int

record user_invitation =
  inv_id :: uuid
  inv_organization_id :: uuid
  inv_email :: string
  inv_role :: string
  inv_invited_by :: "uuid option"
  inv_token_hash :: string
  inv_expires_at :: int
  inv_accepted_at :: "int option"
  inv_created_at :: int

record site_audit_log =
  audit_id :: uuid
  audit_organization_id :: uuid
  audit_site_id :: uuid
  audit_actor_user_id :: "uuid option"
  audit_event_type :: string
  audit_payload :: json
  audit_created_at :: int

record comparison_session =
  cs_id :: uuid
  cs_organization_id :: uuid
  cs_created_by :: "uuid option"
  cs_name :: "string option"
  cs_contract_kind_id :: "uuid option"
  cs_created_at :: int

record comparison_session_document =
  csd_session_id :: uuid
  csd_document_id :: uuid
  csd_organization_id :: uuid
  csd_position :: int

record db =
  organizations :: "organization list"
  users :: "user list"
  construction_sites :: "construction_site list"
  documents :: "document list"
  document_tasks :: "document_task list"
  extraction_requests :: "extraction_request list"
  extraction_keys :: "extraction_key list"
  document_extracted_data :: "extracted_datum list"
  document_contract_kinds :: "catalog_entry list"
  document_file_roles :: "catalog_entry list"
  user_invitations :: "user_invitation list"
  site_audit_logs :: "site_audit_log list"
  comparison_sessions :: "comparison_session list"
  comparison_session_documents :: "comparison_session_document list"

definition empty_db :: db where
  "empty_db = \<lparr>organizations = [], users = [], construction_sites = [], documents = [],
     document_tasks = [], extraction_requests = [], extraction_keys = [],
     document_extracted_data = [], document_contract_kinds = [], document_file_roles = [],
     user_invitations = [], site_audit_logs = [], comparison_sessions = [],
     comparison_session_documents = []\<rparr>"

section \<open>Documents\<close>

text \<open>The index \<open>idx_documents_artifact_kind\<close>: one artifact of a kind per parent.\<close>

definition artifact_key :: "document \<Rightarrow> (uuid \<times> string option) option" where
  "artifact_key x = (case doc_parent_id x of None \<Rightarrow> None | Some p \<Rightarrow> Some (p, doc_artifact_kind x))"

definition blank :: "string \<Rightarrow> bool" where
  "blank s \<longleftrightarrow> list_all (\<lambda>c. c = CHR '' '') s"

definition document_checks :: "document \<Rightarrow> (bool \<times> go_error) list" where
  "document_checks x =
     [(doc_parent_id x = None \<or>
         (doc_contract_kind_id x = None \<and> doc_file_role_id x = None \<and> doc_bundle_id x = None),
       check_violation ''documents_artifact_kind_role_chk''),
      (doc_bundle_id x \<noteq> Some (doc_id x),
       check_violation ''documents_bundle_self_ref_chk''),
      ((doc_parent_id x = None \<and> doc_artifact_kind x = None) \<or>
       (doc_parent_id x \<noteq> None \<and> (case doc_artifact_kind x of None \<Rightarrow> False | Some k \<Rightarrow> \<not> blank k)),
       check_violation ''documents_parent_artifact_kind_chk'')]"

definition org_document_exists :: "db \<Rightarrow> uuid \<Rightarrow> uuid \<Rightarrow> bool" where
  "org_document_exists d i org \<longleftrightarrow>
     list_ex (\<lambda>x. doc_id x = i \<and> doc_organization_id x = org) (documents d)"

definition org_site_exists :: "db \<Rightarrow> uuid \<Rightarrow> uuid \<Rightarrow> bool" where
  "org_site_exists d i org \<longleftrightarrow>
     list_ex (\<lambda>x. site_id x = i \<and> site_organization_id x = org) (construction_sites d)"

definition org_user_exists :: "db \<Rightarrow> uuid \<Rightarrow> uuid \<Rightarrow> bool" where
  "org_user_exists d i org \<longleftrightarrow>
     list_ex (\<lambda>x. usr_id x = i \<and> usr_organization_id x = Some org) (users d)"

definition visible_entry :: "catalog_entry list \<Rightarrow> uuid \<Rightarrow> uuid \<Rightarrow> bool" where
  "visible_entry es i org \<longleftrightarrow>
     list_ex (\<lambda>x. cat_id x = i \<and> (cat_organization_id x = None \<or> cat_organization_id x = Some org)) es"

definition null_or :: "('a \<Rightarrow> bool) \<Rightarrow> 'a option \<Rightarrow> bool" where
  "null_or p v = (case v of None \<Rightarrow> True | Some x \<Rightarrow> p x)"

lemma null_or_simps [simp]: "null_or p None" "null_or p (Some x) = p x"
  by (simp_all add: null_or_def)

text \<open>
  The triggers \<open>trg_document_org_isolation\<close> and \<open>trg_document_kind_role_org\<close>, which fire before
  the row is checked.
\<close>

definition document_triggers :: "db \<Rightarrow> document \<Rightarrow> (bool \<times> go_error) list" where
  "document_triggers d x =
     [(null_or (\<lambda>k. visible_entry (document_contract_kinds d) k (doc_organization_id x))
         (doc_contract_kind_id x), raised ''check_document_kind_role_org''),
      (null_or (\<lambda>k. visible_entry (document_file_roles d) k (doc_organization_id x))
         (doc_file_role_id x), raised ''check_document_kind_role_org''),
      (null_or (\<lambda>b. org_document_exists d b (doc_organization_id x)) (doc_bundle_id x),
         raised ''check_document_kind_role_org''),
      (org_user_exists d (doc_uploaded_by x) (doc_organization_id x),
         raised ''check_document_org_isolation''),
      (null_or (\<lambda>s. org_site_exists d s (doc_organization_id x)) (doc_site_id x),
         raised ''check_document_org_isolation''),
      (null_or (\<lambda>p. org_document_exists d p (doc_organization_id x)) (doc_parent_id x),
         raised ''check_document_org_isolation'')]"

definition document_keys :: "db \<Rightarrow> document \<Rightarrow> (bool \<times> go_error) list" where
  "document_keys d x =
     [(doc_id x \<notin> set (map doc_id (documents d)), unique_violation ''documents_pkey''),
      (\<not> index_conflict artifact_key x (documents d), unique_violation ''idx_documents_artifact_kind''),
      (list_ex (\<lambda>o'. org_id o' = doc_organization_id x) (organizations d),
       fk_violation ''documents_organization_id_fkey'')]"

section \<open>Tasks\<close>

definition singleton_key :: "document_task \<Rightarrow> (uuid \<times> string) option" where
  "singleton_key t =
     (if task_module_name t \<in> {''convert'', ''anonymize''} \<and> task_extraction_request_id t = None
      then Some (task_document_id t, task_module_name t) else None)"

definition request_key :: "document_task \<Rightarrow> (uuid \<times> string) option" where
  "request_key t =
     (case task_extraction_request_id t of
        None \<Rightarrow> None
      | Some r \<Rightarrow> (if task_module_name t \<in> {''resolve_keys'', ''extract''}
                    then Some (r, task_module_name t) else None))"

definition task_checks :: "document_task \<Rightarrow> (bool \<times> go_error) list" where
  "task_checks t =
     [(\<not> blank (task_input_storage_path t),
       check_violation ''document_tasks_input_storage_path_check''),
      ((task_module_name t \<in> {''convert'', ''anonymize''} \<and> task_extraction_request_id t = None) \<or>
       (task_module_name t \<in> {''resolve_keys'', ''extract''} \<and> task_extraction_request_id t \<noteq> None) \<or>
       task_module_name t \<notin> {''convert'', ''anonymize'', ''resolve_keys'', ''extract''},
       check_violation ''document_tasks_module_request_chk''),
      (task_status t \<in> {''pending'', ''processing'', ''completed'', ''failed''},
       check_violation ''document_tasks_status_check'')]"

definition document_exists :: "db \<Rightarrow> uuid \<Rightarrow> bool" where
  "document_exists d i \<longleftrightarrow> list_ex (\<lambda>x. doc_id x = i) (documents d)"

definition request_exists :: "db \<Rightarrow> uuid \<Rightarrow> bool" where
  "request_exists d i \<longleftrightarrow> list_ex (\<lambda>x. req_id x = i) (extraction_requests d)"

definition task_fks :: "db \<Rightarrow> document_task \<Rightarrow> (bool \<times> go_error) list" where
  "task_fks d t =
     [(document_exists d (task_document_id t), fk_violation ''document_tasks_document_id_fkey''),
      (null_or (request_exists d) (task_extraction_request_id t),
       fk_violation ''document_tasks_extraction_request_id_fkey'')]"

definition task_keys :: "db \<Rightarrow> document_task \<Rightarrow> (bool \<times> go_error) list" where
  "task_keys d t =
     [(task_id t \<notin> set (map task_id (document_tasks d)), unique_violation ''document_tasks_pkey''),
      (\<not> index_conflict singleton_key t (document_tasks d),
       unique_violation ''uq_document_tasks_doc_singleton''),
      (\<not> index_conflict request_key t (document_tasks d),
       unique_violation ''uq_document_tasks_request_module'')]"

section \<open>Requests, keys and extracted data\<close>

fun nonempty_array :: "json \<Rightarrow> bool" where
  "nonempty_array (JArr js) = (js \<noteq> [])"
| "nonempty_array _ = False"

definition request_checks :: "extraction_request \<Rightarrow> (bool \<times> go_error) list" where
  "request_checks r =
     [(nonempty_array (req_questions r), check_violation ''extraction_requests_questions_chk''),
      (req_status r \<in> {''pending'', ''running'', ''completed'', ''failed''},
       check_violation ''extraction_requests_status_check'')]"

definition request_fks :: "db \<Rightarrow> extraction_request \<Rightarrow> (bool \<times> go_error) list" where
  "request_fks d r =
     [(org_document_exists d (req_document_id r) (req_organization_id r),
       fk_violation ''fk_extraction_requests_doc_org'')]"

definition request_keys :: "db \<Rightarrow> extraction_request \<Rightarrow> (bool \<times> go_error) list" where
  "request_keys d r =
     [(req_id r \<notin> set (map req_id (extraction_requests d)),
       unique_violation ''extraction_requests_pkey'')]"

text \<open>\<open>UNIQUE NULLS NOT DISTINCT (organization_id, key_name)\<close>.\<close>

definition key_org_name :: "extraction_key \<Rightarrow> uuid option \<times> string" where
  "key_org_name k = (key_organization_id k, key_name k)"

definition visible_key :: "db \<Rightarrow> uuid \<Rightarrow> uuid \<Rightarrow> bool" where
  "visible_key d i org \<longleftrightarrow>
     list_ex (\<lambda>k. key_id k = i \<and> (key_organization_id k = None \<or> key_organization_id k = Some org))
       (extraction_keys d)"

definition datum_key :: "extracted_datum \<Rightarrow> uuid \<times> uuid \<times> uuid" where
  "datum_key x = (dat_organization_id x, dat_document_id x, dat_key_id x)"

definition datum_triggers :: "db \<Rightarrow> extracted_datum \<Rightarrow> (bool \<times> go_error) list" where
  "datum_triggers d x =
     [(visible_key d (dat_key_id x) (dat_organization_id x),
       raised ''trg_check_extracted_data_key_org'')]"

definition datum_fks :: "db \<Rightarrow> extracted_datum \<Rightarrow> (bool \<times> go_error) list" where
  "datum_fks d x =
     [(org_document_exists d (dat_document_id x) (dat_organization_id x),
       fk_violation ''fk_extracted_data_doc_org'')]"

end
