(* ===== verification/World.thy ===== *)
theory World
  imports Schema
begin

text \<open>
  The world the services act on: the database, the Redis lists that the Python workers consume,
  the objects of the bucket, and a count of the interactions made so far. What the outside decides is the argument \<open>env\<close>:
  which identifiers and timestamps the server generates, which interactions fail and how, and the
  library functions whose code is not in the repository.

  An interaction with the database, Redis or the object store may fail in two ways: \<open>Rejected\<close>, the statement
  had no effect; \<open>Lost\<close>, it took effect but its answer did not arrive (a broken connection, a
  deadline). No theorem assumes that interactions do not fail unless it says so.
\<close>

datatype fault = NoFault | Rejected string | Lost string

record env =
  env_uuid :: "nat \<Rightarrow> nat \<Rightarrow> uuid"     \<comment> \<open>\<open>gen_random_uuid()\<close>: n-th interaction, i-th row\<close>
  env_now :: "nat \<Rightarrow> int"             \<comment> \<open>\<open>now()\<close> of the n-th interaction\<close>
  env_db :: "nat \<Rightarrow> fault"            \<comment> \<open>fate of a database interaction\<close>
  env_push :: "nat \<Rightarrow> fault"          \<comment> \<open>fate of an \<open>LPUSH\<close>\<close>
  env_canceled :: "nat \<Rightarrow> bool"       \<comment> \<open>is the watchdog's context cancelled\<close>
  env_go_uuid :: "nat \<Rightarrow> nat \<Rightarrow> uuid"  \<comment> \<open>\<open>uuid.New()\<close>\<close>
  env_error_text :: "go_error \<Rightarrow> string"
  env_uuid_string :: "uuid \<Rightarrow> string"
  env_quote :: "string \<Rightarrow> string"     \<comment> \<open>\<open>strconv.Quote\<close>\<close>
  env_store :: "nat \<Rightarrow> fault"         \<comment> \<open>fate of an interaction with the object store\<close>

record stored_object =
  ob_content :: string
  ob_type :: string

record world =
  w_db :: db
  w_redis :: "string \<Rightarrow> string list"   \<comment> \<open>per queue, the newest message first\<close>
  w_tick :: nat
  w_objects :: "string \<rightharpoonup> stored_object"   \<comment> \<open>the bucket's objects by name\<close>

type_synonym 'a stmt = "(nat \<Rightarrow> uuid) \<Rightarrow> int \<Rightarrow> db \<Rightarrow> (go_error + 'a) \<times> db"
type_synonym 'a act = "(world, go_error + 'a) state"

section \<open>Statements\<close>

text \<open>
  A statement gets the identifiers and the timestamp it may use and the database; it gives a
  result and the new database. \<open>sel\<close> is a \<open>SELECT\<close> of many rows, \<open>sel_one\<close> of one row, which
  the driver reports as \<open>pgx.ErrNoRows\<close> when there is none.
\<close>

definition sel :: "(db \<Rightarrow> 'a) \<Rightarrow> 'a stmt" where
  "sel f g t d = (Inr (f d), d)"

definition sel_one :: "(db \<Rightarrow> 'a option) \<Rightarrow> 'a stmt" where
  "sel_one f g t d = (case f d of None \<Rightarrow> (Inl ErrNoRows, d) | Some x \<Rightarrow> (Inr x, d))"

definition exec :: "env \<Rightarrow> 'a stmt \<Rightarrow> 'a act" where
  "exec E f = State (\<lambda>w.
     let n = w_tick w;
         (r, d) = f (env_uuid E n) (env_now E n) (w_db w)
     in case env_db E n of
          NoFault \<Rightarrow> (r, w\<lparr>w_db := d, w_tick := Suc n\<rparr>)
        | Rejected s \<Rightarrow> (Inl (Other s), w\<lparr>w_tick := Suc n\<rparr>)
        | Lost s \<Rightarrow> (Inl (Other s), w\<lparr>w_db := d, w_tick := Suc n\<rparr>))"

text \<open>\<open>LPUSH queue payload\<close>.\<close>

definition lpush :: "env \<Rightarrow> string \<Rightarrow> string \<Rightarrow> unit act" where
  "lpush E q m = State (\<lambda>w.
     let n = w_tick w;
         w' = w\<lparr>w_tick := Suc n\<rparr>;
         w'' = w'\<lparr>w_redis := (w_redis w)(q := m # w_redis w q)\<rparr>
     in case env_push E n of
          NoFault \<Rightarrow> (Inr (), w'')
        | Rejected s \<Rightarrow> (Inl (Other s), w')
        | Lost s \<Rightarrow> (Inl (Other s), w''))"

text \<open>The transaction of \<^verbatim>\<open>store.ExecTx\<close>: every statement in it sees the timestamp of its start.\<close>

definition ExecTx :: "env \<Rightarrow> (env \<Rightarrow> 'a act) \<Rightarrow> 'a act" where
  "ExecTx E fn = State (\<lambda>w.
     let n = w_tick w; w1 = w\<lparr>w_tick := Suc n\<rparr> in
     case env_db E n of
       NoFault \<Rightarrow>
         (case run_state (fn (E\<lparr>env_now := (\<lambda>_. env_now E n)\<rparr>)) w1 of
            (Inl e, w2) \<Rightarrow> (Inl e, w2\<lparr>w_db := w_db w\<rparr>)
          | (Inr x, w2) \<Rightarrow>
              (case env_db E (w_tick w2) of
                 NoFault \<Rightarrow> (Inr x, w2\<lparr>w_tick := Suc (w_tick w2)\<rparr>)
               | Rejected s \<Rightarrow> (Inl (Other s), w2\<lparr>w_db := w_db w, w_tick := Suc (w_tick w2)\<rparr>)
               | Lost s \<Rightarrow> (Inl (Other s), w2\<lparr>w_tick := Suc (w_tick w2)\<rparr>)))
     | Rejected s \<Rightarrow> (Inl (Other s), w1)
     | Lost s \<Rightarrow> (Inl (Other s), w1))"

text \<open>\<open>ctx.Err() != nil\<close>: each look at the context is an interaction of its own.\<close>

definition ctx_canceled :: "env \<Rightarrow> (world, bool) state" where
  "ctx_canceled E = State (\<lambda>w. (env_canceled E (w_tick w), w\<lparr>w_tick := Suc (w_tick w)\<rparr>))"

section \<open>Running statements\<close>

text \<open>An environment in which every interaction succeeds, for closed examples.\<close>

definition calm :: "env \<Rightarrow> bool" where
  "calm E \<longleftrightarrow> env_db E = (\<lambda>_. NoFault) \<and> env_push E = (\<lambda>_. NoFault)"

definition db_calm :: "env \<Rightarrow> bool" where
  "db_calm E \<longleftrightarrow> env_db E = (\<lambda>_. NoFault)"

lemma calmD [simp]: "calm E \<Longrightarrow> env_db E n = NoFault" "calm E \<Longrightarrow> env_push E n = NoFault"
  by (simp_all add: calm_def)

lemma db_calmD [simp]: "db_calm E \<Longrightarrow> env_db E n = NoFault"
  by (simp add: db_calm_def)

lemma calm_db_calm [simp]: "calm E \<Longrightarrow> db_calm E"
  by (simp add: calm_def db_calm_def)

lemma run_exec_calm: "env_db E (w_tick w) = NoFault \<Longrightarrow>
   f (env_uuid E (w_tick w)) (env_now E (w_tick w)) (w_db w) = (r, d) \<Longrightarrow>
   run_state (exec E f) w = (r, w\<lparr>w_db := d, w_tick := Suc (w_tick w)\<rparr>)"
  by (simp add: exec_def)

lemma run_exec_cases:
  obtains (effect) d r where "f (env_uuid E (w_tick w)) (env_now E (w_tick w)) (w_db w) = (r, d)"
      and "run_state (exec E f) w = (r, w\<lparr>w_db := d, w_tick := Suc (w_tick w)\<rparr>)"
    | (rejected) s where "run_state (exec E f) w = (Inl (Other s), w\<lparr>w_tick := Suc (w_tick w)\<rparr>)"
    | (lost) d r s where "f (env_uuid E (w_tick w)) (env_now E (w_tick w)) (w_db w) = (r, d)"
      and "run_state (exec E f) w = (Inl (Other s), w\<lparr>w_db := d, w_tick := Suc (w_tick w)\<rparr>)"
  by (cases "f (env_uuid E (w_tick w)) (env_now E (w_tick w)) (w_db w)";
      cases "env_db E (w_tick w)") (auto simp: exec_def Let_def)

lemma exec_Inr:
  "run_state (exec E f) w = (Inr x, w') \<Longrightarrow>
   f (env_uuid E (w_tick w)) (env_now E (w_tick w)) (w_db w) = (Inr x, w_db w')"
  by (cases rule: run_exec_cases [of f E w]) auto

lemma exec_no_rows:
  "run_state (exec E f) w = (Inl ErrNoRows, w') \<Longrightarrow>
   f (env_uuid E (w_tick w)) (env_now E (w_tick w)) (w_db w) = (Inl ErrNoRows, w_db w')"
  by (cases rule: run_exec_cases [of f E w]) auto

text \<open>A relation holds of \<open>exec\<close> when it ignores the tick and holds of the statement.\<close>

lemma exec_rel:
  assumes tick: "\<And>w n. R w (w\<lparr>w_tick := n\<rparr>)"
    and stmt: "\<And>w g t n. R w (w\<lparr>w_db := snd (f g t (w_db w)), w_tick := n\<rparr>)"
  shows "state_io_rel R (exec E f)"
  unfolding state_io_rel_def
proof
  fix w
  show "R w (snd (run_state (exec E f) w))"
    using tick [of w "Suc (w_tick w)"]
      stmt [of w "Suc (w_tick w)" "env_uuid E (w_tick w)" "env_now E (w_tick w)"]
    by (cases rule: run_exec_cases [of f E w]) auto
qed

definition db_rel :: "(db \<Rightarrow> db \<Rightarrow> bool) \<Rightarrow> world \<Rightarrow> world \<Rightarrow> bool" where
  "db_rel Q w w' \<longleftrightarrow> Q (w_db w) (w_db w')"

lemma exec_db_rel:
  assumes "\<And>d. Q d d" and "\<And>g t d. Q d (snd (f g t d))"
  shows "state_io_rel (db_rel Q) (exec E f)"
  by (rule exec_rel) (simp_all add: db_rel_def assms)

lemma lpush_db_rel: "(\<And>d. Q d d) \<Longrightarrow> state_io_rel (db_rel Q) (lpush E q m)"
  by (auto simp: state_io_rel_def lpush_def db_rel_def Let_def split: fault.splits)

lemma lpush_cases:
  obtains (sent) r where
      "run_state (lpush E q m) w =
        (r, w\<lparr>w_tick := Suc (w_tick w), w_redis := (w_redis w)(q := m # w_redis w q)\<rparr>)"
    | (unsent) s where "run_state (lpush E q m) w = (Inl (Other s), w\<lparr>w_tick := Suc (w_tick w)\<rparr>)"
  by (cases "env_push E (w_tick w)") (auto simp: lpush_def Let_def)

lemma lpush_Inr: "run_state (lpush E q m) w = (Inr (), w') \<Longrightarrow>
   w_redis w' = (w_redis w)(q := m # w_redis w q) \<and> w_db w' = w_db w"
  by (auto simp: lpush_def Let_def split: fault.splits)

lemma run_lpush_calm: "env_push E (w_tick w) = NoFault \<Longrightarrow> run_state (lpush E q m) w =
   (Inr (), w\<lparr>w_tick := Suc (w_tick w), w_redis := (w_redis w)(q := m # w_redis w q)\<rparr>)"
  by (simp add: lpush_def Let_def)

lemma ctx_canceled_run [simp]:
  "run_state (ctx_canceled E) w = (env_canceled E (w_tick w), w\<lparr>w_tick := Suc (w_tick w)\<rparr>)"
  by (simp add: ctx_canceled_def)

text \<open>A statement that only reads.\<close>

lemma sel_snd [simp]: "snd (sel f g t d) = d"
  by (simp add: sel_def)

lemma sel_one_snd [simp]: "snd (sel_one f g t d) = d"
  by (simp add: sel_one_def split: option.splits)

lemma run_sel: "env_db E (w_tick w) = NoFault \<Longrightarrow>
   run_state (exec E (sel f)) w = (Inr (f (w_db w)), w\<lparr>w_tick := Suc (w_tick w)\<rparr>)"
  by (simp add: exec_def sel_def)

lemma run_sel_one: "env_db E (w_tick w) = NoFault \<Longrightarrow>
   run_state (exec E (sel_one f)) w =
     ((case f (w_db w) of None \<Rightarrow> Inl ErrNoRows | Some x \<Rightarrow> Inr x), w\<lparr>w_tick := Suc (w_tick w)\<rparr>)"
  by (simp add: exec_def sel_one_def Let_def split: option.splits)

lemma sel_one_Inr [simp]: "sel_one f g t d = (Inr x, d') \<longleftrightarrow> f d = Some x \<and> d' = d"
  by (auto simp: sel_one_def split: option.splits)

lemma sel_Inr [simp]: "sel f g t d = (Inr x, d') \<longleftrightarrow> x = f d \<and> d' = d"
  by (auto simp: sel_def)

end
