(* ===== verification/Python_Worker.thy ===== *)
theory Python_Worker
  imports World "HOL-Library.List_Lexorder" "HOL-Library.Char_ord"
begin

text \<open>
  The publisher of \<^verbatim>\<open>internal/pythonworker/client.go\<close>: the table of modules, the Celery message
  and its transport encoding, and \<open>Process\<close>, which puts the message on a Redis list. The standard
  library's JSON printer and base64 encoder are written out because the message is their result.
\<close>

section \<open>The printed form of JSON values\<close>

text \<open>
  \<open>json.Marshal\<close> on strings of valid UTF-8: quotes, backslashes, control characters and the
  characters \<^verbatim>\<open>< > &\<close> are escaped, and so are U+2028 and U+2029 (bytes E2 80 A8 and E2 80 A9).
\<close>

definition hex_digit :: "nat \<Rightarrow> char" where
  "hex_digit n = ''0123456789abcdef'' ! (n mod 16)"

definition esc_u :: "nat \<Rightarrow> string" where
  "esc_u n = [char_of (92::nat), CHR ''u'', hex_digit (n div 4096), hex_digit (n div 256),
              hex_digit (n div 16), hex_digit n]"

definition esc_char :: "char \<Rightarrow> string" where
  "esc_char c = (let n = (of_char c :: nat); bs = char_of (92::nat) in
     if n = 34 \<or> n = 92 then [bs, c]
     else if n = 8 then [bs, CHR ''b''] else if n = 12 then [bs, CHR ''f'']
     else if n = 10 then [bs, CHR ''n''] else if n = 13 then [bs, CHR ''r'']
     else if n = 9 then [bs, CHR ''t'']
     else if n < 32 \<or> n = 60 \<or> n = 62 \<or> n = 38 then esc_u n
     else [c])"

fun esc_string :: "string \<Rightarrow> string" where
  "esc_string (a # b # c # s) =
     (if of_char a = (226::nat) \<and> of_char b = (128::nat) \<and> of_char c \<in> {168, 169::nat}
      then esc_u (of_char c - 168 + 8232) @ esc_string s
      else esc_char a @ esc_string (b # c # s))"
| "esc_string (a # s) = esc_char a @ esc_string s"
| "esc_string [] = []"

function nat_digits :: "nat \<Rightarrow> string" where
  "nat_digits n = (if n < 10 then [hex_digit n] else nat_digits (n div 10) @ [hex_digit (n mod 10)])"
  by pat_completeness auto
termination by (relation "measure id") auto

declare nat_digits.simps [simp del]

definition int_text :: "int \<Rightarrow> string" where
  "int_text i = (if i < 0 then CHR ''-'' # nat_digits (nat (- i)) else nat_digits (nat i))"

definition quoted :: "string \<Rightarrow> string" where
  "quoted s = [char_of (34::nat)] @ esc_string s @ [char_of (34::nat)]"

fun sep_concat :: "string \<Rightarrow> string list \<Rightarrow> string" where
  "sep_concat sep [] = []"
| "sep_concat sep [x] = x"
| "sep_concat sep (x # y # xs) = x @ sep @ sep_concat sep (y # xs)"

text \<open>
  Members are printed in the order of the value: a struct's is that of its fields; a Go map is
  printed by ascending keys, which \<open>json_map\<close> establishes.
\<close>

fun json_text :: "json \<Rightarrow> string" where
  "json_text JNull = ''null''"
| "json_text (JBool b) = (if b then ''true'' else ''false'')"
| "json_text (JInt i) = int_text i"
| "json_text (JDec s) = s"
| "json_text (JStr s) = quoted s"
| "json_text (JArr js) = ''['' @ sep_concat '','' (map json_text js) @ '']''"
| "json_text (JObj ms) =
     ''{'' @ sep_concat '','' (map (\<lambda>(k, v). quoted k @ '':'' @ json_text v) ms) @ ''}''"

definition json_map :: "(string \<times> json) list \<Rightarrow> json" where
  "json_map ms = JObj (sort_key fst ms)"

section \<open>Base64\<close>

definition b64_alphabet :: string where
  "b64_alphabet = ''ABCDEFGHIJKLMNOPQRSTUVWXYZabcdefghijklmnopqrstuvwxyz0123456789+/''"

definition b64_char :: "nat \<Rightarrow> char" where
  "b64_char n = b64_alphabet ! n"

text \<open>\<open>base64.StdEncoding.EncodeToString\<close>: three bytes become four characters, with padding.\<close>

fun b64_encode_nats :: "nat list \<Rightarrow> string" where
  "b64_encode_nats (a # b # c # s) =
     b64_char (a div 4) # b64_char ((a mod 4) * 16 + b div 16) #
     b64_char ((b mod 16) * 4 + c div 64) # b64_char (c mod 64) # b64_encode_nats s"
| "b64_encode_nats [a, b] =
     [b64_char (a div 4), b64_char ((a mod 4) * 16 + b div 16), b64_char ((b mod 16) * 4), CHR ''='']"
| "b64_encode_nats [a] = [b64_char (a div 4), b64_char ((a mod 4) * 16), CHR ''='', CHR ''='']"
| "b64_encode_nats [] = []"

definition b64_encode :: "string \<Rightarrow> string" where
  "b64_encode s = b64_encode_nats (map of_char s)"

section \<open>Modules\<close>

text \<open>\<open>resolveModule\<close>: the Redis queue and the Celery task name of a module.\<close>

definition resolveModule :: "(string \<Rightarrow> string) \<Rightarrow> string \<Rightarrow> go_error + (string \<times> string)" where
  "resolveModule quote m =
     (if m = ''convert'' then Inr (''io'', ''app.workers.convert.convert_task'')
      else if m = ''parse_invoice'' then Inr (''io'', ''app.workers.parse_invoice.parse_invoice_task'')
      else if m = ''anonymize'' then Inr (''llm'', ''app.workers.anonymize.anonymize_task'')
      else if m = ''resolve_keys'' then Inr (''llm'', ''app.workers.resolve_keys.resolve_keys_task'')
      else if m = ''extract'' then Inr (''llm'', ''app.workers.extract.extract_task'')
      else Inl (Other (''pythonworker: unknown module '' @ quote m)))"

definition ValidateModule :: "(string \<Rightarrow> string) \<Rightarrow> string \<Rightarrow> go_error + unit" where
  "ValidateModule quote m = (case resolveModule quote m of Inl e \<Rightarrow> Inl e | Inr _ \<Rightarrow> Inr ())"

record process_request =
  pr_TaskID :: string
  pr_DocumentID :: string
  pr_ModuleName :: string
  pr_StoragePath :: string
  pr_Kwargs :: "(string \<times> json) list"

section \<open>The Celery message\<close>

definition celery_body :: "process_request \<Rightarrow> json" where
  "celery_body r = JArr
     [JArr [JStr (pr_TaskID r), JStr (pr_DocumentID r), JStr (pr_StoragePath r)],
      json_map (pr_Kwargs r),
      json_map [(''callbacks'', JNull), (''errbacks'', JNull), (''chain'', JNull), (''chord'', JNull)]]"

definition kwargsRepr :: "(string \<times> json) list \<Rightarrow> string" where
  "kwargsRepr kw = (if kw = [] then ''{}'' else json_text (json_map kw))"

definition celery_message :: "(string \<Rightarrow> string) \<Rightarrow> process_request \<Rightarrow> string \<Rightarrow> string \<Rightarrow> string
    \<Rightarrow> string \<Rightarrow> json" where
  "celery_message quote r queue taskName replyTo deliveryTag = json_map
     [(''body'', JStr (b64_encode (json_text (celery_body r)))),
      (''content-encoding'', JStr ''utf-8''),
      (''content-type'', JStr ''application/json''),
      (''headers'', json_map
        [(''lang'', JStr ''py''),
         (''task'', JStr taskName),
         (''id'', JStr (pr_TaskID r)),
         (''shadow'', JNull), (''eta'', JNull), (''expires'', JNull),
         (''group'', JNull), (''group_index'', JNull),
         (''retries'', JInt 0),
         (''timelimit'', JArr [JNull, JNull]),
         (''root_id'', JStr (pr_TaskID r)),
         (''parent_id'', JNull),
         (''argsrepr'', JStr (''('' @ quote (pr_TaskID r) @ '', '' @ quote (pr_DocumentID r) @
            '', '' @ quote (pr_StoragePath r) @ '')'')),
         (''kwargsrepr'', JStr (kwargsRepr (pr_Kwargs r))),
         (''origin'', JStr ''go-kpi-tenders'')]),
      (''properties'', json_map
        [(''correlation_id'', JStr (pr_TaskID r)),
         (''reply_to'', JStr replyTo),
         (''delivery_mode'', JInt 2),
         (''delivery_info'', json_map [(''exchange'', JStr []), (''routing_key'', JStr queue)]),
         (''priority'', JInt 0),
         (''body_encoding'', JStr ''base64''),
         (''delivery_tag'', JStr deliveryTag)])]"

definition buildCeleryMessage :: "(string \<Rightarrow> string) \<Rightarrow> process_request \<Rightarrow> string \<Rightarrow> string
    \<Rightarrow> string \<Rightarrow> string \<Rightarrow> string" where
  "buildCeleryMessage quote r queue taskName replyTo deliveryTag =
     json_text (celery_message quote r queue taskName replyTo deliveryTag)"

text \<open>\<open>Publisher.Process\<close>.\<close>

type_synonym python_client = "process_request \<Rightarrow> unit act"

definition Process :: "env \<Rightarrow> python_client" where
  "Process E r =
     (case resolveModule (env_quote E) (pr_ModuleName r) of
        Inl e \<Rightarrow> fail e
      | Inr (queue, taskName) \<Rightarrow>
          State_Monad.bind State_Monad.get (\<lambda>w.
            let msg = buildCeleryMessage (env_quote E) r queue taskName
                        (env_uuid_string E (env_go_uuid E (w_tick w) 0))
                        (env_uuid_string E (env_go_uuid E (w_tick w) 1))
            in call (lpush E queue msg)
                 (\<lambda>e. Wrapped (''pythonworker: lpush '' @ queue) e)
                 (\<lambda>_. ok ())))"

section \<open>What publishing does\<close>

lemma resolveModule_cases:
  assumes "resolveModule quote m = Inr (q, n)"
  shows "(m = ''convert'' \<or> m = ''parse_invoice'') \<and> q = ''io'' \<or>
         (m = ''anonymize'' \<or> m = ''resolve_keys'' \<or> m = ''extract'') \<and> q = ''llm''"
  using assms by (auto simp: resolveModule_def split: if_splits)

lemma resolveModule_known [simp]:
  "resolveModule quote ''convert'' = Inr (''io'', ''app.workers.convert.convert_task'')"
  "resolveModule quote ''anonymize'' = Inr (''llm'', ''app.workers.anonymize.anonymize_task'')"
  "resolveModule quote ''resolve_keys'' = Inr (''llm'', ''app.workers.resolve_keys.resolve_keys_task'')"
  "resolveModule quote ''extract'' = Inr (''llm'', ''app.workers.extract.extract_task'')"
  by (simp_all add: resolveModule_def)

text \<open>\<open>celery_text E r m\<close>: \<open>m\<close> is a message that publishes the request \<open>r\<close>.\<close>

definition celery_text :: "env \<Rightarrow> process_request \<Rightarrow> string \<Rightarrow> bool" where
  "celery_text E r m \<longleftrightarrow> (\<exists>q n rt dt. resolveModule (env_quote E) (pr_ModuleName r) = Inr (q, n) \<and>
      m = buildCeleryMessage (env_quote E) r q n rt dt)"

lemma Process_cases:
  obtains (sent) q n m r w' where
      "resolveModule (env_quote E) (pr_ModuleName p) = Inr (q, n)" "celery_text E p m"
      "run_state (Process E p) w = (r, w')"
      "w' = w\<lparr>w_tick := Suc (w_tick w), w_redis := (w_redis w)(q := m # w_redis w q)\<rparr>"
    | (unsent) e w' where "run_state (Process E p) w = (Inl e, w')"
      "w_db w' = w_db w" "w_redis w' = w_redis w"
proof (cases "resolveModule (env_quote E) (pr_ModuleName p)")
  case (Inl e)
  then show ?thesis using that(2) [of e w] by (simp add: Process_def)
next
  case (Inr qn)
  then obtain q n where qn: "resolveModule (env_quote E) (pr_ModuleName p) = Inr (q, n)" by (cases qn) auto
  define m where "m = buildCeleryMessage (env_quote E) p q n
      (env_uuid_string E (env_go_uuid E (w_tick w) 0)) (env_uuid_string E (env_go_uuid E (w_tick w) 1))"
  have ct: "celery_text E p m" using qn by (auto simp: celery_text_def m_def)
  have run: "run_state (Process E p) w =
      run_state (call (lpush E q m) (\<lambda>e. Wrapped (''pythonworker: lpush '' @ q) e) (\<lambda>_. ok ())) w"
    using qn by (simp add: Process_def Let_def m_def)
  show ?thesis
  proof (cases rule: lpush_cases [of E q m w])
    case (sent r)
    then show ?thesis using that(1) [OF qn ct] run by (cases r) auto
  next
    case (unsent s)
    then show ?thesis using that(2) run by auto
  qed
qed

lemma Process_db_rel: "(\<And>d. Q d d) \<Longrightarrow> state_io_rel (db_rel Q) (Process E p)"
  unfolding state_io_rel_def
proof
  fix w assume "\<And>d. Q d d"
  then show "db_rel Q w (snd (run_state (Process E p) w))"
    by (cases rule: Process_cases [of E p w]) (auto simp: db_rel_def)
qed

lemma Process_Inr:
  assumes "run_state (Process E p) w = (Inr (), w')"
  shows "\<exists>q n m. resolveModule (env_quote E) (pr_ModuleName p) = Inr (q, n) \<and> celery_text E p m \<and>
     w_redis w' = (w_redis w)(q := m # w_redis w q) \<and> w_db w' = w_db w"
  using assms by (cases rule: Process_cases [of E p w]) auto

end
