(* ===== verification/Repo_Tasks.thy ===== *)
theory Repo_Tasks
  imports Python_Worker
begin

text \<open>
  The statements of \<^verbatim>\<open>internal/repository/document_task.sql.go\<close>. For each query the statement
  \<open>stmt_X\<close> is the SQL text over the tables and \<open>X\<close> its execution through the driver.
\<close>

section \<open>Insert\<close>

definition new_task :: "uuid \<Rightarrow> int \<Rightarrow> uuid \<Rightarrow> string \<Rightarrow> string \<Rightarrow> uuid option \<Rightarrow> document_task" where
  "new_task i t doc m path req = \<lparr>task_id = i, task_document_id = doc, task_module_name = m,
     task_status = ''pending'', task_celery_task_id = None, task_result_payload = JObj [],
     task_error_message = None, task_retry_count = 0, task_input_storage_path = path,
     task_created_at = t, task_updated_at = t, task_extraction_request_id = req\<rparr>"

definition insert_task :: "document_task \<Rightarrow> db \<Rightarrow> (go_error + document_task) \<times> db" where
  "insert_task t d =
     (case first_violation (task_checks t @ task_keys d t @ task_fks d t) of
        Some e \<Rightarrow> (Inl e, d)
      | None \<Rightarrow> (Inr t, d\<lparr>document_tasks := document_tasks d @ [t]\<rparr>))"

text \<open>
  \<open>ON CONFLICT ... DO NOTHING\<close> on one index: the row's checks come first, then a conflict on that
  index inserts nothing and returns no row.
\<close>

definition insert_task_or_nothing :: "(document_task \<Rightarrow> (uuid \<times> string) option) \<Rightarrow> document_task
    \<Rightarrow> db \<Rightarrow> (go_error + document_task) \<times> db" where
  "insert_task_or_nothing key t d =
     (case first_violation (task_checks t) of
        Some e \<Rightarrow> (Inl e, d)
      | None \<Rightarrow> (if index_conflict key t (document_tasks d) then (Inl ErrNoRows, d)
                 else insert_task t d))"

definition stmt_CreateDocumentTask :: "uuid \<Rightarrow> string \<Rightarrow> uuid \<Rightarrow> document_task stmt" where
  "stmt_CreateDocumentTask docID moduleName orgID g t d =
     (case find (\<lambda>x. doc_id x = docID \<and> doc_organization_id x = orgID) (documents d) of
        None \<Rightarrow> (Inl ErrNoRows, d)
      | Some x \<Rightarrow> insert_task (new_task (g 0) t docID moduleName (doc_storage_path x) None) d)"

definition stmt_CreateDocumentTaskSingleton :: "uuid \<Rightarrow> string \<Rightarrow> string \<Rightarrow> document_task stmt" where
  "stmt_CreateDocumentTaskSingleton docID moduleName path g t d =
     insert_task_or_nothing singleton_key (new_task (g 0) t docID moduleName path None) d"

definition stmt_CreateDocumentTaskForRequest
    :: "uuid \<Rightarrow> string \<Rightarrow> string \<Rightarrow> uuid option \<Rightarrow> document_task stmt" where
  "stmt_CreateDocumentTaskForRequest docID moduleName path reqID g t d =
     insert_task_or_nothing request_key (new_task (g 0) t docID moduleName path reqID) d"

definition CreateDocumentTask :: "env \<Rightarrow> uuid \<Rightarrow> string \<Rightarrow> uuid \<Rightarrow> document_task act" where
  "CreateDocumentTask E docID moduleName orgID = exec E (stmt_CreateDocumentTask docID moduleName orgID)"

definition CreateDocumentTaskSingleton :: "env \<Rightarrow> uuid \<Rightarrow> string \<Rightarrow> string \<Rightarrow> document_task act" where
  "CreateDocumentTaskSingleton E docID moduleName path =
     exec E (stmt_CreateDocumentTaskSingleton docID moduleName path)"

definition CreateDocumentTaskForRequest
    :: "env \<Rightarrow> uuid \<Rightarrow> string \<Rightarrow> string \<Rightarrow> uuid option \<Rightarrow> document_task act" where
  "CreateDocumentTaskForRequest E docID moduleName path reqID =
     exec E (stmt_CreateDocumentTaskForRequest docID moduleName path reqID)"

section \<open>Select\<close>

definition task_in_org :: "db \<Rightarrow> uuid \<Rightarrow> document_task \<Rightarrow> bool" where
  "task_in_org d orgID t \<longleftrightarrow> org_document_exists d (task_document_id t) orgID"

definition GetDocumentTask :: "env \<Rightarrow> uuid \<Rightarrow> uuid \<Rightarrow> document_task act" where
  "GetDocumentTask E i orgID =
     exec E (sel_one (\<lambda>d. find (\<lambda>t. task_id t = i \<and> task_in_org d orgID t) (document_tasks d)))"

definition ListTasksByDocument :: "env \<Rightarrow> uuid \<Rightarrow> uuid \<Rightarrow> document_task list act" where
  "ListTasksByDocument E docID orgID =
     exec E (sel (\<lambda>d. sort_key (\<lambda>t. - task_created_at t)
       (filter (\<lambda>t. task_document_id t = docID \<and> task_in_org d orgID t) (document_tasks d))))"

text \<open>\<open>ORDER BY document_id, created_at DESC, id DESC\<close>: stable sorts, the last key first.\<close>

definition ListTasksByDocuments :: "env \<Rightarrow> uuid list \<Rightarrow> uuid \<Rightarrow> document_task list act" where
  "ListTasksByDocuments E docIDs orgID =
     exec E (sel (\<lambda>d. sort_key (\<lambda>t. uint (task_document_id t))
       (sort_key (\<lambda>t. - task_created_at t)
         (sort_key (\<lambda>t. - uint (task_id t))
           (filter (\<lambda>t. task_document_id t \<in> set docIDs \<and> task_in_org d orgID t)
             (document_tasks d))))))"

definition GetSingletonTaskByDocument :: "env \<Rightarrow> uuid \<Rightarrow> string \<Rightarrow> document_task act" where
  "GetSingletonTaskByDocument E docID moduleName =
     exec E (sel_one (\<lambda>d. find (\<lambda>t. task_document_id t = docID \<and> task_module_name t = moduleName \<and>
       task_extraction_request_id t = None) (document_tasks d)))"

definition GetTaskForExtractionRequest :: "env \<Rightarrow> uuid \<Rightarrow> string \<Rightarrow> document_task act" where
  "GetTaskForExtractionRequest E reqID moduleName =
     exec E (sel_one (\<lambda>d. find (\<lambda>t. task_extraction_request_id t = Some reqID \<and>
       task_module_name t = moduleName) (document_tasks d)))"

text \<open>
  The watchdog's scan: the stale tasks, the longest untouched first, at most \<open>batch\<close> of them. A
  negative \<open>LIMIT\<close> is an error of the server.
\<close>

definition stale :: "int \<Rightarrow> document_task \<Rightarrow> bool" where
  "stale cutoff t \<longleftrightarrow> task_status t \<in> {''pending'', ''processing''} \<and> task_updated_at t < cutoff"

record stale_row =
  st_ID :: uuid
  st_DocumentID :: uuid
  st_ModuleName :: string
  st_RetryCount :: int
  st_InputStoragePath :: string

definition stale_row_of :: "document_task \<Rightarrow> stale_row" where
  "stale_row_of t = \<lparr>st_ID = task_id t, st_DocumentID = task_document_id t,
     st_ModuleName = task_module_name t, st_RetryCount = task_retry_count t,
     st_InputStoragePath = task_input_storage_path t\<rparr>"

definition stmt_ListStaleTasks :: "int \<Rightarrow> int \<Rightarrow> stale_row list stmt" where
  "stmt_ListStaleTasks cutoff batch g t d =
     (if batch < 0 then (Inl (PgError ''2201W'' []), d)
      else (Inr (map stale_row_of
              (take (nat batch) (sort_key task_updated_at (filter (stale cutoff) (document_tasks d))))), d))"

definition ListStaleTasks :: "env \<Rightarrow> int \<Rightarrow> int \<Rightarrow> stale_row list act" where
  "ListStaleTasks E cutoff batch = exec E (stmt_ListStaleTasks cutoff batch)"

section \<open>Update and delete\<close>

text \<open>\<open>UPDATE ... WHERE id = ... RETURNING\<close>: the new row is checked before it replaces the old one.\<close>

definition update_task :: "(document_task \<Rightarrow> bool) \<Rightarrow> (document_task \<Rightarrow> document_task) \<Rightarrow> db
    \<Rightarrow> (go_error + document_task) \<times> db" where
  "update_task p f d =
     (case find p (document_tasks d) of
        None \<Rightarrow> (Inl ErrNoRows, d)
      | Some x \<Rightarrow>
          (case first_violation (task_checks (f x)) of
             Some e \<Rightarrow> (Inl e, d)
           | None \<Rightarrow> (Inr (f x), d\<lparr>document_tasks := put_row task_id (f x) (document_tasks d)\<rparr>)))"

definition stmt_UpdateDocumentTaskStatus :: "uuid \<Rightarrow> uuid \<Rightarrow> string \<Rightarrow> document_task stmt" where
  "stmt_UpdateDocumentTaskStatus i orgID status g t d =
     update_task (\<lambda>x. task_id x = i \<and> task_in_org d orgID x)
       (\<lambda>x. x\<lparr>task_status := status, task_updated_at := t\<rparr>) d"

record worker_task_update =
  wu_ID :: uuid
  wu_Status :: string
  wu_CeleryTaskID :: "string option"
  wu_ResultPayload :: "json option"
  wu_ErrorMessage :: "string option"

definition apply_worker_update :: "worker_task_update \<Rightarrow> int \<Rightarrow> document_task \<Rightarrow> document_task" where
  "apply_worker_update p t x = x\<lparr>
     task_status := wu_Status p,
     task_celery_task_id := coalesce_opt (wu_CeleryTaskID p) (task_celery_task_id x),
     task_result_payload := coalesce (wu_ResultPayload p) (task_result_payload x),
     task_error_message := coalesce_opt (wu_ErrorMessage p) (task_error_message x),
     task_updated_at := t\<rparr>"

definition stmt_UpdateWorkerTaskStatus :: "worker_task_update \<Rightarrow> document_task stmt" where
  "stmt_UpdateWorkerTaskStatus p g t d =
     update_task (\<lambda>x. task_id x = wu_ID p) (apply_worker_update p t) d"

definition stmt_UpdateTaskResultPayload :: "uuid \<Rightarrow> json \<Rightarrow> document_task stmt" where
  "stmt_UpdateTaskResultPayload i payload g t d =
     update_task (\<lambda>x. task_id x = i)
       (\<lambda>x. x\<lparr>task_result_payload := payload, task_updated_at := t\<rparr>) d"

text \<open>
  The watchdog's compare-and-swap updates report the number of rows they changed, one or none.
  \<open>retry_count\<close> is a 32-bit column: incrementing its largest value is an error of the server.
\<close>

definition claim :: "document_task \<Rightarrow> int \<Rightarrow> document_task" where
  "claim x t = x\<lparr>task_status := ''pending'', task_retry_count := task_retry_count x + 1,
     task_celery_task_id := None, task_error_message := None, task_updated_at := t\<rparr>"

definition stmt_MarkStaleTaskPending :: "uuid \<Rightarrow> int \<Rightarrow> nat stmt" where
  "stmt_MarkStaleTaskPending i cutoff g t d =
     (case find (\<lambda>x. task_id x = i \<and> stale cutoff x) (document_tasks d) of
        None \<Rightarrow> (Inr 0, d)
      | Some x \<Rightarrow>
          (if 2 ^ 31 - 1 \<le> task_retry_count x then (Inl (PgError ''22003'' []), d)
           else (Inr 1, d\<lparr>document_tasks := put_row task_id (claim x t) (document_tasks d)\<rparr>)))"

definition stmt_MarkStaleTaskFailed :: "uuid \<Rightarrow> int \<Rightarrow> string \<Rightarrow> nat stmt" where
  "stmt_MarkStaleTaskFailed i cutoff msg g t d =
     (case find (\<lambda>x. task_id x = i \<and> stale cutoff x) (document_tasks d) of
        None \<Rightarrow> (Inr 0, d)
      | Some x \<Rightarrow> (Inr 1, d\<lparr>document_tasks := put_row task_id
          (x\<lparr>task_status := ''failed'', task_error_message := Some msg, task_updated_at := t\<rparr>)
          (document_tasks d)\<rparr>))"

definition stmt_DeleteDocumentTask :: "uuid \<Rightarrow> uuid \<Rightarrow> nat stmt" where
  "stmt_DeleteDocumentTask i orgID g t d =
     (let p = (\<lambda>x. task_id x = i \<and> task_in_org d orgID x) in
      (Inr (length (filter p (document_tasks d))),
       d\<lparr>document_tasks := del_where p (document_tasks d)\<rparr>))"

definition UpdateDocumentTaskStatus :: "env \<Rightarrow> uuid \<Rightarrow> uuid \<Rightarrow> string \<Rightarrow> document_task act" where
  "UpdateDocumentTaskStatus E i orgID status = exec E (stmt_UpdateDocumentTaskStatus i orgID status)"

definition UpdateWorkerTaskStatus :: "env \<Rightarrow> worker_task_update \<Rightarrow> document_task act" where
  "UpdateWorkerTaskStatus E p = exec E (stmt_UpdateWorkerTaskStatus p)"

definition UpdateTaskResultPayload :: "env \<Rightarrow> uuid \<Rightarrow> json \<Rightarrow> document_task act" where
  "UpdateTaskResultPayload E i payload = exec E (stmt_UpdateTaskResultPayload i payload)"

definition MarkStaleTaskPending :: "env \<Rightarrow> uuid \<Rightarrow> int \<Rightarrow> nat act" where
  "MarkStaleTaskPending E i cutoff = exec E (stmt_MarkStaleTaskPending i cutoff)"

definition MarkStaleTaskFailed :: "env \<Rightarrow> uuid \<Rightarrow> int \<Rightarrow> string \<Rightarrow> nat act" where
  "MarkStaleTaskFailed E i cutoff msg = exec E (stmt_MarkStaleTaskFailed i cutoff msg)"

definition DeleteDocumentTask :: "env \<Rightarrow> uuid \<Rightarrow> uuid \<Rightarrow> nat act" where
  "DeleteDocumentTask E i orgID = exec E (stmt_DeleteDocumentTask i orgID)"

end
