(* ===== verification/Repo_Documents.thy ===== *)
theory Repo_Documents
  imports Repo_Tasks
begin

text \<open>
  The statements of \<^verbatim>\<open>internal/repository/document.sql.go\<close>, with the trigger that dates the
  activity of a site and the cascades of a deletion.
\<close>

section \<open>Site activity\<close>

text \<open>
  The recursive query of the trigger \<open>propagate_site_activity\<close> walks from a site to its root. The
  number of sites bounds the walk, since no site is its own ancestor.
\<close>

fun site_ancestors :: "construction_site list \<Rightarrow> nat \<Rightarrow> uuid \<Rightarrow> uuid list" where
  "site_ancestors ss 0 i = []"
| "site_ancestors ss (Suc n) i =
     (case find (\<lambda>x. site_id x = i) ss of
        None \<Rightarrow> []
      | Some x \<Rightarrow> i # (case site_parent_id x of None \<Rightarrow> [] | Some p \<Rightarrow> site_ancestors ss n p))"

definition propagate_site_activity :: "uuid option \<Rightarrow> int \<Rightarrow> db \<Rightarrow> db" where
  "propagate_site_activity v t d =
     (case v of
        None \<Rightarrow> d
      | Some i \<Rightarrow>
          (let ids = site_ancestors (construction_sites d) (length (construction_sites d)) i in
           d\<lparr>construction_sites := upd_where (\<lambda>x. site_id x \<in> set ids)
                (\<lambda>x. x\<lparr>site_last_activity_at := t, site_updated_at := t\<rparr>) (construction_sites d)\<rparr>))"

lemma propagate_tables [simp]:
  "documents (propagate_site_activity v t d) = documents d"
  "document_tasks (propagate_site_activity v t d) = document_tasks d"
  "extraction_requests (propagate_site_activity v t d) = extraction_requests d"
  "extraction_keys (propagate_site_activity v t d) = extraction_keys d"
  "document_extracted_data (propagate_site_activity v t d) = document_extracted_data d"
  "users (propagate_site_activity v t d) = users d"
  "organizations (propagate_site_activity v t d) = organizations d"
  by (simp_all add: propagate_site_activity_def Let_def split: option.splits)

section \<open>Insert\<close>

record create_document_params =
  cd_OrganizationID :: uuid
  cd_SiteID :: "uuid option"
  cd_UploadedBy :: uuid
  cd_ParentID :: "uuid option"
  cd_FileName :: string
  cd_StoragePath :: string
  cd_MimeType :: "string option"
  cd_FileSizeBytes :: "int option"
  cd_ArtifactKind :: "string option"

definition new_document :: "uuid \<Rightarrow> int \<Rightarrow> create_document_params \<Rightarrow> document" where
  "new_document i t p = \<lparr>doc_id = i, doc_organization_id = cd_OrganizationID p,
     doc_site_id = cd_SiteID p, doc_uploaded_by = cd_UploadedBy p, doc_parent_id = cd_ParentID p,
     doc_file_name = cd_FileName p, doc_storage_path = cd_StoragePath p,
     doc_mime_type = cd_MimeType p, doc_file_size_bytes = cd_FileSizeBytes p,
     doc_artifact_kind = cd_ArtifactKind p, doc_created_at = t, doc_updated_at = t,
     doc_contract_kind_id = None, doc_file_role_id = None, doc_bundle_id = None\<rparr>"

definition insert_document :: "document \<Rightarrow> int \<Rightarrow> db \<Rightarrow> (go_error + document) \<times> db" where
  "insert_document x t d =
     (case first_violation (document_triggers d x @ document_checks x @ document_keys d x) of
        Some e \<Rightarrow> (Inl e, d)
      | None \<Rightarrow> (Inr x, propagate_site_activity (doc_site_id x) t
                   (d\<lparr>documents := documents d @ [x]\<rparr>)))"

definition stmt_CreateDocument :: "create_document_params \<Rightarrow> document stmt" where
  "stmt_CreateDocument p g t d = insert_document (new_document (g 0) t p) t d"

text \<open>
  \<open>ON CONFLICT (parent_id, artifact_kind) ... DO UPDATE\<close>: the row that is there keeps its identity
  and takes the file's name, path, type and size from the new one.
\<close>

definition refresh_artifact :: "create_document_params \<Rightarrow> int \<Rightarrow> document \<Rightarrow> document" where
  "refresh_artifact p t x = x\<lparr>doc_file_name := cd_FileName p, doc_storage_path := cd_StoragePath p,
     doc_mime_type := cd_MimeType p, doc_file_size_bytes := cd_FileSizeBytes p, doc_updated_at := t\<rparr>"

definition update_document :: "(document \<Rightarrow> bool) \<Rightarrow> (document \<Rightarrow> document) \<Rightarrow> db
    \<Rightarrow> (go_error + document) \<times> db" where
  "update_document p f d =
     (case find p (documents d) of
        None \<Rightarrow> (Inl ErrNoRows, d)
      | Some x \<Rightarrow>
          (case first_violation (document_triggers d (f x) @ document_checks (f x)) of
             Some e \<Rightarrow> (Inl e, d)
           | None \<Rightarrow> (Inr (f x), d\<lparr>documents := put_row doc_id (f x) (documents d)\<rparr>)))"

definition stmt_CreateArtifactDocument :: "create_document_params \<Rightarrow> document stmt" where
  "stmt_CreateArtifactDocument p g t d =
     (let x = new_document (g 0) t p in
      case first_violation (document_triggers d x @ document_checks x) of
        Some e \<Rightarrow> (Inl e, d)
      | None \<Rightarrow>
          (if index_conflict artifact_key x (documents d)
           then update_document (\<lambda>y. artifact_key y = artifact_key x) (refresh_artifact p t) d
           else insert_document x t d))"

definition CreateDocument :: "env \<Rightarrow> create_document_params \<Rightarrow> document act" where
  "CreateDocument E p = exec E (stmt_CreateDocument p)"

definition CreateArtifactDocument :: "env \<Rightarrow> create_document_params \<Rightarrow> document act" where
  "CreateArtifactDocument E p = exec E (stmt_CreateArtifactDocument p)"

section \<open>Select\<close>

definition GetDocumentByID :: "env \<Rightarrow> uuid \<Rightarrow> document act" where
  "GetDocumentByID E i = exec E (sel_one (\<lambda>d. find (\<lambda>x. doc_id x = i) (documents d)))"

definition GetDocument :: "env \<Rightarrow> uuid \<Rightarrow> uuid \<Rightarrow> document act" where
  "GetDocument E i orgID =
     exec E (sel_one (\<lambda>d. find (\<lambda>x. doc_id x = i \<and> doc_organization_id x = orgID) (documents d)))"

definition root_documents :: "(document \<Rightarrow> bool) \<Rightarrow> db \<Rightarrow> document list" where
  "root_documents p d = sort_key (\<lambda>x. - doc_created_at x)
     (filter (\<lambda>x. p x \<and> doc_parent_id x = None) (documents d))"

definition ListRootDocumentsByOrganization :: "env \<Rightarrow> uuid \<Rightarrow> document list act" where
  "ListRootDocumentsByOrganization E orgID =
     exec E (sel (root_documents (\<lambda>x. doc_organization_id x = orgID)))"

definition ListRootDocumentsBySite :: "env \<Rightarrow> uuid \<Rightarrow> uuid \<Rightarrow> document list act" where
  "ListRootDocumentsBySite E orgID siteID =
     exec E (sel (root_documents (\<lambda>x. doc_organization_id x = orgID \<and> doc_site_id x = Some siteID)))"

definition documents_by_parent :: "uuid \<Rightarrow> uuid \<Rightarrow> db \<Rightarrow> document list" where
  "documents_by_parent parent orgID d = sort_key doc_created_at
     (filter (\<lambda>x. doc_parent_id x = Some parent \<and> doc_organization_id x = orgID) (documents d))"

definition ListDocumentsByParent :: "env \<Rightarrow> uuid \<Rightarrow> uuid \<Rightarrow> document list act" where
  "ListDocumentsByParent E parent orgID = exec E (sel (documents_by_parent parent orgID))"

section \<open>Update and delete\<close>

definition stmt_UpdateDocumentMeta
    :: "uuid \<Rightarrow> uuid \<Rightarrow> uuid option \<Rightarrow> uuid option \<Rightarrow> uuid option \<Rightarrow> document stmt" where
  "stmt_UpdateDocumentMeta i orgID kind role bundle g t d =
     update_document (\<lambda>x. doc_id x = i \<and> doc_organization_id x = orgID \<and> doc_parent_id x = None)
       (\<lambda>x. x\<lparr>doc_contract_kind_id := coalesce_opt kind (doc_contract_kind_id x),
             doc_file_role_id := coalesce_opt role (doc_file_role_id x),
             doc_bundle_id := coalesce_opt bundle (doc_bundle_id x),
             doc_updated_at := t\<rparr>) d"

definition UpdateDocumentMeta
    :: "env \<Rightarrow> uuid \<Rightarrow> uuid \<Rightarrow> uuid option \<Rightarrow> uuid option \<Rightarrow> uuid option \<Rightarrow> document act" where
  "UpdateDocumentMeta E i orgID kind role bundle = exec E (stmt_UpdateDocumentMeta i orgID kind role bundle)"

text \<open>
  \<open>ON DELETE CASCADE\<close>: the artifacts of a deleted document go with it, transitively; the number of
  documents bounds the depth. Tasks, requests, extracted data and the places in comparison
  sessions go with their document, tasks also with their request; \<open>bundle_id\<close> becomes null.
\<close>

definition doc_children :: "document list \<Rightarrow> uuid list \<Rightarrow> uuid list" where
  "doc_children xs ids = map doc_id
     (filter (\<lambda>x. case doc_parent_id x of None \<Rightarrow> False | Some p \<Rightarrow> p \<in> set ids) xs)"

fun doc_closure :: "document list \<Rightarrow> nat \<Rightarrow> uuid list \<Rightarrow> uuid list" where
  "doc_closure xs 0 ids = ids"
| "doc_closure xs (Suc n) ids = doc_closure xs n (ids @ doc_children xs ids)"

definition cascade_documents :: "uuid list \<Rightarrow> db \<Rightarrow> db" where
  "cascade_documents ids d =
     (let gone = (\<lambda>i. i \<in> set ids);
          reqs = map req_id (filter (\<lambda>r. gone (req_document_id r)) (extraction_requests d)) in
      d\<lparr>documents := upd_where (\<lambda>x. case doc_bundle_id x of None \<Rightarrow> False | Some b \<Rightarrow> gone b)
            (\<lambda>x. x\<lparr>doc_bundle_id := None\<rparr>) (del_where (\<lambda>x. gone (doc_id x)) (documents d)),
        document_tasks := del_where (\<lambda>t. gone (task_document_id t) \<or>
            (case task_extraction_request_id t of None \<Rightarrow> False | Some r \<Rightarrow> r \<in> set reqs))
            (document_tasks d),
        extraction_requests := del_where (\<lambda>r. gone (req_document_id r)) (extraction_requests d),
        document_extracted_data := del_where (\<lambda>x. gone (dat_document_id x)) (document_extracted_data d),
        comparison_session_documents :=
            del_where (\<lambda>x. gone (csd_document_id x)) (comparison_session_documents d)\<rparr>)"

definition stmt_DeleteDocument :: "uuid \<Rightarrow> uuid \<Rightarrow> nat stmt" where
  "stmt_DeleteDocument i orgID g t d =
     (let hits = filter (\<lambda>x. doc_id x = i \<and> doc_organization_id x = orgID) (documents d) in
      (Inr (length hits),
       if hits = [] then d
       else cascade_documents (doc_closure (documents d) (length (documents d)) [i]) d))"

definition DeleteDocument :: "env \<Rightarrow> uuid \<Rightarrow> uuid \<Rightarrow> nat act" where
  "DeleteDocument E i orgID = exec E (stmt_DeleteDocument i orgID)"

end
