(* ===== verification/Repo_Extraction.thy ===== *)
theory Repo_Extraction
  imports Repo_Documents
begin

text \<open>
  The statements of \<^verbatim>\<open>extraction_request.sql.go\<close> and \<^verbatim>\<open>extraction.sql.go\<close> (keys and extracted
  data) of \<^verbatim>\<open>internal/repository\<close>. Text columns are ordered bytewise.
\<close>

section \<open>Requests\<close>

definition new_request :: "uuid \<Rightarrow> int \<Rightarrow> uuid \<Rightarrow> uuid \<Rightarrow> json \<Rightarrow> bool \<Rightarrow> extraction_request" where
  "new_request i t docID orgID questions anonymize = \<lparr>req_id = i, req_document_id = docID,
     req_organization_id = orgID, req_questions = questions, req_anonymize = anonymize,
     req_status = ''pending'', req_resolved_schema = None, req_error_message = None,
     req_created_at = t, req_updated_at = t\<rparr>"

definition document_site :: "db \<Rightarrow> uuid \<Rightarrow> uuid option" where
  "document_site d i =
     (case find (\<lambda>x. doc_id x = i) (documents d) of None \<Rightarrow> None | Some x \<Rightarrow> doc_site_id x)"

definition stmt_CreateExtractionRequest
    :: "uuid \<Rightarrow> uuid \<Rightarrow> json \<Rightarrow> bool \<Rightarrow> extraction_request stmt" where
  "stmt_CreateExtractionRequest docID orgID questions anonymize g t d =
     (let r = new_request (g 0) t docID orgID questions anonymize in
      case first_violation (request_checks r @ request_keys d r @ request_fks d r) of
        Some e \<Rightarrow> (Inl e, d)
      | None \<Rightarrow> (Inr r, propagate_site_activity (document_site d docID) t
                   (d\<lparr>extraction_requests := extraction_requests d @ [r]\<rparr>)))"

definition CreateExtractionRequest
    :: "env \<Rightarrow> uuid \<Rightarrow> uuid \<Rightarrow> json \<Rightarrow> bool \<Rightarrow> extraction_request act" where
  "CreateExtractionRequest E docID orgID questions anonymize =
     exec E (stmt_CreateExtractionRequest docID orgID questions anonymize)"

definition GetExtractionRequest :: "env \<Rightarrow> uuid \<Rightarrow> uuid \<Rightarrow> extraction_request act" where
  "GetExtractionRequest E i orgID =
     exec E (sel_one (\<lambda>d. find (\<lambda>r. req_id r = i \<and> req_organization_id r = orgID)
       (extraction_requests d)))"

definition GetExtractionRequestByID :: "env \<Rightarrow> uuid \<Rightarrow> extraction_request act" where
  "GetExtractionRequestByID E i =
     exec E (sel_one (\<lambda>d. find (\<lambda>r. req_id r = i) (extraction_requests d)))"

definition in_flight :: "extraction_request \<Rightarrow> bool" where
  "in_flight r \<longleftrightarrow> req_status r \<in> {''pending'', ''running''}"

definition pending_requests :: "uuid \<Rightarrow> db \<Rightarrow> extraction_request list" where
  "pending_requests docID d = sort_key req_created_at
     (filter (\<lambda>r. req_document_id r = docID \<and> in_flight r) (extraction_requests d))"

definition ListPendingExtractionRequestsByDocument
    :: "env \<Rightarrow> uuid \<Rightarrow> extraction_request list act" where
  "ListPendingExtractionRequestsByDocument E docID = exec E (sel (pending_requests docID))"

definition update_request :: "uuid \<Rightarrow> (extraction_request \<Rightarrow> extraction_request) \<Rightarrow> db
    \<Rightarrow> (go_error + extraction_request) \<times> db" where
  "update_request i f d =
     (case find (\<lambda>r. req_id r = i) (extraction_requests d) of
        None \<Rightarrow> (Inl ErrNoRows, d)
      | Some r \<Rightarrow>
          (case first_violation (request_checks (f r)) of
             Some e \<Rightarrow> (Inl e, d)
           | None \<Rightarrow> (Inr (f r),
               d\<lparr>extraction_requests := put_row req_id (f r) (extraction_requests d)\<rparr>)))"

definition stmt_SetExtractionRequestStatus
    :: "uuid \<Rightarrow> string \<Rightarrow> string option \<Rightarrow> extraction_request stmt" where
  "stmt_SetExtractionRequestStatus i status msg g t d =
     (case update_request i (\<lambda>r. r\<lparr>req_status := status, req_error_message := msg,
             req_updated_at := t\<rparr>) d of
        (Inl e, d') \<Rightarrow> (Inl e, d')
      | (Inr r, d') \<Rightarrow> (Inr r, propagate_site_activity (document_site d' (req_document_id r)) t d'))"

definition stmt_SetExtractionRequestResolvedSchema :: "uuid \<Rightarrow> json \<Rightarrow> extraction_request stmt" where
  "stmt_SetExtractionRequestResolvedSchema i schema g t d =
     update_request i (\<lambda>r. r\<lparr>req_resolved_schema := Some schema, req_updated_at := t\<rparr>) d"

definition SetExtractionRequestStatus
    :: "env \<Rightarrow> uuid \<Rightarrow> string \<Rightarrow> string option \<Rightarrow> extraction_request act" where
  "SetExtractionRequestStatus E i status msg = exec E (stmt_SetExtractionRequestStatus i status msg)"

definition SetExtractionRequestResolvedSchema :: "env \<Rightarrow> uuid \<Rightarrow> json \<Rightarrow> extraction_request act" where
  "SetExtractionRequestResolvedSchema E i schema =
     exec E (stmt_SetExtractionRequestResolvedSchema i schema)"

section \<open>Keys\<close>

definition org_visible :: "uuid \<Rightarrow> extraction_key \<Rightarrow> bool" where
  "org_visible orgID k \<longleftrightarrow> key_organization_id k = Some orgID \<or> key_organization_id k = None"

text \<open>\<open>ORDER BY organization_id NULLS LAST, key_name\<close>.\<close>

definition nulls_last :: "uuid option \<Rightarrow> int" where
  "nulls_last u = (case u of None \<Rightarrow> 2 ^ 128 | Some x \<Rightarrow> uint x)"

definition keys_of_org :: "uuid \<Rightarrow> db \<Rightarrow> extraction_key list" where
  "keys_of_org orgID d = sort_key (\<lambda>k. nulls_last (key_organization_id k))
     (sort_key key_name (filter (org_visible orgID) (extraction_keys d)))"

definition ListExtractionKeysByOrg :: "env \<Rightarrow> uuid \<Rightarrow> extraction_key list act" where
  "ListExtractionKeysByOrg E orgID = exec E (sel (keys_of_org orgID))"

text \<open>\<open>DISTINCT ON (key_name)\<close> keeps the first row of each name, in the order of the result.\<close>

fun distinct_on :: "('a \<Rightarrow> 'k) \<Rightarrow> 'a list \<Rightarrow> 'a list" where
  "distinct_on k [] = []"
| "distinct_on k (x # xs) = x # filter (\<lambda>y. k y \<noteq> k x) (distinct_on k xs)"

definition keys_by_names :: "string list \<Rightarrow> uuid \<Rightarrow> db \<Rightarrow> extraction_key list" where
  "keys_by_names names orgID d = distinct_on key_name
     (sort_key key_name (sort_key (\<lambda>k. key_organization_id k = None)
       (filter (\<lambda>k. key_name k \<in> set names \<and> org_visible orgID k) (extraction_keys d))))"

definition GetExtractionKeysByNames :: "env \<Rightarrow> string list \<Rightarrow> uuid \<Rightarrow> extraction_key list act" where
  "GetExtractionKeysByNames E names orgID = exec E (sel (keys_by_names names orgID))"

definition new_key :: "uuid \<Rightarrow> int \<Rightarrow> uuid option \<Rightarrow> string \<Rightarrow> string \<Rightarrow> string \<Rightarrow> extraction_key" where
  "new_key i t org name query type = \<lparr>key_id = i, key_organization_id = org, key_name = name,
     key_source_query = query, key_data_type = type, key_created_at = t, key_display_name = None,
     key_is_active = True, key_category = None\<rparr>"

definition stmt_UpsertExtractionKey
    :: "uuid option \<Rightarrow> string \<Rightarrow> string \<Rightarrow> string \<Rightarrow> extraction_key stmt" where
  "stmt_UpsertExtractionKey org name query type g t d =
     (case find (\<lambda>k. key_org_name k = (org, name)) (extraction_keys d) of
        Some k \<Rightarrow>
          (let k' = k\<lparr>key_source_query := query, key_data_type := type\<rparr> in
           (Inr k', d\<lparr>extraction_keys := put_row key_id k' (extraction_keys d)\<rparr>))
      | None \<Rightarrow>
          (let k = new_key (g 0) t org name query type in
           case first_violation
                  [(key_id k \<notin> set (map key_id (extraction_keys d)), unique_violation ''extraction_keys_pkey''),
                   (null_or (\<lambda>i. list_ex (\<lambda>o'. org_id o' = i) (organizations d)) org,
                    fk_violation ''extraction_keys_organization_id_fkey'')] of
             Some e \<Rightarrow> (Inl e, d)
           | None \<Rightarrow> (Inr k, d\<lparr>extraction_keys := extraction_keys d @ [k]\<rparr>)))"

definition UpsertExtractionKey
    :: "env \<Rightarrow> uuid option \<Rightarrow> string \<Rightarrow> string \<Rightarrow> string \<Rightarrow> extraction_key act" where
  "UpsertExtractionKey E org name query type = exec E (stmt_UpsertExtractionKey org name query type)"

section \<open>Extracted data\<close>

definition new_datum :: "uuid \<Rightarrow> uuid \<Rightarrow> uuid \<Rightarrow> uuid \<Rightarrow> string option \<Rightarrow> extracted_datum" where
  "new_datum i org doc key v = \<lparr>dat_id = i, dat_organization_id = org, dat_document_id = doc,
     dat_key_id = key, dat_extracted_value = v\<rparr>"

definition upsert_datum :: "extracted_datum \<Rightarrow> db \<Rightarrow> go_error + db" where
  "upsert_datum x d =
     (case first_violation (datum_triggers d x) of
        Some e \<Rightarrow> Inl e
      | None \<Rightarrow>
          (case find (\<lambda>y. datum_key y = datum_key x) (document_extracted_data d) of
             Some y \<Rightarrow> Inr (d\<lparr>document_extracted_data := put_row dat_id
                 (y\<lparr>dat_extracted_value := dat_extracted_value x\<rparr>) (document_extracted_data d)\<rparr>)
           | None \<Rightarrow>
               (case first_violation
                   ((dat_id x \<notin> set (map dat_id (document_extracted_data d)),
                     unique_violation ''document_extracted_data_pkey'') # datum_fks d x) of
                  Some e \<Rightarrow> Inl e
                | None \<Rightarrow> Inr (d\<lparr>document_extracted_data := document_extracted_data d @ [x]\<rparr>))))"

fun upsert_data :: "extracted_datum list \<Rightarrow> db \<Rightarrow> go_error + db" where
  "upsert_data [] d = Inr d"
| "upsert_data (x # xs) d = (case upsert_datum x d of Inl e \<Rightarrow> Inl e | Inr d' \<Rightarrow> upsert_data xs d')"

definition stmt_UpsertExtractedDatum :: "uuid \<Rightarrow> uuid \<Rightarrow> uuid \<Rightarrow> string option \<Rightarrow> unit stmt" where
  "stmt_UpsertExtractedDatum org doc key v g t d =
     (case upsert_datum (new_datum (g 0) org doc key v) d of
        Inl e \<Rightarrow> (Inl e, d) | Inr d' \<Rightarrow> (Inr (), d'))"

text \<open>
  The two arrays are unnested in lockstep. The same key twice in one statement is an error of the
  server (a row cannot be affected a second time); any error undoes the whole statement.
\<close>

definition stmt_BatchUpsertExtractedData
    :: "uuid \<Rightarrow> uuid \<Rightarrow> uuid list \<Rightarrow> string list \<Rightarrow> unit stmt" where
  "stmt_BatchUpsertExtractedData org doc keyIDs values g t d =
     (if \<not> distinct keyIDs then (Inl (PgError ''21000'' []), d)
      else (case upsert_data (map2 (\<lambda>i (k, v). new_datum (g i) org doc k (Some v))
                   [0..<length keyIDs] (zip keyIDs values)) d of
              Inl e \<Rightarrow> (Inl e, d) | Inr d' \<Rightarrow> (Inr (), d')))"

definition UpsertExtractedDatum :: "env \<Rightarrow> uuid \<Rightarrow> uuid \<Rightarrow> uuid \<Rightarrow> string option \<Rightarrow> unit act" where
  "UpsertExtractedDatum E org doc key v = exec E (stmt_UpsertExtractedDatum org doc key v)"

definition BatchUpsertExtractedData :: "env \<Rightarrow> uuid \<Rightarrow> uuid \<Rightarrow> uuid list \<Rightarrow> string list \<Rightarrow> unit act" where
  "BatchUpsertExtractedData E org doc keyIDs values =
     exec E (stmt_BatchUpsertExtractedData org doc keyIDs values)"

record extracted_row =
  row_KeyName :: string
  row_DataType :: string
  row_ExtractedValue :: "string option"

definition extracted_for_keys :: "uuid \<Rightarrow> uuid \<Rightarrow> string list \<Rightarrow> db \<Rightarrow> extracted_row list" where
  "extracted_for_keys doc org names d = sort_key row_KeyName
     (concat (map (\<lambda>x.
        map (\<lambda>k. \<lparr>row_KeyName = key_name k, row_DataType = key_data_type k,
                  row_ExtractedValue = dat_extracted_value x\<rparr>)
          (filter (\<lambda>k. key_id k = dat_key_id x \<and> key_name k \<in> set names) (extraction_keys d)))
        (filter (\<lambda>x. dat_document_id x = doc \<and> dat_organization_id x = org)
          (document_extracted_data d))))"

definition ListExtractedDataForKeys :: "env \<Rightarrow> uuid \<Rightarrow> uuid \<Rightarrow> string list \<Rightarrow> extracted_row list act" where
  "ListExtractedDataForKeys E doc org names = exec E (sel (extracted_for_keys doc org names))"

end
