(* ===== verification/Integrity.thy ===== *)
theory Integrity
  imports Repo_Extraction
begin

text \<open>
  The integrity of the database: what the constraints, indexes and triggers of
  \<^verbatim>\<open>sql/migrations\<close> promise of documents, tasks, extraction requests, keys and extracted data,
  as an invariant \<open>db_ok\<close>, and that every statement on these tables keeps it.
\<close>

section \<open>References as projections\<close>

definition org_exists :: "db \<Rightarrow> uuid \<Rightarrow> bool" where
  "org_exists d i \<longleftrightarrow> list_ex (\<lambda>o'. org_id o' = i) (organizations d)"

definition doc_owner :: "document \<Rightarrow> uuid \<times> uuid" where
  "doc_owner x = (doc_id x, doc_organization_id x)"

definition key_owner :: "extraction_key \<Rightarrow> uuid \<times> uuid option" where
  "key_owner k = (key_id k, key_organization_id k)"

lemma org_document_exists_iff: "org_document_exists d i org \<longleftrightarrow> (i, org) \<in> set (map doc_owner (documents d))"
  by (auto simp: org_document_exists_def list_ex_iff doc_owner_def)

lemma document_exists_iff: "document_exists d i \<longleftrightarrow> i \<in> set (map fst (map doc_owner (documents d)))"
  by (auto simp: document_exists_def list_ex_iff doc_owner_def)

lemma request_exists_iff: "request_exists d i \<longleftrightarrow> i \<in> set (map req_id (extraction_requests d))"
  by (auto simp: request_exists_def list_ex_iff)

lemma visible_key_iff: "visible_key d i org \<longleftrightarrow>
    (i, None) \<in> set (map key_owner (extraction_keys d)) \<or> (i, Some org) \<in> set (map key_owner (extraction_keys d))"
  by (auto simp: visible_key_def list_ex_iff key_owner_def)

lemma org_exists_iff: "org_exists d i \<longleftrightarrow> i \<in> set (map org_id (organizations d))"
  by (auto simp: org_exists_def list_ex_iff)

lemmas reference_iffs = org_document_exists_iff document_exists_iff request_exists_iff
  visible_key_iff org_exists_iff

section \<open>The invariant\<close>

definition document_ok :: "db \<Rightarrow> document \<Rightarrow> bool" where
  "document_ok d x \<longleftrightarrow> checks_hold (document_checks x) \<and> org_exists d (doc_organization_id x) \<and>
     null_or (\<lambda>p. org_document_exists d p (doc_organization_id x)) (doc_parent_id x)"

definition task_ok :: "db \<Rightarrow> document_task \<Rightarrow> bool" where
  "task_ok d t \<longleftrightarrow> checks_hold (task_checks t) \<and> checks_hold (task_fks d t)"

definition request_ok :: "db \<Rightarrow> extraction_request \<Rightarrow> bool" where
  "request_ok d r \<longleftrightarrow> checks_hold (request_checks r) \<and> checks_hold (request_fks d r)"

definition key_ok :: "db \<Rightarrow> extraction_key \<Rightarrow> bool" where
  "key_ok d k \<longleftrightarrow> null_or (org_exists d) (key_organization_id k)"

definition datum_ok :: "db \<Rightarrow> extracted_datum \<Rightarrow> bool" where
  "datum_ok d x \<longleftrightarrow> checks_hold (datum_triggers d x) \<and> checks_hold (datum_fks d x)"

definition documents_ok :: "db \<Rightarrow> bool" where
  "documents_ok d \<longleftrightarrow> table_ok doc_id [artifact_key] (document_ok d) (documents d)"

definition tasks_ok :: "db \<Rightarrow> bool" where
  "tasks_ok d \<longleftrightarrow> table_ok task_id [singleton_key, request_key] (task_ok d) (document_tasks d)"

definition requests_ok :: "db \<Rightarrow> bool" where
  "requests_ok d \<longleftrightarrow>
     table_ok req_id ([] :: (extraction_request \<Rightarrow> unit option) list) (request_ok d) (extraction_requests d)"

definition keys_ok :: "db \<Rightarrow> bool" where
  "keys_ok d \<longleftrightarrow> table_ok key_id [\<lambda>k. Some (key_org_name k)] (key_ok d) (extraction_keys d)"

definition data_ok :: "db \<Rightarrow> bool" where
  "data_ok d \<longleftrightarrow> table_ok dat_id [\<lambda>x. Some (datum_key x)] (datum_ok d) (document_extracted_data d)"

definition db_ok :: "db \<Rightarrow> bool" where
  "db_ok d \<longleftrightarrow> documents_ok d \<and> tasks_ok d \<and> requests_ok d \<and> keys_ok d \<and> data_ok d"

lemmas row_ok_defs = document_ok_def task_ok_def request_ok_def key_ok_def datum_ok_def
lemmas tables_ok_defs = documents_ok_def tasks_ok_def requests_ok_def keys_ok_def data_ok_def

lemma db_ok_empty [simp]: "db_ok empty_db"
  by (simp add: db_ok_def tables_ok_defs empty_db_def requests_ok_def)

text \<open>What a row's constraint depends on.\<close>

lemma org_document_exists_mono:
  "set (map doc_owner (documents d)) \<subseteq> set (map doc_owner (documents d')) \<Longrightarrow>
   org_document_exists d i org \<Longrightarrow> org_document_exists d' i org"
  unfolding org_document_exists_iff by (rule subsetD)

lemma document_exists_mono:
  "set (map doc_owner (documents d)) \<subseteq> set (map doc_owner (documents d')) \<Longrightarrow>
   document_exists d i \<Longrightarrow> document_exists d' i"
  unfolding document_exists_iff set_map by (rule subsetD [OF image_mono])

lemma request_exists_mono:
  "set (map req_id (extraction_requests d)) \<subseteq> set (map req_id (extraction_requests d')) \<Longrightarrow>
   request_exists d i \<Longrightarrow> request_exists d' i"
  unfolding request_exists_iff by (rule subsetD)

lemma visible_key_mono:
  "set (map key_owner (extraction_keys d)) \<subseteq> set (map key_owner (extraction_keys d')) \<Longrightarrow>
   visible_key d i org \<Longrightarrow> visible_key d' i org"
  unfolding visible_key_iff by (elim disjE; drule (1) subsetD; simp only: simp_thms)

lemma null_or_mono: "(\<And>x. p x \<Longrightarrow> q x) \<Longrightarrow> null_or p v \<Longrightarrow> null_or q v"
  by (cases v) simp_all

lemma document_ok_cong:
  "organizations d' = organizations d \<Longrightarrow>
   set (map doc_owner (documents d)) \<subseteq> set (map doc_owner (documents d')) \<Longrightarrow>
   document_ok d x \<Longrightarrow> document_ok d' x"
  unfolding document_ok_def org_exists_def
  by (elim conjE, intro conjI; (erule null_or_mono [rotated])?; simp only: org_document_exists_mono)

lemma task_ok_cong:
  "set (map doc_owner (documents d)) \<subseteq> set (map doc_owner (documents d')) \<Longrightarrow>
   set (map req_id (extraction_requests d)) \<subseteq> set (map req_id (extraction_requests d')) \<Longrightarrow>
   task_ok d t \<Longrightarrow> task_ok d' t"
  unfolding task_ok_def task_fks_def checks_hold_simps
  by (elim conjE, intro conjI) (simp_all only: document_exists_mono null_or_mono [OF request_exists_mono])

lemma request_ok_cong:
  "set (map doc_owner (documents d)) \<subseteq> set (map doc_owner (documents d')) \<Longrightarrow>
   request_ok d r \<Longrightarrow> request_ok d' r"
  unfolding request_ok_def request_fks_def checks_hold_simps
  by (elim conjE, intro conjI) (simp_all only: org_document_exists_mono)

lemma key_ok_cong: "organizations d' = organizations d \<Longrightarrow> key_ok d k \<Longrightarrow> key_ok d' k"
  by (simp add: key_ok_def null_or_def org_exists_def split: option.splits)

lemma datum_ok_cong:
  "set (map doc_owner (documents d)) \<subseteq> set (map doc_owner (documents d')) \<Longrightarrow>
   set (map key_owner (extraction_keys d)) \<subseteq> set (map key_owner (extraction_keys d')) \<Longrightarrow>
   datum_ok d x \<Longrightarrow> datum_ok d' x"
  unfolding datum_ok_def datum_triggers_def datum_fks_def checks_hold_simps
  by (elim conjE, intro conjI) (simp_all only: org_document_exists_mono visible_key_mono)

text \<open>
  The tables other than the one a statement writes keep their rows, and the rows they refer to
  are still there.
\<close>

definition refs_kept :: "db \<Rightarrow> db \<Rightarrow> bool" where
  "refs_kept d d' \<longleftrightarrow> organizations d' = organizations d \<and>
     set (map doc_owner (documents d)) \<subseteq> set (map doc_owner (documents d')) \<and>
     set (map req_id (extraction_requests d)) \<subseteq> set (map req_id (extraction_requests d')) \<and>
     set (map key_owner (extraction_keys d)) \<subseteq> set (map key_owner (extraction_keys d'))"

lemma rows_ok_kept:
  assumes "refs_kept d d'"
  shows "document_ok d x \<Longrightarrow> document_ok d' x" and "task_ok d t \<Longrightarrow> task_ok d' t"
    and "request_ok d r \<Longrightarrow> request_ok d' r" and "key_ok d k \<Longrightarrow> key_ok d' k"
    and "datum_ok d y \<Longrightarrow> datum_ok d' y"
  using assms unfolding refs_kept_def
  by (blast intro: document_ok_cong task_ok_cong request_ok_cong key_ok_cong datum_ok_cong)+

lemma tables_ok_kept:
  assumes "refs_kept d d'"
  shows "documents d' = documents d \<Longrightarrow> documents_ok d \<Longrightarrow> documents_ok d'"
    and "document_tasks d' = document_tasks d \<Longrightarrow> tasks_ok d \<Longrightarrow> tasks_ok d'"
    and "extraction_requests d' = extraction_requests d \<Longrightarrow> requests_ok d \<Longrightarrow> requests_ok d'"
    and "extraction_keys d' = extraction_keys d \<Longrightarrow> keys_ok d \<Longrightarrow> keys_ok d'"
    and "document_extracted_data d' = document_extracted_data d \<Longrightarrow> data_ok d \<Longrightarrow> data_ok d'"
  unfolding tables_ok_defs using rows_ok_kept [OF assms] by (auto elim: table_ok_mono)

text \<open>The tables of the invariant, and that nothing else matters to it.\<close>

lemma db_ok_cong:
  assumes "organizations d' = organizations d" "documents d' = documents d"
    "document_tasks d' = document_tasks d" "extraction_requests d' = extraction_requests d"
    "extraction_keys d' = extraction_keys d" "document_extracted_data d' = document_extracted_data d"
  shows "db_ok d \<Longrightarrow> db_ok d'"
  using tables_ok_kept [of d d'] assms by (simp add: db_ok_def refs_kept_def)

lemma db_ok_propagate [simp]: "db_ok (propagate_site_activity v t d) = db_ok d"
  using db_ok_cong [of d "propagate_site_activity v t d"] db_ok_cong [of "propagate_site_activity v t d" d]
  by auto

section \<open>Statements on tasks\<close>

text \<open>
  A statement that writes one table: the others are kept, and the written one is well-formed for
  the old references, hence for the new ones.
\<close>

lemma db_ok_set_tasks:
  assumes "db_ok d" and "table_ok task_id [singleton_key, request_key] (task_ok d) ts"
  shows "db_ok (d\<lparr>document_tasks := ts\<rparr>)"
proof -
  have kept: "refs_kept d (d\<lparr>document_tasks := ts\<rparr>)" by (simp add: refs_kept_def)
  have "tasks_ok (d\<lparr>document_tasks := ts\<rparr>)"
    unfolding tasks_ok_def using assms(2) rows_ok_kept(2) [OF kept] by (auto elim: table_ok_mono)
  then show ?thesis using assms(1) tables_ok_kept [OF kept] by (simp add: db_ok_def)
qed

lemma db_ok_tasks: "db_ok d \<Longrightarrow> table_ok task_id [singleton_key, request_key] (task_ok d) (document_tasks d)"
  by (simp add: db_ok_def tasks_ok_def)

lemma insert_task_ok: "db_ok d \<Longrightarrow> db_ok (snd (insert_task t d))"
  unfolding insert_task_def
  by (auto simp: task_keys_def task_ok_def intro!: db_ok_set_tasks table_ok_snoc db_ok_tasks
      split: option.split)

lemma insert_task_or_nothing_ok: "db_ok d \<Longrightarrow> db_ok (snd (insert_task_or_nothing key t d))"
  by (simp add: insert_task_or_nothing_def insert_task_ok split: option.splits)

text \<open>An update that keeps a task's identity and passes its checks.\<close>

definition same_task :: "document_task \<Rightarrow> document_task \<Rightarrow> bool" where
  "same_task x y \<longleftrightarrow> task_id y = task_id x \<and> task_document_id y = task_document_id x \<and>
     task_module_name y = task_module_name x \<and>
     task_extraction_request_id y = task_extraction_request_id x \<and>
     task_input_storage_path y = task_input_storage_path x"

lemma put_task_ok:
  assumes "db_ok d" and "x \<in> set (document_tasks d)" and "same_task x y"
    and "checks_hold (task_checks y)"
  shows "db_ok (d\<lparr>document_tasks := put_row task_id y (document_tasks d)\<rparr>)"
proof (intro db_ok_set_tasks assms(1) table_ok_put db_ok_tasks)
  fix u z assume "u \<in> set [singleton_key, request_key]" and z: "z \<in> set (document_tasks d)" "task_id z = task_id y"
  then have "z = x" using assms table_ok_key [OF db_ok_tasks [OF assms(1)]] by (simp add: same_task_def)
  then show "u z = u y"
    using \<open>u \<in> _\<close> assms(3) by (auto simp: same_task_def singleton_key_def request_key_def split: option.split)
next
  have "task_ok d x" using assms(1,2) by (auto dest: db_ok_tasks table_ok_row)
  then show "task_ok d y" using assms(3,4) by (simp add: task_ok_def same_task_def task_fks_def)
qed

lemma update_task_ok:
  assumes "db_ok d" and "\<And>x. same_task x (f x)"
  shows "db_ok (snd (update_task p f d))"
  using assms by (auto simp: update_task_def intro: put_task_ok dest: find_Some_iff_mem split: option.splits)

lemma stmt_CreateDocumentTask_ok: "db_ok d \<Longrightarrow> db_ok (snd (stmt_CreateDocumentTask a b c g t d))"
  by (simp add: stmt_CreateDocumentTask_def insert_task_ok split: option.splits)

lemma stmt_CreateDocumentTaskSingleton_ok:
  "db_ok d \<Longrightarrow> db_ok (snd (stmt_CreateDocumentTaskSingleton a b c g t d))"
  by (simp add: stmt_CreateDocumentTaskSingleton_def insert_task_or_nothing_ok)

lemma stmt_CreateDocumentTaskForRequest_ok:
  "db_ok d \<Longrightarrow> db_ok (snd (stmt_CreateDocumentTaskForRequest a b c r g t d))"
  by (simp add: stmt_CreateDocumentTaskForRequest_def insert_task_or_nothing_ok)

lemma stmt_UpdateDocumentTaskStatus_ok:
  "db_ok d \<Longrightarrow> db_ok (snd (stmt_UpdateDocumentTaskStatus a b c g t d))"
  unfolding stmt_UpdateDocumentTaskStatus_def by (intro update_task_ok) (auto simp: same_task_def)

lemma stmt_UpdateWorkerTaskStatus_ok: "db_ok d \<Longrightarrow> db_ok (snd (stmt_UpdateWorkerTaskStatus p g t d))"
  unfolding stmt_UpdateWorkerTaskStatus_def
  by (intro update_task_ok) (auto simp: same_task_def apply_worker_update_def)

lemma stmt_UpdateTaskResultPayload_ok: "db_ok d \<Longrightarrow> db_ok (snd (stmt_UpdateTaskResultPayload i p g t d))"
  unfolding stmt_UpdateTaskResultPayload_def by (intro update_task_ok) (auto simp: same_task_def)

lemma task_checks_cong: "same_task x y \<Longrightarrow> task_status y \<in> {''pending'', ''failed''} \<Longrightarrow>
    checks_hold (task_checks x) \<Longrightarrow> checks_hold (task_checks y)"
  by (auto simp: task_checks_def same_task_def)

lemma db_ok_task_checks: "db_ok d \<Longrightarrow> x \<in> set (document_tasks d) \<Longrightarrow> checks_hold (task_checks x)"
  using table_ok_row [OF db_ok_tasks] by (auto simp: task_ok_def)

lemma stmt_MarkStaleTaskPending_ok:
  assumes "db_ok d" shows "db_ok (snd (stmt_MarkStaleTaskPending i c g t d))"
proof -
  have "\<And>x. x \<in> set (document_tasks d) \<Longrightarrow>
      db_ok (d\<lparr>document_tasks := put_row task_id (claim x t) (document_tasks d)\<rparr>)"
    by (rule put_task_ok [OF assms]) (auto simp: same_task_def claim_def
        intro: task_checks_cong [OF _ _ db_ok_task_checks [OF assms]])
  then show ?thesis
    using assms by (auto simp: stmt_MarkStaleTaskPending_def dest: find_Some_iff_mem split: option.splits)
qed

lemma stmt_MarkStaleTaskFailed_ok:
  assumes "db_ok d" shows "db_ok (snd (stmt_MarkStaleTaskFailed i c m g t d))"
proof -
  have "\<And>x. x \<in> set (document_tasks d) \<Longrightarrow> db_ok (d\<lparr>document_tasks := put_row task_id
      (x\<lparr>task_status := ''failed'', task_error_message := Some m, task_updated_at := t\<rparr>) (document_tasks d)\<rparr>)"
    by (rule put_task_ok [OF assms]) (auto simp: same_task_def
        intro: task_checks_cong [OF _ _ db_ok_task_checks [OF assms]])
  then show ?thesis
    using assms by (auto simp: stmt_MarkStaleTaskFailed_def dest: find_Some_iff_mem split: option.splits)
qed

lemma stmt_DeleteDocumentTask_ok: "db_ok d \<Longrightarrow> db_ok (snd (stmt_DeleteDocumentTask i c g t d))"
  by (simp add: stmt_DeleteDocumentTask_def Let_def db_ok_set_tasks table_ok_del db_ok_tasks)

section \<open>Statements on documents\<close>

lemma db_ok_documents: "db_ok d \<Longrightarrow> table_ok doc_id [artifact_key] (document_ok d) (documents d)"
  by (simp add: db_ok_def documents_ok_def)

lemma db_ok_set_documents:
  assumes "db_ok d" and "set (map doc_owner (documents d)) \<subseteq> set (map doc_owner xs)"
    and "table_ok doc_id [artifact_key] (document_ok d) xs"
  shows "db_ok (d\<lparr>documents := xs\<rparr>)"
proof -
  have kept: "refs_kept d (d\<lparr>documents := xs\<rparr>)" using assms(2) by (simp add: refs_kept_def)
  have "documents_ok (d\<lparr>documents := xs\<rparr>)"
    unfolding documents_ok_def using assms(3) rows_ok_kept(1) [OF kept] by (auto elim: table_ok_mono)
  then show ?thesis using assms(1) tables_ok_kept [OF kept] by (simp add: db_ok_def)
qed

lemma insert_document_ok: "db_ok d \<Longrightarrow> db_ok (snd (insert_document x t d))"
  unfolding insert_document_def
  by (auto simp: document_keys_def document_triggers_def document_ok_def org_exists_def
      intro!: db_ok_set_documents table_ok_snoc db_ok_documents split: option.split)

text \<open>An update that keeps a document's identity, owner and place.\<close>

definition same_document :: "document \<Rightarrow> document \<Rightarrow> bool" where
  "same_document x y \<longleftrightarrow> doc_id y = doc_id x \<and> doc_organization_id y = doc_organization_id x \<and>
     doc_parent_id y = doc_parent_id x \<and> doc_artifact_kind y = doc_artifact_kind x"

lemma put_document_ok:
  assumes "db_ok d" and "x \<in> set (documents d)" and "same_document x y"
    and "checks_hold (document_checks y)"
  shows "db_ok (d\<lparr>documents := put_row doc_id y (documents d)\<rparr>)"
proof (intro db_ok_set_documents assms(1) table_ok_put db_ok_documents)
  have same: "z = x" if "z \<in> set (documents d)" "doc_id z = doc_id y" for z
    using that assms table_ok_key [OF db_ok_documents [OF assms(1)]] by (simp add: same_document_def)
  show "u z = u y" if "u \<in> set [artifact_key]" "z \<in> set (documents d)" "doc_id z = doc_id y" for u z
    using same [OF that(2,3)] that(1) assms(3) by (auto simp: same_document_def artifact_key_def split: option.split)
  have "map doc_owner (put_row doc_id y (documents d)) = map doc_owner (documents d)"
    by (rule put_row_proj) (use same assms(3) in \<open>auto simp: same_document_def doc_owner_def\<close>)
  then show "set (map doc_owner (documents d)) \<subseteq> set (map doc_owner (put_row doc_id y (documents d)))"
    by (simp only: order_refl)
  have "document_ok d x" using assms(1,2) by (auto dest: db_ok_documents table_ok_row)
  then show "document_ok d y" using assms(3,4) by (simp add: document_ok_def same_document_def)
qed

lemma update_document_ok:
  assumes "db_ok d" and "\<And>x. same_document x (f x)"
  shows "db_ok (snd (update_document p f d))"
  using assms by (auto simp: update_document_def intro: put_document_ok dest: find_Some_iff_mem
      split: option.splits)

lemma stmt_CreateDocument_ok: "db_ok d \<Longrightarrow> db_ok (snd (stmt_CreateDocument p g t d))"
  by (simp add: stmt_CreateDocument_def insert_document_ok)

lemma stmt_CreateArtifactDocument_ok: "db_ok d \<Longrightarrow> db_ok (snd (stmt_CreateArtifactDocument p g t d))"
  by (auto simp: stmt_CreateArtifactDocument_def Let_def insert_document_ok
      same_document_def refresh_artifact_def intro!: update_document_ok split: option.split)

lemma stmt_UpdateDocumentMeta_ok: "db_ok d \<Longrightarrow> db_ok (snd (stmt_UpdateDocumentMeta i org a b c g t d))"
  unfolding stmt_UpdateDocumentMeta_def by (intro update_document_ok) (auto simp: same_document_def)

text \<open>
  The closure of a deletion: after as many rounds as there are documents it is closed under
  taking children, since each round that is not the last adds a document.
\<close>

definition child_closed :: "document list \<Rightarrow> uuid list \<Rightarrow> bool" where
  "child_closed xs ids \<longleftrightarrow> set (doc_children xs ids) \<subseteq> set ids"

lemma set_doc_children: "i \<in> set (doc_children xs ids) \<longleftrightarrow>
    (\<exists>x \<in> set xs. doc_id x = i \<and> (\<exists>p \<in> set ids. doc_parent_id x = Some p))"
  by (auto simp: doc_children_def split: option.splits)

lemma doc_children_cong: "set ids = set ids' \<Longrightarrow> doc_children xs ids = doc_children xs ids'"
  by (simp add: doc_children_def cong: option.case_cong)

lemma doc_closure_fixed: "child_closed xs ids \<Longrightarrow> set (doc_closure xs n ids) = set ids"
proof (induction n arbitrary: ids)
  case (Suc n)
  then have same: "set (ids @ doc_children xs ids) = set ids" by (auto simp: child_closed_def)
  then have "child_closed xs (ids @ doc_children xs ids)"
    using Suc.prems doc_children_cong [OF same] by (auto simp: child_closed_def)
  then show ?case using Suc.IH same by simp
qed simp

lemma doc_closure_mem: "i \<in> set ids \<Longrightarrow> i \<in> set (doc_closure xs n ids)"
  by (induction n arbitrary: ids) auto

lemma doc_closure_closed:
  assumes "set ids \<subseteq> set (map doc_id xs)" and "card (set (map doc_id xs)) \<le> card (set ids) + n"
  shows "child_closed xs (doc_closure xs n ids)"
  using assms
proof (induction n arbitrary: ids)
  case 0
  then have "set ids = set (map doc_id xs)" by (intro card_seteq) auto
  then show ?case by (auto simp: child_closed_def set_doc_children)
next
  case (Suc n)
  let ?next = "ids @ doc_children xs ids"
  have sub: "set ?next \<subseteq> set (map doc_id xs)" using Suc.prems by (auto simp: set_doc_children)
  show ?case
  proof (cases "child_closed xs ids")
    case True
    then have fixed: "set (doc_closure xs (Suc n) ids) = set ids" by (rule doc_closure_fixed)
    then show ?thesis
      using True doc_children_cong [OF fixed] by (simp add: child_closed_def)
  next
    case False
    then have "card (set ids) < card (set ?next)"
      by (intro psubset_card_mono) (auto simp: child_closed_def)
    then show ?thesis using Suc.IH [OF sub] Suc.prems(2) by simp
  qed
qed

text \<open>Removing a closed set of documents with what hangs on them.\<close>

lemma cascade_tables:
  "organizations (cascade_documents ids d) = organizations d"
  "extraction_keys (cascade_documents ids d) = extraction_keys d"
  "extraction_requests (cascade_documents ids d) =
     del_where (\<lambda>r. req_document_id r \<in> set ids) (extraction_requests d)"
  "document_extracted_data (cascade_documents ids d) =
     del_where (\<lambda>x. dat_document_id x \<in> set ids) (document_extracted_data d)"
  by (simp_all add: cascade_documents_def Let_def)

lemma set_cascade_documents: "x \<in> set (documents (cascade_documents ids d)) \<Longrightarrow>
   \<exists>y \<in> set (documents d). doc_id y \<notin> set ids \<and> doc_owner x = doc_owner y \<and>
     doc_parent_id x = doc_parent_id y \<and> (checks_hold (document_checks y) \<longrightarrow> checks_hold (document_checks x))"
  by (auto simp: cascade_documents_def Let_def upd_where_def del_where_def doc_owner_def
      document_checks_def split: if_splits)

lemma cascade_owner: "set (map doc_owner (documents (cascade_documents ids d))) =
   {o' \<in> set (map doc_owner (documents d)). fst o' \<notin> set ids}"
proof -
  have "map doc_owner (documents (cascade_documents ids d)) =
      map doc_owner (del_where (\<lambda>x. doc_id x \<in> set ids) (documents d))"
    unfolding cascade_documents_def Let_def by (simp add: upd_where_proj doc_owner_def)
  then show ?thesis by (auto simp: del_where_def doc_owner_def)
qed

lemma cascade_refs:
  "i \<notin> set ids \<Longrightarrow> org_document_exists d i org \<Longrightarrow> org_document_exists (cascade_documents ids d) i org"
  "i \<notin> set ids \<Longrightarrow> document_exists d i \<Longrightarrow> document_exists (cascade_documents ids d) i"
  by (auto simp only: org_document_exists_iff document_exists_iff set_map [of fst] cascade_owner) force+

lemma cascade_task_refs:
  assumes "t \<in> set (document_tasks (cascade_documents ids d))"
  shows "t \<in> set (document_tasks d)" and "task_document_id t \<notin> set ids"
    and "null_or (request_exists d) (task_extraction_request_id t) \<Longrightarrow>
         null_or (request_exists (cascade_documents ids d)) (task_extraction_request_id t)"
  using assms by (auto simp: cascade_documents_def Let_def del_where_def request_exists_def list_ex_iff
      null_or_def split: option.splits)

lemma cascade_table_ok:
  "table_ok doc_id [artifact_key] p (documents d) \<Longrightarrow>
   (\<And>x. x \<in> set (documents (cascade_documents ids d)) \<Longrightarrow> q x) \<Longrightarrow>
   table_ok doc_id [artifact_key] q (documents (cascade_documents ids d))"
proof -
  assume p: "table_ok doc_id [artifact_key] p (documents d)"
    and q: "\<And>x. x \<in> set (documents (cascade_documents ids d)) \<Longrightarrow> q x"
  have "table_ok doc_id [artifact_key] (\<lambda>_. True) (documents (cascade_documents ids d))"
    unfolding cascade_documents_def Let_def
    by (simp, rule table_ok_upd, rule table_ok_del, rule table_ok_mono [OF p]) (auto simp: artifact_key_def split: option.split)
  then show ?thesis by (rule table_ok_mono) (use q in auto)
qed

lemma cascade_documents_ok:
  assumes ok: "db_ok d" and closed: "child_closed (documents d) ids"
  shows "db_ok (cascade_documents ids d)"
proof -
  let ?d = "cascade_documents ids d"
  have "document_ok ?d x" if x: "x \<in> set (documents ?d)" for x
  proof -
    obtain y where y: "y \<in> set (documents d)" "doc_id y \<notin> set ids" "doc_owner x = doc_owner y"
      "doc_parent_id x = doc_parent_id y" "checks_hold (document_checks y) \<longrightarrow> checks_hold (document_checks x)"
      using set_cascade_documents [OF x] by blast
    have "document_ok d y" using ok y(1) by (auto dest: db_ok_documents table_ok_row)
    moreover have "p \<notin> set ids" if "doc_parent_id y = Some p" for p
      using that y(1,2) closed set_doc_children [of "doc_id y" "documents d" ids]
      by (auto simp: child_closed_def)
    ultimately show ?thesis using y(3-5) cascade_refs(1)
      by (auto simp: document_ok_def null_or_def org_exists_def cascade_tables doc_owner_def split: option.splits)
  qed
  then have "documents_ok ?d"
    unfolding documents_ok_def by (intro cascade_table_ok [OF db_ok_documents [OF ok]])
  moreover have "tasks_ok ?d"
  proof -
    have "table_ok task_id [singleton_key, request_key] (task_ok d) (document_tasks ?d)"
      unfolding cascade_documents_def Let_def using ok by (simp add: table_ok_del db_ok_tasks)
    then show ?thesis unfolding tasks_ok_def
      by (rule table_ok_mono)
        (auto simp: task_ok_def task_fks_def intro: cascade_refs(2) [OF cascade_task_refs(2)] cascade_task_refs(3))
  qed
  moreover have "requests_ok ?d"
  proof -
    have "table_ok req_id ([] :: (extraction_request \<Rightarrow> unit option) list) (request_ok d) (extraction_requests ?d)"
      unfolding cascade_tables using ok by (simp add: table_ok_del db_ok_def requests_ok_def)
    then show ?thesis unfolding requests_ok_def
      by (rule table_ok_mono)
        (auto simp: request_ok_def request_fks_def cascade_tables del_where_def intro: cascade_refs(1))
  qed
  moreover have "keys_ok ?d"
    using ok unfolding db_ok_def keys_ok_def cascade_tables
    by (elim conjE table_ok_mono) (simp add: key_ok_cong [of ?d d] cascade_tables)
  moreover have "data_ok ?d"
  proof -
    have "table_ok dat_id [\<lambda>x. Some (datum_key x)] (datum_ok d) (document_extracted_data ?d)"
      unfolding cascade_tables using ok by (simp add: table_ok_del db_ok_def data_ok_def)
    then show ?thesis unfolding data_ok_def
      by (rule table_ok_mono)
        (auto simp: datum_ok_def datum_triggers_def datum_fks_def visible_key_def cascade_tables del_where_def
          intro: cascade_refs(1))
  qed
  ultimately show ?thesis by (simp add: db_ok_def)
qed

lemma stmt_DeleteDocument_ok:
  assumes "db_ok d" shows "db_ok (snd (stmt_DeleteDocument i org g t d))"
proof (cases "filter (\<lambda>x. doc_id x = i \<and> doc_organization_id x = org) (documents d) = []")
  case False
  then have "i \<in> set (map doc_id (documents d))" by (auto simp: filter_empty_conv)
  moreover have "card (set (map doc_id (documents d))) \<le> card (set [i]) + length (documents d)"
    using card_length [of "map doc_id (documents d)"] by simp
  ultimately have "child_closed (documents d) (doc_closure (documents d) (length (documents d)) [i])"
    by (intro doc_closure_closed) auto
  then show ?thesis using assms False by (simp add: stmt_DeleteDocument_def Let_def cascade_documents_ok)
qed (simp add: stmt_DeleteDocument_def assms)

section \<open>Statements on requests\<close>

lemma db_ok_requests: "db_ok d \<Longrightarrow>
    table_ok req_id ([] :: (extraction_request \<Rightarrow> unit option) list) (request_ok d) (extraction_requests d)"
  by (simp add: db_ok_def requests_ok_def)

lemma db_ok_set_requests:
  assumes "db_ok d" and "set (map req_id (extraction_requests d)) \<subseteq> set (map req_id rs)"
    and "table_ok req_id ([] :: (extraction_request \<Rightarrow> unit option) list) (request_ok d) rs"
  shows "db_ok (d\<lparr>extraction_requests := rs\<rparr>)"
proof -
  have kept: "refs_kept d (d\<lparr>extraction_requests := rs\<rparr>)" using assms(2) by (simp add: refs_kept_def)
  have "requests_ok (d\<lparr>extraction_requests := rs\<rparr>)"
    unfolding requests_ok_def using assms(3) rows_ok_kept(3) [OF kept] by (auto elim: table_ok_mono)
  then show ?thesis using assms(1) tables_ok_kept [OF kept] by (simp add: db_ok_def)
qed

lemma stmt_CreateExtractionRequest_ok:
  "db_ok d \<Longrightarrow> db_ok (snd (stmt_CreateExtractionRequest a b c e g t d))"
  unfolding stmt_CreateExtractionRequest_def Let_def
  by (auto simp: request_keys_def request_ok_def intro!: db_ok_set_requests table_ok_snoc db_ok_requests
      split: option.split)

definition same_request :: "extraction_request \<Rightarrow> extraction_request \<Rightarrow> bool" where
  "same_request x y \<longleftrightarrow> req_id y = req_id x \<and> req_document_id y = req_document_id x \<and>
     req_organization_id y = req_organization_id x \<and> req_questions y = req_questions x \<and>
     req_anonymize y = req_anonymize x \<and> req_created_at y = req_created_at x"

lemma update_request_ok:
  assumes ok: "db_ok d" and same: "\<And>x. same_request x (f x)"
  shows "db_ok (snd (update_request i f d))"
proof -
  have "db_ok (d\<lparr>extraction_requests := put_row req_id (f x) (extraction_requests d)\<rparr>)"
    if x: "x \<in> set (extraction_requests d)" and checks: "checks_hold (request_checks (f x))" for x
  proof (intro db_ok_set_requests ok table_ok_put db_ok_requests)
    show "set (map req_id (extraction_requests d)) \<subseteq> set (map req_id (put_row req_id (f x) (extraction_requests d)))"
      by (simp only: put_row_keys order_refl)
    have "request_ok d x" using ok x by (auto dest: db_ok_requests table_ok_row)
    then show "request_ok d (f x)"
      using checks same [of x] by (simp add: request_ok_def request_fks_def same_request_def)
  qed simp
  then show ?thesis using ok by (auto simp: update_request_def dest: find_Some_iff_mem split: option.splits)
qed

lemma stmt_SetExtractionRequestStatus_ok:
  assumes "db_ok d" shows "db_ok (snd (stmt_SetExtractionRequestStatus i st m g t d))"
proof -
  have "db_ok (snd (update_request i (\<lambda>r. r\<lparr>req_status := st, req_error_message := m, req_updated_at := t\<rparr>) d))"
    by (rule update_request_ok [OF assms]) (simp add: same_request_def)
  then show ?thesis by (auto simp: stmt_SetExtractionRequestStatus_def split: prod.splits sum.splits)
qed

lemma stmt_SetExtractionRequestResolvedSchema_ok:
  "db_ok d \<Longrightarrow> db_ok (snd (stmt_SetExtractionRequestResolvedSchema i j g t d))"
  unfolding stmt_SetExtractionRequestResolvedSchema_def
  by (intro update_request_ok) (simp_all add: same_request_def)

section \<open>Statements on keys and extracted data\<close>

lemma db_ok_keys: "db_ok d \<Longrightarrow>
    table_ok key_id [\<lambda>k. Some (key_org_name k)] (key_ok d) (extraction_keys d)"
  by (simp add: db_ok_def keys_ok_def)

lemma db_ok_set_keys:
  assumes "db_ok d" and "set (map key_owner (extraction_keys d)) \<subseteq> set (map key_owner ks)"
    and "table_ok key_id [\<lambda>k. Some (key_org_name k)] (key_ok d) ks"
  shows "db_ok (d\<lparr>extraction_keys := ks\<rparr>)"
proof -
  have kept: "refs_kept d (d\<lparr>extraction_keys := ks\<rparr>)" using assms(2) by (simp add: refs_kept_def)
  have "keys_ok (d\<lparr>extraction_keys := ks\<rparr>)"
    unfolding keys_ok_def using assms(3) rows_ok_kept(4) [OF kept] by (auto elim: table_ok_mono)
  then show ?thesis using assms(1) tables_ok_kept [OF kept] by (simp add: db_ok_def)
qed

lemma stmt_UpsertExtractionKey_ok:
  assumes ok: "db_ok d" shows "db_ok (snd (stmt_UpsertExtractionKey org name q ty g t d))"
proof (cases "find (\<lambda>k. key_org_name k = (org, name)) (extraction_keys d)")
  case None
  then have free: "\<not> index_conflict (\<lambda>k. Some (key_org_name k)) (new_key i t' org name q ty) (extraction_keys d)" for i t'
    by (auto simp: index_conflict_def set_index_keys find_None_iff key_org_name_def new_key_def)
  show ?thesis using ok None free unfolding stmt_UpsertExtractionKey_def Let_def
    by (auto simp: key_ok_def new_key_def org_exists_def [abs_def]
        intro!: db_ok_set_keys table_ok_snoc db_ok_keys split: option.split)
next
  case (Some k)
  let ?k = "k\<lparr>key_source_query := q, key_data_type := ty\<rparr>"
  have k: "k \<in> set (extraction_keys d)" using find_Some_iff_mem [OF Some] by simp
  have same: "z = k" if "z \<in> set (extraction_keys d)" "key_id z = key_id ?k" for z
    using that k table_ok_key [OF db_ok_keys [OF ok]] by simp
  have "db_ok (d\<lparr>extraction_keys := put_row key_id ?k (extraction_keys d)\<rparr>)"
  proof (intro db_ok_set_keys ok table_ok_put db_ok_keys)
    have "map key_owner (put_row key_id ?k (extraction_keys d)) = map key_owner (extraction_keys d)"
      by (rule put_row_proj) (use same in \<open>auto simp: key_owner_def\<close>)
    then show "set (map key_owner (extraction_keys d)) \<subseteq> set (map key_owner (put_row key_id ?k (extraction_keys d)))"
      by (simp only: order_refl)
    show "u z = u ?k" if "u \<in> set [\<lambda>k. Some (key_org_name k)]" "z \<in> set (extraction_keys d)"
        "key_id z = key_id ?k" for u z
      using same [OF that(2,3)] that(1) by (auto simp: key_org_name_def)
    have "key_ok d k" using ok k by (auto dest: db_ok_keys table_ok_row)
    then show "key_ok d ?k" by (simp add: key_ok_def)
  qed
  then show ?thesis using Some by (simp add: stmt_UpsertExtractionKey_def Let_def)
qed

lemma db_ok_data: "db_ok d \<Longrightarrow>
    table_ok dat_id [\<lambda>x. Some (datum_key x)] (datum_ok d) (document_extracted_data d)"
  by (simp add: db_ok_def data_ok_def)

lemma db_ok_set_data:
  assumes "db_ok d" and "table_ok dat_id [\<lambda>x. Some (datum_key x)] (datum_ok d) xs"
  shows "db_ok (d\<lparr>document_extracted_data := xs\<rparr>)"
proof -
  have kept: "refs_kept d (d\<lparr>document_extracted_data := xs\<rparr>)" by (simp add: refs_kept_def)
  have "data_ok (d\<lparr>document_extracted_data := xs\<rparr>)"
    unfolding data_ok_def using assms(2) rows_ok_kept(5) [OF kept] by (auto elim: table_ok_mono)
  then show ?thesis using assms(1) tables_ok_kept [OF kept] by (simp add: db_ok_def)
qed

lemma upsert_datum_ok:
  assumes ok: "db_ok d" and up: "upsert_datum x d = Inr d'"
  shows "db_ok d'"
proof (cases "find (\<lambda>y. datum_key y = datum_key x) (document_extracted_data d)")
  case None
  then have "\<not> index_conflict (\<lambda>x. Some (datum_key x)) x (document_extracted_data d)"
    by (auto simp: index_conflict_def set_index_keys find_None_iff)
  then show ?thesis using ok up None unfolding upsert_datum_def
    by (auto simp: datum_ok_def intro!: db_ok_set_data table_ok_snoc db_ok_data
        split: option.splits if_splits)
next
  case (Some y)
  let ?y = "y\<lparr>dat_extracted_value := dat_extracted_value x\<rparr>"
  have y: "y \<in> set (document_extracted_data d)" using find_Some_iff_mem [OF Some] by simp
  have "db_ok (d\<lparr>document_extracted_data := put_row dat_id ?y (document_extracted_data d)\<rparr>)"
  proof (intro db_ok_set_data ok table_ok_put db_ok_data)
    fix u z assume "u \<in> set [\<lambda>x. Some (datum_key x)]" "z \<in> set (document_extracted_data d)"
      "dat_id z = dat_id ?y"
    then show "u z = u ?y" using table_ok_key [OF db_ok_data [OF ok], of z y] y
      by (auto simp: datum_key_def)
  next
    have "datum_ok d y" using ok y by (auto dest: db_ok_data table_ok_row)
    then show "datum_ok d ?y" by (simp add: datum_ok_def datum_triggers_def datum_fks_def)
  qed
  then show ?thesis using up Some by (auto simp: upsert_datum_def split: option.splits)
qed

lemma upsert_data_ok: "db_ok d \<Longrightarrow> upsert_data xs d = Inr d' \<Longrightarrow> db_ok d'"
  by (induction xs d rule: upsert_data.induct) (auto split: sum.splits dest: upsert_datum_ok)

lemma stmt_UpsertExtractedDatum_ok: "db_ok d \<Longrightarrow> db_ok (snd (stmt_UpsertExtractedDatum a b c v g t d))"
  by (auto simp: stmt_UpsertExtractedDatum_def dest: upsert_datum_ok split: sum.splits)

lemma stmt_BatchUpsertExtractedData_ok:
  "db_ok d \<Longrightarrow> db_ok (snd (stmt_BatchUpsertExtractedData a b ks vs g t d))"
  by (auto simp: stmt_BatchUpsertExtractedData_def dest: upsert_data_ok split: sum.splits)

end
