(* ===== verification/Extraction_Service.thy ===== *)
theory Extraction_Service
  imports Repo_Extraction
begin

text \<open>
  \<^verbatim>\<open>internal/service/service_extraction.go\<close>: the life of an extraction request, from its creation
  through the tasks it needs to its answers. The service is the record of its interface-valued
  fields; the querier is the database of the world. Contexts with deadlines appear as faults of
  the interactions; log records are not modelled.
\<close>

record extraction_service =
  es_python :: "python_client option"   \<comment> \<open>nil in some unit tests\<close>

abbreviation moduleConvert :: string where "moduleConvert \<equiv> ''convert''"
abbreviation moduleAnonymize :: string where "moduleAnonymize \<equiv> ''anonymize''"
abbreviation moduleResolveKeys :: string where "moduleResolveKeys \<equiv> ''resolve_keys''"
abbreviation moduleExtract :: string where "moduleExtract \<equiv> ''extract''"

abbreviation statusCompleted :: string where "statusCompleted \<equiv> ''completed''"
abbreviation statusFailed :: string where "statusFailed \<equiv> ''failed''"

abbreviation artifactKindConvertMD :: string where "artifactKindConvertMD \<equiv> ''convert_md''"
abbreviation artifactKindAnonymizeDoc :: string where "artifactKindAnonymizeDoc \<equiv> ''anonymize_doc''"
abbreviation artifactKindAnonymizeMap :: string where "artifactKindAnonymizeMap \<equiv> ''anonymize_entities''"

abbreviation requestStatusPending :: string where "requestStatusPending \<equiv> ''pending''"
abbreviation requestStatusRunning :: string where "requestStatusRunning \<equiv> ''running''"
abbreviation requestStatusCompleted :: string where "requestStatusCompleted \<equiv> ''completed''"
abbreviation requestStatusFailed :: string where "requestStatusFailed \<equiv> ''failed''"

text \<open>The error of a failed \<open>json.Unmarshal\<close>; its text is never looked at.\<close>

definition json_error :: go_error where
  "json_error = Other ''json: cannot unmarshal''"

definition internal_error :: "go_error \<Rightarrow> go_error" where
  "internal_error e = errs_New CodeInternalError ''internal server error'' (Some e)"

section \<open>Payloads\<close>

record resolve_keys_new_key =
  nk_KeyName :: string
  nk_SourceQuery :: string
  nk_DataType :: string

record extraction_schema_entry =
  se_KeyName :: string
  se_DataType :: string

record resolve_keys_payload =
  rk_NewKeys :: "resolve_keys_new_key list"
  rk_ResolvedSchema :: "extraction_schema_entry list"

definition dec_new_key :: "json \<Rightarrow> resolve_keys_new_key option" where
  "dec_new_key j = dec_struct (\<lambda>k v r.
     if same_name k ''key_name''
       then map_option (\<lambda>s. r\<lparr>nk_KeyName := s\<rparr>) (dec_string v (nk_KeyName r))
     else if same_name k ''source_query''
       then map_option (\<lambda>s. r\<lparr>nk_SourceQuery := s\<rparr>) (dec_string v (nk_SourceQuery r))
     else if same_name k ''data_type''
       then map_option (\<lambda>s. r\<lparr>nk_DataType := s\<rparr>) (dec_string v (nk_DataType r))
     else Some r) j \<lparr>nk_KeyName = [], nk_SourceQuery = [], nk_DataType = []\<rparr>"

definition dec_schema_entry :: "json \<Rightarrow> extraction_schema_entry option" where
  "dec_schema_entry j = dec_struct (\<lambda>k v r.
     if same_name k ''key_name''
       then map_option (\<lambda>s. r\<lparr>se_KeyName := s\<rparr>) (dec_string v (se_KeyName r))
     else if same_name k ''data_type''
       then map_option (\<lambda>s. r\<lparr>se_DataType := s\<rparr>) (dec_string v (se_DataType r))
     else Some r) j \<lparr>se_KeyName = [], se_DataType = []\<rparr>"

definition dec_resolve_keys_payload :: "json \<Rightarrow> resolve_keys_payload option" where
  "dec_resolve_keys_payload j = dec_struct (\<lambda>k v r.
     if same_name k ''new_keys''
       then map_option (\<lambda>x. r\<lparr>rk_NewKeys := x\<rparr>) (dec_slice dec_new_key v (rk_NewKeys r))
     else if same_name k ''resolved_schema''
       then map_option (\<lambda>x. r\<lparr>rk_ResolvedSchema := x\<rparr>)
              (dec_slice dec_schema_entry v (rk_ResolvedSchema r))
     else Some r) j \<lparr>rk_NewKeys = [], rk_ResolvedSchema = []\<rparr>"

definition enc_schema_entry :: "extraction_schema_entry \<Rightarrow> json" where
  "enc_schema_entry e = JObj [(''key_name'', JStr (se_KeyName e)), (''data_type'', JStr (se_DataType e))]"

definition enc_schema :: "extraction_schema_entry list \<Rightarrow> json" where
  "enc_schema es = JArr (map enc_schema_entry es)"

definition dec_schema :: "json \<Rightarrow> extraction_schema_entry list option" where
  "dec_schema j = dec_slice dec_schema_entry j []"

definition enc_existing_key :: "extraction_key \<Rightarrow> json" where
  "enc_existing_key k = JObj [(''key_name'', JStr (key_name k)),
     (''source_query'', JStr (key_source_query k)), (''data_type'', JStr (key_data_type k))]"

lemma dec_enc_schema_entry: "dec_schema_entry (enc_schema_entry e) = Some e"
  by (simp add: dec_schema_entry_def enc_schema_entry_def same_name_def ascii_lower_def)

lemma dec_enc_schema: "dec_schema (enc_schema es) = Some es"
  unfolding dec_schema_def enc_schema_def by (simp add: those_list_inv [where d = dec_schema_entry and e = enc_schema_entry, OF dec_enc_schema_entry] del: map_map)

section \<open>Requests and artifacts\<close>

definition findArtifact :: "document list \<Rightarrow> string \<Rightarrow> document option" where
  "findArtifact docs kind = find (\<lambda>x. doc_artifact_kind x = Some kind) docs"

definition MarkRequestFailed :: "env \<Rightarrow> uuid \<Rightarrow> string \<Rightarrow> (world, unit) state" where
  "MarkRequestFailed E requestID msg =
     ignoring (SetExtractionRequestStatus E requestID requestStatusFailed (Some msg))
       (State_Monad.return ())"

definition worker_update :: "uuid \<Rightarrow> string \<Rightarrow> string \<Rightarrow> worker_task_update" where
  "worker_update i status msg = \<lparr>wu_ID = i, wu_Status = status, wu_CeleryTaskID = None,
     wu_ResultPayload = None, wu_ErrorMessage = Some msg\<rparr>"

definition extraction_markTaskFailed :: "env \<Rightarrow> uuid \<Rightarrow> string \<Rightarrow> (world, unit) state" where
  "extraction_markTaskFailed E taskID msg =
     ignoring (UpdateWorkerTaskStatus E (worker_update taskID statusFailed msg))
       (State_Monad.return ())"

text \<open>The request that publishes a task.\<close>

definition task_request :: "env \<Rightarrow> document_task \<Rightarrow> string \<Rightarrow> string \<Rightarrow> (string \<times> json) list
    \<Rightarrow> process_request" where
  "task_request E task moduleName path kwargs = \<lparr>
     pr_TaskID = env_uuid_string E (task_id task),
     pr_DocumentID = env_uuid_string E (task_document_id task),
     pr_ModuleName = moduleName, pr_StoragePath = path, pr_Kwargs = kwargs\<rparr>"

section \<open>Enqueueing\<close>

definition enqueueResolveKeys :: "env \<Rightarrow> extraction_service \<Rightarrow> extraction_request \<Rightarrow> document
    \<Rightarrow> document \<Rightarrow> unit act" where
  "enqueueResolveKeys E s req doc target =
     call (ListExtractionKeysByOrg E (doc_organization_id doc)) (Wrapped ''list extraction keys'')
      (\<lambda>rawKeys.
       let existing = map enc_existing_key rawKeys in
       case dec_strings (req_questions req) of
         None \<Rightarrow> fail (Wrapped ''parse questions'' json_error)
       | Some questions \<Rightarrow> do {
           r \<leftarrow> CreateDocumentTaskForRequest E (req_document_id req) moduleResolveKeys
                  (doc_storage_path target) (Some (req_id req));
           case r of
             Inl err \<Rightarrow>
               (if is_no_rows err then ok () else fail (Wrapped ''create resolve_keys task'' err))
           | Inr task \<Rightarrow>
               ignoring
                 (if req_status req = requestStatusPending
                  then ignoring (SetExtractionRequestStatus E (req_id req) requestStatusRunning None)
                         (State_Monad.return ())
                  else State_Monad.return ())
                 (case es_python s of
                    None \<Rightarrow> ok ()
                  | Some process \<Rightarrow> do {
                      p \<leftarrow> process (task_request E task moduleResolveKeys (doc_storage_path target)
                             [(''raw_questions'', enc_strings questions),
                              (''existing_keys'', JArr existing)]);
                      case p of
                        Inl err \<Rightarrow>
                          ignoring (extraction_markTaskFailed E (task_id task)
                                      (error_text (env_error_text E) err))
                            (ignoring (MarkRequestFailed E (req_id req)
                                         ''failed to publish resolve_keys task'')
                              (fail (Wrapped ''publish resolve_keys'' err)))
                      | Inr _ \<Rightarrow> ok ()
                    })
         })"

definition enqueueExtract :: "env \<Rightarrow> extraction_service \<Rightarrow> extraction_request \<Rightarrow> document
    \<Rightarrow> extraction_schema_entry list \<Rightarrow> unit act" where
  "enqueueExtract E s req target schema = do {
     r \<leftarrow> CreateDocumentTaskForRequest E (req_document_id req) moduleExtract
            (doc_storage_path target) (Some (req_id req));
     case r of
       Inl err \<Rightarrow>
         (if is_no_rows err then ok () else fail (Wrapped ''create extract task'' err))
     | Inr task \<Rightarrow>
         (case es_python s of
            None \<Rightarrow> ok ()
          | Some process \<Rightarrow> do {
              p \<leftarrow> process (task_request E task moduleExtract (doc_storage_path target)
                     [(''extraction_schema'', enc_schema schema)]);
              case p of
                Inl err \<Rightarrow>
                  ignoring (extraction_markTaskFailed E (task_id task)
                              (error_text (env_error_text E) err))
                    (ignoring (MarkRequestFailed E (req_id req) ''failed to publish extract task'')
                      (fail (Wrapped ''publish extract'' err)))
              | Inr _ \<Rightarrow> ok ()
            })
   }"

definition ensureConvertTask :: "env \<Rightarrow> extraction_service \<Rightarrow> document \<Rightarrow> unit act" where
  "ensureConvertTask E s doc = do {
     r \<leftarrow> CreateDocumentTaskSingleton E (doc_id doc) moduleConvert (doc_storage_path doc);
     case r of
       Inl err \<Rightarrow>
         (if is_no_rows err then ok () else fail (Wrapped ''create convert task'' err))
     | Inr task \<Rightarrow>
         (case es_python s of
            None \<Rightarrow> ok ()
          | Some process \<Rightarrow> do {
              p \<leftarrow> process (task_request E task moduleConvert (doc_storage_path doc) []);
              case p of
                Inl err \<Rightarrow>
                  ignoring (extraction_markTaskFailed E (task_id task)
                              (error_text (env_error_text E) err))
                    (fail (Wrapped ''publish convert'' err))
              | Inr _ \<Rightarrow> ok ()
            })
   }"

definition ensureAnonymizeTask :: "env \<Rightarrow> extraction_service \<Rightarrow> document \<Rightarrow> document \<Rightarrow> unit act" where
  "ensureAnonymizeTask E s doc md = do {
     r \<leftarrow> CreateDocumentTaskSingleton E (doc_id doc) moduleAnonymize (doc_storage_path md);
     case r of
       Inl err \<Rightarrow>
         (if is_no_rows err then ok () else fail (Wrapped ''create anonymize task'' err))
     | Inr task \<Rightarrow>
         (case es_python s of
            None \<Rightarrow> ok ()
          | Some process \<Rightarrow> do {
              p \<leftarrow> process (task_request E task moduleAnonymize (doc_storage_path md) []);
              case p of
                Inl err \<Rightarrow>
                  ignoring (extraction_markTaskFailed E (task_id task)
                              (error_text (env_error_text E) err))
                    (fail (Wrapped ''publish anonymize'' err))
              | Inr _ \<Rightarrow> ok ()
            })
   }"

section \<open>Progress\<close>

text \<open>
  What to do next for a request with the given artifacts: the pure decision of \<open>Progress\<close>, then
  \<open>Progress\<close> itself.
\<close>

datatype next_step =
    EnqueueResolveKeys document
  | EnsureAnonymize document
  | EnsureConvert

definition target_kind :: "bool \<Rightarrow> string" where
  "target_kind anonymize = (if anonymize then artifactKindAnonymizeDoc else artifactKindConvertMD)"

definition target_artifact :: "bool \<Rightarrow> document list \<Rightarrow> document option" where
  "target_artifact anonymize artifacts =
     (let mdArtifact = findArtifact artifacts artifactKindConvertMD;
          anonArtifact = findArtifact artifacts artifactKindAnonymizeDoc
      in if anonymize then anonArtifact else mdArtifact)"

definition next_step_of :: "bool \<Rightarrow> document list \<Rightarrow> next_step" where
  "next_step_of anonymize artifacts =
     (case target_artifact anonymize artifacts of
        Some target \<Rightarrow> EnqueueResolveKeys target
      | None \<Rightarrow>
          (case (anonymize, findArtifact artifacts artifactKindConvertMD) of
             (True, Some md) \<Rightarrow> EnsureAnonymize md
           | _ \<Rightarrow> EnsureConvert))"

definition Progress :: "env \<Rightarrow> extraction_service \<Rightarrow> extraction_request \<Rightarrow> unit act" where
  "Progress E s req =
     (if req_status req = requestStatusCompleted \<or> req_status req = requestStatusFailed then ok ()
      else
        call (GetDocumentByID E (req_document_id req)) (Wrapped ''get document'') (\<lambda>doc.
        call (ListDocumentsByParent E (doc_id doc) (doc_organization_id doc))
             (Wrapped ''list artifacts'') (\<lambda>artifacts.
          case next_step_of (req_anonymize req) artifacts of
            EnqueueResolveKeys target \<Rightarrow> enqueueResolveKeys E s req doc target
          | EnsureAnonymize md \<Rightarrow> ensureAnonymizeTask E s doc md
          | EnsureConvert \<Rightarrow> ensureConvertTask E s doc)))"

section \<open>Initiate and the queries\<close>

definition Initiate :: "env \<Rightarrow> extraction_service \<Rightarrow> uuid \<Rightarrow> uuid \<Rightarrow> string list \<Rightarrow> bool
    \<Rightarrow> extraction_request act" where
  "Initiate E s documentID orgID questions anonymize =
     (if questions = [] then
        fail (errs_New CodeValidationFailed ''questions must not be empty'' None)
      else
        call (GetDocument E documentID orgID)
          (\<lambda>err. if is_no_rows err then errs_New CodeNotFound ''document not found'' (Some err)
                 else internal_error err)
          (\<lambda>_. call (CreateExtractionRequest E documentID orgID (enc_strings questions) anonymize)
            (\<lambda>err. errs_New CodeInternalError ''failed to create extraction request'' (Some err))
            (\<lambda>req. ignoring (Progress E s req) (ok req))))"

definition GetRequest :: "env \<Rightarrow> uuid \<Rightarrow> uuid \<Rightarrow> extraction_request act" where
  "GetRequest E i orgID =
     call (GetExtractionRequest E i orgID)
       (\<lambda>err. if is_no_rows err
              then errs_New CodeNotFound ''extraction request not found'' (Some err)
              else internal_error err)
       ok"

record extraction_answer =
  ans_KeyName :: string
  ans_DataType :: string
  ans_ExtractedValue :: "string option"

definition answer_of :: "extracted_row \<Rightarrow> extraction_answer" where
  "answer_of r = \<lparr>ans_KeyName = row_KeyName r, ans_DataType = row_DataType r,
     ans_ExtractedValue = row_ExtractedValue r\<rparr>"

definition GetAnswers :: "env \<Rightarrow> extraction_request \<Rightarrow> extraction_answer list act" where
  "GetAnswers E req =
     (case req_resolved_schema req of
        None \<Rightarrow> ok []
      | Some j \<Rightarrow>
          (case dec_schema j of
             None \<Rightarrow> fail (errs_New CodeInternalError ''parse resolved_schema'' (Some json_error))
           | Some schema \<Rightarrow>
               (if schema = [] then ok []
                else call (ListExtractedDataForKeys E (req_document_id req) (req_organization_id req)
                             (map se_KeyName schema))
                       (\<lambda>err. errs_New CodeInternalError ''list extracted data'' (Some err))
                       (\<lambda>rows. ok (map answer_of rows)))))"

section \<open>Callbacks of the request's tasks\<close>

definition upsert_new_key :: "env \<Rightarrow> uuid \<Rightarrow> resolve_keys_new_key \<Rightarrow> extraction_key act" where
  "upsert_new_key E orgID k =
     UpsertExtractionKey E (Some orgID) (nk_KeyName k) (nk_SourceQuery k) (nk_DataType k)"

definition OnResolveKeysCompleted :: "env \<Rightarrow> extraction_service \<Rightarrow> document_task \<Rightarrow> unit act" where
  "OnResolveKeysCompleted E s task =
     (case task_extraction_request_id task of
        None \<Rightarrow> fail (Other (''resolve_keys task '' @ env_uuid_string E (task_id task) @
                  '' has no extraction_request_id''))
      | Some requestID \<Rightarrow>
     (case dec_resolve_keys_payload (task_result_payload task) of
        None \<Rightarrow> fail (Wrapped ''parse resolve_keys payload'' json_error)
      | Some payload \<Rightarrow>
        if rk_ResolvedSchema payload = []
        then fail (Other ''resolved_schema is empty in resolve_keys result_payload'')
        else
          call (GetExtractionRequestByID E requestID) (Wrapped ''get extraction request'') (\<lambda>req.
          ignoring (for_each (upsert_new_key E (req_organization_id req)) (rk_NewKeys payload))
         (call (SetExtractionRequestResolvedSchema E requestID (enc_schema (rk_ResolvedSchema payload)))
               (Wrapped ''save resolved_schema'') (\<lambda>_.
          call (GetDocumentByID E (req_document_id req)) (Wrapped ''get document'') (\<lambda>doc.
          call (ListDocumentsByParent E (doc_id doc) (doc_organization_id doc))
               (Wrapped ''list artifacts'') (\<lambda>artifacts.
          case target_artifact (req_anonymize req) artifacts of
            None \<Rightarrow> fail (Other (''target artifact missing for extraction_request '' @
                      env_uuid_string E requestID))
          | Some target \<Rightarrow> enqueueExtract E s req target (rk_ResolvedSchema payload))))))))"

text \<open>
  The values to store: every key with a value whose name the tenant knows, in the order of the
  map's iteration (here that of the payload).
\<close>

definition keyIDByName :: "extraction_key list \<Rightarrow> string \<Rightarrow> uuid option" where
  "keyIDByName keys = map_of (rev (map (\<lambda>k. (key_name k, key_id k)) keys))"

definition known_values :: "extraction_key list \<Rightarrow> (string \<times> string option) list
    \<Rightarrow> (uuid \<times> string) list" where
  "known_values keys m = List.map_filter (\<lambda>(name, v).
     case v of None \<Rightarrow> None
     | Some s \<Rightarrow> (case keyIDByName keys name of None \<Rightarrow> None | Some i \<Rightarrow> Some (i, s))) m"

definition persistExtractedData :: "env \<Rightarrow> extraction_request \<Rightarrow> (string \<times> string option) list
    \<Rightarrow> unit act" where
  "persistExtractedData E req extractedData =
     call (GetExtractionKeysByNames E (map fst extractedData) (req_organization_id req))
       (Wrapped ''get keys by names'') (\<lambda>keys.
       let kvs = known_values keys extractedData in
       if kvs = [] then ok ()
       else BatchUpsertExtractedData E (req_organization_id req) (req_document_id req)
              (map fst kvs) (map snd kvs))"

definition OnExtractCompleted :: "env \<Rightarrow> document_task \<Rightarrow> unit act" where
  "OnExtractCompleted E task =
     (case task_extraction_request_id task of
        None \<Rightarrow> fail (Other (''extract task '' @ env_uuid_string E (task_id task) @
                  '' has no extraction_request_id''))
      | Some requestID \<Rightarrow>
     (case dec_string_map (task_result_payload task) of
        None \<Rightarrow> fail (Wrapped ''parse extract payload'' json_error)
      | Some extractedData \<Rightarrow>
          call (GetExtractionRequestByID E requestID) (Wrapped ''get extraction request'') (\<lambda>req.
          call (if extractedData \<noteq> [] then persistExtractedData E req extractedData else ok ())
               (Wrapped ''persist extracted data'') (\<lambda>_.
          call (SetExtractionRequestStatus E requestID requestStatusCompleted None)
               (Wrapped ''mark request completed'') (\<lambda>_. ok ())))))"

end
