(* ===== verification/Worker_Service.thy ===== *)
theory Worker_Service
  imports Extraction_Service
begin

text \<open>
  \<^verbatim>\<open>internal/service/service_worker.go\<close>: the callbacks of the Python worker. \<open>HandleStatusUpdate\<close>
  stores a status, registers the files a task produced as documents and starts what comes next.
  The service holds a publisher and the \<open>extractionPipeline\<close> interface as fields.
\<close>

record extraction_pipeline =
  pl_Progress :: "extraction_request \<Rightarrow> unit act"
  pl_OnResolveKeysCompleted :: "document_task \<Rightarrow> unit act"
  pl_OnExtractCompleted :: "document_task \<Rightarrow> unit act"
  pl_MarkRequestFailed :: "uuid \<Rightarrow> string \<Rightarrow> (world, unit) state"

record worker_service =
  ws_python :: python_client
  ws_pipeline :: extraction_pipeline

definition NewWorkerService :: "python_client option \<Rightarrow> extraction_pipeline option
    \<Rightarrow> go_error + worker_service" where
  "NewWorkerService pythonClient pipeline =
     (case pythonClient of
        None \<Rightarrow> Inl (Other ''WorkerService: pythonClient is required'')
      | Some p \<Rightarrow>
          (case pipeline of
             None \<Rightarrow> Inl (Other ''WorkerService: pipeline is required'')
           | Some l \<Rightarrow> Inr \<lparr>ws_python = p, ws_pipeline = l\<rparr>))"

text \<open>The wiring of \<^verbatim>\<open>server.NewServer\<close>: the extraction service is the pipeline.\<close>

definition pipeline_of :: "env \<Rightarrow> extraction_service \<Rightarrow> extraction_pipeline" where
  "pipeline_of E s = \<lparr>pl_Progress = Progress E s,
     pl_OnResolveKeysCompleted = OnResolveKeysCompleted E s,
     pl_OnExtractCompleted = OnExtractCompleted E,
     pl_MarkRequestFailed = MarkRequestFailed E\<rparr>"

definition server_extraction :: "env \<Rightarrow> extraction_service" where
  "server_extraction E = \<lparr>es_python = Some (Process E)\<rparr>"

definition server_worker :: "env \<Rightarrow> worker_service" where
  "server_worker E = \<lparr>ws_python = Process E, ws_pipeline = pipeline_of E (server_extraction E)\<rparr>"

lemma NewWorkerService_server:
  "NewWorkerService (Some (Process E)) (Some (pipeline_of E (server_extraction E))) = Inr (server_worker E)"
  by (simp add: NewWorkerService_def server_worker_def)

section \<open>Payloads\<close>

record convert_payload =
  cp_MDStoragePath :: string
  cp_CharCount :: int
  cp_SectionCount :: int

record anonymize_payload =
  ap_AnonymizedStoragePath :: string
  ap_EntitiesMapStoragePath :: string
  ap_EntityCount :: int

definition dec_convert_payload :: "json \<Rightarrow> convert_payload option" where
  "dec_convert_payload j = dec_struct (\<lambda>k v r.
     if same_name k ''md_storage_path''
       then map_option (\<lambda>x. r\<lparr>cp_MDStoragePath := x\<rparr>) (dec_string v (cp_MDStoragePath r))
     else if same_name k ''char_count''
       then map_option (\<lambda>x. r\<lparr>cp_CharCount := x\<rparr>) (dec_int v (cp_CharCount r))
     else if same_name k ''section_count''
       then map_option (\<lambda>x. r\<lparr>cp_SectionCount := x\<rparr>) (dec_int v (cp_SectionCount r))
     else Some r) j \<lparr>cp_MDStoragePath = [], cp_CharCount = 0, cp_SectionCount = 0\<rparr>"

definition dec_anonymize_payload :: "json \<Rightarrow> anonymize_payload option" where
  "dec_anonymize_payload j = dec_struct (\<lambda>k v r.
     if same_name k ''anonymized_storage_path''
       then map_option (\<lambda>x. r\<lparr>ap_AnonymizedStoragePath := x\<rparr>) (dec_string v (ap_AnonymizedStoragePath r))
     else if same_name k ''entities_map_storage_path''
       then map_option (\<lambda>x. r\<lparr>ap_EntitiesMapStoragePath := x\<rparr>) (dec_string v (ap_EntitiesMapStoragePath r))
     else if same_name k ''entity_count''
       then map_option (\<lambda>x. r\<lparr>ap_EntityCount := x\<rparr>) (dec_int v (ap_EntityCount r))
     else Some r) j \<lparr>ap_AnonymizedStoragePath = [], ap_EntitiesMapStoragePath = [], ap_EntityCount = 0\<rparr>"

definition convertResultFinal :: "env \<Rightarrow> document \<Rightarrow> convert_payload \<Rightarrow> json" where
  "convertResultFinal E artifact p = JObj
     [(''md_document_id'', JStr (env_uuid_string E (doc_id artifact))),
      (''char_count'', JInt (cp_CharCount p)), (''section_count'', JInt (cp_SectionCount p))]"

definition anonymizeResultFinal :: "string \<Rightarrow> string \<Rightarrow> int \<Rightarrow> json" where
  "anonymizeResultFinal anonDocID entitiesDocID count = JObj
     [(''anonymized_document_id'', JStr anonDocID),
      (''entities_map_document_id'', JStr entitiesDocID), (''entity_count'', JInt count)]"

section \<open>File names\<close>

text \<open>\<open>path.Base\<close>: the last element of a slash-separated path.\<close>

definition path_Base :: "string \<Rightarrow> string" where
  "path_Base p =
     (if p = [] then ''.''
      else let q = rev (dropWhile (\<lambda>c. c = CHR ''/'') (rev p)) in
           if q = [] then ''/'' else rev (takeWhile (\<lambda>c. c \<noteq> CHR ''/'') (rev q)))"

definition fileNameFromPath :: "string \<Rightarrow> string" where
  "fileNameFromPath p = (if p = [] then [] else path_Base p)"

lemma fileNameFromPath_no_slash:
  "fileNameFromPath p \<noteq> ''/'' \<Longrightarrow> CHR ''/'' \<notin> set (fileNameFromPath p)"
  by (auto simp: fileNameFromPath_def path_Base_def Let_def dest: set_takeWhileD split: if_splits)

lemma fileNameFromPath_plain:
  "CHR ''/'' \<notin> set f \<Longrightarrow> f \<noteq> [] \<Longrightarrow> fileNameFromPath (d @ ''/'' @ f) = f"
proof -
  assume f: "CHR ''/'' \<notin> set f" "f \<noteq> []"
  then have "dropWhile (\<lambda>c. c = CHR ''/'') (rev (d @ ''/'' @ f)) = rev (d @ ''/'' @ f)"
    by (cases "rev f") auto
  moreover have "takeWhile (\<lambda>c. c \<noteq> CHR ''/'') (rev f @ [CHR ''/''] @ rev d) = rev f"
    using f(1) by (subst takeWhile_append2) (auto simp del: append_Cons simp: takeWhile.simps)
  ultimately show ?thesis using f by (simp add: fileNameFromPath_def path_Base_def Let_def)
qed

section \<open>Registering artifacts\<close>

definition worker_markTaskFailed :: "env \<Rightarrow> uuid \<Rightarrow> string \<Rightarrow> unit act" where
  "worker_markTaskFailed E taskID msg =
     call (UpdateWorkerTaskStatus E (worker_update taskID statusFailed msg)) id (\<lambda>_. ok ())"

definition artifact_params :: "document \<Rightarrow> string \<Rightarrow> string \<Rightarrow> string \<Rightarrow> string
    \<Rightarrow> create_document_params" where
  "artifact_params parent storagePath fileName mimeType kind = \<lparr>
     cd_OrganizationID = doc_organization_id parent,
     cd_SiteID = doc_site_id parent,
     cd_UploadedBy = doc_uploaded_by parent,
     cd_ParentID = Some (doc_id parent),
     cd_FileName = fileName,
     cd_StoragePath = storagePath,
     cd_MimeType = (if mimeType = [] then None else Some mimeType),
     cd_FileSizeBytes = None,
     cd_ArtifactKind = Some kind\<rparr>"

definition registerArtifact :: "env \<Rightarrow> document \<Rightarrow> string \<Rightarrow> string \<Rightarrow> string \<Rightarrow> string
    \<Rightarrow> document act" where
  "registerArtifact E parent storagePath fileName mimeType kind =
     CreateArtifactDocument E (artifact_params parent storagePath fileName mimeType kind)"

definition registerConvertArtifacts :: "env \<Rightarrow> document_task \<Rightarrow> unit act" where
  "registerConvertArtifacts E task =
     (case dec_convert_payload (task_result_payload task) of
        None \<Rightarrow> fail (Wrapped ''parse convert payload'' json_error)
      | Some payload \<Rightarrow>
          if cp_MDStoragePath payload = [] then ok ()
          else
            call (GetDocumentByID E (task_document_id task)) (Wrapped ''get parent document'') (\<lambda>parent.
            call (registerArtifact E parent (cp_MDStoragePath payload)
                    (fileNameFromPath (cp_MDStoragePath payload)) ''text/markdown'' artifactKindConvertMD)
                 (Wrapped ''create convert artifact document'') (\<lambda>artifact.
            call (UpdateTaskResultPayload E (task_id task) (convertResultFinal E artifact payload))
                 id (\<lambda>_. ok ()))))"

text \<open>A file that is present becomes a document; the identifier's text is empty otherwise.\<close>

definition register_optional :: "env \<Rightarrow> document \<Rightarrow> string \<Rightarrow> string \<Rightarrow> string \<Rightarrow> string
    \<Rightarrow> string act" where
  "register_optional E parent storagePath mimeType kind what =
     (if storagePath = [] then ok []
      else call (registerArtifact E parent storagePath (fileNameFromPath storagePath) mimeType kind)
             (Wrapped what) (\<lambda>doc. ok (env_uuid_string E (doc_id doc))))"

definition registerAnonymizeArtifacts :: "env \<Rightarrow> document_task \<Rightarrow> unit act" where
  "registerAnonymizeArtifacts E task =
     (case dec_anonymize_payload (task_result_payload task) of
        None \<Rightarrow> fail (Wrapped ''parse anonymize payload'' json_error)
      | Some payload \<Rightarrow>
          call (GetDocumentByID E (task_document_id task)) (Wrapped ''get parent document'') (\<lambda>parent.
          call (register_optional E parent (ap_AnonymizedStoragePath payload) ''text/markdown''
                  artifactKindAnonymizeDoc ''create anonymized artifact'') id (\<lambda>anonDocID.
          call (register_optional E parent (ap_EntitiesMapStoragePath payload) ''application/json''
                  artifactKindAnonymizeMap ''create entities map artifact'') id (\<lambda>entitiesDocID.
            if anonDocID = [] \<and> entitiesDocID = [] then ok ()
            else call (UpdateTaskResultPayload E (task_id task)
                   (anonymizeResultFinal anonDocID entitiesDocID (ap_EntityCount payload)))
                   id (\<lambda>_. ok ())))))"

section \<open>The chain\<close>

definition triggerAnonymize :: "env \<Rightarrow> worker_service \<Rightarrow> document_task \<Rightarrow> unit act" where
  "triggerAnonymize E s convertTask =
     (case dec_convert_payload (task_result_payload convertTask) of
        None \<Rightarrow> fail (Wrapped ''parse convert payload'' json_error)
      | Some payload \<Rightarrow>
          if cp_MDStoragePath payload = []
          then fail (Other ''md_storage_path is empty in convert result_payload'')
          else do {
            r \<leftarrow> CreateDocumentTaskSingleton E (task_document_id convertTask) moduleAnonymize
                   (cp_MDStoragePath payload);
            case r of
              Inl err \<Rightarrow>
                (if is_no_rows err then ok () else fail (Wrapped ''create anonymize task'' err))
            | Inr anonTask \<Rightarrow> do {
                p \<leftarrow> ws_python s (task_request E anonTask moduleAnonymize (cp_MDStoragePath payload) []);
                case p of
                  Inl err \<Rightarrow>
                    ignoring (worker_markTaskFailed E (task_id anonTask)
                                (error_text (env_error_text E) err))
                      (fail (Wrapped ''trigger anonymize'' err))
                | Inr _ \<Rightarrow> ok ()
              }
          })"

definition progressPendingRequests :: "env \<Rightarrow> worker_service \<Rightarrow> uuid \<Rightarrow> (world, unit) state" where
  "progressPendingRequests E s documentID = do {
     r \<leftarrow> ListPendingExtractionRequestsByDocument E documentID;
     case r of
       Inl _ \<Rightarrow> State_Monad.return ()
     | Inr requests \<Rightarrow> for_each (pl_Progress (ws_pipeline s)) requests
   }"

definition failPendingRequests :: "env \<Rightarrow> worker_service \<Rightarrow> uuid \<Rightarrow> string \<Rightarrow> (world, unit) state" where
  "failPendingRequests E s documentID reason = do {
     r \<leftarrow> ListPendingExtractionRequestsByDocument E documentID;
     case r of
       Inl _ \<Rightarrow> State_Monad.return ()
     | Inr requests \<Rightarrow>
         for_each (\<lambda>req. pl_MarkRequestFailed (ws_pipeline s) (req_id req) reason) requests
   }"

record worker_status_update =
  up_Status :: string
  up_CeleryTaskID :: "string option"
  up_ResultPayload :: "json option"
  up_ErrorMessage :: "string option"

text \<open>The reactions to a stored update, one per block of \<open>HandleStatusUpdate\<close>.\<close>

definition after_convert :: "env \<Rightarrow> worker_service \<Rightarrow> document_task \<Rightarrow> (world, unit) state" where
  "after_convert E s task =
     (if task_module_name task = moduleConvert \<and> task_status task = statusCompleted
      then ignoring (registerConvertArtifacts E task)
             (ignoring (triggerAnonymize E s task)
               (progressPendingRequests E s (task_document_id task)))
      else State_Monad.return ())"

definition after_anonymize :: "env \<Rightarrow> worker_service \<Rightarrow> document_task \<Rightarrow> (world, unit) state" where
  "after_anonymize E s task =
     (if task_module_name task = moduleAnonymize \<and> task_status task = statusCompleted
      then ignoring (registerAnonymizeArtifacts E task)
             (progressPendingRequests E s (task_document_id task))
      else State_Monad.return ())"

definition fail_request_of :: "worker_service \<Rightarrow> document_task \<Rightarrow> string \<Rightarrow> (world, unit) state" where
  "fail_request_of s task msg =
     (case task_extraction_request_id task of
        None \<Rightarrow> State_Monad.return ()
      | Some r \<Rightarrow> pl_MarkRequestFailed (ws_pipeline s) r msg)"

definition after_resolve_keys :: "worker_service \<Rightarrow> document_task \<Rightarrow> (world, unit) state" where
  "after_resolve_keys s task =
     (if task_module_name task = moduleResolveKeys \<and> task_status task = statusCompleted
      then do {
        r \<leftarrow> pl_OnResolveKeysCompleted (ws_pipeline s) task;
        case r of
          Inl _ \<Rightarrow> fail_request_of s task ''pipeline error after resolve_keys''
        | Inr _ \<Rightarrow> State_Monad.return ()
      }
      else State_Monad.return ())"

definition after_extract :: "worker_service \<Rightarrow> document_task \<Rightarrow> (world, unit) state" where
  "after_extract s task =
     (if task_module_name task = moduleExtract \<and> task_status task = statusCompleted
      then do {
        r \<leftarrow> pl_OnExtractCompleted (ws_pipeline s) task;
        case r of
          Inl _ \<Rightarrow> fail_request_of s task ''pipeline error after extract''
        | Inr _ \<Rightarrow> State_Monad.return ()
      }
      else State_Monad.return ())"

definition after_request_task_failed :: "worker_service \<Rightarrow> document_task \<Rightarrow> (world, unit) state" where
  "after_request_task_failed s task =
     (if task_status task = statusFailed \<and>
         (task_module_name task = moduleResolveKeys \<or> task_module_name task = moduleExtract)
      then fail_request_of s task
             (case task_error_message task of None \<Rightarrow> ''task failed'' | Some m \<Rightarrow> m)
      else State_Monad.return ())"

definition after_prerequisite_failed :: "env \<Rightarrow> worker_service \<Rightarrow> document_task
    \<Rightarrow> (world, unit) state" where
  "after_prerequisite_failed E s task =
     (if task_status task = statusFailed \<and>
         (task_module_name task = moduleConvert \<or> task_module_name task = moduleAnonymize)
      then failPendingRequests E s (task_document_id task) (task_module_name task @ '' task failed'')
      else State_Monad.return ())"

definition HandleStatusUpdate :: "env \<Rightarrow> worker_service \<Rightarrow> uuid \<Rightarrow> worker_status_update
    \<Rightarrow> document_task act" where
  "HandleStatusUpdate E s taskID upd =
     call (UpdateWorkerTaskStatus E \<lparr>wu_ID = taskID, wu_Status = up_Status upd,
             wu_CeleryTaskID = up_CeleryTaskID upd, wu_ResultPayload = up_ResultPayload upd,
             wu_ErrorMessage = up_ErrorMessage upd\<rparr>)
       (\<lambda>err. if is_no_rows err then errs_New CodeNotFound ''task not found'' (Some err)
              else errs_New CodeInternalError ''failed to update task'' (Some err))
       (\<lambda>task.
         ignoring (after_convert E s task)
        (ignoring (after_anonymize E s task)
        (ignoring (after_resolve_keys s task)
        (ignoring (after_extract s task)
        (ignoring (after_request_task_failed s task)
        (ignoring (after_prerequisite_failed E s task)
          (ok task)))))))"

end
