(* ===== verification/Evolution.thy ===== *)
theory Evolution
  imports Integrity Worker_Service
begin

text \<open>
  What the processing pipeline may do to the database. It adds rows and changes the mutable
  columns of rows that are there, but it never removes a document, a task, a request, a key or a
  value, and never changes the identity of one: the relation \<open>evolves\<close>. Together with the
  integrity of the database this is the contract of the querier that the services rely on.
\<close>

section \<open>Growing tables\<close>

definition grows :: "('r \<Rightarrow> 'r \<Rightarrow> bool) \<Rightarrow> 'r list \<Rightarrow> 'r list \<Rightarrow> bool" where
  "grows sim rs rs' \<longleftrightarrow> (\<forall>x \<in> set rs. \<exists>y \<in> set rs'. sim x y)"

lemma grows_refl: "(\<And>x. sim x x) \<Longrightarrow> grows sim rs rs"
  by (auto simp: grows_def)

lemma grows_trans: "(\<And>x y z. sim x y \<Longrightarrow> sim y z \<Longrightarrow> sim x z) \<Longrightarrow> grows sim as bs \<Longrightarrow> grows sim bs cs \<Longrightarrow> grows sim as cs"
  unfolding grows_def by meson

lemma grows_snoc: "(\<And>x. sim x x) \<Longrightarrow> grows sim rs (rs @ [r])"
  by (auto simp: grows_def)

lemma grows_put:
  assumes "\<And>x. sim x x" and "distinct (map k rs)" and "x \<in> set rs" and "sim x y" and "k y = k x"
  shows "grows sim rs (put_row k y rs)"
  unfolding grows_def
proof
  fix z assume z: "z \<in> set rs"
  show "\<exists>z' \<in> set (put_row k y rs). sim z z'"
  proof (cases "k z = k y")
    case True
    then have "z = x" using distinct_key_inj [OF assms(2) z assms(3)] assms(5) by simp
    then show ?thesis using assms put_row_mem [of x rs k y] by metis
  next
    case False
    then show ?thesis using z assms(1) put_row_other by metis
  qed
qed

definition same_key :: "extraction_key \<Rightarrow> extraction_key \<Rightarrow> bool" where
  "same_key x y \<longleftrightarrow> key_owner y = key_owner x \<and> key_name y = key_name x"

definition same_datum :: "extracted_datum \<Rightarrow> extracted_datum \<Rightarrow> bool" where
  "same_datum x y \<longleftrightarrow> dat_id y = dat_id x \<and> datum_key y = datum_key x"

lemma same_refl [simp]: "same_task t t" "same_document x x" "same_request r r" "same_key k k" "same_datum y y"
  by (simp_all add: same_task_def same_document_def same_request_def same_key_def same_datum_def)

lemma same_trans:
  "same_task t u \<Longrightarrow> same_task u v \<Longrightarrow> same_task t v"
  "same_document x y \<Longrightarrow> same_document y z \<Longrightarrow> same_document x z"
  "same_request a b \<Longrightarrow> same_request b c \<Longrightarrow> same_request a c"
  "same_key i j \<Longrightarrow> same_key j k \<Longrightarrow> same_key i k"
  "same_datum l m \<Longrightarrow> same_datum m n \<Longrightarrow> same_datum l n"
  by (simp_all add: same_task_def same_document_def same_request_def same_key_def same_datum_def)

definition evolves :: "db \<Rightarrow> db \<Rightarrow> bool" where
  "evolves d d' \<longleftrightarrow> organizations d' = organizations d \<and> users d' = users d \<and>
     grows same_document (documents d) (documents d') \<and>
     grows same_task (document_tasks d) (document_tasks d') \<and>
     grows same_request (extraction_requests d) (extraction_requests d') \<and>
     grows same_key (extraction_keys d) (extraction_keys d') \<and>
     grows same_datum (document_extracted_data d) (document_extracted_data d')"

lemma evolves_refl [simp]: "evolves d d"
  by (simp add: evolves_def grows_refl)

lemma evolves_trans: "evolves d d' \<Longrightarrow> evolves d' d'' \<Longrightarrow> evolves d d''"
  unfolding evolves_def by (elim conjE, intro conjI; (erule (1) grows_trans [rotated])?)
    (auto intro: same_trans)

lemma evolves_propagate [simp]: "evolves d (propagate_site_activity v t d') = evolves d d'"
  by (simp add: evolves_def)

text \<open>The contract: a sound database stays sound and evolves.\<close>

definition sound :: "db \<Rightarrow> db \<Rightarrow> bool" where
  "sound d d' \<longleftrightarrow> (db_ok d \<longrightarrow> db_ok d' \<and> evolves d d')"

lemma sound_refl [simp]: "sound d d"
  by (simp add: sound_def)

lemma sound_trans: "sound d d' \<Longrightarrow> sound d' d'' \<Longrightarrow> sound d d''"
  unfolding sound_def by (blast intro: evolves_trans)

lemma soundI: "(db_ok d \<Longrightarrow> db_ok d') \<Longrightarrow> (db_ok d \<Longrightarrow> evolves d d') \<Longrightarrow> sound d d'"
  by (simp add: sound_def)

text \<open>Each kind of write evolves the database.\<close>

lemma db_ok_distinct:
  assumes "db_ok d"
  shows "distinct (map task_id (document_tasks d))" "distinct (map doc_id (documents d))"
    "distinct (map req_id (extraction_requests d))" "distinct (map key_id (extraction_keys d))"
    "distinct (map dat_id (document_extracted_data d))"
  using assms by (simp_all add: db_ok_def tables_ok_defs table_ok_def)

lemma evolves_put_task: "db_ok d \<Longrightarrow> x \<in> set (document_tasks d) \<Longrightarrow> same_task x y \<Longrightarrow>
    evolves d (d\<lparr>document_tasks := put_row task_id y (document_tasks d)\<rparr>)"
  by (auto simp: evolves_def grows_refl same_task_def intro!: grows_put dest: db_ok_distinct)

lemma evolves_put_document: "db_ok d \<Longrightarrow> x \<in> set (documents d) \<Longrightarrow> same_document x y \<Longrightarrow>
    evolves d (d\<lparr>documents := put_row doc_id y (documents d)\<rparr>)"
  by (auto simp: evolves_def grows_refl same_document_def intro!: grows_put dest: db_ok_distinct)

lemma evolves_put_request: "db_ok d \<Longrightarrow> x \<in> set (extraction_requests d) \<Longrightarrow> same_request x y \<Longrightarrow>
    evolves d (d\<lparr>extraction_requests := put_row req_id y (extraction_requests d)\<rparr>)"
  by (auto simp: evolves_def grows_refl same_request_def intro!: grows_put dest: db_ok_distinct)

lemma evolves_snoc_request: "evolves d (d\<lparr>extraction_requests := extraction_requests d @ [r]\<rparr>)"
  by (simp add: evolves_def grows_refl grows_snoc)

lemma evolves_snoc_key: "evolves d (d\<lparr>extraction_keys := extraction_keys d @ [k]\<rparr>)"
  by (simp add: evolves_def grows_refl grows_snoc)

lemma evolves_put_key: "db_ok d \<Longrightarrow> x \<in> set (extraction_keys d) \<Longrightarrow> same_key x y \<Longrightarrow>
    evolves d (d\<lparr>extraction_keys := put_row key_id y (extraction_keys d)\<rparr>)"
  by (auto simp: evolves_def grows_refl same_key_def key_owner_def intro!: grows_put dest: db_ok_distinct)

lemma evolves_insert_task: "evolves d (snd (insert_task t d))"
  by (auto simp: insert_task_def evolves_def grows_refl grows_snoc split: option.split)

lemma evolves_update_task:
  "db_ok d \<Longrightarrow> (\<And>x. same_task x (f x)) \<Longrightarrow> evolves d (snd (update_task p f d))"
  by (auto simp: update_task_def intro!: evolves_put_task dest: find_Some_iff_mem split: option.split)

lemma evolves_insert_document: "evolves d (snd (insert_document x t d))"
  by (auto simp: insert_document_def evolves_def grows_refl grows_snoc split: option.split)

lemma evolves_update_document:
  "db_ok d \<Longrightarrow> (\<And>x. same_document x (f x)) \<Longrightarrow> evolves d (snd (update_document p f d))"
  by (auto simp: update_document_def intro!: evolves_put_document dest: find_Some_iff_mem split: option.split)

lemma evolves_update_request:
  "db_ok d \<Longrightarrow> (\<And>x. same_request x (f x)) \<Longrightarrow> evolves d (snd (update_request i f d))"
  by (auto simp: update_request_def intro!: evolves_put_request dest: find_Some_iff_mem split: option.split)

lemma evolves_upsert_datum: "db_ok d \<Longrightarrow> upsert_datum x d = Inr d' \<Longrightarrow> evolves d d'"
  by (auto simp: upsert_datum_def evolves_def grows_refl grows_snoc same_datum_def datum_key_def
      intro!: grows_put dest: db_ok_distinct find_Some_iff_mem split: option.splits if_splits)

lemma evolves_upsert_data: "db_ok d \<Longrightarrow> upsert_data xs d = Inr d' \<Longrightarrow> evolves d d'"
  by (induction xs d rule: upsert_data.induct)
     (auto split: sum.splits dest: upsert_datum_ok evolves_upsert_datum intro: evolves_trans)

section \<open>The statements of the pipeline\<close>

named_theorems sound_stmt
  \<comment> \<open>the statements the services issue are sound\<close>

lemma sound_CreateDocumentTask [sound_stmt]: "sound d (snd (stmt_CreateDocumentTask a b c g t d))"
  by (rule soundI, erule stmt_CreateDocumentTask_ok)
     (auto simp: stmt_CreateDocumentTask_def evolves_insert_task split: option.split)

lemma evolves_insert_task_or_nothing: "evolves d (snd (insert_task_or_nothing key t d))"
  by (auto simp: insert_task_or_nothing_def evolves_insert_task split: option.split)

lemma sound_CreateDocumentTaskSingleton [sound_stmt]:
  "sound d (snd (stmt_CreateDocumentTaskSingleton a b c g t d))"
  by (rule soundI, erule stmt_CreateDocumentTaskSingleton_ok)
     (simp add: stmt_CreateDocumentTaskSingleton_def evolves_insert_task_or_nothing)

lemma sound_CreateDocumentTaskForRequest [sound_stmt]:
  "sound d (snd (stmt_CreateDocumentTaskForRequest a b c r g t d))"
  by (rule soundI, erule stmt_CreateDocumentTaskForRequest_ok)
     (simp add: stmt_CreateDocumentTaskForRequest_def evolves_insert_task_or_nothing)

lemma sound_UpdateDocumentTaskStatus [sound_stmt]:
  "sound d (snd (stmt_UpdateDocumentTaskStatus a b c g t d))"
  by (rule soundI, erule stmt_UpdateDocumentTaskStatus_ok)
     (auto simp: stmt_UpdateDocumentTaskStatus_def same_task_def intro!: evolves_update_task)

lemma sound_UpdateWorkerTaskStatus [sound_stmt]: "sound d (snd (stmt_UpdateWorkerTaskStatus p g t d))"
  by (rule soundI, erule stmt_UpdateWorkerTaskStatus_ok)
     (auto simp: stmt_UpdateWorkerTaskStatus_def same_task_def apply_worker_update_def intro!: evolves_update_task)

lemma sound_UpdateTaskResultPayload [sound_stmt]: "sound d (snd (stmt_UpdateTaskResultPayload i j g t d))"
  by (rule soundI, erule stmt_UpdateTaskResultPayload_ok)
     (auto simp: stmt_UpdateTaskResultPayload_def same_task_def intro!: evolves_update_task)

lemma sound_MarkStaleTaskPending [sound_stmt]: "sound d (snd (stmt_MarkStaleTaskPending i c g t d))"
  by (rule soundI, erule stmt_MarkStaleTaskPending_ok)
     (auto simp: stmt_MarkStaleTaskPending_def same_task_def claim_def intro!: evolves_put_task
       dest: find_Some_iff_mem split: option.split)

lemma sound_MarkStaleTaskFailed [sound_stmt]: "sound d (snd (stmt_MarkStaleTaskFailed i c m g t d))"
  by (rule soundI, erule stmt_MarkStaleTaskFailed_ok)
     (auto simp: stmt_MarkStaleTaskFailed_def same_task_def intro!: evolves_put_task
       dest: find_Some_iff_mem split: option.split)

lemma sound_CreateArtifactDocument [sound_stmt]: "sound d (snd (stmt_CreateArtifactDocument p g t d))"
  by (rule soundI, erule stmt_CreateArtifactDocument_ok)
     (auto simp: stmt_CreateArtifactDocument_def Let_def evolves_insert_document same_document_def
       refresh_artifact_def intro!: evolves_update_document split: option.split)

lemma sound_CreateDocument [sound_stmt]: "sound d (snd (stmt_CreateDocument p g t d))"
  by (rule soundI, erule stmt_CreateDocument_ok) (simp add: stmt_CreateDocument_def evolves_insert_document)

lemma sound_CreateExtractionRequest [sound_stmt]:
  "sound d (snd (stmt_CreateExtractionRequest a b c e g t d))"
  by (rule soundI, erule stmt_CreateExtractionRequest_ok)
     (simp add: stmt_CreateExtractionRequest_def Let_def evolves_snoc_request split: option.split)

lemma sound_SetExtractionRequestStatus [sound_stmt]:
  "sound d (snd (stmt_SetExtractionRequestStatus i s m g t d))"
proof (rule soundI, erule stmt_SetExtractionRequestStatus_ok)
  assume "db_ok d"
  then have "evolves d (snd (update_request i
      (\<lambda>r. r\<lparr>req_status := s, req_error_message := m, req_updated_at := t\<rparr>) d))"
    by (intro evolves_update_request) (simp_all add: same_request_def)
  then show "evolves d (snd (stmt_SetExtractionRequestStatus i s m g t d))"
    by (auto simp: stmt_SetExtractionRequestStatus_def split: prod.splits sum.splits)
qed

lemma sound_SetExtractionRequestResolvedSchema [sound_stmt]:
  "sound d (snd (stmt_SetExtractionRequestResolvedSchema i j g t d))"
  by (rule soundI, erule stmt_SetExtractionRequestResolvedSchema_ok)
     (auto simp: stmt_SetExtractionRequestResolvedSchema_def same_request_def intro!: evolves_update_request)

lemma sound_UpsertExtractionKey [sound_stmt]: "sound d (snd (stmt_UpsertExtractionKey org n q ty g t d))"
proof (rule soundI, erule stmt_UpsertExtractionKey_ok)
  assume ok: "db_ok d"
  show "evolves d (snd (stmt_UpsertExtractionKey org n q ty g t d))"
  proof (cases "find (\<lambda>k. key_org_name k = (org, n)) (extraction_keys d)")
    case (Some k)
    then have "evolves d (d\<lparr>extraction_keys :=
        put_row key_id (k\<lparr>key_source_query := q, key_data_type := ty\<rparr>) (extraction_keys d)\<rparr>)"
      by (intro evolves_put_key [OF ok, of k]) (auto simp: same_key_def key_owner_def dest: find_Some_iff_mem)
    then show ?thesis using Some by (simp add: stmt_UpsertExtractionKey_def Let_def)
  qed (auto simp: stmt_UpsertExtractionKey_def Let_def evolves_snoc_key split: option.split)
qed

lemma sound_BatchUpsertExtractedData [sound_stmt]:
  "sound d (snd (stmt_BatchUpsertExtractedData a b ks vs g t d))"
  by (rule soundI, erule stmt_BatchUpsertExtractedData_ok)
     (auto simp: stmt_BatchUpsertExtractedData_def dest: evolves_upsert_data split: sum.split)

end
