(* ===== verification/Watchdog.thy ===== *)
theory Watchdog
  imports Worker_Service
begin

text \<open>
  \<^verbatim>\<open>internal/watchdog/watchdog.go\<close>: a scan takes the stale tasks, fails those whose retries are
  used up and publishes the others again. The publisher is the interface-valued argument of the
  code; the loop of \<open>Start\<close> is the repetition of \<open>runOnce\<close> until the context is cancelled.
\<close>

record watchdog_config =
  WatchdogThreshold :: int
  WatchdogMaxRetries :: int
  WatchdogBatchSize :: int

definition maxPublishAttempts :: nat where
  "maxPublishAttempts = 3"

definition stale_request :: "env \<Rightarrow> stale_row \<Rightarrow> process_request" where
  "stale_request E task = \<lparr>
     pr_TaskID = env_uuid_string E (st_ID task),
     pr_DocumentID = env_uuid_string E (st_DocumentID task),
     pr_ModuleName = st_ModuleName task,
     pr_StoragePath = st_InputStoragePath task,
     pr_Kwargs = []\<rparr>"

text \<open>
  The attempts to publish, \<open>left\<close> of them still to make: before each the context is looked at; after
  a failure that is not the last the context may be cancelled during the delay.
\<close>

fun publish_attempts :: "env \<Rightarrow> python_client \<Rightarrow> process_request \<Rightarrow> nat \<Rightarrow> (world, unit) state" where
  "publish_attempts E pub req 0 = State_Monad.return ()"
| "publish_attempts E pub req (Suc left) = do {
     stop \<leftarrow> ctx_canceled E;
     if stop then State_Monad.return ()
     else do {
       r \<leftarrow> pub req;
       case r of
         Inr _ \<Rightarrow> State_Monad.return ()
       | Inl _ \<Rightarrow>
           (if left = 0 then State_Monad.return ()
            else do {
              stop' \<leftarrow> ctx_canceled E;
              if stop' then State_Monad.return () else publish_attempts E pub req left
            })
     }
   }"

definition retries_exhausted_msg :: "int \<Rightarrow> int \<Rightarrow> string" where
  "retries_exhausted_msg n m =
     ''stale task: exceeded max retry attempts ('' @ int_text n @ ''/'' @ int_text m @ '')''"

definition processTask :: "env \<Rightarrow> python_client \<Rightarrow> watchdog_config \<Rightarrow> int \<Rightarrow> stale_row
    \<Rightarrow> (world, unit) state" where
  "processTask E pub cfg cutoff task =
     (if WatchdogMaxRetries cfg \<le> st_RetryCount task then
        ignoring (MarkStaleTaskFailed E (st_ID task) cutoff
                    (retries_exhausted_msg (st_RetryCount task) (WatchdogMaxRetries cfg)))
          (State_Monad.return ())
      else do {
        r \<leftarrow> MarkStaleTaskPending E (st_ID task) cutoff;
        case r of
          Inl _ \<Rightarrow> State_Monad.return ()
        | Inr rows \<Rightarrow>
            (if rows = 0 then State_Monad.return ()
             else publish_attempts E pub (stale_request E task) maxPublishAttempts)
      })"

text \<open>One scan at the wall-clock time \<open>now\<close>.\<close>

definition runOnce :: "env \<Rightarrow> python_client \<Rightarrow> watchdog_config \<Rightarrow> int \<Rightarrow> (world, unit) state" where
  "runOnce E pub cfg now = do {
     r \<leftarrow> ListStaleTasks E (now - WatchdogThreshold cfg) (go_int32 (WatchdogBatchSize cfg));
     case r of
       Inl _ \<Rightarrow> State_Monad.return ()
     | Inr tasks \<Rightarrow> for_each (processTask E pub cfg (now - WatchdogThreshold cfg)) tasks
   }"

text \<open>\<open>Start\<close>: a scan at once, then one per tick that arrives before the context is cancelled.\<close>

fun watchdog_Start :: "env \<Rightarrow> python_client \<Rightarrow> watchdog_config \<Rightarrow> int \<Rightarrow> int list
    \<Rightarrow> (world, unit) state" where
  "watchdog_Start E pub cfg now [] = runOnce E pub cfg now"
| "watchdog_Start E pub cfg now (t # ts) =
     ignoring (runOnce E pub cfg now) (watchdog_Start E pub cfg t ts)"

end
