(* ===== verification/Contracts.thy ===== *)
theory Contracts
  imports Evolution Watchdog
begin

text \<open>
  The interfaces between the services and what they rely on, as locales: the querier (a relation
  between worlds that every statement of the pipeline respects), the publisher of tasks, and the
  \<open>extractionPipeline\<close> that \<^verbatim>\<open>WorkerService\<close> calls. What the services may change is proved once,
  from these interfaces; the interpretations on the model's database and Redis publisher follow.
\<close>

section \<open>The querier\<close>

definition keeps :: "(world \<Rightarrow> world \<Rightarrow> bool) \<Rightarrow> 'a stmt \<Rightarrow> bool" where
  "keeps R f \<longleftrightarrow> (\<forall>w g t n. R w (w\<lparr>w_db := snd (f g t (w_db w)), w_tick := n\<rparr>))"

text \<open>What every relation of interest has: the count of interactions does not matter.\<close>

locale statements = effect_rel R for R :: "world \<Rightarrow> world \<Rightarrow> bool" +
  assumes tick: "R w (w\<lparr>w_tick := n\<rparr>)"
begin

lemma rel_exec: "keeps R f \<Longrightarrow> state_io_rel R (exec E f)"
  by (rule exec_rel) (auto simp: keeps_def tick)

lemma rel_select [io_rel]: "state_io_rel R (exec E (sel f))" "state_io_rel R (exec E (sel_one g))"
  by (intro exec_rel; simp add: tick)+

lemma rel_ListStaleTasks [io_rel]: "state_io_rel R (ListStaleTasks E cutoff batch)"
  unfolding ListStaleTasks_def by (rule exec_rel) (auto simp: stmt_ListStaleTasks_def tick)

lemma rel_ctx_canceled [io_rel]: "state_io_rel R (ctx_canceled E)"
  by (auto simp: state_io_rel_def tick)

end

locale querier = statements R for R :: "world \<Rightarrow> world \<Rightarrow> bool" +
  assumes create_singleton: "keeps R (stmt_CreateDocumentTaskSingleton doc m path)"
    and create_for_request: "keeps R (stmt_CreateDocumentTaskForRequest doc m path rq)"
    and update_worker_status: "keeps R (stmt_UpdateWorkerTaskStatus upd)"
    and update_result: "keeps R (stmt_UpdateTaskResultPayload i j)"
    and mark_pending: "keeps R (stmt_MarkStaleTaskPending i cutoff)"
    and mark_failed: "keeps R (stmt_MarkStaleTaskFailed i cutoff msg)"
    and create_artifact: "keeps R (stmt_CreateArtifactDocument p)"
    and create_request: "keeps R (stmt_CreateExtractionRequest doc org js b)"
    and set_status: "keeps R (stmt_SetExtractionRequestStatus i st txt)"
    and set_schema: "keeps R (stmt_SetExtractionRequestResolvedSchema i j)"
    and upsert_key: "keeps R (stmt_UpsertExtractionKey korg nm src ty)"
    and batch_upsert: "keeps R (stmt_BatchUpsertExtractedData org doc ks vs)"
begin

text \<open>The queries the services issue, and the reads among them.\<close>

lemmas rel_writes [io_rel] = rel_exec [OF create_singleton] rel_exec [OF create_for_request]
  rel_exec [OF update_worker_status] rel_exec [OF update_result] rel_exec [OF mark_pending]
  rel_exec [OF mark_failed] rel_exec [OF create_artifact] rel_exec [OF create_request]
  rel_exec [OF set_status] rel_exec [OF set_schema] rel_exec [OF upsert_key] rel_exec [OF batch_upsert]

end

lemmas query_defs = CreateDocumentTaskSingleton_def CreateDocumentTaskForRequest_def
  UpdateWorkerTaskStatus_def UpdateTaskResultPayload_def MarkStaleTaskPending_def
  MarkStaleTaskFailed_def CreateArtifactDocument_def CreateExtractionRequest_def
  SetExtractionRequestStatus_def SetExtractionRequestResolvedSchema_def UpsertExtractionKey_def
  BatchUpsertExtractedData_def GetDocumentByID_def GetDocument_def ListDocumentsByParent_def
  ListExtractionKeysByOrg_def GetExtractionRequestByID_def GetExtractionRequest_def
  GetExtractionKeysByNames_def ListExtractedDataForKeys_def
  ListPendingExtractionRequestsByDocument_def

text \<open>A relation that ignores everything but the database.\<close>

lemma keeps_db_rel: "(\<And>g t d. Q d (snd (f g t d))) \<Longrightarrow> keeps (db_rel Q) f"
  by (simp add: keeps_def db_rel_def)

interpretation sound_querier: querier "db_rel sound"
  by unfold_locales
    (auto simp: db_rel_def intro!: keeps_db_rel sound_stmt elim: sound_trans)

section \<open>The publisher\<close>

text \<open>
  \<open>request_for\<close>: the request publishes the task. A publisher of tasks is only asked to publish
  requests of tasks that are recorded in the database, whose identity no statement changes.
\<close>

definition request_for :: "env \<Rightarrow> document_task \<Rightarrow> process_request \<Rightarrow> bool" where
  "request_for E t r \<longleftrightarrow> pr_TaskID r = env_uuid_string E (task_id t) \<and>
     pr_DocumentID r = env_uuid_string E (task_document_id t) \<and>
     pr_ModuleName r = task_module_name t \<and> pr_StoragePath r = task_input_storage_path t"

definition recorded :: "env \<Rightarrow> db \<Rightarrow> process_request \<Rightarrow> bool" where
  "recorded E d r \<longleftrightarrow> (\<exists>t \<in> set (document_tasks d). request_for E t r)"

lemma request_for_same: "same_task t u \<Longrightarrow> request_for E t r \<Longrightarrow> request_for E u r"
  by (simp add: request_for_def same_task_def)

lemma recorded_evolves: "evolves d d' \<Longrightarrow> recorded E d r \<Longrightarrow> recorded E d' r"
  unfolding recorded_def evolves_def grows_def by (meson request_for_same)

lemma request_for_task [simp]:
  "request_for E t (task_request E t m path kw) \<longleftrightarrow> m = task_module_name t \<and> path = task_input_storage_path t"
  by (simp add: request_for_def task_request_def)

definition if_ok :: "(world \<Rightarrow> world \<Rightarrow> bool) \<Rightarrow> world \<Rightarrow> world \<Rightarrow> bool" where
  "if_ok R w w' \<longleftrightarrow> (db_ok (w_db w) \<longrightarrow> R w w')"

locale task_publisher = querier R for R +
  fixes E :: env and pub :: python_client
  assumes R_sound: "R w w' \<Longrightarrow> sound (w_db w) (w_db w')"
    and publish: "db_ok (w_db w) \<Longrightarrow> recorded E (w_db w) r \<Longrightarrow> R w (snd (run_state (pub r) w))"

sublocale task_publisher \<subseteq> guarded: querier "if_ok R"
proof unfold_locales
  show "if_ok R w w" for w by (simp add: if_ok_def R_refl)
  show "if_ok R w u" if "if_ok R w v" "if_ok R v u" for w v u
    using that R_sound [of w v] by (auto simp: if_ok_def sound_def intro: R_trans)
  show "if_ok R w (w\<lparr>w_tick := n\<rparr>)" for w n by (simp add: if_ok_def tick)
qed (use create_singleton create_for_request update_worker_status update_result mark_pending
      mark_failed create_artifact create_request set_status set_schema upsert_key batch_upsert
     in \<open>auto simp: keeps_def if_ok_def\<close>)

text \<open>What an action does from the worlds in which a request is recorded.\<close>

definition holding :: "env \<Rightarrow> process_request \<Rightarrow> world \<Rightarrow> bool" where
  "holding E r w \<longleftrightarrow> db_ok (w_db w) \<and> recorded E (w_db w) r"

definition rel_from :: "(world \<Rightarrow> bool) \<Rightarrow> (world \<Rightarrow> world \<Rightarrow> bool) \<Rightarrow> (world, 'a) state \<Rightarrow> bool" where
  "rel_from P R m \<longleftrightarrow> (\<forall>w. P w \<longrightarrow> R w (snd (run_state m w)))"

lemma rel_from_io: "(\<And>w. P w \<Longrightarrow> db_ok (w_db w)) \<Longrightarrow> state_io_rel (if_ok R) m \<Longrightarrow> rel_from P R m"
  by (auto simp: rel_from_def state_io_rel_def if_ok_def)

text \<open>A statement that answers with the task it stored.\<close>

definition stores_task :: "string \<Rightarrow> string \<Rightarrow> document_task stmt \<Rightarrow> bool" where
  "stores_task m path f \<longleftrightarrow> (\<forall>g t d task d'. f g t d = (Inr task, d') \<longrightarrow>
     task \<in> set (document_tasks d') \<and> task_module_name task = m \<and> task_input_storage_path task = path)"

lemma insert_task_or_nothing_Inr:
  "insert_task_or_nothing key x d = (Inr task, d') \<Longrightarrow>
   task = x \<and> d' = d\<lparr>document_tasks := document_tasks d @ [x]\<rparr> \<and> \<not> index_conflict key x (document_tasks d)"
  by (auto simp: insert_task_or_nothing_def insert_task_def split: option.splits if_splits)

lemma stores_task_singleton: "stores_task m path (stmt_CreateDocumentTaskSingleton doc m path)"
  by (auto simp: stores_task_def stmt_CreateDocumentTaskSingleton_def new_task_def
      dest!: insert_task_or_nothing_Inr)

lemma stores_task_for_request: "stores_task m path (stmt_CreateDocumentTaskForRequest doc m path rq)"
  by (auto simp: stores_task_def stmt_CreateDocumentTaskForRequest_def new_task_def
      dest!: insert_task_or_nothing_Inr)

context task_publisher
begin

lemma holding_kept: "holding E r w \<Longrightarrow> R w w' \<Longrightarrow> holding E r w'"
  using R_sound [of w w'] by (auto simp: holding_def sound_def intro: recorded_evolves)

lemma from_bind:
  assumes "rel_from (holding E r) R m" and "\<And>x. rel_from (holding E r) R (k x)"
  shows "rel_from (holding E r) R (State_Monad.bind m k)"
  unfolding rel_from_def
proof (intro allI impI)
  fix w assume w: "holding E r w"
  obtain x w' where run: "run_state m w = (x, w')" by (cases "run_state m w")
  then have "R w w'" using assms(1) w by (auto simp: rel_from_def)
  moreover from this have "R w' (snd (run_state (k x) w'))"
    using assms(2) holding_kept [OF w] by (auto simp: rel_from_def)
  ultimately show "R w (snd (run_state (State_Monad.bind m k) w))"
    using run by (auto intro: R_trans)
qed

lemma from_guarded: "state_io_rel (if_ok R) m \<Longrightarrow> rel_from (holding E r) R m"
  by (rule rel_from_io) (auto simp: holding_def)

lemma from_ignoring:
  "state_io_rel (if_ok R) m \<Longrightarrow> rel_from (holding E r) R k \<Longrightarrow> rel_from (holding E r) R (ignoring m k)"
  unfolding ignoring_def by (rule from_bind, rule from_guarded)

lemma from_publish:
  "(\<And>x. state_io_rel (if_ok R) (k x)) \<Longrightarrow> rel_from (holding E r) R (State_Monad.bind (pub r) k)"
  by (rule from_bind) (auto simp: rel_from_def holding_def publish intro: from_guarded [unfolded rel_from_def holding_def, rule_format])

text \<open>Store a task, then publish it.\<close>

lemma store_then:
  assumes "keeps R f" and "stores_task m path f" and "\<And>e. state_io_rel (if_ok R) (h e)"
    and "\<And>task. task_module_name task = m \<Longrightarrow> task_input_storage_path task = path \<Longrightarrow>
           rel_from (holding E (task_request E task m path kw)) R (k task)"
  shows "state_io_rel (if_ok R)
    (State_Monad.bind (exec E f) (\<lambda>r. case r of Inl e \<Rightarrow> h e | Inr task \<Rightarrow> k task))"
  unfolding state_io_rel_def if_ok_def
proof (intro allI impI)
  fix w :: world assume w: "db_ok (w_db w)"
  obtain r w' where run: "run_state (exec E f) w = (r, w')" by (cases "run_state (exec E f) w")
  have R: "R w w'" using rel_exec [OF assms(1), of E] run by (auto simp: state_io_rel_def) (metis snd_conv)
  then have ok: "db_ok (w_db w')" using w R_sound by (auto simp: sound_def)
  show "R w (snd (run_state (State_Monad.bind (exec E f) (\<lambda>r. case r of Inl e \<Rightarrow> h e | Inr task \<Rightarrow> k task)) w))"
  proof (cases r)
    case (Inl e)
    have "R w' (snd (run_state (h e) w'))"
      using assms(3) [of e] ok by (auto simp: state_io_rel_def if_ok_def)
    then show ?thesis using run Inl R by (auto intro: R_trans)
  next
    case (Inr task)
    then have task: "task \<in> set (document_tasks (w_db w'))" "task_module_name task = m"
        "task_input_storage_path task = path"
      using exec_Inr [of E f w task w'] run assms(2) by (auto simp: stores_task_def)
    then have "holding E (task_request E task m path kw) w'"
      using ok by (auto simp: holding_def recorded_def intro!: bexI [of _ task])
    then have "R w' (snd (run_state (k task) w'))"
      using assms(4) [OF task(2,3)] by (auto simp: rel_from_def)
    then show ?thesis using run Inr R by (auto intro: R_trans)
  qed
qed

end

section \<open>The extraction service\<close>

locale extraction_client = task_publisher +
  fixes s :: extraction_service
  assumes python: "es_python s = None \<or> es_python s = Some pub"
begin

lemma markTaskFailed_rel [io_rel]: "state_io_rel (if_ok R) (extraction_markTaskFailed E i msg)"
  unfolding extraction_markTaskFailed_def query_defs by (intro io_rel)

lemma MarkRequestFailed_rel [io_rel]: "state_io_rel (if_ok R) (MarkRequestFailed E i msg)"
  unfolding MarkRequestFailed_def query_defs by (intro io_rel)

text \<open>The four functions that store a task and publish it.\<close>

lemma from_python:
  "(\<And>x. state_io_rel (if_ok R) (k x)) \<Longrightarrow> rel_from (holding E r) R
     (case es_python s of None \<Rightarrow> ok () | Some process \<Rightarrow> State_Monad.bind (process r) k)"
  using python by (elim disjE) (simp_all add: from_publish from_guarded [OF guarded.rel_ok])

lemmas store_for_request = store_then [OF create_for_request stores_task_for_request]
lemmas store_singleton = store_then [OF create_singleton stores_task_singleton]

lemma enqueueResolveKeys_rel [io_rel]: "state_io_rel (if_ok R) (enqueueResolveKeys E s rq doc target)"
  unfolding enqueueResolveKeys_def Let_def query_defs
  by (rule guarded.rel_call, rule guarded.rel_select, rule guarded.rel_case_option, rule guarded.rel_fail,
      (rule store_for_request; (rule from_ignoring; (rule from_python)?)?; intro io_rel))

lemma enqueueExtract_rel [io_rel]: "state_io_rel (if_ok R) (enqueueExtract E s rq target schema)"
  unfolding enqueueExtract_def query_defs
  by (rule store_for_request; (rule from_python)?; intro io_rel)

lemma ensureConvertTask_rel [io_rel]: "state_io_rel (if_ok R) (ensureConvertTask E s doc)"
  unfolding ensureConvertTask_def query_defs
  by (rule store_singleton; (rule from_python)?; intro io_rel)

lemma ensureAnonymizeTask_rel [io_rel]: "state_io_rel (if_ok R) (ensureAnonymizeTask E s doc md)"
  unfolding ensureAnonymizeTask_def query_defs
  by (rule store_singleton; (rule from_python)?; intro io_rel)

lemma Progress_rel [io_rel]: "state_io_rel (if_ok R) (Progress E s rq)"
proof -
  have "state_io_rel (if_ok R) (case st of EnqueueResolveKeys target \<Rightarrow> enqueueResolveKeys E s rq doc target
      | EnsureAnonymize md \<Rightarrow> ensureAnonymizeTask E s doc md | EnsureConvert \<Rightarrow> ensureConvertTask E s doc)" for st doc
    by (cases st) (simp_all add: enqueueResolveKeys_rel ensureAnonymizeTask_rel ensureConvertTask_rel)
  then show ?thesis unfolding Progress_def query_defs by (intro io_rel)
qed

lemma Initiate_rel: "state_io_rel (if_ok R) (Initiate E s doc org questions anonymize)"
  unfolding Initiate_def query_defs by (intro io_rel)

lemma OnResolveKeysCompleted_rel [io_rel]: "state_io_rel (if_ok R) (OnResolveKeysCompleted E s task)"
  unfolding OnResolveKeysCompleted_def upsert_new_key_def query_defs by (intro io_rel)

lemma OnExtractCompleted_rel [io_rel]: "state_io_rel (if_ok R) (OnExtractCompleted E task)"
  unfolding OnExtractCompleted_def persistExtractedData_def query_defs Let_def by (intro io_rel)

end

section \<open>The pipeline interface\<close>

locale pipeline = effect_rel R for R :: "world \<Rightarrow> world \<Rightarrow> bool" +
  fixes pl :: extraction_pipeline
  assumes Progress: "state_io_rel R (pl_Progress pl rq)"
    and OnResolveKeysCompleted: "state_io_rel R (pl_OnResolveKeysCompleted pl task)"
    and OnExtractCompleted: "state_io_rel R (pl_OnExtractCompleted pl task)"
    and MarkRequestFailed: "state_io_rel R (pl_MarkRequestFailed pl i msg)"
begin

lemmas pipeline_rel [io_rel] = Progress OnResolveKeysCompleted OnExtractCompleted MarkRequestFailed

lemma fail_request_of_rel:
  assumes "ws_pipeline sv = pl" shows "state_io_rel R (fail_request_of sv task msg)"
  unfolding fail_request_of_def assms by (intro io_rel)

end

text \<open>The extraction service provides the pipeline.\<close>

sublocale extraction_client \<subseteq> provided: pipeline "if_ok R" "pipeline_of E s"
  by unfold_locales (simp_all add: pipeline_of_def Progress_rel OnResolveKeysCompleted_rel
      OnExtractCompleted_rel MarkRequestFailed_rel)

section \<open>The worker service\<close>

locale worker_client = task_publisher R E pub + pipeline "if_ok R" pl
  for R E pub pl +
  fixes sv :: worker_service
  assumes sv_python: "ws_python sv = pub" and sv_pipeline: "ws_pipeline sv = pl"
begin

lemma worker_markTaskFailed_rel [io_rel]: "state_io_rel (if_ok R) (worker_markTaskFailed E i msg)"
  unfolding worker_markTaskFailed_def query_defs by (intro io_rel)

lemma registerArtifact_rel [io_rel]: "state_io_rel (if_ok R) (registerArtifact E p a b c k)"
  unfolding registerArtifact_def query_defs by (intro io_rel)

lemma registerConvertArtifacts_rel [io_rel]: "state_io_rel (if_ok R) (registerConvertArtifacts E task)"
  unfolding registerConvertArtifacts_def query_defs by (intro io_rel)

lemma register_optional_rel [io_rel]: "state_io_rel (if_ok R) (register_optional E p a b k c)"
  unfolding register_optional_def by (intro io_rel)

lemma registerAnonymizeArtifacts_rel [io_rel]: "state_io_rel (if_ok R) (registerAnonymizeArtifacts E task)"
  unfolding registerAnonymizeArtifacts_def query_defs by (intro io_rel)

lemma triggerAnonymize_rel [io_rel]: "state_io_rel (if_ok R) (triggerAnonymize E sv task)"
  unfolding triggerAnonymize_def query_defs sv_python
  by (rule guarded.rel_case_option, rule guarded.rel_fail, rule guarded.rel_if, rule guarded.rel_fail,
      (rule store_then [OF create_singleton stores_task_singleton]; (rule from_publish)?; intro io_rel))

lemma progressPendingRequests_rel [io_rel]: "state_io_rel (if_ok R) (progressPendingRequests E sv doc)"
  unfolding progressPendingRequests_def query_defs sv_pipeline by (intro io_rel)

lemma failPendingRequests_rel [io_rel]: "state_io_rel (if_ok R) (failPendingRequests E sv doc reason)"
  unfolding failPendingRequests_def query_defs sv_pipeline by (intro io_rel)

lemma after_rel [io_rel]:
  "state_io_rel (if_ok R) (after_convert E sv task)" "state_io_rel (if_ok R) (after_anonymize E sv task)"
  "state_io_rel (if_ok R) (after_resolve_keys sv task)" "state_io_rel (if_ok R) (after_extract sv task)"
  "state_io_rel (if_ok R) (after_request_task_failed sv task)"
  "state_io_rel (if_ok R) (after_prerequisite_failed E sv task)"
  unfolding after_convert_def after_anonymize_def after_resolve_keys_def after_extract_def
    after_request_task_failed_def after_prerequisite_failed_def sv_pipeline
  by (intro io_rel fail_request_of_rel sv_pipeline)+

lemma HandleStatusUpdate_rel: "state_io_rel (if_ok R) (HandleStatusUpdate E sv i upd)"
  unfolding HandleStatusUpdate_def query_defs by (intro io_rel)

end

section \<open>The watchdog\<close>

context task_publisher
begin

lemma from_if: "rel_from P R a \<Longrightarrow> rel_from P R b \<Longrightarrow> rel_from P R (if c then a else b)"
  by simp

lemma publish_attempts_from: "rel_from (holding E r) R (publish_attempts E pub r n)"
proof (induction n)
  case 0
  show ?case by (simp add: from_guarded guarded.rel_return)
next
  case (Suc n)
  have pub: "rel_from (holding E r) R (pub r)" by (auto simp: rel_from_def holding_def publish)
  have look: "rel_from (holding E r) R (ctx_canceled E)" by (intro from_guarded io_rel)
  have stop: "rel_from (holding E r) R (State_Monad.return ())" by (intro from_guarded io_rel)
  show ?case
    unfolding publish_attempts.simps
    by (intro from_bind [OF look] from_if stop from_bind [OF pub]) 
      (auto split: sum.split intro!: stop from_bind [OF look] from_if Suc.IH)
qed

lemma processTask_from: "rel_from (holding E (stale_request E row)) R (processTask E pub cfg cutoff row)"
proof -
  have "rel_from (holding E (stale_request E row)) R (case r of Inl e \<Rightarrow> State_Monad.return ()
      | Inr rows \<Rightarrow> if rows = 0 then State_Monad.return ()
          else publish_attempts E pub (stale_request E row) maxPublishAttempts)" for r :: "go_error + nat"
    by (cases r) (simp_all add: publish_attempts_from from_guarded guarded.rel_return)
  then show ?thesis unfolding processTask_def query_defs
    by (intro from_if from_bind) (auto intro!: from_guarded io_rel)
qed

lemma for_each_from:
  "(\<And>x. x \<in> set xs \<Longrightarrow> rel_from (holding E (q x)) R (f x)) \<Longrightarrow>
   (\<forall>x \<in> set xs. holding E (q x) w) \<Longrightarrow> R w (snd (run_state (for_each f xs) w))"
proof (induction xs arbitrary: w)
  case Nil
  then show ?case by (simp add: R_refl)
next
  case (Cons x xs)
  then have "R w (snd (run_state (f x) w))" by (auto simp: rel_from_def)
  moreover from this have "\<forall>y \<in> set xs. holding E (q y) (snd (run_state (f x) w))"
    using Cons.prems(2) holding_kept by auto
  ultimately show ?case using Cons by (auto intro: R_trans)
qed

lemma stale_rows_recorded:
  assumes "run_state (ListStaleTasks E cutoff batch) w = (Inr rows, w')" and "row \<in> set rows"
  shows "recorded E (w_db w') (stale_request E row)"
proof -
  from assms obtain t where "t \<in> set (document_tasks (w_db w'))" "row = stale_row_of t"
    unfolding ListStaleTasks_def
    by (auto dest!: exec_Inr in_set_takeD simp: stmt_ListStaleTasks_def split: if_splits)
  then show ?thesis
    by (auto simp: recorded_def request_for_def stale_request_def stale_row_of_def intro!: bexI [of _ t])
qed

lemma runOnce_rel [io_rel]: "state_io_rel (if_ok R) (runOnce E pub cfg now)"
  unfolding state_io_rel_def if_ok_def
proof (intro allI impI)
  fix w :: world assume ok: "db_ok (w_db w)"
  let ?list = "ListStaleTasks E (now - WatchdogThreshold cfg) (go_int32 (WatchdogBatchSize cfg))"
  obtain r w' where run: "run_state ?list w = (r, w')" by (cases "run_state ?list w")
  then have R: "R w w'" using rel_ListStaleTasks by (metis state_io_rel_def snd_conv)
  show "R w (snd (run_state (runOnce E pub cfg now) w))"
  proof (cases r)
    case (Inr rows)
    have "holding E (stale_request E row) w'" if "row \<in> set rows" for row
      using that run Inr stale_rows_recorded R ok R_sound by (auto simp: holding_def sound_def)
    then have "R w' (snd (run_state (for_each (processTask E pub cfg (now - WatchdogThreshold cfg)) rows) w'))"
      by (intro for_each_from [where q = "stale_request E"] processTask_from) auto
    then show ?thesis using run Inr R by (auto simp: runOnce_def intro: R_trans)
  qed (use run R in \<open>simp add: runOnce_def\<close>)
qed

lemma watchdog_Start_rel: "state_io_rel (if_ok R) (watchdog_Start E pub cfg now ts)"
  by (induction ts arbitrary: now) (auto intro!: io_rel)

end

section \<open>The contract on the model's Redis\<close>

text \<open>
  \<open>announces\<close>: a message on a queue publishes a recorded task, on the queue of its module. The
  relation \<open>publishes\<close>: the database stays sound and evolves, no message leaves or moves, and every
  new message announces a task recorded by then.
\<close>

definition announces :: "env \<Rightarrow> db \<Rightarrow> string \<Rightarrow> string \<Rightarrow> bool" where
  "announces E d q m \<longleftrightarrow> (\<exists>r n. recorded E d r \<and> celery_text E r m \<and>
     resolveModule (env_quote E) (pr_ModuleName r) = Inr (q, n))"

definition publishes :: "env \<Rightarrow> world \<Rightarrow> world \<Rightarrow> bool" where
  "publishes E w w' \<longleftrightarrow> sound (w_db w) (w_db w') \<and>
     (\<forall>q. \<exists>ms. w_redis w' q = ms @ w_redis w q \<and>
        (db_ok (w_db w) \<longrightarrow> (\<forall>m \<in> set ms. announces E (w_db w') q m)))"

lemma announces_evolves: "evolves d d' \<Longrightarrow> announces E d q m \<Longrightarrow> announces E d' q m"
  unfolding announces_def by (blast intro: recorded_evolves)

lemma publishes_same_redis: "sound (w_db w) (w_db w') \<Longrightarrow> w_redis w' = w_redis w \<Longrightarrow> publishes E w w'"
  by (simp add: publishes_def)

lemma publishes_trans:
  assumes "publishes E w v" and "publishes E v u" shows "publishes E w u"
  unfolding publishes_def
proof (intro conjI allI)
  show "sound (w_db w) (w_db u)" using assms sound_trans unfolding publishes_def by blast
next
  fix q
  obtain ms where ms: "w_redis v q = ms @ w_redis w q"
    "db_ok (w_db w) \<longrightarrow> (\<forall>m \<in> set ms. announces E (w_db v) q m)"
    using assms(1) unfolding publishes_def by blast
  obtain ns where ns: "w_redis u q = ns @ w_redis v q"
    "db_ok (w_db v) \<longrightarrow> (\<forall>m \<in> set ns. announces E (w_db u) q m)"
    using assms(2) unfolding publishes_def by blast
  have "db_ok (w_db w) \<longrightarrow> db_ok (w_db v) \<and> evolves (w_db v) (w_db u)"
    using assms by (auto simp: publishes_def sound_def)
  then have "db_ok (w_db w) \<longrightarrow> (\<forall>m \<in> set (ns @ ms). announces E (w_db u) q m)"
    using ms(2) ns(2) announces_evolves by auto
  moreover have "w_redis u q = (ns @ ms) @ w_redis w q" using ms ns by simp
  ultimately show "\<exists>ms. w_redis u q = ms @ w_redis w q \<and>
      (db_ok (w_db w) \<longrightarrow> (\<forall>m \<in> set ms. announces E (w_db u) q m))" by blast
qed

lemma Process_publishes:
  assumes "recorded E (w_db w) r" shows "publishes E w (snd (run_state (Process E r) w))"
proof (cases rule: Process_cases [of E r w])
  case (sent q n m x w')
  then have "announces E (w_db w) q m" using assms by (auto simp: announces_def)
  then show ?thesis using sent by (auto simp: publishes_def)
next
  case (unsent e w')
  then show ?thesis by (simp add: publishes_same_redis)
qed

interpretation redis: task_publisher "publishes E" E "Process E" for E
proof unfold_locales
  show "publishes E w w" for w by (simp add: publishes_same_redis)
  show "publishes E w (w\<lparr>w_tick := n\<rparr>)" for w n by (simp add: publishes_same_redis)
  show "publishes E w v \<Longrightarrow> publishes E v u \<Longrightarrow> publishes E w u" for w v u by (rule publishes_trans)
  show "recorded E (w_db w) r \<Longrightarrow> publishes E w (snd (run_state (Process E r) w))" for w r
    by (rule Process_publishes)
qed (auto simp: publishes_def keeps_def intro: sound_stmt)

interpretation server_pipeline: extraction_client "publishes E" E "Process E" "server_extraction E" for E
  by unfold_locales (simp add: server_extraction_def)

interpretation server_callbacks: worker_client "publishes E" E "Process E"
    "pipeline_of E (server_extraction E)" "server_worker E" for E
  by unfold_locales (simp_all add: server_worker_def)

end
