(* ===== verification/Extraction_Properties.thy ===== *)
theory Extraction_Properties
  imports Contracts
begin

text \<open>
  What \<open>ExtractionService\<close> does beyond keeping the database sound: which file a published task
  may carry, that driving a request twice does not start its work twice, and what a completed
  extraction stores.
\<close>

section \<open>Messages that are added\<close>

text \<open>\<open>adds P\<close>: no message leaves or moves, and the new ones on a queue satisfy \<open>P\<close>.\<close>

definition adds :: "(string \<Rightarrow> string \<Rightarrow> bool) \<Rightarrow> world \<Rightarrow> world \<Rightarrow> bool" where
  "adds P w w' \<longleftrightarrow> (\<forall>q. \<exists>ms. w_redis w' q = ms @ w_redis w q \<and> (\<forall>m \<in> set ms. P q m))"

lemma adds_same: "w_redis w' = w_redis w \<Longrightarrow> adds P w w'"
  by (simp add: adds_def)

lemma adds_trans: "adds P w v \<Longrightarrow> adds P v u \<Longrightarrow> adds P w u"
  unfolding adds_def
proof
  fix q
  assume "\<forall>q. \<exists>ms. w_redis v q = ms @ w_redis w q \<and> (\<forall>m \<in> set ms. P q m)"
    and "\<forall>q. \<exists>ms. w_redis u q = ms @ w_redis v q \<and> (\<forall>m \<in> set ms. P q m)"
  then obtain ms ns where "w_redis v q = ms @ w_redis w q" "\<forall>m \<in> set ms. P q m"
    "w_redis u q = ns @ w_redis v q" "\<forall>m \<in> set ns. P q m" by blast
  then show "\<exists>ms. w_redis u q = ms @ w_redis w q \<and> (\<forall>m \<in> set ms. P q m)"
    by (intro exI [of _ "ns @ ms"]) auto
qed

interpretation adding: querier "adds P" for P
  by unfold_locales (auto simp: keeps_def adds_same intro: adds_trans)

lemma Process_adds: "(\<And>q m. celery_text E r m \<Longrightarrow> P q m) \<Longrightarrow> state_io_rel (adds P) (Process E r)"
  unfolding state_io_rel_def
proof
  fix w assume P: "\<And>q m. celery_text E r m \<Longrightarrow> P q m"
  show "adds P w (snd (run_state (Process E r) w))"
  proof (cases rule: Process_cases [of E r w])
    case (sent q n m x w')
    then show ?thesis using P by (auto simp: adds_def)
  next
    case (unsent e w')
    then show ?thesis by (simp add: adds_same)
  qed
qed

lemma mark_adds [io_rel]:
  "state_io_rel (adds P) (extraction_markTaskFailed E i msg)"
  "state_io_rel (adds P) (MarkRequestFailed E i msg)"
  unfolding extraction_markTaskFailed_def MarkRequestFailed_def query_defs by (intro io_rel)+

text \<open>The requests that each of the publishing functions may send.\<close>

definition sends :: "env \<Rightarrow> string \<Rightarrow> string \<Rightarrow> (string \<Rightarrow> string \<Rightarrow> bool) \<Rightarrow> bool" where
  "sends E module path P \<longleftrightarrow>
     (\<forall>t kw q m. celery_text E (task_request E t module path kw) m \<longrightarrow> P q m)"

lemma sent_adds: "sends E module path P \<Longrightarrow> state_io_rel (adds P) (Process E (task_request E t module path kw))"
  by (rule Process_adds) (auto simp: sends_def)

lemma server_python [simp]: "es_python (server_extraction E) = Some (Process E)"
  by (simp add: server_extraction_def)

lemma enqueueResolveKeys_adds:
  "sends E moduleResolveKeys (doc_storage_path target) P \<Longrightarrow>
   state_io_rel (adds P) (enqueueResolveKeys E (server_extraction E) rq doc target)"
  unfolding enqueueResolveKeys_def Let_def query_defs server_python option.case
  by (intro io_rel sent_adds)

lemma enqueueExtract_adds:
  "sends E moduleExtract (doc_storage_path target) P \<Longrightarrow>
   state_io_rel (adds P) (enqueueExtract E (server_extraction E) rq target schema)"
  unfolding enqueueExtract_def query_defs server_python option.case by (intro io_rel sent_adds)

lemma ensureConvertTask_adds:
  "sends E moduleConvert (doc_storage_path doc) P \<Longrightarrow>
   state_io_rel (adds P) (ensureConvertTask E (server_extraction E) doc)"
  unfolding ensureConvertTask_def query_defs server_python option.case by (intro io_rel sent_adds)

lemma ensureAnonymizeTask_adds:
  "sends E moduleAnonymize (doc_storage_path md) P \<Longrightarrow>
   state_io_rel (adds P) (ensureAnonymizeTask E (server_extraction E) doc md)"
  unfolding ensureAnonymizeTask_def query_defs server_python option.case by (intro io_rel sent_adds)

text \<open>Reading does not change the database; what is read is in it.\<close>

lemma exec_sel_cases:
  obtains (read) "run_state (exec E (sel f)) w = (Inr (f (w_db w)), w\<lparr>w_tick := Suc (w_tick w)\<rparr>)"
    | (failed) e where "run_state (exec E (sel f)) w = (Inl e, w\<lparr>w_tick := Suc (w_tick w)\<rparr>)"
  by (cases rule: run_exec_cases [of "sel f" E w]) (auto simp: sel_def)

lemma exec_sel_one_cases:
  obtains (row) x where "f (w_db w) = Some x"
      "run_state (exec E (sel_one f)) w = (Inr x, w\<lparr>w_tick := Suc (w_tick w)\<rparr>)"
    | (failed) e where "run_state (exec E (sel_one f)) w = (Inl e, w\<lparr>w_tick := Suc (w_tick w)\<rparr>)"
  by (cases rule: run_exec_cases [of "sel_one f" E w]) (auto simp: sel_one_def split: option.splits)

definition artifact_of :: "db \<Rightarrow> uuid \<Rightarrow> string \<Rightarrow> document \<Rightarrow> bool" where
  "artifact_of d docID kind x \<longleftrightarrow>
     x \<in> set (documents d) \<and> doc_parent_id x = Some docID \<and> doc_artifact_kind x = Some kind"

lemma findArtifact_some:
  "findArtifact (documents_by_parent docID org d) kind = Some x \<Longrightarrow> artifact_of d docID kind x"
  by (auto simp: findArtifact_def documents_by_parent_def artifact_of_def dest!: find_Some_iff_mem)

lemma target_artifact_some:
  "target_artifact anonymize (documents_by_parent docID org d) = Some x \<Longrightarrow>
   artifact_of d docID (target_kind anonymize) x"
  by (auto simp: target_artifact_def target_kind_def Let_def dest: findArtifact_some split: if_splits)

text \<open>
  The file that each module may be given for a document: the request's tasks get the artifact
  that the request is about, the shared tasks what they convert or anonymize.
\<close>

definition proper_file :: "db \<Rightarrow> uuid \<Rightarrow> bool \<Rightarrow> string \<Rightarrow> string \<Rightarrow> bool" where
  "proper_file d docID anonymize module path \<longleftrightarrow>
     (if module = moduleResolveKeys \<or> module = moduleExtract
      then (\<exists>x. artifact_of d docID (target_kind anonymize) x \<and> path = doc_storage_path x)
      else if module = moduleAnonymize
      then (\<exists>x. artifact_of d docID artifactKindConvertMD x \<and> path = doc_storage_path x)
      else module = moduleConvert \<and>
        (\<exists>x \<in> set (documents d). doc_id x = docID \<and> path = doc_storage_path x))"

definition proper_message :: "env \<Rightarrow> db \<Rightarrow> uuid \<Rightarrow> bool \<Rightarrow> string \<Rightarrow> string \<Rightarrow> bool" where
  "proper_message E d docID anonymize q m \<longleftrightarrow>
     (\<exists>r. celery_text E r m \<and> proper_file d docID anonymize (pr_ModuleName r) (pr_StoragePath r))"

lemma sends_proper:
  "proper_file d docID anonymize module path \<Longrightarrow>
   sends E module path (proper_message E d docID anonymize)"
  unfolding sends_def proper_message_def
  by (intro allI impI exI conjI, assumption) (simp add: task_request_def)

text \<open>A run of \<open>Progress\<close>: it stops early, or it performs the step that the artifacts call for.\<close>

definition perform :: "env \<Rightarrow> extraction_service \<Rightarrow> extraction_request \<Rightarrow> document \<Rightarrow> next_step
    \<Rightarrow> unit act" where
  "perform E s rq doc st = (case st of
     EnqueueResolveKeys target \<Rightarrow> enqueueResolveKeys E s rq doc target
   | EnsureAnonymize md \<Rightarrow> ensureAnonymizeTask E s doc md
   | EnsureConvert \<Rightarrow> ensureConvertTask E s doc)"

definition closed_request :: "extraction_request \<Rightarrow> bool" where
  "closed_request rq \<longleftrightarrow> req_status rq = requestStatusCompleted \<or> req_status rq = requestStatusFailed"

definition due_step :: "db \<Rightarrow> extraction_request \<Rightarrow> document \<Rightarrow> next_step" where
  "due_step d rq doc =
     next_step_of (req_anonymize rq) (documents_by_parent (doc_id doc) (doc_organization_id doc) d)"

definition request_document :: "db \<Rightarrow> extraction_request \<Rightarrow> document option" where
  "request_document d rq = find (\<lambda>x. doc_id x = req_document_id rq) (documents d)"

lemma request_document_some: "request_document d rq = Some doc \<Longrightarrow>
   doc \<in> set (documents d) \<and> doc_id doc = req_document_id rq"
  by (auto simp: request_document_def dest: find_Some_iff_mem)

lemma Progress_runs:
  obtains (closed) "closed_request rq" "run_state (Progress E s rq) w = (Inr (), w)"
    | (failed) e n where "\<not> closed_request rq"
        "run_state (Progress E s rq) w = (Inl e, w\<lparr>w_tick := n\<rparr>)"
    | (step) doc n where "\<not> closed_request rq" "request_document (w_db w) rq = Some doc"
        "run_state (Progress E s rq) w =
           run_state (perform E s rq doc (due_step (w_db w) rq doc)) (w\<lparr>w_tick := n\<rparr>)"
proof (cases "closed_request rq")
  case True
  then show ?thesis using closed by (simp add: Progress_def closed_request_def)
next
  case False
  then have open_request: "\<not> (req_status rq = requestStatusCompleted \<or> req_status rq = requestStatusFailed)"
    by (simp add: closed_request_def)
  show ?thesis
  proof (cases rule: exec_sel_one_cases [of "\<lambda>d. find (\<lambda>x. doc_id x = req_document_id rq) (documents d)" w E])
    case read: (failed e)
    show ?thesis
      by (rule failed [OF False]) (use open_request read in \<open>auto simp: Progress_def GetDocumentByID_def\<close>)
  next
    case doc: (row doc)
    let ?w = "w\<lparr>w_tick := Suc (w_tick w)\<rparr>"
    let ?by = "documents_by_parent (doc_id doc) (doc_organization_id doc)"
    show ?thesis
    proof (cases rule: exec_sel_cases [of E ?by ?w])
      case (failed e)
      show ?thesis
        by (rule that(2) [OF False])
          (use open_request doc failed in \<open>auto simp: Progress_def GetDocumentByID_def ListDocumentsByParent_def\<close>)
    next
      case read
      show ?thesis
        by (rule step [OF False, of doc "Suc (w_tick ?w)"])
          (use open_request doc read in \<open>auto simp: Progress_def GetDocumentByID_def ListDocumentsByParent_def
             request_document_def due_step_def perform_def\<close>)
    qed
  qed
qed

lemma next_step_cases:
  obtains (resolve) target where "next_step_of b as = EnqueueResolveKeys target" "target_artifact b as = Some target"
    | (anonymize) md where "next_step_of b as = EnsureAnonymize md" "b"
        "findArtifact as artifactKindConvertMD = Some md" "findArtifact as artifactKindAnonymizeDoc = None"
    | (convert) "next_step_of b as = EnsureConvert" "findArtifact as artifactKindConvertMD = None"
  by (cases b; cases "findArtifact as artifactKindConvertMD"; cases "findArtifact as artifactKindAnonymizeDoc")
     (auto simp: next_step_of_def target_artifact_def)

lemma perform_adds:
  assumes "doc \<in> set (documents d)" "doc_id doc = req_document_id rq"
  shows "state_io_rel (adds (proper_message E d (req_document_id rq) (req_anonymize rq)))
    (perform E (server_extraction E) rq doc (due_step d rq doc))"
proof (cases rule: next_step_cases [of "req_anonymize rq" "documents_by_parent (doc_id doc) (doc_organization_id doc) d"])
  case (resolve target)
  then show ?thesis using assms target_artifact_some [OF resolve(2)]
    by (auto simp: perform_def due_step_def proper_file_def intro!: enqueueResolveKeys_adds sends_proper)
next
  case (anonymize md)
  then show ?thesis using assms findArtifact_some [OF anonymize(3)]
    by (auto simp: perform_def due_step_def proper_file_def intro!: ensureAnonymizeTask_adds sends_proper)
next
  case convert
  then show ?thesis using assms
    by (auto simp: perform_def due_step_def proper_file_def intro!: ensureConvertTask_adds sends_proper)
qed

lemma Progress_adds:
  "adds (proper_message E (w_db w) (req_document_id rq) (req_anonymize rq)) w
     (snd (run_state (Progress E (server_extraction E) rq) w))"
proof (cases rule: Progress_runs [of rq E "server_extraction E" w])
  case (step doc n)
  then have "adds (proper_message E (w_db w) (req_document_id rq) (req_anonymize rq)) (w\<lparr>w_tick := n\<rparr>)
      (snd (run_state (Progress E (server_extraction E) rq) w))"
    using perform_adds request_document_some [OF step(2)] by (simp add: state_io_rel_def)
  then show ?thesis by (simp add: adds_def)
qed (simp_all add: adds_same)

section \<open>Driving a request again\<close>

definition has_key :: "(document_task \<Rightarrow> (uuid \<times> string) option) \<Rightarrow> uuid \<times> string \<Rightarrow> db \<Rightarrow> bool" where
  "has_key key v d \<longleftrightarrow> (\<exists>t \<in> set (document_tasks d). key t = Some v)"

definition performed :: "extraction_request \<Rightarrow> document \<Rightarrow> next_step \<Rightarrow> db \<Rightarrow> bool" where
  "performed rq doc st d = (case st of
     EnqueueResolveKeys _ \<Rightarrow> has_key request_key (req_id rq, moduleResolveKeys) d
   | EnsureAnonymize _ \<Rightarrow> has_key singleton_key (doc_id doc, moduleAnonymize) d
   | EnsureConvert \<Rightarrow> has_key singleton_key (doc_id doc, moduleConvert) d)"

definition same_state :: "world \<Rightarrow> world \<Rightarrow> bool" where
  "same_state w w' \<longleftrightarrow> w_db w' = w_db w \<and> w_redis w' = w_redis w"

text \<open>A task that is there already is not stored again, and nothing is published.\<close>

lemma has_key_conflict: "key x = Some v \<Longrightarrow> has_key key v d \<Longrightarrow> index_conflict key x (document_tasks d)"
  by (auto simp: has_key_def index_conflict_def set_index_keys)

lemma or_nothing_conflict:
  "index_conflict key x (document_tasks d) \<Longrightarrow> \<exists>e. insert_task_or_nothing key x d = (Inl e, d)"
  by (auto simp: insert_task_or_nothing_def split: option.splits)

lemma create_again:
  assumes "\<And>g t. \<exists>e. f g t (w_db w) = (Inl e, w_db w)"
  shows "\<exists>e n. run_state (exec E f) w = (Inl e, w\<lparr>w_tick := n\<rparr>)"
proof (cases rule: run_exec_cases [of f E w])
  case (effect d r)
  with assms [of "env_uuid E (w_tick w)" "env_now E (w_tick w)"] show ?thesis by auto
next
  case (rejected s)
  then show ?thesis by auto
next
  case (lost d r s)
  with assms [of "env_uuid E (w_tick w)" "env_now E (w_tick w)"] show ?thesis by auto
qed

lemma request_key_new: "m \<in> {moduleResolveKeys, moduleExtract} \<Longrightarrow>
    request_key (new_task i t doc m path (Some rq)) = Some (rq, m)"
  by (auto simp: request_key_def new_task_def)

lemma singleton_key_new: "m \<in> {moduleConvert, moduleAnonymize} \<Longrightarrow>
    singleton_key (new_task i t doc m path None) = Some (doc, m)"
  by (auto simp: singleton_key_def new_task_def)

lemma create_for_request_again:
  assumes "has_key request_key (rq, m) (w_db w)" and "m \<in> {moduleResolveKeys, moduleExtract}"
  obtains e n where "run_state (CreateDocumentTaskForRequest E doc m path (Some rq)) w = (Inl e, w\<lparr>w_tick := n\<rparr>)"
proof -
  have "\<exists>e n. run_state (CreateDocumentTaskForRequest E doc m path (Some rq)) w = (Inl e, w\<lparr>w_tick := n\<rparr>)"
  unfolding CreateDocumentTaskForRequest_def
  by (rule create_again) (simp add: stmt_CreateDocumentTaskForRequest_def or_nothing_conflict
      has_key_conflict [OF request_key_new [OF assms(2)] assms(1)])
  then show thesis using that by blast
qed

lemma create_singleton_again:
  assumes "has_key singleton_key (doc, m) (w_db w)" and "m \<in> {moduleConvert, moduleAnonymize}"
  obtains e n where "run_state (CreateDocumentTaskSingleton E doc m path) w = (Inl e, w\<lparr>w_tick := n\<rparr>)"
proof -
  have "\<exists>e n. run_state (CreateDocumentTaskSingleton E doc m path) w = (Inl e, w\<lparr>w_tick := n\<rparr>)"
  unfolding CreateDocumentTaskSingleton_def
  by (rule create_again) (simp add: stmt_CreateDocumentTaskSingleton_def or_nothing_conflict
      has_key_conflict [OF singleton_key_new [OF assms(2)] assms(1)])
  then show thesis using that by blast
qed

lemma enqueueResolveKeys_again:
  assumes "has_key request_key (req_id rq, moduleResolveKeys) (w_db w)"
  shows "same_state w (snd (run_state (enqueueResolveKeys E s rq doc target) w))"
proof (cases rule: exec_sel_cases [of E "keys_of_org (doc_organization_id doc)" w])
  case (failed e)
  then show ?thesis by (simp add: enqueueResolveKeys_def ListExtractionKeysByOrg_def same_state_def)
next
  case read
  let ?w = "w\<lparr>w_tick := Suc (w_tick w)\<rparr>"
  obtain e n where "run_state (CreateDocumentTaskForRequest E (req_document_id rq) moduleResolveKeys
      (doc_storage_path target) (Some (req_id rq))) ?w = (Inl e, ?w\<lparr>w_tick := n\<rparr>)"
    by (rule create_for_request_again [of "req_id rq" moduleResolveKeys ?w]) (use assms in simp_all)
  then show ?thesis using read
    by (auto simp: enqueueResolveKeys_def ListExtractionKeysByOrg_def same_state_def split: option.split)
qed

lemma perform_again:
  assumes "performed rq doc st (w_db w)"
  shows "same_state w (snd (run_state (perform E s rq doc st) w))"
proof (cases st)
  case (EnqueueResolveKeys target)
  then show ?thesis using assms enqueueResolveKeys_again by (simp add: perform_def performed_def)
next
  case (EnsureAnonymize md)
  obtain e n where "run_state (CreateDocumentTaskSingleton E (doc_id doc) moduleAnonymize
      (doc_storage_path md)) w = (Inl e, w\<lparr>w_tick := n\<rparr>)"
    by (rule create_singleton_again [of "doc_id doc" moduleAnonymize w])
      (use assms EnsureAnonymize in \<open>simp_all add: performed_def\<close>)
  then show ?thesis using EnsureAnonymize
    by (simp add: perform_def ensureAnonymizeTask_def same_state_def)
next
  case EnsureConvert
  obtain e n where "run_state (CreateDocumentTaskSingleton E (doc_id doc) moduleConvert
      (doc_storage_path doc)) w = (Inl e, w\<lparr>w_tick := n\<rparr>)"
    by (rule create_singleton_again [of "doc_id doc" moduleConvert w])
      (use assms EnsureConvert in \<open>simp_all add: performed_def\<close>)
  then show ?thesis using EnsureConvert
    by (simp add: perform_def ensureConvertTask_def same_state_def)
qed

text \<open>
  A successful step leaves its task behind and does not touch the documents, on which the choice
  of the step depends.
\<close>

definition same_tasks :: "world \<Rightarrow> world \<Rightarrow> bool" where
  "same_tasks w w' \<longleftrightarrow> documents (w_db w') = documents (w_db w) \<and> document_tasks (w_db w') = document_tasks (w_db w)"

interpretation same_tasks: effect_rel same_tasks
  by unfold_locales (auto simp: same_tasks_def)

lemma same_tasks_status [io_rel]: "state_io_rel same_tasks (SetExtractionRequestStatus E i st m)"
  unfolding SetExtractionRequestStatus_def
  by (rule exec_rel) (auto simp: same_tasks_def stmt_SetExtractionRequestStatus_def update_request_def
      split: option.split prod.split sum.split)

lemma same_tasks_Process [io_rel]: "state_io_rel same_tasks (Process E r)"
  unfolding state_io_rel_def
proof
  fix w show "same_tasks w (snd (run_state (Process E r) w))"
    by (cases rule: Process_cases [of E r w]) (auto simp: same_tasks_def)
qed

lemma same_tasks_read [io_rel]:
  "state_io_rel same_tasks (exec E (sel f))" "state_io_rel same_tasks (exec E (sel_one g))"
  by (intro exec_rel; simp add: same_tasks_def)+

definition answered :: "(go_error + 'a) \<Rightarrow> bool" where
  "answered r \<longleftrightarrow> (case r of Inl e \<Rightarrow> is_no_rows e | Inr _ \<Rightarrow> True)"

lemma violation_not_no_rows [simp]:
  "first_violation (task_checks x) \<noteq> Some ErrNoRows"
  "first_violation (task_checks x @ task_keys d x @ task_fks d x) \<noteq> Some ErrNoRows"
  by (auto dest!: first_violation_Some simp: task_checks_def task_keys_def task_fks_def)

lemma create_settles:
  assumes f: "\<And>g t d. f g t d = insert_task_or_nothing key (x g t) d" and key: "\<And>g t. key (x g t) = Some v"
    and run: "run_state (exec E f) w = (r, w')"
  shows "documents (w_db w') = documents (w_db w)" and "answered r \<Longrightarrow> has_key key v (w_db w')"
proof -
  show "documents (w_db w') = documents (w_db w)"
    using run by (cases rule: run_exec_cases [of f E w])
      (auto simp: f insert_task_or_nothing_def insert_task_def split: option.splits if_splits)
  assume "answered r"
  then consider (stored) task where "r = Inr task" | (there) "r = Inl ErrNoRows"
    using run by (cases rule: run_exec_cases [of f E w])
      (auto simp: f answered_def insert_task_or_nothing_def insert_task_def is_no_rows_def task_checks_def
        task_keys_def task_fks_def split: sum.splits option.splits if_splits)
  then show "has_key key v (w_db w')"
  proof cases
    case stored
    with run have "f (env_uuid E (w_tick w)) (env_now E (w_tick w)) (w_db w) = (Inr task, w_db w')"
      by (auto dest: exec_Inr)
    then show ?thesis using key by (auto simp: f has_key_def dest!: insert_task_or_nothing_Inr)
  next
    case there
    with run have "f (env_uuid E (w_tick w)) (env_now E (w_tick w)) (w_db w) = (Inl ErrNoRows, w_db w')"
      by (auto dest: exec_no_rows)
    then show ?thesis using key
      by (auto simp: f has_key_def insert_task_or_nothing_def insert_task_def index_conflict_def set_index_keys
          split: option.splits if_splits)
  qed
qed

text \<open>The rest of a step keeps the tasks, and its failing branch is not a success.\<close>

definition settled :: "(document_task \<Rightarrow> (uuid \<times> string) option) \<Rightarrow> uuid \<times> string \<Rightarrow> document list
    \<Rightarrow> (go_error + unit) \<Rightarrow> world \<Rightarrow> bool" where
  "settled key v xs r w \<longleftrightarrow> (r = Inr () \<longrightarrow> has_key key v (w_db w) \<and> documents (w_db w) = xs)"

definition stored :: "(document_task \<Rightarrow> (uuid \<times> string) option) \<Rightarrow> uuid \<times> string \<Rightarrow> document list
    \<Rightarrow> world \<Rightarrow> bool" where
  "stored key v xs w \<longleftrightarrow> has_key key v (w_db w) \<and> documents (w_db w) = xs"

lemma stored_same: "state_io_rel same_tasks m \<Longrightarrow> post (stored key v xs) m (\<lambda>_. stored key v xs)"
  by (erule post_of_rel) (auto simp: stored_def same_tasks_def has_key_def)

lemma post_ends_fail: "post P (ignoring m (fail e)) (settled key v xs)"
  "post P (ignoring m (ignoring m' (fail e))) (settled key v xs)"
  by (simp_all add: post_def settled_def)

lemma post_stored_ok: "post (stored key v xs) (ok ()) (settled key v xs)"
  by (simp add: post_def settled_def stored_def)

lemma post_publish:
  "post (stored key v xs) (State_Monad.bind (Process E r) (\<lambda>p. case p of
      Inl err \<Rightarrow> ignoring (m err) (k err) | Inr _ \<Rightarrow> ok ())) (settled key v xs)"
  if "\<And>err. post (stored key v xs) (ignoring (m err) (k err)) (settled key v xs)"
  by (rule post_bind [OF stored_same [OF same_tasks_Process]])
    (auto intro: that post_stored_ok split: sum.split)

lemma create_then:
  assumes f: "\<And>g t d. f g t d = insert_task_or_nothing key (x g t) d" and key: "\<And>g t. key (x g t) = Some v"
    and k: "\<And>task. post (stored key v xs) (k task) (settled key v xs)"
  shows "post (\<lambda>w. documents (w_db w) = xs) (State_Monad.bind (exec E f) (\<lambda>r. case r of
      Inl err \<Rightarrow> if is_no_rows err then ok () else fail (h err) | Inr task \<Rightarrow> k task)) (settled key v xs)"
proof (rule post_bind)
  show "post (\<lambda>w. documents (w_db w) = xs) (exec E f)
      (\<lambda>r w. documents (w_db w) = xs \<and> (answered r \<longrightarrow> has_key key v (w_db w)))"
    by (rule postI) (auto dest: create_settles(1) [OF f key] intro: create_settles(2) [OF f key])
  show "post (\<lambda>w. documents (w_db w) = xs \<and> (answered r \<longrightarrow> has_key key v (w_db w)))
     (case r of Inl err \<Rightarrow> if is_no_rows err then ok () else fail (h err) | Inr task \<Rightarrow> k task)
     (settled key v xs)" for r
    by (cases r) (auto simp: answered_def settled_def intro!: post_ok post_fail
        intro: post_conseq [OF k] simp: stored_def)
qed

lemma perform_settles:
  assumes "run_state (perform E (server_extraction E) rq doc st) w = (Inr (), w')"
  shows "performed rq doc st (w_db w')" and "documents (w_db w') = documents (w_db w)"
proof -
  have "performed rq doc st (w_db w') \<and> documents (w_db w') = documents (w_db w)"
  proof (cases st)
    case (EnqueueResolveKeys target)
    have "post (\<lambda>v. documents (w_db v) = documents (w_db w))
       (enqueueResolveKeys E (server_extraction E) rq doc target)
       (settled request_key (req_id rq, moduleResolveKeys) (documents (w_db w)))"
      unfolding enqueueResolveKeys_def Let_def server_python option.case ListExtractionKeysByOrg_def
        CreateDocumentTaskForRequest_def
      by (rule post_call [OF post_of_rel [OF same_tasks_read(1),
              where Q = "\<lambda>v. documents (w_db v) = documents (w_db w)"]],
          simp add: same_tasks_def, simp add: settled_def,
          rule post_case_option, rule post_fail, simp add: settled_def,
          rule create_then [OF stmt_CreateDocumentTaskForRequest_def], simp add: request_key_new,
          rule post_ignoring [OF stored_same], intro io_rel, rule post_publish, rule post_ends_fail)
    then show ?thesis using assms EnqueueResolveKeys
      by (auto simp: perform_def performed_def settled_def dest: postD)
  next
    case (EnsureAnonymize md)
    have "post (\<lambda>v. documents (w_db v) = documents (w_db w))
       (ensureAnonymizeTask E (server_extraction E) doc md)
       (settled singleton_key (doc_id doc, moduleAnonymize) (documents (w_db w)))"
      unfolding ensureAnonymizeTask_def server_python option.case CreateDocumentTaskSingleton_def
      by (rule create_then [OF stmt_CreateDocumentTaskSingleton_def], simp add: singleton_key_new,
          rule post_publish, rule post_ends_fail)
    then show ?thesis using assms EnsureAnonymize
      by (auto simp: perform_def performed_def settled_def dest: postD)
  next
    case EnsureConvert
    have "post (\<lambda>v. documents (w_db v) = documents (w_db w))
       (ensureConvertTask E (server_extraction E) doc)
       (settled singleton_key (doc_id doc, moduleConvert) (documents (w_db w)))"
      unfolding ensureConvertTask_def server_python option.case CreateDocumentTaskSingleton_def
      by (rule create_then [OF stmt_CreateDocumentTaskSingleton_def], simp add: singleton_key_new,
          rule post_publish, rule post_ends_fail)
    then show ?thesis using assms EnsureConvert
      by (auto simp: perform_def performed_def settled_def dest: postD)
  qed
  then show "performed rq doc st (w_db w')" and "documents (w_db w') = documents (w_db w)" by auto
qed

lemma due_step_cong: "documents d' = documents d \<Longrightarrow> due_step d' rq doc = due_step d rq doc"
  by (simp add: due_step_def documents_by_parent_def)

lemma Progress_settles:
  assumes "run_state (Progress E (server_extraction E) rq) w = (Inr (), w')"
  shows "same_state w' (snd (run_state (Progress E' s rq) w'))"
proof (cases rule: Progress_runs [of rq E "server_extraction E" w])
  case closed
  then show ?thesis by (simp add: Progress_def closed_request_def same_state_def)
next
  case (step doc n)
  then have run: "run_state (perform E (server_extraction E) rq doc (due_step (w_db w) rq doc)) (w\<lparr>w_tick := n\<rparr>) = (Inr (), w')"
    using assms by simp
  have docs: "documents (w_db w') = documents (w_db w)" using perform_settles(2) [OF run] by simp
  have perf: "performed rq doc (due_step (w_db w) rq doc) (w_db w')" by (rule perform_settles(1) [OF run])
  show ?thesis
  proof (cases rule: Progress_runs [of rq E' s w'])
    case (step doc' n')
    have "doc' = doc" using step(2) \<open>request_document (w_db w) rq = Some doc\<close> docs
      by (simp add: request_document_def)
    then have "performed rq doc' (due_step (w_db w') rq doc') (w_db (w'\<lparr>w_tick := n'\<rparr>))"
      using perf docs by (simp add: due_step_cong [OF docs])
    from perform_again [OF this, of E' s] step(3) show ?thesis by (simp add: same_state_def)
  qed (simp_all add: same_state_def)
qed (use assms in simp)

section \<open>Extracted data as a map\<close>

text \<open>
  The contract of the extracted data: a map from organization, document and key to a value. The
  upserts are updates of this map.
\<close>

definition datum_map :: "db \<Rightarrow> (uuid \<times> uuid \<times> uuid) \<rightharpoonup> string option" where
  "datum_map d = map_of (map (\<lambda>x. (datum_key x, dat_extracted_value x)) (document_extracted_data d))"

lemma datum_map_some:
  "db_ok d \<Longrightarrow> datum_map d k = Some v \<longleftrightarrow>
   (\<exists>x \<in> set (document_extracted_data d). datum_key x = k \<and> dat_extracted_value x = v)"
proof -
  assume "db_ok d"
  then have "distinct (map datum_key (document_extracted_data d))"
    using uniq_total [of datum_key] by (auto simp: db_ok_def data_ok_def table_ok_def)
  then show ?thesis by (auto simp: datum_map_def map_of_eq_Some_iff o_def)
qed

lemma datum_map_none: "datum_map d k = None \<longleftrightarrow> (\<forall>x \<in> set (document_extracted_data d). datum_key x \<noteq> k)"
  by (force simp: datum_map_def map_of_eq_None_iff image_iff)

lemma datum_map_eqI:
  assumes "db_ok d'"
    and "\<And>k v. (\<exists>x \<in> set (document_extracted_data d'). datum_key x = k \<and> dat_extracted_value x = v) \<longleftrightarrow> m k = Some v"
  shows "datum_map d' = m"
proof
  fix k
  have "datum_map d' k = Some v \<longleftrightarrow> m k = Some v" for v
    using assms datum_map_some by blast
  then show "datum_map d' k = m k" by (metis option.exhaust)
qed

lemma upsert_datum_map:
  assumes ok: "db_ok d" and up: "upsert_datum x d = Inr d'"
  shows "datum_map d' = (datum_map d)(datum_key x \<mapsto> dat_extracted_value x)"
proof (rule datum_map_eqI [OF upsert_datum_ok [OF ok up]])
  fix k v
  have old: "datum_map d k = Some v \<longleftrightarrow> (\<exists>y \<in> set (document_extracted_data d). datum_key y = k \<and> dat_extracted_value y = v)"
    by (rule datum_map_some [OF ok])
  show "(\<exists>y \<in> set (document_extracted_data d'). datum_key y = k \<and> dat_extracted_value y = v) \<longleftrightarrow>
      ((datum_map d)(datum_key x \<mapsto> dat_extracted_value x)) k = Some v"
  proof (cases "find (\<lambda>y. datum_key y = datum_key x) (document_extracted_data d)")
    case None
    then have "document_extracted_data d' = document_extracted_data d @ [x]"
      using up by (auto simp: upsert_datum_def split: option.splits if_splits)
    then show ?thesis using None old by (auto simp: find_None_iff)
  next
    case (Some y)
    let ?y = "y\<lparr>dat_extracted_value := dat_extracted_value x\<rparr>"
    have y: "y \<in> set (document_extracted_data d)" "datum_key y = datum_key x"
      using find_Some_iff_mem [OF Some] by auto
    have d': "document_extracted_data d' = put_row dat_id ?y (document_extracted_data d)"
      using up Some by (auto simp: upsert_datum_def split: option.splits)
    have same: "dat_id z = dat_id y \<longleftrightarrow> datum_key z = datum_key x" if "z \<in> set (document_extracted_data d)" for z
    proof
      assume "dat_id z = dat_id y"
      with that y show "datum_key z = datum_key x" using table_ok_key [OF db_ok_data [OF ok]] by blast
    next
      assume "datum_key z = datum_key x"
      with that y show "dat_id z = dat_id y"
        using table_ok_index [OF db_ok_data [OF ok], of "\<lambda>x. Some (datum_key x)" z y] by simp
    qed
    have y': "datum_key ?y = datum_key x" "dat_extracted_value ?y = dat_extracted_value x"
      using y(2) by (simp_all add: datum_key_def)
    have "z \<in> set (put_row dat_id ?y (document_extracted_data d)) \<longleftrightarrow>
        z = ?y \<or> (z \<in> set (document_extracted_data d) \<and> datum_key z \<noteq> datum_key x)" for z
      using same y(1) put_row_mem [of y "document_extracted_data d" dat_id ?y]
      by (auto dest: set_put_row intro: put_row_other)
    then show ?thesis unfolding d' using y' old by (auto simp del: fun_upd_apply simp: fun_upd_def)
  qed
qed

lemma upsert_data_map:
  "db_ok d \<Longrightarrow> upsert_data xs d = Inr d' \<Longrightarrow>
   datum_map d' = fold (\<lambda>x m. m(datum_key x \<mapsto> dat_extracted_value x)) xs (datum_map d)"
  by (induction xs d rule: upsert_data.induct)
     (auto split: sum.splits simp del: fun_upd_apply simp: upsert_datum_map dest: upsert_datum_ok)

lemma fold_upd_map_of:
  "distinct (map fst kvs) \<Longrightarrow> fold (\<lambda>(k, v) m. m(k \<mapsto> v)) kvs m = m ++ map_of kvs"
proof (induction kvs arbitrary: m)
  case (Cons kv kvs)
  obtain k v where kv: "kv = (k, v)" by (cases kv)
  have "map_of kvs k = None" using Cons.prems kv by (simp add: map_of_eq_None_iff)
  then have "m(k \<mapsto> v) ++ map_of kvs = (m ++ map_of kvs)(k \<mapsto> v)"
    by (auto simp: map_add_def fun_eq_iff split: option.split)
  then show ?case using Cons kv by (simp del: fun_upd_apply)
qed simp

text \<open>What a batch stores, as a map.\<close>

definition batch_map :: "uuid \<Rightarrow> uuid \<Rightarrow> (uuid \<times> string) list \<Rightarrow> (uuid \<times> uuid \<times> uuid) \<rightharpoonup> string option" where
  "batch_map org doc kvs = map_of (map (\<lambda>(k, v). ((org, doc, k), Some v)) kvs)"

lemma new_data_pairs:
  "map (\<lambda>x. (datum_key x, dat_extracted_value x))
     (map2 (\<lambda>i (k, v). new_datum (g i) org doc k (Some v)) [n..<n + length kvs] kvs) =
   map (\<lambda>(k, v). ((org, doc, k), Some v)) kvs"
proof (induction kvs arbitrary: n)
  case (Cons kv kvs)
  have "[n..<n + length (kv # kvs)] = n # [Suc n..<Suc n + length kvs]" by (simp add: upt_rec)
  then show ?case using Cons [of "Suc n"] by (cases kv) (simp add: new_datum_def datum_key_def)
qed simp

lemma batch_upsert_map:
  assumes ok: "db_ok d" and up: "stmt_BatchUpsertExtractedData org doc ks vs g t d = (Inr (), d')"
    and len: "length ks = length vs"
  shows "datum_map d' = datum_map d ++ batch_map org doc (zip ks vs)"
proof -
  let ?new = "map2 (\<lambda>i (k, v). new_datum (g i) org doc k (Some v)) [0..<length ks] (zip ks vs)"
  let ?pairs = "map (\<lambda>(k, v). ((org, doc, k), Some v)) (zip ks vs)"
  have dist: "distinct ks" and up': "upsert_data ?new d = Inr d'"
    using up by (auto simp: stmt_BatchUpsertExtractedData_def split: if_splits sum.splits)
  have pairs: "map (\<lambda>x. (datum_key x, dat_extracted_value x)) ?new = ?pairs"
    using new_data_pairs [of g org doc 0 "zip ks vs"] len by simp
  have "map fst ?pairs = map (\<lambda>k. (org, doc, k)) ks"
    using len by (induction ks vs rule: list_induct2) auto
  then have "distinct (map fst ?pairs)" using dist by (simp add: distinct_map inj_on_def)
  then have "fold (\<lambda>(k, v) m. m(k \<mapsto> v)) ?pairs (datum_map d) = datum_map d ++ map_of ?pairs"
    by (rule fold_upd_map_of)
  moreover have "fold (\<lambda>x m. m(datum_key x \<mapsto> dat_extracted_value x)) ?new m =
      fold (\<lambda>(k, v) m. m(k \<mapsto> v)) (map (\<lambda>x. (datum_key x, dat_extracted_value x)) ?new) m" for m
    by (simp add: fold_map comp_def)
  ultimately show ?thesis
    using upsert_data_map [OF ok up'] pairs by (simp add: batch_map_def)
qed

end
