(* ===== verification/Extracted_Answers.thy ===== *)
theory Extracted_Answers
  imports Extraction_Properties
begin

text \<open>
  What a completed extraction leaves in the database, as an update of the map of extracted data,
  and what \<open>GetAnswers\<close> then reads back.
\<close>

lemma zip_fst_snd [simp]: "zip (map fst xs) (map snd xs) = xs"
  by (induction xs) auto

definition values_found :: "db \<Rightarrow> extraction_request \<Rightarrow> (string \<times> string option) list \<Rightarrow> (uuid \<times> string) list" where
  "values_found d rq m = known_values (keys_by_names (map fst m) (req_organization_id rq) d) m"

lemma persistExtractedData_map:
  assumes "db_ok (w_db w)" and "run_state (persistExtractedData E rq m) w = (Inr (), w')"
  shows "datum_map (w_db w') = datum_map (w_db w) ++
      batch_map (req_organization_id rq) (req_document_id rq) (values_found (w_db w) rq m)"
proof (cases rule: exec_sel_cases [of E "keys_by_names (map fst m) (req_organization_id rq)" w])
  case (failed e)
  then show ?thesis using assms(2) by (simp add: persistExtractedData_def GetExtractionKeysByNames_def)
next
  case read
  let ?kvs = "values_found (w_db w) rq m"
  show ?thesis
  proof (cases "?kvs = []")
    case True
    then show ?thesis using assms(2) read
      by (auto simp: persistExtractedData_def GetExtractionKeysByNames_def Let_def values_found_def batch_map_def)
  next
    case False
    then have "run_state (BatchUpsertExtractedData E (req_organization_id rq) (req_document_id rq)
        (map fst ?kvs) (map snd ?kvs)) (w\<lparr>w_tick := Suc (w_tick w)\<rparr>) = (Inr (), w')"
      using assms(2) read
      by (simp add: persistExtractedData_def GetExtractionKeysByNames_def Let_def values_found_def)
    then obtain g t where "stmt_BatchUpsertExtractedData (req_organization_id rq) (req_document_id rq)
        (map fst ?kvs) (map snd ?kvs) g t (w_db w) = (Inr (), w_db w')"
      by (auto simp: BatchUpsertExtractedData_def dest: exec_Inr)
    from batch_upsert_map [OF assms(1) this] show ?thesis by simp
  qed
qed

definition stored_request :: "db \<Rightarrow> uuid \<Rightarrow> extraction_request option" where
  "stored_request d i = find (\<lambda>r. req_id r = i) (extraction_requests d)"

text \<open>Storing data does not touch the requests and the keys.\<close>

definition same_requests :: "world \<Rightarrow> world \<Rightarrow> bool" where
  "same_requests w w' \<longleftrightarrow> extraction_requests (w_db w') = extraction_requests (w_db w) \<and>
     extraction_keys (w_db w') = extraction_keys (w_db w)"

interpretation same_requests: effect_rel same_requests
  by unfold_locales (auto simp: same_requests_def)

lemma upsert_data_same: "upsert_data xs d = Inr d' \<Longrightarrow>
    extraction_requests d' = extraction_requests d \<and> extraction_keys d' = extraction_keys d"
proof (induction xs d rule: upsert_data.induct)
  case (2 x xs d)
  then show ?case by (auto simp: upsert_datum_def split: option.splits sum.splits if_splits)
qed simp

lemma same_requests_exec [io_rel]:
  "state_io_rel same_requests (BatchUpsertExtractedData E a b ks vs)"
  "state_io_rel same_requests (exec E (sel f))" "state_io_rel same_requests (exec E (sel_one g))"
  unfolding BatchUpsertExtractedData_def
  by (intro exec_rel; auto simp: same_requests_def stmt_BatchUpsertExtractedData_def
      dest: upsert_data_same split: sum.splits)+

lemma same_requests_persist: "state_io_rel same_requests (persistExtractedData E rq m)"
  unfolding persistExtractedData_def GetExtractionKeysByNames_def Let_def by (intro io_rel)

lemma SetExtractionRequestStatus_sets:
  assumes "run_state (SetExtractionRequestStatus E i st msg) w = (Inr r, w')"
  obtains r0 where "stored_request (w_db w) i = Some r0" "stored_request (w_db w') i = Some r"
    "req_status r = st" "req_error_message r = msg" "same_request r0 r"
    "req_resolved_schema r = req_resolved_schema r0"
    "document_extracted_data (w_db w') = document_extracted_data (w_db w)"
    "extraction_keys (w_db w') = extraction_keys (w_db w)"
proof -
  from assms obtain t where "stmt_SetExtractionRequestStatus i st msg (env_uuid E (w_tick w)) t (w_db w) = (Inr r, w_db w')"
    unfolding SetExtractionRequestStatus_def by (blast dest: exec_Inr)
  then obtain r0 d1 where r0: "stored_request (w_db w) i = Some r0"
      and r: "r = r0\<lparr>req_status := st, req_error_message := msg, req_updated_at := t\<rparr>"
      and d1: "d1 = (w_db w)\<lparr>extraction_requests := put_row req_id r (extraction_requests (w_db w))\<rparr>"
      and w': "w_db w' = propagate_site_activity (document_site d1 (req_document_id r)) t d1"
    by (auto simp: stmt_SetExtractionRequestStatus_def update_request_def stored_request_def
        split: option.splits sum.splits prod.splits)
  have "req_id r = i" using r0 r by (auto simp: stored_request_def dest: find_Some_iff_mem)
  then have "stored_request (w_db w') i = Some r"
    using find_put_row [of req_id r "extraction_requests (w_db w)" r0] r0 w' d1 by (simp add: stored_request_def)
  then show thesis using that r0 r w' d1 by (simp add: same_request_def)
qed

lemma datum_map_cong: "document_extracted_data d' = document_extracted_data d \<Longrightarrow> datum_map d' = datum_map d"
  by (simp add: datum_map_def)

lemma OnExtractCompleted_runs:
  assumes run: "run_state (OnExtractCompleted E task) w = (Inr (), w')" and ok: "db_ok (w_db w)"
    and task: "task_extraction_request_id task = Some i"
  obtains m rq rq' where "dec_string_map (task_result_payload task) = Some m"
    "stored_request (w_db w) i = Some rq" "stored_request (w_db w') i = Some rq'"
    "req_status rq' = requestStatusCompleted" "req_error_message rq' = None" "same_request rq rq'"
    "req_resolved_schema rq' = req_resolved_schema rq"
    "datum_map (w_db w') = datum_map (w_db w) ++
       batch_map (req_organization_id rq) (req_document_id rq) (values_found (w_db w) rq m)"
    "extraction_keys (w_db w') = extraction_keys (w_db w)"
proof (cases "dec_string_map (task_result_payload task)")
  case None
  then show thesis using run task by (simp add: OnExtractCompleted_def)
next
  case (Some m)
  show thesis
  proof (cases rule: exec_sel_one_cases [of "\<lambda>d. stored_request d i" w E])
    case (failed e)
    then show thesis using run task Some
      by (simp add: OnExtractCompleted_def GetExtractionRequestByID_def stored_request_def)
  next
    case (row rq)
    let ?w = "w\<lparr>w_tick := Suc (w_tick w)\<rparr>"
    let ?persist = "if m \<noteq> [] then persistExtractedData E rq m else ok ()"
    obtain r v where persist: "run_state ?persist ?w = (r, v)" by (cases "run_state ?persist ?w")
    have "run_state (call ?persist (Wrapped ''persist extracted data'') (\<lambda>_.
        call (SetExtractionRequestStatus E i requestStatusCompleted None)
          (Wrapped ''mark request completed'') (\<lambda>_. ok ()))) ?w = (Inr (), w')"
      using run task Some row
      by (simp add: OnExtractCompleted_def GetExtractionRequestByID_def stored_request_def)
    then obtain rq' where r: "r = Inr ()"
        and set: "run_state (SetExtractionRequestStatus E i requestStatusCompleted None) v = (Inr rq', w')"
      using persist by (auto simp: run_call split: prod.splits sum.splits)
    have stored: "datum_map (w_db v) = datum_map (w_db w) ++
        batch_map (req_organization_id rq) (req_document_id rq) (values_found (w_db w) rq m)"
    proof (cases "m = []")
      case True
      then show ?thesis using persist by (auto simp: values_found_def known_values_def batch_map_def map_filter_simps)
    next
      case False
      then show ?thesis using persistExtractedData_map [of ?w E rq m v] persist r ok by simp
    qed
    have "state_io_rel same_requests ?persist" by (intro io_rel same_requests_persist)
    then have same: "same_requests ?w v" using persist by (metis state_io_rel_def snd_conv)
    obtain r0 where r0: "stored_request (w_db v) i = Some r0" "stored_request (w_db w') i = Some rq'"
      "req_status rq' = requestStatusCompleted" "req_error_message rq' = None" "same_request r0 rq'"
      "req_resolved_schema rq' = req_resolved_schema r0"
      "document_extracted_data (w_db w') = document_extracted_data (w_db v)"
      "extraction_keys (w_db w') = extraction_keys (w_db v)"
      by (rule SetExtractionRequestStatus_sets [OF set])
    have "r0 = rq" using r0(1) row(1) same by (simp add: stored_request_def same_requests_def)
    then show thesis
      using that [OF Some row(1) r0(2-4)] r0(5-8) stored same datum_map_cong [OF r0(7)]
      by (simp add: same_requests_def)
  qed
qed

section \<open>Reading the answers back\<close>

lemma set_distinct_on: "x \<in> set (distinct_on k xs) \<Longrightarrow> x \<in> set xs"
  by (induction xs) auto

lemma distinct_distinct_on: "distinct (map k (distinct_on k xs))"
proof (induction xs)
  case (Cons x xs)
  have "distinct (map k (filter (\<lambda>y. k y \<noteq> k x) (distinct_on k xs)))"
    using Cons by (simp add: distinct_map_filter)
  then show ?case by auto
qed simp

lemma distinct_on_covers: "x \<in> set xs \<Longrightarrow> \<exists>y \<in> set (distinct_on k xs). k y = k x"
proof (induction xs)
  case (Cons a xs)
  show ?case
  proof (cases "k x = k a")
    case False
    with Cons obtain y where "y \<in> set (distinct_on k xs)" "k y = k x" by auto
    then show ?thesis using False by auto
  qed simp
qed simp

lemma keys_by_names_mem: "k \<in> set (keys_by_names names org d) \<Longrightarrow>
    k \<in> set (extraction_keys d) \<and> key_name k \<in> set names \<and> org_visible org k"
  by (auto simp: keys_by_names_def dest!: set_distinct_on)

text \<open>A name the organization can see is found, and by its own key when it has one.\<close>

lemma keys_by_names_found:
  "k \<in> set (extraction_keys d) \<Longrightarrow> key_name k \<in> set names \<Longrightarrow> org_visible org k \<Longrightarrow>
   \<exists>k' \<in> set (keys_by_names names org d). key_name k' = key_name k"
  unfolding keys_by_names_def by (rule distinct_on_covers) simp

lemma keyIDByName_keys:
  assumes "k \<in> set (keys_by_names names org d)"
  shows "keyIDByName (keys_by_names names org d) (key_name k) = Some (key_id k)"
proof -
  have "distinct (map key_name (keys_by_names names org d))"
    unfolding keys_by_names_def by (rule distinct_distinct_on)
  then have "distinct (map fst (rev (map (\<lambda>k. (key_name k, key_id k)) (keys_by_names names org d))))"
    by (simp add: o_def flip: rev_map)
  then show ?thesis unfolding keyIDByName_def by (rule map_of_is_SomeI) (use assms in auto)
qed

lemma keyIDByName_some: "keyIDByName ks name = Some i \<Longrightarrow> \<exists>k \<in> set ks. key_name k = name \<and> key_id k = i"
  by (fastforce simp: keyIDByName_def dest: map_of_SomeD)

lemma known_values_simps [simp]:
  "known_values ks [] = []"
  "known_values ks ((n, None) # m) = known_values ks m"
  "known_values ks ((n, Some v) # m) = (case keyIDByName ks n of None \<Rightarrow> known_values ks m
     | Some i \<Rightarrow> (i, v) # known_values ks m)"
  by (auto simp: known_values_def List.map_filter_simps split: option.split)

lemma known_values_mem: "(i, v) \<in> set (known_values ks m) \<longleftrightarrow>
    (\<exists>n. (n, Some v) \<in> set m \<and> keyIDByName ks n = Some i)"
proof (induction m)
  case (Cons nv m)
  obtain n x where "nv = (n, x)" by (cases nv)
  then show ?case using Cons by (cases x) (auto split: option.splits)
qed simp

text \<open>Distinct names have distinct keys, so a batch is never refused for a repeated key.\<close>

lemma known_values_distinct:
  assumes ok: "db_ok d" and m: "distinct (map fst m)"
  shows "distinct (map fst (known_values (keys_by_names names org d) m))"
  using m
proof (induction m)
  case (Cons nv m)
  obtain n x where nv: "nv = (n, x)" by (cases nv)
  let ?ks = "keys_by_names names org d"
  have "i \<noteq> j" if i: "keyIDByName ?ks n = Some i" and j: "keyIDByName ?ks n' = Some j"
    and n': "n' \<in> fst ` set m" for i j n'
  proof -
    obtain k k' where k: "k \<in> set ?ks" "key_name k = n" "key_id k = i"
      "k' \<in> set ?ks" "key_name k' = n'" "key_id k' = j"
      using keyIDByName_some [OF i] keyIDByName_some [OF j] by blast
    have "n \<noteq> n'" using Cons.prems n' nv by auto
    moreover have "k \<in> set (extraction_keys d)" "k' \<in> set (extraction_keys d)"
      using k(1,4) keys_by_names_mem by blast+
    ultimately show ?thesis using k distinct_key_inj [OF db_ok_distinct(4) [OF ok], of k k'] by auto
  qed
  then have "i \<notin> fst ` set (known_values ?ks m)" if "keyIDByName ?ks n = Some i" for i
    using that by (force simp: known_values_mem)
  then show ?case using Cons nv by (cases x) (auto split: option.split)
qed simp

section \<open>The specification of the keys\<close>

text \<open>
  The key that a name stands for in an organization: its own key of this name, and the system key when it has
  none of its own.
\<close>

definition key_for :: "uuid \<Rightarrow> db \<Rightarrow> string \<Rightarrow> extraction_key \<Rightarrow> bool" where
  "key_for org d name k \<longleftrightarrow> k \<in> set (extraction_keys d) \<and> key_name k = name \<and>
     (key_organization_id k = Some org \<or>
      key_organization_id k = None \<and>
        (\<forall>k' \<in> set (extraction_keys d). key_name k' = name \<longrightarrow> key_organization_id k' \<noteq> Some org))"

lemma index_keys_Some: "index_keys (\<lambda>x. Some (f x)) xs = map f xs"
  by (induction xs) auto

lemma key_for_unique:
  assumes "db_ok d" and "key_for org d name k" and "key_for org d name k'"
  shows "k' = k"
proof -
  have "distinct (map key_org_name (extraction_keys d))"
  proof -
    have "table_ok key_id [\<lambda>k. Some (key_org_name k)] (key_ok d) (extraction_keys d)" by (rule db_ok_keys [OF assms(1)])
    then have "uniq (\<lambda>k. Some (key_org_name k)) (extraction_keys d)" by (simp add: table_ok_def)
    then show ?thesis by (simp only: uniq_def index_keys_Some)
  qed
  moreover have "k \<in> set (extraction_keys d)" "k' \<in> set (extraction_keys d)" "key_org_name k' = key_org_name k"
    using assms(2,3) by (auto simp: key_for_def key_org_name_def)
  ultimately show ?thesis using distinct_key_inj [of key_org_name "extraction_keys d" k' k] by simp
qed

text \<open>The first row of a name in the order of the query is its row with the least second key.\<close>

lemma find_filter_hd: "find P xs = (case filter P xs of [] \<Rightarrow> None | x # _ \<Rightarrow> Some x)"
  by (induction xs) auto

lemma first_sorted:
  assumes "find (\<lambda>y. f y = c) (sort_key f (sort_key g zs)) = Some k"
  shows "k \<in> set zs" and "f k = c" and "y \<in> set zs \<Longrightarrow> f y = c \<Longrightarrow> g k \<le> g y"
proof -
  have "filter (\<lambda>y. f y = c) (sort_key f (sort_key g zs)) = sort_key g (filter (\<lambda>y. f y = c) zs)"
    by (simp add: sort_key_stable filter_sort)
  then obtain ys where ys: "sort_key g (filter (\<lambda>y. f y = c) zs) = k # ys"
    using assms by (auto simp: find_filter_hd split: list.splits)
  then have mem: "set (k # ys) = {y \<in> set zs. f y = c}" by (metis set_filter set_sort)
  then show "k \<in> set zs" "f k = c" by auto
  have "sorted (map g (k # ys))" using sorted_sort_key [of g "filter (\<lambda>y. f y = c) zs"] ys by simp
  moreover assume "y \<in> set zs" "f y = c"
  then have "y \<in> set (k # ys)" using mem by simp
  ultimately show "g k \<le> g y" by auto
qed

lemma distinct_on_first: "y \<in> set (distinct_on k xs) \<Longrightarrow> find (\<lambda>x. k x = k y) xs = Some y"
  by (induction xs) auto

text \<open>The query returns exactly the keys that the names stand for.\<close>

lemma keys_by_names_key_for:
  assumes ok: "db_ok d"
  shows "k \<in> set (keys_by_names names org d) \<longleftrightarrow> key_name k \<in> set names \<and> key_for org d (key_name k) k"
proof -
  have sound: "key_name k \<in> set names \<and> key_for org d (key_name k) k" if k: "k \<in> set (keys_by_names names org d)" for k
  proof -
    note first = first_sorted [OF distinct_on_first [OF k [unfolded keys_by_names_def]]]
    have "key_organization_id k' \<noteq> Some org"
      if "key_organization_id k = None" "k' \<in> set (extraction_keys d)" "key_name k' = key_name k" for k'
      using first(3) [of k'] first(1) that by (auto simp: org_visible_def)
    then show ?thesis using first(1) by (auto simp: key_for_def org_visible_def)
  qed
  show ?thesis
  proof
    assume k: "key_name k \<in> set names \<and> key_for org d (key_name k) k"
    then have "k \<in> set (extraction_keys d)" "org_visible org k" by (auto simp: key_for_def org_visible_def)
    with k obtain k' where k': "k' \<in> set (keys_by_names names org d)" "key_name k' = key_name k"
      using keys_by_names_found by blast
    have "k' = k" by (rule key_for_unique [OF ok]) (use k sound [OF k'(1)] k'(2) in auto)
    then show "k \<in> set (keys_by_names names org d)" using k'(1) by simp
  qed (rule sound)
qed

lemma keyIDByName_key_for:
  assumes "db_ok d"
  shows "keyIDByName (keys_by_names names org d) name = Some i \<longleftrightarrow>
    name \<in> set names \<and> (\<exists>k. key_for org d name k \<and> key_id k = i)"
proof
  assume "keyIDByName (keys_by_names names org d) name = Some i"
  then obtain k where "k \<in> set (keys_by_names names org d)" "key_name k = name" "key_id k = i"
    using keyIDByName_some by blast
  then show "name \<in> set names \<and> (\<exists>k. key_for org d name k \<and> key_id k = i)"
    using keys_by_names_key_for [OF assms] by blast
next
  assume "name \<in> set names \<and> (\<exists>k. key_for org d name k \<and> key_id k = i)"
  then obtain k where k: "name \<in> set names" "key_for org d name k" "key_id k = i" by blast
  then have "key_name k = name" by (simp add: key_for_def)
  then have "k \<in> set (keys_by_names names org d)" using k keys_by_names_key_for [OF assms] by simp
  from keyIDByName_keys [OF this] show "keyIDByName (keys_by_names names org d) name = Some i"
    using k(3) \<open>key_name k = name\<close> by simp
qed

lemma values_found_mem:
  assumes "db_ok d"
  shows "(i, v) \<in> set (values_found d rq m) \<longleftrightarrow>
    (\<exists>name k. (name, Some v) \<in> set m \<and> key_for (req_organization_id rq) d name k \<and> key_id k = i)"
  by (force simp: values_found_def known_values_mem keyIDByName_key_for [OF assms])

lemma batch_map_other: "(\<And>k v. (k, v) \<in> set kvs \<Longrightarrow> x \<noteq> (org, doc, k)) \<Longrightarrow> batch_map org doc kvs x = None"
  by (force simp: batch_map_def map_of_eq_None_iff)

lemma batch_map_some: "distinct (map fst kvs) \<Longrightarrow> (k, v) \<in> set kvs \<Longrightarrow> batch_map org doc kvs (org, doc, k) = Some (Some v)"
proof -
  assume d: "distinct (map fst kvs)" and kv: "(k, v) \<in> set kvs"
  have "map fst (map (\<lambda>(k, v). ((org, doc, k), Some v)) kvs) = map (\<lambda>k. (org, doc, k)) (map fst kvs)"
    by (simp add: case_prod_beta)
  moreover have "distinct (map (\<lambda>k. (org, doc, k)) (map fst kvs))"
    using d by (simp only: distinct_map [of "\<lambda>k. (org, doc, k)"]) (simp add: inj_on_def)
  ultimately have "distinct (map fst (map (\<lambda>(k, v). ((org, doc, k), Some v)) kvs))" by (simp only:)
  then show ?thesis unfolding batch_map_def by (rule map_of_is_SomeI) (use kv in force)
qed

text \<open>A batch of the values found, read as an update of the map of extracted data.\<close>

lemma values_found_map:
  assumes ok: "db_ok d" and m: "dec_string_map j = Some m"
    and upd: "f' = f ++ batch_map (req_organization_id rq) doc (values_found d rq m)"
  shows "(name, Some v) \<in> set m \<Longrightarrow> key_for (req_organization_id rq) d name k \<Longrightarrow>
      f' (req_organization_id rq, doc, key_id k) = Some (Some v)"
    and "\<nexists>name v k. (name, Some v) \<in> set m \<and> key_for (req_organization_id rq) d name k \<and>
      x = (req_organization_id rq, doc, key_id k) \<Longrightarrow> f' x = f x"
proof -
  have "distinct (map fst (values_found d rq m))"
    unfolding values_found_def by (rule known_values_distinct [OF ok dec_string_map_distinct [OF m]])
  note some = batch_map_some [OF this]
  show "f' (req_organization_id rq, doc, key_id k) = Some (Some v)"
    if "(name, Some v) \<in> set m" "key_for (req_organization_id rq) d name k"
    using that some values_found_mem [OF ok, of "key_id k" v rq m] by (auto simp: upd map_add_def)
  show "f' x = f x" if "\<nexists>name v k. (name, Some v) \<in> set m \<and> key_for (req_organization_id rq) d name k \<and>
      x = (req_organization_id rq, doc, key_id k)"
  proof -
    have "batch_map (req_organization_id rq) doc (values_found d rq m) x = None"
    proof (rule batch_map_other)
      fix i v assume "(i, v) \<in> set (values_found d rq m)"
      then obtain name k where "(name, Some v) \<in> set m" "key_for (req_organization_id rq) d name k" "key_id k = i"
        using values_found_mem [OF ok] by blast
      then show "x \<noteq> (req_organization_id rq, doc, i)" using that by blast
    qed
    then show ?thesis by (simp add: upd map_add_def)
  qed
qed

text \<open>A stored value is among the rows that \<open>GetAnswers\<close> reads.\<close>

lemma extracted_row_read:
  assumes "db_ok d" and "datum_map d (org, doc, key_id k) = Some v" and "k \<in> set (extraction_keys d)"
    and "key_name k \<in> set names"
  shows "\<lparr>row_KeyName = key_name k, row_DataType = key_data_type k, row_ExtractedValue = v\<rparr>
    \<in> set (extracted_for_keys doc org names d)"
proof -
  obtain x where "x \<in> set (document_extracted_data d)" "datum_key x = (org, doc, key_id k)" "dat_extracted_value x = v"
    using assms(1,2) datum_map_some by blast
  then show ?thesis using assms(3,4) by (force simp: extracted_for_keys_def datum_key_def)
qed

lemma GetAnswers_calm:
  assumes "db_calm E" and "req_resolved_schema rq = Some j" and "dec_schema j = Some schema" and "schema \<noteq> []"
  shows "run_state (GetAnswers E rq) w =
    (Inr (map answer_of (extracted_for_keys (req_document_id rq) (req_organization_id rq)
       (map se_KeyName schema) (w_db w))), w\<lparr>w_tick := Suc (w_tick w)\<rparr>)"
  using assms by (simp add: GetAnswers_def ListExtractedDataForKeys_def run_call run_sel)

lemma answers_after_extract:
  assumes run: "run_state (OnExtractCompleted E task) w = (Inr (), w')" and ok: "db_ok (w_db w)"
    and ok': "db_ok (w_db w')" and task: "task_extraction_request_id task = Some i"
    and m: "dec_string_map (task_result_payload task) = Some m" and val: "(name, Some v) \<in> set m"
    and rq: "stored_request (w_db w) i = Some rq" "req_resolved_schema rq = Some j"
    and schema: "dec_schema j = Some schema" "name \<in> set (map se_KeyName schema)"
    and key: "k \<in> set (keys_by_names (map fst m) (req_organization_id rq) (w_db w))" "key_name k = name"
    and calm: "db_calm E'"
  shows "\<exists>rq' answers. stored_request (w_db w') i = Some rq' \<and>
    fst (run_state (GetAnswers E' rq') w') = Inr answers \<and>
    \<lparr>ans_KeyName = name, ans_DataType = key_data_type k, ans_ExtractedValue = Some v\<rparr> \<in> set answers"
proof -
  obtain rq' where rq': "stored_request (w_db w') i = Some rq'" "same_request rq rq'"
      "req_resolved_schema rq' = req_resolved_schema rq"
      "datum_map (w_db w') = datum_map (w_db w) ++
         batch_map (req_organization_id rq) (req_document_id rq) (values_found (w_db w) rq m)"
      "extraction_keys (w_db w') = extraction_keys (w_db w)"
    by (rule OnExtractCompleted_runs [OF run ok task]) (use m rq(1) in auto)
  have names: "distinct (map fst m)" using m by (rule dec_string_map_distinct)
  have "(key_id k, v) \<in> set (values_found (w_db w) rq m)"
    using val keyIDByName_keys [OF key(1)] key(2) by (auto simp: values_found_def known_values_mem)
  moreover have "distinct (map fst (values_found (w_db w) rq m))"
    unfolding values_found_def by (rule known_values_distinct [OF ok names])
  ultimately have "datum_map (w_db w') (req_organization_id rq, req_document_id rq, key_id k) = Some (Some v)"
    unfolding rq'(4) by (simp add: batch_map_some map_add_def)
  then have "\<lparr>row_KeyName = key_name k, row_DataType = key_data_type k, row_ExtractedValue = Some v\<rparr>
      \<in> set (extracted_for_keys (req_document_id rq) (req_organization_id rq) (map se_KeyName schema) (w_db w'))"
    by (intro extracted_row_read [OF ok']) (use key keys_by_names_mem schema rq'(5) in auto)
  then show ?thesis
    using rq' rq(2) schema key(2) GetAnswers_calm [OF calm, of rq' j schema w']
    by (force simp: same_request_def answer_of_def)
qed

section \<open>The file of an \<open>extract\<close> task\<close>

text \<open>Saving the resolved schema and the new keys leaves documents and queues alone.\<close>

definition same_files :: "world \<Rightarrow> world \<Rightarrow> bool" where
  "same_files w w' \<longleftrightarrow> documents (w_db w') = documents (w_db w) \<and> w_redis w' = w_redis w"

interpretation same_files: effect_rel same_files
  by unfold_locales (auto simp: same_files_def)

lemma same_files_exec [io_rel]:
  "state_io_rel same_files (UpsertExtractionKey E org n q ty)"
  "state_io_rel same_files (SetExtractionRequestResolvedSchema E i j)"
  "state_io_rel same_files (exec E (sel f))" "state_io_rel same_files (exec E (sel_one g))"
  unfolding UpsertExtractionKey_def SetExtractionRequestResolvedSchema_def
  by (intro exec_rel; auto simp: same_files_def stmt_UpsertExtractionKey_def Let_def
      stmt_SetExtractionRequestResolvedSchema_def update_request_def split: option.split)+

definition untouched :: "world \<Rightarrow> world \<Rightarrow> bool" where
  "untouched w v \<longleftrightarrow> documents (w_db v) = documents (w_db w) \<and> w_redis v = w_redis w"

lemma untouched_post: "state_io_rel same_files m \<Longrightarrow> post (untouched w) m (\<lambda>_. untouched w)"
  by (erule post_of_rel) (auto simp: untouched_def same_files_def)

lemma untouched_adds: "untouched w v \<Longrightarrow> adds P w v"
  by (simp add: untouched_def adds_def)

lemma untouched_read:
  "post (untouched w) (exec E (sel f)) (\<lambda>r v. untouched w v \<and> (\<forall>x. r = Inr x \<longrightarrow> x = f (w_db v)))"
  "post (untouched w) (exec E (sel_one g)) (\<lambda>r v. untouched w v \<and> (\<forall>x. r = Inr x \<longrightarrow> g (w_db v) = Some x))"
proof -
  show "post (untouched w) (exec E (sel f)) (\<lambda>r v. untouched w v \<and> (\<forall>x. r = Inr x \<longrightarrow> x = f (w_db v)))"
  proof (rule postI)
    fix v r v' assume "untouched w v" "run_state (exec E (sel f)) v = (r, v')"
    then show "untouched w v' \<and> (\<forall>x. r = Inr x \<longrightarrow> x = f (w_db v'))"
      by (cases rule: exec_sel_cases [of E f v]) (auto simp: untouched_def)
  qed
  show "post (untouched w) (exec E (sel_one g)) (\<lambda>r v. untouched w v \<and> (\<forall>x. r = Inr x \<longrightarrow> g (w_db v) = Some x))"
  proof (rule postI)
    fix v r v' assume "untouched w v" "run_state (exec E (sel_one g)) v = (r, v')"
    then show "untouched w v' \<and> (\<forall>x. r = Inr x \<longrightarrow> g (w_db v') = Some x)"
      by (cases rule: exec_sel_one_cases [of g v E]) (auto simp: untouched_def)
  qed
qed

lemma post_pure: "(\<And>s. P s \<Longrightarrow> post P m Q) \<Longrightarrow> post P m Q"
  by (auto simp: post_def)

text \<open>
  A message to the \<open>extract\<close> worker for a request: on the queue \<open>llm\<close>, with the artifact that the request is
  about and the resolved schema.
\<close>

definition extract_message :: "env \<Rightarrow> db \<Rightarrow> extraction_request \<Rightarrow> extraction_schema_entry list
    \<Rightarrow> string \<Rightarrow> string \<Rightarrow> bool" where
  "extract_message E d rq schema q m \<longleftrightarrow> q = ''llm'' \<and> (\<exists>r x. celery_text E r m \<and> pr_ModuleName r = ''extract'' \<and>
     artifact_of d (req_document_id rq) (target_kind (req_anonymize rq)) x \<and> pr_StoragePath r = doc_storage_path x \<and>
     pr_Kwargs r = [(''extraction_schema'', enc_schema schema)])"

lemma Process_adds_to:
  assumes "\<And>q n m. resolveModule (env_quote E) (pr_ModuleName r) = Inr (q, n) \<Longrightarrow> celery_text E r m \<Longrightarrow> P q m"
  shows "state_io_rel (adds P) (Process E r)"
  unfolding state_io_rel_def
proof
  fix w
  show "adds P w (snd (run_state (Process E r) w))"
  proof (cases rule: Process_cases [of E r w])
    case (sent q n m x w')
    then show ?thesis using assms by (auto simp: adds_def)
  next
    case (unsent e w')
    then show ?thesis by (simp add: adds_same)
  qed
qed

lemma enqueueExtract_adds_message:
  assumes "artifact_of d (req_document_id rq) (target_kind (req_anonymize rq)) target"
  shows "state_io_rel (adds (extract_message E d rq schema)) (enqueueExtract E (server_extraction E) rq target schema)"
proof -
  have "state_io_rel (adds (extract_message E d rq schema))
      (Process E (task_request E t moduleExtract (doc_storage_path target) [(''extraction_schema'', enc_schema schema)]))" for t
    by (rule Process_adds_to)
      (use assms in \<open>auto simp: extract_message_def task_request_def resolveModule_def
        intro!: exI [of _ "task_request E t moduleExtract (doc_storage_path target) [(''extraction_schema'', enc_schema schema)]"]\<close>)
  then show ?thesis unfolding enqueueExtract_def query_defs server_python option.case by (intro io_rel)
qed

text \<open>The end of \<open>OnResolveKeysCompleted\<close>: list the artifacts, choose the target, enqueue.\<close>

definition enqueue_target :: "env \<Rightarrow> extraction_request \<Rightarrow> uuid \<Rightarrow> extraction_schema_entry list
    \<Rightarrow> document list \<Rightarrow> unit act" where
  "enqueue_target E rq i schema artifacts =
     (case target_artifact (req_anonymize rq) artifacts of
        None \<Rightarrow> fail (Other (''target artifact missing for extraction_request '' @ env_uuid_string E i))
      | Some target \<Rightarrow> enqueueExtract E (server_extraction E) rq target schema)"

lemma enqueue_target_post:
  "post (\<lambda>v. untouched w v \<and> artifacts = documents_by_parent (req_document_id rq) org (w_db v))
     (enqueue_target E rq i schema artifacts)
     (\<lambda>_. adds (extract_message E (w_db w) rq schema) w)"
proof (rule post_pure)
  fix v assume "untouched w v \<and> artifacts = documents_by_parent (req_document_id rq) org (w_db v)"
  then have arts: "artifacts = documents_by_parent (req_document_id rq) org (w_db w)"
    by (simp add: untouched_def documents_by_parent_def)
  show ?thesis
  proof (cases "target_artifact (req_anonymize rq) artifacts")
    case None
    then show ?thesis by (auto simp: enqueue_target_def intro!: post_fail untouched_adds)
  next
    case (Some target)
    then have "artifact_of (w_db w) (req_document_id rq) (target_kind (req_anonymize rq)) target"
      using arts target_artifact_some by blast
    then show ?thesis unfolding enqueue_target_def Some option.case
      by (intro post_of_rel [OF enqueueExtract_adds_message]) (auto simp: untouched_def adds_def)
  qed
qed

lemma OnResolveKeysCompleted_adds:
  assumes task: "task_extraction_request_id task = Some i" and rq: "stored_request (w_db w) i = Some rq"
  shows "adds (\<lambda>q m. \<exists>payload. dec_resolve_keys_payload (task_result_payload task) = Some payload \<and>
      extract_message E (w_db w) rq (rk_ResolvedSchema payload) q m) w
    (snd (run_state (OnResolveKeysCompleted E (server_extraction E) task) w))"
proof (cases "dec_resolve_keys_payload (task_result_payload task)")
  case None
  then show ?thesis using task by (simp add: OnResolveKeysCompleted_def adds_same)
next
  case (Some payload)
  let ?A = "\<lambda>_. adds (extract_message E (w_db w) rq (rk_ResolvedSchema payload)) w"
  show ?thesis
  proof (cases rule: exec_sel_one_cases [of "\<lambda>d. stored_request d i" w E])
    case (failed e)
    then show ?thesis using task Some
      by (auto simp: OnResolveKeysCompleted_def GetExtractionRequestByID_def stored_request_def adds_same)
  next
    case (row rq')
    have upserts: "state_io_rel same_files (for_each (upsert_new_key E (req_organization_id rq)) (rk_NewKeys payload))"
      unfolding upsert_new_key_def by (intro io_rel)
    have tail: "post (\<lambda>v. untouched w v \<and> (\<forall>y. Inr doc = Inr y \<longrightarrow>
          find (\<lambda>x. doc_id x = req_document_id rq) (documents (w_db v)) = Some y))
        (call (exec E (sel (documents_by_parent (doc_id doc) (doc_organization_id doc)))) (Wrapped ''list artifacts'')
          (enqueue_target E rq i (rk_ResolvedSchema payload))) ?A" for doc
    proof (rule post_pure)
      fix v assume "untouched w v \<and> (\<forall>y. Inr doc = Inr y \<longrightarrow>
          find (\<lambda>x. doc_id x = req_document_id rq) (documents (w_db v)) = Some y)"
      then have "doc_id doc = req_document_id rq" by (auto dest: find_Some_iff_mem)
      then show ?thesis
        by (intro post_call [where R = "\<lambda>r v. untouched w v \<and>
              (\<forall>x. r = Inr x \<longrightarrow> x = documents_by_parent (doc_id doc) (doc_organization_id doc) (w_db v))"]
            post_conseq [OF untouched_read(1)] post_conseq [OF enqueue_target_post])
          (auto intro: untouched_adds)
    qed
    have "post (untouched w) (ignoring (for_each (upsert_new_key E (req_organization_id rq)) (rk_NewKeys payload))
        (call (SetExtractionRequestResolvedSchema E i (enc_schema (rk_ResolvedSchema payload)))
               (Wrapped ''save resolved_schema'') (\<lambda>_.
          call (GetDocumentByID E (req_document_id rq)) (Wrapped ''get document'') (\<lambda>doc.
          call (ListDocumentsByParent E (doc_id doc) (doc_organization_id doc))
               (Wrapped ''list artifacts'') (enqueue_target E rq i (rk_ResolvedSchema payload)))))) ?A"
      unfolding GetDocumentByID_def ListDocumentsByParent_def
      by (rule post_ignoring [OF untouched_post [OF upserts]], rule post_call [OF untouched_post], intro io_rel,
          erule untouched_adds, rule post_call [OF untouched_read(2)], blast intro: untouched_adds, rule tail)
    then show ?thesis
      using task Some row rq
      by (simp add: OnResolveKeysCompleted_def GetExtractionRequestByID_def stored_request_def
          enqueue_target_def [abs_def] adds_same post_def untouched_def)
  qed
qed

end
