(* ===== verification/Example_World.thy ===== *)
theory Example_World
  imports Extracted_Answers
begin

text \<open>
  A small concrete world for the closed examples: one organization with one user, a document that
  has been converted, its pending and running extraction requests, and their tasks; and two
  environments, one in which every interaction succeeds and one in which publishing fails.
\<close>

definition demo_env :: env where
  "demo_env = \<lparr>env_uuid = (\<lambda>n i. of_nat (1000 + 100 * n + i)), env_now = (\<lambda>n. 5000 + int n),
     env_db = (\<lambda>_. NoFault), env_push = (\<lambda>_. NoFault), env_canceled = (\<lambda>_. False),
     env_go_uuid = (\<lambda>n i. of_nat (n + i)), env_error_text = (\<lambda>_. ''error''),
     env_uuid_string = (\<lambda>u. nat_digits (unat u)), env_quote = (\<lambda>s. s),
     env_store = (\<lambda>_. NoFault)\<rparr>"

definition deaf_env :: env where
  "deaf_env = demo_env\<lparr>env_push := (\<lambda>_. Rejected ''connection refused'')\<rparr>"

definition demo_org :: organization where
  "demo_org = \<lparr>org_id = 1, org_name = ''Builder'', org_inn = None, org_settings = JObj [],
     org_is_active = True, org_created_at = 0, org_updated_at = 0\<rparr>"

definition demo_user :: user where
  "demo_user = \<lparr>usr_id = 2, usr_organization_id = Some 1, usr_email = ''a@b.c'',
     usr_password_hash = ''hash'', usr_full_name = ''Ann'', usr_role = ''admin'',
     usr_is_active = True, usr_created_at = 0, usr_updated_at = 0, usr_last_login_at = None\<rparr>"

definition demo_doc :: document where
  "demo_doc = \<lparr>doc_id = 3, doc_organization_id = 1, doc_site_id = None, doc_uploaded_by = 2,
     doc_parent_id = None, doc_file_name = ''contract.pdf'', doc_storage_path = ''o/contract.pdf'',
     doc_mime_type = Some ''application/pdf'', doc_file_size_bytes = Some 10, doc_artifact_kind = None,
     doc_created_at = 0, doc_updated_at = 0, doc_contract_kind_id = None, doc_file_role_id = None,
     doc_bundle_id = None\<rparr>"

definition demo_md :: document where
  "demo_md = demo_doc\<lparr>doc_id := 4, doc_parent_id := Some 3, doc_file_name := ''contract.md'',
     doc_storage_path := ''o/contract.md'', doc_artifact_kind := Some artifactKindConvertMD\<rparr>"

definition demo_request :: extraction_request where
  "demo_request = \<lparr>req_id = 10, req_document_id = 3, req_organization_id = 1,
     req_questions = enc_strings [''price''], req_anonymize = False, req_status = ''pending'',
     req_resolved_schema = None, req_error_message = None, req_created_at = 1, req_updated_at = 1\<rparr>"

definition demo_private_request :: extraction_request where
  "demo_private_request = demo_request\<lparr>req_id := 11, req_anonymize := True\<rparr>"

definition demo_running_request :: extraction_request where
  "demo_running_request = demo_request\<lparr>req_id := 12, req_status := ''running'',
     req_resolved_schema := Some (enc_schema [\<lparr>se_KeyName = ''price'', se_DataType = ''number''\<rparr>])\<rparr>"

definition demo_key :: extraction_key where
  "demo_key = new_key 20 0 (Some 1) ''price'' ''price'' ''number''"

definition demo_anonymize_task :: document_task where
  "demo_anonymize_task = new_task 30 2 3 ''anonymize'' ''o/contract.md'' None"

definition demo_extract_task :: document_task where
  "demo_extract_task = (new_task 31 3 3 ''extract'' ''o/contract.md'' (Some 12))
     \<lparr>task_status := ''processing'', task_retry_count := 3\<rparr>"

definition demo_db :: db where
  "demo_db = empty_db\<lparr>organizations := [demo_org], users := [demo_user],
     documents := [demo_doc, demo_md], document_tasks := [demo_anonymize_task, demo_extract_task],
     extraction_requests := [demo_request, demo_private_request, demo_running_request],
     extraction_keys := [demo_key]\<rparr>"

definition demo_world :: world where
  "demo_world = \<lparr>w_db = demo_db, w_redis = (\<lambda>_. []), w_tick = 0,
     w_objects = Map.empty\<rparr>"

lemmas demo_defs = demo_org_def demo_user_def demo_doc_def demo_md_def demo_request_def
  demo_private_request_def demo_running_request_def demo_key_def demo_anonymize_task_def
  demo_extract_task_def demo_db_def demo_world_def empty_db_def

lemma demo_calm [simp]: "calm demo_env" "db_calm demo_env" "db_calm deaf_env"
  by (simp_all add: calm_def db_calm_def demo_env_def deaf_env_def)

lemma demo_tables [simp]:
  "organizations demo_db = [demo_org]" "users demo_db = [demo_user]"
  "documents demo_db = [demo_doc, demo_md]"
  "document_tasks demo_db = [demo_anonymize_task, demo_extract_task]"
  "extraction_requests demo_db = [demo_request, demo_private_request, demo_running_request]"
  "extraction_keys demo_db = [demo_key]" "document_extracted_data demo_db = []"
  "w_db demo_world = demo_db" "w_tick demo_world = 0" "w_redis demo_world = (\<lambda>_. [])"
  by (simp_all add: demo_db_def empty_db_def demo_world_def)

lemma demo_db_ok [simp]: "db_ok demo_db"
  by (simp add: db_ok_def tables_ok_defs table_ok_def row_ok_defs uniq_def artifact_key_def
      singleton_key_def request_key_def key_org_name_def document_checks_def task_checks_def task_fks_def
      request_checks_def request_fks_def org_exists_def org_document_exists_def document_exists_def
      request_exists_def blank_def enc_strings_def demo_org_def demo_doc_def demo_md_def demo_request_def
      demo_private_request_def demo_running_request_def demo_key_def demo_anonymize_task_def
      demo_extract_task_def new_task_def new_key_def)

section \<open>Running the examples\<close>

lemma demo_env_simps [simp]:
  "env_db demo_env n = NoFault" "env_push demo_env n = NoFault" "env_now demo_env n = 5000 + int n"
  "env_uuid demo_env n i = of_nat (1000 + 100 * n + i)" "env_canceled demo_env n = False"
  by (simp_all add: demo_env_def)

text \<open>
  One statement, one publication: the equations that evaluate a run from the inside out. The text
  of a message is kept folded.
\<close>

definition demo_message :: "process_request \<Rightarrow> world \<Rightarrow> string" where
  "demo_message p w = (case resolveModule (env_quote demo_env) (pr_ModuleName p) of
     Inl e \<Rightarrow> [] | Inr (q, n) \<Rightarrow> buildCeleryMessage (env_quote demo_env) p q n
       (env_uuid_string demo_env (env_go_uuid demo_env (w_tick w) 0))
       (env_uuid_string demo_env (env_go_uuid demo_env (w_tick w) 1)))"

lemma run_exec_demo: "run_state (exec demo_env f) w =
   (case f (env_uuid demo_env (w_tick w)) (5000 + int (w_tick w)) (w_db w) of
      (r, d) \<Rightarrow> (r, w\<lparr>w_db := d, w_tick := Suc (w_tick w)\<rparr>))"
  by (simp add: exec_def Let_def)

lemma run_Process_demo: "run_state (Process demo_env p) w =
   (case resolveModule (env_quote demo_env) (pr_ModuleName p) of
      Inl e \<Rightarrow> (Inl e, w)
    | Inr (q, n) \<Rightarrow> (Inr (), w\<lparr>w_tick := Suc (w_tick w),
        w_redis := (w_redis w)(q := demo_message p w # w_redis w q)\<rparr>))"
  by (auto simp: Process_def lpush_def Let_def demo_message_def split: sum.split prod.split)

lemma sel_eq: "sel f g t d = (Inr (f d), d)"
  by (simp add: sel_def)

lemma sel_one_eq: "sel_one f g t d = ((case f d of None \<Rightarrow> Inl ErrNoRows | Some x \<Rightarrow> Inr x), d)"
  by (simp add: sel_one_def split: option.split)

lemmas demo_run = run_exec_demo run_Process_demo run_call sel_eq sel_one_eq query_defs

lemma nonempty_enc_strings: "nonempty_array (enc_strings ss) \<longleftrightarrow> ss \<noteq> []"
  by (simp add: enc_strings_def)

lemmas demo_insert = stmt_CreateDocumentTaskForRequest_def stmt_CreateDocumentTaskSingleton_def
  insert_task_or_nothing_def insert_task_def index_conflict_def request_key_def singleton_key_def
  new_task_def task_checks_def task_keys_def task_fks_def blank_def document_exists_def request_exists_def

lemmas demo_status = stmt_SetExtractionRequestStatus_def update_request_def request_checks_def
  nonempty_enc_strings put_row_def document_site_def propagate_site_activity_def

lemma demo_progress:
  obtains w' m where "run_state (Progress demo_env (server_extraction demo_env) demo_request) demo_world = (Inr (), w')"
    and "w_redis w' ''llm'' = [m]"
proof -
  have "case_prod (\<lambda>r w'. r = Inr () \<and> length (w_redis w' ''llm'') = Suc 0)
      (run_state (Progress demo_env (server_extraction demo_env) demo_request) demo_world)"
    by (simp add: Progress_def demo_run demo_request_def documents_by_parent_def demo_doc_def demo_md_def
        next_step_of_def target_artifact_def findArtifact_def enqueueResolveKeys_def Let_def
        demo_insert demo_anonymize_task_def demo_extract_task_def demo_status task_request_def)
  then show thesis using that by (auto simp: length_Suc_conv)
qed

definition demo_extracted :: document_task where
  "demo_extracted = demo_extract_task\<lparr>task_result_payload := JObj [(''price'', JStr ''5''), (''other'', JNull)]\<rparr>"

lemma demo_extract:
  obtains w' where "run_state (OnExtractCompleted demo_env demo_extracted) demo_world = (Inr (), w')"
proof -
  have "fst (run_state (OnExtractCompleted demo_env demo_extracted) demo_world) = Inr ()"
    by (simp add: OnExtractCompleted_def demo_extracted_def demo_extract_task_def new_task_def demo_run
        demo_request_def demo_running_request_def demo_private_request_def persistExtractedData_def
        keys_by_names_def org_visible_def demo_key_def new_key_def known_values_def keyIDByName_def
        map_filter_simps Let_def stmt_BatchUpsertExtractedData_def upsert_datum_def new_datum_def
        datum_triggers_def visible_key_def datum_fks_def org_document_exists_def demo_doc_def demo_status)
  then show thesis using that by (metis prod.collapse)
qed

text \<open>A task that has resolved the keys of the first request, and the run of its report.\<close>

definition demo_resolved :: document_task where
  "demo_resolved = (new_task 32 3 3 ''resolve_keys'' ''o/contract.md'' (Some 10))
     \<lparr>task_status := ''completed'', task_result_payload := JObj [(''new_keys'', JArr []),
        (''resolved_schema'', enc_schema [\<lparr>se_KeyName = ''price'', se_DataType = ''number''\<rparr>])]\<rparr>"

lemma demo_payload: "dec_resolve_keys_payload (task_result_payload demo_resolved) =
    Some \<lparr>rk_NewKeys = [], rk_ResolvedSchema = [\<lparr>se_KeyName = ''price'', se_DataType = ''number''\<rparr>]\<rparr>"
  by (simp add: demo_resolved_def dec_resolve_keys_payload_def enc_schema_def enc_schema_entry_def
      dec_schema_entry_def same_name_def ascii_lower_def)

lemma demo_resolve:
  obtains w' m where "run_state (OnResolveKeysCompleted demo_env (server_extraction demo_env) demo_resolved) demo_world = (Inr (), w')"
    and "w_redis w' ''llm'' = [m]"
proof -
  have "case_prod (\<lambda>r w'. r = Inr () \<and> length (w_redis w' ''llm'') = Suc 0)
      (run_state (OnResolveKeysCompleted demo_env (server_extraction demo_env) demo_resolved) demo_world)"
    unfolding OnResolveKeysCompleted_def demo_payload option.case
    by (simp add: demo_resolved_def demo_run demo_request_def documents_by_parent_def demo_doc_def demo_md_def
        target_artifact_def findArtifact_def enqueueExtract_def Let_def stmt_SetExtractionRequestResolvedSchema_def
        demo_insert demo_anonymize_task_def demo_extract_task_def demo_status task_request_def)
  then show thesis using that by (auto simp: length_Suc_conv)
qed

lemma demo_key_for [simp]: "key_for 1 demo_db ''price'' demo_key"
  by (simp add: key_for_def demo_key_def new_key_def)

end
