(* ===== verification/Extraction_Theorems.thy ===== *)
theory Extraction_Theorems
  imports Example_World
begin

text \<open>
  The properties of the extraction service: its effect on the database and on the queues, the
  choice of the file a worker gets, idempotence, and what a completed extraction stores.
\<close>



text \<open>
  C10. The worker of a request gets the file that the request is about. Whatever the state of the
  world, every message that \<open>Progress\<close> adds to a queue is built from a request whose file fits its
  module: \<open>resolve_keys\<close> gets an \<open>anonymize_doc\<close> artifact of the document when the request asks for
  anonymization and a \<open>convert_md\<close> artifact when it does not, \<open>anonymize\<close> gets a \<open>convert_md\<close>
  artifact, and \<open>convert\<close> the document itself.
\<close>

theorem Progress_proper_file:
  assumes "run_state (Progress E (server_extraction E) rq) w = (r, w')"
  shows "\<exists>ms. w_redis w' q = ms @ w_redis w q \<and>
    (\<forall>m \<in> set ms. proper_message E (w_db w) (req_document_id rq) (req_anonymize rq) q m)"
  using Progress_adds [where w = w and E = E and rq = rq] assms by (simp add: adds_def)

theorem Progress_proper_file_witness:
  "\<exists>m w'. run_state (Progress demo_env (server_extraction demo_env) demo_request) demo_world = (Inr (), w') \<and>
    w_redis w' ''llm'' = [m] \<and> proper_message demo_env demo_db 3 False ''llm'' m"
proof -
  obtain w' m where run: "run_state (Progress demo_env (server_extraction demo_env) demo_request) demo_world = (Inr (), w')"
      and m: "w_redis w' ''llm'' = [m]" by (rule demo_progress)
  from Progress_proper_file [OF run, of "''llm''"] m
  have "proper_message demo_env demo_db 3 False ''llm'' m" by (simp add: demo_request_def)
  with run m show ?thesis by blast
qed

text \<open>
  C14. The worker that extracts gets the file and the schema of the request: whatever happens on the way, every
  message that \<open>OnResolveKeysCompleted\<close> adds to a queue for a task of the request \<open>i\<close> is one for the
  module \<open>extract\<close> on the queue \<open>llm\<close>, with the path of an artifact of the request's document, the anonymized
  one exactly when the request asks for anonymization, and with the schema of the task's payload.
\<close>

theorem OnResolveKeysCompleted_proper_file:
  assumes "task_extraction_request_id task = Some i" and "stored_request (w_db w) i = Some rq"
    and "run_state (OnResolveKeysCompleted E (server_extraction E) task) w = (r, w')"
  shows "\<exists>ms. w_redis w' q = ms @ w_redis w q \<and>
    (\<forall>m \<in> set ms. \<exists>payload. dec_resolve_keys_payload (task_result_payload task) = Some payload \<and>
       extract_message E (w_db w) rq (rk_ResolvedSchema payload) q m)"
  using OnResolveKeysCompleted_adds [OF assms(1,2), of E] assms(3) by (simp add: adds_def)

theorem OnResolveKeysCompleted_proper_file_witness:
  "\<exists>w' m. run_state (OnResolveKeysCompleted demo_env (server_extraction demo_env) demo_resolved) demo_world = (Inr (), w') \<and>
    w_redis w' ''llm'' = [m] \<and> extract_message demo_env demo_db demo_request
      [\<lparr>se_KeyName = ''price'', se_DataType = ''number''\<rparr>] ''llm'' m"
proof -
  obtain w' m where run: "run_state (OnResolveKeysCompleted demo_env (server_extraction demo_env) demo_resolved) demo_world = (Inr (), w')"
      and m: "w_redis w' ''llm'' = [m]" by (rule demo_resolve)
  have "task_extraction_request_id demo_resolved = Some 10" "stored_request (w_db demo_world) 10 = Some demo_request"
    by (simp_all add: demo_resolved_def new_task_def stored_request_def demo_request_def)
  from OnResolveKeysCompleted_proper_file [OF this run, of "''llm''"] m demo_payload
  have "extract_message demo_env demo_db demo_request [\<lparr>se_KeyName = ''price'', se_DataType = ''number''\<rparr>] ''llm'' m"
    by simp
  with run m show ?thesis by blast
qed

text \<open>
  C11. Driving a request is idempotent. After \<open>Progress\<close> has succeeded, running it again for the same
  request, in any environment and with any publisher, changes neither the database nor a queue: no
  second task is stored and no second message is published.
\<close>

theorem Progress_idempotent:
  assumes "run_state (Progress E (server_extraction E) rq) w = (Inr (), w')"
    and "run_state (Progress E' s rq) w' = (r, w'')"
  shows "w_db w'' = w_db w' \<and> w_redis w'' = w_redis w'"
  using Progress_settles [OF assms(1), of E' s] assms(2) by (simp add: same_state_def)

theorem Progress_idempotent_witness:
  "\<exists>w' m. run_state (Progress demo_env (server_extraction demo_env) demo_request) demo_world = (Inr (), w') \<and>
    w_redis (snd (run_state (Progress demo_env (server_extraction demo_env) demo_request) w')) ''llm'' = [m]"
proof -
  obtain w' m where run: "run_state (Progress demo_env (server_extraction demo_env) demo_request) demo_world = (Inr (), w')"
      and m: "w_redis w' ''llm'' = [m]" by (rule demo_progress)
  from Progress_idempotent [OF run prod.collapse [symmetric], of demo_env "server_extraction demo_env"] run m
  show ?thesis by auto
qed



text \<open>
  C13. The answers of a request are what its extraction found. After \<open>OnExtractCompleted\<close> has
  succeeded for a request with a resolved schema, \<open>GetAnswers\<close> on the stored request succeeds when
  the database answers, and among its answers is, for every name of the schema to which the payload
  gives a value and that stands for a key of the organization, the name with the key's type and that
  value.
\<close>

theorem GetAnswers_after_extract:
  assumes "run_state (OnExtractCompleted E task) w = (Inr (), w')" and "db_ok (w_db w)"
    and "task_extraction_request_id task = Some i" and "dec_string_map (task_result_payload task) = Some m"
    and "(name, Some v) \<in> set m"
    and "stored_request (w_db w) i = Some rq" and "req_resolved_schema rq = Some (enc_schema schema)"
    and "name \<in> set (map se_KeyName schema)"
    and "key_for (req_organization_id rq) (w_db w) name k"
    and "db_calm E'"
  shows "\<exists>rq' answers. stored_request (w_db w') i = Some rq' \<and>
    fst (run_state (GetAnswers E' rq') w') = Inr answers \<and>
    \<lparr>ans_KeyName = name, ans_DataType = key_data_type k, ans_ExtractedValue = Some v\<rparr> \<in> set answers"
proof -
  have "if_ok (publishes E) w w'"
    by (rule rel_runD [OF server_pipeline.OnExtractCompleted_rel assms(1)])
  then have ok': "db_ok (w_db w')" using assms(2) by (auto simp: if_ok_def publishes_def sound_def)
  have "key_name k = name" "name \<in> set (map fst m)" using assms(5,9) by (force simp: key_for_def)+
  then have "k \<in> set (keys_by_names (map fst m) (req_organization_id rq) (w_db w))"
    using keys_by_names_key_for [OF assms(2)] assms(9) by simp
  then show ?thesis
    by (rule answers_after_extract [OF assms(1,2) ok' assms(3-7) dec_enc_schema assms(8) _ \<open>key_name k = name\<close> assms(10)])
qed

theorem GetAnswers_after_extract_witness:
  "\<exists>w' rq' answers. run_state (OnExtractCompleted demo_env demo_extracted) demo_world = (Inr (), w') \<and>
    fst (run_state (GetAnswers demo_env rq') w') = Inr answers \<and>
    \<lparr>ans_KeyName = ''price'', ans_DataType = ''number'', ans_ExtractedValue = Some ''5''\<rparr> \<in> set answers"
proof -
  obtain w' where run: "run_state (OnExtractCompleted demo_env demo_extracted) demo_world = (Inr (), w')"
    by (rule demo_extract)
  have "\<exists>rq' answers. stored_request (w_db w') 12 = Some rq' \<and>
    fst (run_state (GetAnswers demo_env rq') w') = Inr answers \<and>
    \<lparr>ans_KeyName = ''price'', ans_DataType = key_data_type demo_key, ans_ExtractedValue = Some ''5''\<rparr> \<in> set answers"
    by (rule GetAnswers_after_extract [OF run, where m = "[(''price'', Some ''5''), (''other'', None)]" and
          rq = demo_running_request and schema = "[\<lparr>se_KeyName = ''price'', se_DataType = ''number''\<rparr>]"])
      (simp_all add: demo_extracted_def demo_extract_task_def new_task_def stored_request_def demo_request_def
        demo_private_request_def demo_running_request_def key_for_def demo_key_def new_key_def)
  then show ?thesis using run by (auto simp: demo_key_def new_key_def)
qed

end
