(* ===== verification/Worker_Properties.thy ===== *)
theory Worker_Properties
  imports Example_World
begin

text \<open>
  What the callbacks of the workers achieve when the interactions with the database succeed: a
  failed prerequisite closes the requests that wait for it, a failed or finished task of a request
  closes the request, and a finished conversion registers its file.
\<close>

section \<open>Closing requests\<close>

lemma stored_request_mem: "stored_request d i = Some r \<Longrightarrow> r \<in> set (extraction_requests d) \<and> req_id r = i"
  by (auto simp: stored_request_def dest: find_Some_iff_mem)

lemma stored_request_row:
  "db_ok d \<Longrightarrow> r \<in> set (extraction_requests d) \<Longrightarrow> stored_request d (req_id r) = Some r"
  unfolding stored_request_def by (rule find_distinct) (auto dest: db_ok_distinct)

definition valid_request_status :: "string \<Rightarrow> bool" where
  "valid_request_status st \<longleftrightarrow> st \<in> {''pending'', ''running'', ''completed'', ''failed''}"

definition with_status :: "string \<Rightarrow> string option \<Rightarrow> int \<Rightarrow> extraction_request \<Rightarrow> extraction_request" where
  "with_status st msg t r = r\<lparr>req_status := st, req_error_message := msg, req_updated_at := t\<rparr>"

lemma with_status_simps [simp]:
  "req_id (with_status st msg t r) = req_id r" "req_status (with_status st msg t r) = st"
  "req_error_message (with_status st msg t r) = msg" "same_request r (with_status st msg t r)"
  "req_document_id (with_status st msg t r) = req_document_id r"
  by (simp_all add: with_status_def same_request_def)

lemma set_status_calm:
  assumes ok: "db_ok (w_db w)" and calm: "db_calm E" and st: "valid_request_status st"
    and r: "stored_request (w_db w) i = Some r"
  obtains w' where "run_state (SetExtractionRequestStatus E i st msg) w = (Inr (with_status st msg (env_now E (w_tick w)) r), w')"
    "stored_request (w_db w') = (stored_request (w_db w))(i \<mapsto> with_status st msg (env_now E (w_tick w)) r)"
    "map req_id (extraction_requests (w_db w')) = map req_id (extraction_requests (w_db w))"
proof -
  let ?r = "with_status st msg (env_now E (w_tick w)) r"
  let ?d = "(w_db w)\<lparr>extraction_requests := put_row req_id ?r (extraction_requests (w_db w))\<rparr>"
  let ?d' = "propagate_site_activity (document_site ?d (req_document_id ?r)) (env_now E (w_tick w)) ?d"
  have mem: "r \<in> set (extraction_requests (w_db w))" "req_id r = i" using stored_request_mem [OF r] by auto
  have "request_ok (w_db w) r" using ok mem(1) by (auto dest: db_ok_requests table_ok_row)
  then have checks: "checks_hold (request_checks ?r)"
    using st by (simp add: request_ok_def request_checks_def with_status_def valid_request_status_def)
  then have none: "first_violation (request_checks ?r) = None" by simp
  have "stmt_SetExtractionRequestStatus i st msg g (env_now E (w_tick w)) (w_db w) = (Inr ?r, ?d')" for g
    using r by (simp add: stmt_SetExtractionRequestStatus_def update_request_def stored_request_def
        none flip: with_status_def)
  then have "run_state (SetExtractionRequestStatus E i st msg) w = (Inr ?r, w\<lparr>w_db := ?d', w_tick := Suc (w_tick w)\<rparr>)"
    unfolding SetExtractionRequestStatus_def by (intro run_exec_calm) (use calm in auto)
  moreover have "stored_request ?d' = (stored_request (w_db w))(i \<mapsto> ?r)"
    using r mem(2) find_put_row [of req_id ?r "extraction_requests (w_db w)" r]
    by (auto simp: stored_request_def find_put_row_other fun_eq_iff)
  ultimately show thesis using that by simp
qed

lemma mark_failed_calm:
  assumes "db_ok (w_db w)" and "db_calm E" and "stored_request (w_db w) i = Some r"
  obtains w' t where "run_state (MarkRequestFailed E i msg) w = ((), w')"
    "stored_request (w_db w') = (stored_request (w_db w))(i \<mapsto> with_status ''failed'' (Some msg) t r)"
    "map req_id (extraction_requests (w_db w')) = map req_id (extraction_requests (w_db w))" "db_ok (w_db w')"
proof -
  obtain w' where w': "run_state (SetExtractionRequestStatus E i ''failed'' (Some msg)) w =
      (Inr (with_status ''failed'' (Some msg) (env_now E (w_tick w)) r), w')"
    "stored_request (w_db w') = (stored_request (w_db w))(i \<mapsto> with_status ''failed'' (Some msg) (env_now E (w_tick w)) r)"
    "map req_id (extraction_requests (w_db w')) = map req_id (extraction_requests (w_db w))"
    by (rule set_status_calm [where st = "''failed''" and msg = "Some msg", OF assms(1,2) _ assms(3)])
      (simp_all add: valid_request_status_def)
  have "sound (w_db w) (w_db w')"
    using exec_db_rel [of sound "stmt_SetExtractionRequestStatus i ''failed'' (Some msg)" E] w'(1)
    by (auto simp: SetExtractionRequestStatus_def state_io_rel_def db_rel_def sound_SetExtractionRequestStatus)
      (metis snd_conv)
  then show thesis using that [of w'] w' assms(1)
    by (auto simp: MarkRequestFailed_def sound_def)
qed

text \<open>What it means that the requests with the given identifiers have been failed for a reason.\<close>

definition failed_for :: "string \<Rightarrow> uuid set \<Rightarrow> db \<Rightarrow> db \<Rightarrow> bool" where
  "failed_for reason ids d d' \<longleftrightarrow>
     map req_id (extraction_requests d') = map req_id (extraction_requests d) \<and>
     (\<forall>i. if i \<in> ids then \<exists>r r'. stored_request d i = Some r \<and> stored_request d' i = Some r' \<and>
            same_request r r' \<and> req_status r' = ''failed'' \<and> req_error_message r' = Some reason
          else stored_request d' i = stored_request d i)"

lemma failed_forD: "failed_for reason ids d d' \<Longrightarrow>
    if i \<in> ids then \<exists>r r'. stored_request d i = Some r \<and> stored_request d' i = Some r' \<and>
            same_request r r' \<and> req_status r' = ''failed'' \<and> req_error_message r' = Some reason
          else stored_request d' i = stored_request d i"
  unfolding failed_for_def by (elim conjE) (erule spec)

lemma failed_for_cong:
  assumes eq: "extraction_requests d1 = extraction_requests d" and f: "failed_for reason ids d1 d'"
  shows "failed_for reason ids d d'"
  using f unfolding failed_for_def stored_request_def eq .

lemma failed_for_step:
  assumes "failed_for reason ids d1 d'" and "stored_request d1 = (stored_request d)(i \<mapsto> r1)"
    and "map req_id (extraction_requests d1) = map req_id (extraction_requests d)"
    and "stored_request d i = Some r0" "same_request r0 r1" "req_status r1 = ''failed''"
    "req_error_message r1 = Some reason"
  shows "failed_for reason (insert i ids) d d'"
  unfolding failed_for_def
proof (intro conjI allI)
  show "map req_id (extraction_requests d') = map req_id (extraction_requests d)"
    using assms(1,3) by (simp add: failed_for_def)
  fix j
  have "if j \<in> ids then \<exists>r r'. stored_request d1 j = Some r \<and> stored_request d' j = Some r' \<and>
            same_request r r' \<and> req_status r' = ''failed'' \<and> req_error_message r' = Some reason
          else stored_request d' j = stored_request d1 j"
    using assms(1) by (rule failed_forD)
  then show "if j \<in> insert i ids then \<exists>r r'. stored_request d j = Some r \<and> stored_request d' j = Some r' \<and>
            same_request r r' \<and> req_status r' = ''failed'' \<and> req_error_message r' = Some reason
          else stored_request d' j = stored_request d j"
    using assms(2,4-) same_trans(3) by (cases "j = i") (auto split: if_splits)
qed

lemma for_each_failed:
  assumes "db_ok (w_db w)" and "db_calm E"
    and "\<forall>r \<in> set rs. \<exists>r'. stored_request (w_db w) (req_id r) = Some r'"
  shows "failed_for reason (req_id ` set rs) (w_db w)
      (w_db (snd (run_state (for_each (\<lambda>r. MarkRequestFailed E (req_id r) reason) rs) w)))"
  using assms(1,3)
proof (induction rs arbitrary: w)
  case Nil
  then show ?case by (simp add: failed_for_def)
next
  case (Cons r rs)
  then obtain r0 where r0: "stored_request (w_db w) (req_id r) = Some r0" by auto
  obtain w1 t where w1: "run_state (MarkRequestFailed E (req_id r) reason) w = ((), w1)"
    "stored_request (w_db w1) = (stored_request (w_db w))(req_id r \<mapsto> with_status ''failed'' (Some reason) t r0)"
    "map req_id (extraction_requests (w_db w1)) = map req_id (extraction_requests (w_db w))" "db_ok (w_db w1)"
    by (rule mark_failed_calm [OF Cons.prems(1) assms(2) r0])
  have "\<forall>r' \<in> set rs. \<exists>x. stored_request (w_db w1) (req_id r') = Some x"
    using Cons.prems(2) w1(2) by auto
  from failed_for_step [OF Cons.IH [OF w1(4) this] w1(2,3) r0] show ?case using w1(1) by simp
qed

text \<open>The requests that a failed prerequisite closes: those of the document still in flight.\<close>

lemma failPendingRequests_calm:
  assumes "db_ok (w_db w)" and "db_calm E" and "ws_pipeline s = pipeline_of E x"
  shows "failed_for reason (req_id ` set (pending_requests docID (w_db w))) (w_db w)
    (w_db (snd (run_state (failPendingRequests E s docID reason) w)))"
proof -
  have "\<forall>r \<in> set (pending_requests docID (w_db w)). \<exists>r'. stored_request (w_db w) (req_id r) = Some r'"
    using stored_request_row [OF assms(1)] by (auto simp: pending_requests_def)
  from for_each_failed [of "w\<lparr>w_tick := Suc (w_tick w)\<rparr>", OF _ assms(2)] assms this show ?thesis
    by (simp add: failPendingRequests_def ListPendingExtractionRequestsByDocument_def pipeline_of_def
        db_calm_def exec_def sel_def)
qed

lemma failed_for_closes:
  assumes "db_ok d" and "db_ok d'" and "failed_for reason (req_id ` set (pending_requests docID d)) d d'"
    and "r' \<in> set (extraction_requests d')" and "req_document_id r' = docID"
  shows "\<not> in_flight r'"
proof -
  have r': "stored_request d' (req_id r') = Some r'" by (rule stored_request_row [OF assms(2,4)])
  have f: "if req_id r' \<in> req_id ` set (pending_requests docID d)
      then \<exists>r x. stored_request d (req_id r') = Some r \<and> stored_request d' (req_id r') = Some x \<and>
            same_request r x \<and> req_status x = ''failed'' \<and> req_error_message x = Some reason
          else stored_request d' (req_id r') = stored_request d (req_id r')"
    using assms(3) by (rule failed_forD)
  show ?thesis
  proof (cases "req_id r' \<in> req_id ` set (pending_requests docID d)")
    case True
    with f obtain x where "stored_request d' (req_id r') = Some x" "req_status x = ''failed''" by auto
    then show ?thesis using r' by (simp add: in_flight_def)
  next
    case False
    with f r' have "stored_request d (req_id r') = Some r'" by simp
    then have "r' \<in> set (extraction_requests d)" by (rule stored_request_mem [THEN conjunct1])
    then show ?thesis using False assms(5) by (auto simp: pending_requests_def)
  qed
qed

section \<open>The update of a task\<close>

definition the_update :: "uuid \<Rightarrow> worker_status_update \<Rightarrow> worker_task_update" where
  "the_update i upd = \<lparr>wu_ID = i, wu_Status = up_Status upd, wu_CeleryTaskID = up_CeleryTaskID upd,
     wu_ResultPayload = up_ResultPayload upd, wu_ErrorMessage = up_ErrorMessage upd\<rparr>"

lemma the_update_simps [simp]: "wu_ID (the_update i upd) = i" "wu_Status (the_update i upd) = up_Status upd"
  "wu_ErrorMessage (the_update i upd) = up_ErrorMessage upd"
  "wu_ResultPayload (the_update i upd) = up_ResultPayload upd"
  by (simp_all add: the_update_def)

definition stored_task :: "db \<Rightarrow> uuid \<Rightarrow> document_task option" where
  "stored_task d i = find (\<lambda>t. task_id t = i) (document_tasks d)"

text \<open>The reactions to a stored update, in the code's order.\<close>

definition reactions :: "env \<Rightarrow> worker_service \<Rightarrow> document_task \<Rightarrow> (world, unit) state" where
  "reactions E s task =
     ignoring (after_convert E s task)
    (ignoring (after_anonymize E s task)
    (ignoring (after_resolve_keys s task)
    (ignoring (after_extract s task)
    (ignoring (after_request_task_failed s task)
              (after_prerequisite_failed E s task)))))"

lemma HandleStatusUpdate_calm:
  assumes ok: "db_ok (w_db w)" and calm: "db_calm E" and t: "stored_task (w_db w) i = Some t"
    and st: "up_Status upd \<in> {''pending'', ''processing'', ''completed'', ''failed''}"
  obtains w1 where "run_state (HandleStatusUpdate E s i upd) w =
      (Inr (apply_worker_update (the_update i upd) (env_now E (w_tick w)) t),
       snd (run_state (reactions E s (apply_worker_update (the_update i upd) (env_now E (w_tick w)) t)) w1))"
    "db_ok (w_db w1)" "extraction_requests (w_db w1) = extraction_requests (w_db w)"
    "documents (w_db w1) = documents (w_db w)"
    "w_redis w1 = w_redis w"
    "document_tasks (w_db w1) = put_row task_id
        (apply_worker_update (the_update i upd) (env_now E (w_tick w)) t) (document_tasks (w_db w))"
proof -
  let ?t = "apply_worker_update (the_update i upd) (env_now E (w_tick w)) t"
  let ?d = "(w_db w)\<lparr>document_tasks := put_row task_id ?t (document_tasks (w_db w))\<rparr>"
  let ?w = "w\<lparr>w_db := ?d, w_tick := Suc (w_tick w)\<rparr>"
  have mem: "t \<in> set (document_tasks (w_db w))" using t by (auto simp: stored_task_def dest: find_Some_iff_mem)
  have "checks_hold (task_checks t)" by (rule db_ok_task_checks [OF ok mem])
  then have none: "first_violation (task_checks ?t) = None"
    using st by (simp add: task_checks_def apply_worker_update_def)
  have stmt: "stmt_UpdateWorkerTaskStatus (the_update i upd) g (env_now E (w_tick w)) (w_db w) = (Inr ?t, ?d)" for g
    using t by (simp add: stmt_UpdateWorkerTaskStatus_def update_task_def stored_task_def none)
  have run: "run_state (UpdateWorkerTaskStatus E (the_update i upd)) w = (Inr ?t, ?w)"
    unfolding UpdateWorkerTaskStatus_def by (rule run_exec_calm) (use calm stmt in auto)
  have "sound (w_db w) ?d" using sound_UpdateWorkerTaskStatus [of "w_db w" "the_update i upd"] stmt by (metis snd_conv)
  then show thesis
    using that [of ?w] run ok
    by (simp add: HandleStatusUpdate_def the_update_def [symmetric] reactions_def sound_def run_call)
qed

lemma apply_worker_update_simps [simp]:
  "task_id (apply_worker_update p t x) = task_id x"
  "task_status (apply_worker_update p t x) = wu_Status p"
  "task_module_name (apply_worker_update p t x) = task_module_name x"
  "task_document_id (apply_worker_update p t x) = task_document_id x"
  "task_extraction_request_id (apply_worker_update p t x) = task_extraction_request_id x"
  "task_error_message (apply_worker_update p t x) = coalesce_opt (wu_ErrorMessage p) (task_error_message x)"
  "task_result_payload (apply_worker_update p t x) = coalesce (wu_ResultPayload p) (task_result_payload x)"
  by (simp_all add: apply_worker_update_def)

text \<open>Which reaction a status and a module call for.\<close>

lemma reactions_failed:
  assumes "task_status t = ''failed''"
  shows "task_module_name t \<in> {''convert'', ''anonymize''} \<Longrightarrow> run_state (reactions E s t) w =
      run_state (failPendingRequests E s (task_document_id t) (task_module_name t @ '' task failed'')) w"
    and "task_module_name t \<in> {''resolve_keys'', ''extract''} \<Longrightarrow> snd (run_state (reactions E s t) w) =
      snd (run_state (fail_request_of s t (case task_error_message t of None \<Rightarrow> ''task failed'' | Some m \<Rightarrow> m)) w)"
  using assms
  by (auto simp: reactions_def after_convert_def after_anonymize_def after_resolve_keys_def after_extract_def
      after_request_task_failed_def after_prerequisite_failed_def)

lemma reactions_extract:
  assumes "task_status t = ''completed''" and "task_module_name t = ''extract''"
  shows "snd (run_state (reactions E s t) w) = snd (run_state (after_extract s t) w)"
  using assms
  by (auto simp: reactions_def after_convert_def after_anonymize_def after_resolve_keys_def
      after_request_task_failed_def after_prerequisite_failed_def)

lemma server_worker_simps [simp]:
  "ws_python (server_worker E) = Process E"
  "ws_pipeline (server_worker E) = pipeline_of E (server_extraction E)"
  by (simp_all add: server_worker_def)

lemma fail_request_of_calm:
  assumes "db_ok (w_db w)" and "db_calm E" and "task_extraction_request_id t = Some i"
    and "stored_request (w_db w) i = Some r"
  obtains w' r' where "snd (run_state (fail_request_of (server_worker E) t msg) w) = w'"
    "stored_request (w_db w') i = Some r'" "same_request r r'" "req_status r' = ''failed''"
    "req_error_message r' = Some msg"
proof -
  obtain w' tm where "run_state (MarkRequestFailed E i msg) w = ((), w')"
    "stored_request (w_db w') = (stored_request (w_db w))(i \<mapsto> with_status ''failed'' (Some msg) tm r)"
    by (rule mark_failed_calm [OF assms(1,2,4)])
  then show thesis using that assms(3) by (auto simp: fail_request_of_def pipeline_of_def)
qed

lemma task_request_stored:
  assumes "db_ok d" and "stored_task d i = Some t" and "task_extraction_request_id t = Some j"
  obtains r where "stored_request d j = Some r"
proof -
  have "t \<in> set (document_tasks d)" using assms(2) by (auto simp: stored_task_def dest: find_Some_iff_mem)
  then have "task_ok d t" using assms(1) by (auto dest: db_ok_tasks table_ok_row)
  then have "request_exists d j" using assms(3) by (simp add: task_ok_def task_fks_def)
  then obtain r where "r \<in> set (extraction_requests d)" "req_id r = j"
    by (auto simp: request_exists_def list_ex_iff)
  then show thesis using that stored_request_row [OF assms(1)] by auto
qed

lemma stored_request_evolves:
  assumes "evolves d d'" and "db_ok d'" and "stored_request d i = Some r"
  obtains r' where "stored_request d' i = Some r'" "same_request r r'"
proof -
  obtain r' where "r' \<in> set (extraction_requests d')" "same_request r r'"
    using assms(1) stored_request_mem [OF assms(3)] by (auto simp: evolves_def grows_def)
  then show thesis using that stored_request_row [OF assms(2)] stored_request_mem [OF assms(3)]
    by (auto simp: same_request_def)
qed

lemma failed_prerequisite:
  assumes ok: "db_ok (w_db w)" and calm: "db_calm E" and t: "stored_task (w_db w) i = Some t"
    and module: "task_module_name t \<in> {''convert'', ''anonymize''}" and st: "up_Status upd = ''failed''"
    and run: "run_state (HandleStatusUpdate E (server_worker E) i upd) w = (r, w')"
  shows "failed_for (task_module_name t @ '' task failed'')
      (req_id ` set (pending_requests (task_document_id t) (w_db w))) (w_db w) (w_db w')"
proof -
  obtain w1 where w1: "run_state (HandleStatusUpdate E (server_worker E) i upd) w =
      (Inr (apply_worker_update (the_update i upd) (env_now E (w_tick w)) t),
       snd (run_state (reactions E (server_worker E) (apply_worker_update (the_update i upd) (env_now E (w_tick w)) t)) w1))"
    "db_ok (w_db w1)" "extraction_requests (w_db w1) = extraction_requests (w_db w)"
    by (rule HandleStatusUpdate_calm [OF ok calm t]) (use st in auto)
  have "pending_requests (task_document_id t) (w_db w1) = pending_requests (task_document_id t) (w_db w)"
    using w1(3) by (simp add: pending_requests_def)
  moreover have "w' = snd (run_state (failPendingRequests E (server_worker E) (task_document_id t)
      (task_module_name t @ '' task failed'')) w1)"
    using w1(1) run reactions_failed(1) [where t = "apply_worker_update (the_update i upd) (env_now E (w_tick w)) t"]
      module st by auto
  ultimately show ?thesis
    using failed_for_cong [OF w1(3) failPendingRequests_calm [OF w1(2) calm server_worker_simps(2)],
        of "task_module_name t @ '' task failed''" "task_document_id t"] by (simp only:)
qed

lemma failed_request_task:
  assumes ok: "db_ok (w_db w)" and calm: "db_calm E" and t: "stored_task (w_db w) i = Some t"
    and module: "task_module_name t \<in> {''resolve_keys'', ''extract''}" and st: "up_Status upd = ''failed''"
    and rq: "task_extraction_request_id t = Some j"
    and run: "run_state (HandleStatusUpdate E (server_worker E) i upd) w = (r, w')"
  shows "\<exists>rq'. stored_request (w_db w') j = Some rq' \<and> req_status rq' = ''failed'' \<and>
    req_error_message rq' = Some (case coalesce_opt (up_ErrorMessage upd) (task_error_message t) of
      None \<Rightarrow> ''task failed'' | Some m \<Rightarrow> m)"
proof -
  let ?t = "apply_worker_update (the_update i upd) (env_now E (w_tick w)) t"
  obtain w1 where w1: "run_state (HandleStatusUpdate E (server_worker E) i upd) w =
      (Inr ?t, snd (run_state (reactions E (server_worker E) ?t) w1))"
    "db_ok (w_db w1)" "extraction_requests (w_db w1) = extraction_requests (w_db w)"
    by (rule HandleStatusUpdate_calm [OF ok calm t]) (use st in auto)
  obtain r0 where "stored_request (w_db w) j = Some r0" by (rule task_request_stored [OF ok t rq])
  then have r0: "stored_request (w_db w1) j = Some r0" using w1(3) by (simp add: stored_request_def)
  have "w' = snd (run_state (fail_request_of (server_worker E) ?t
      (case task_error_message ?t of None \<Rightarrow> ''task failed'' | Some m \<Rightarrow> m)) w1)"
    using w1(1) run reactions_failed(2) [where t = ?t] module st by auto
  moreover have rq': "task_extraction_request_id ?t = Some j" using rq by simp
  moreover obtain w2 r2 where "snd (run_state (fail_request_of (server_worker E) ?t
      (case task_error_message ?t of None \<Rightarrow> ''task failed'' | Some m \<Rightarrow> m)) w1) = w2"
    "stored_request (w_db w2) j = Some r2" "req_status r2 = ''failed''"
    "req_error_message r2 = Some (case task_error_message ?t of None \<Rightarrow> ''task failed'' | Some m \<Rightarrow> m)"
    by (rule fail_request_of_calm [OF w1(2) calm rq' r0])
  ultimately show ?thesis by simp
qed

lemma finished_extract:
  assumes ok: "db_ok (w_db w)" and calm: "db_calm E" and t: "stored_task (w_db w) i = Some t"
    and module: "task_module_name t = ''extract''" and st: "up_Status upd = ''completed''"
    and rq: "task_extraction_request_id t = Some j"
    and run: "run_state (HandleStatusUpdate E (server_worker E) i upd) w = (r, w')"
  shows "\<exists>rq'. stored_request (w_db w') j = Some rq' \<and> \<not> in_flight rq'"
proof -
  let ?t = "apply_worker_update (the_update i upd) (env_now E (w_tick w)) t"
  obtain w1 where w1: "run_state (HandleStatusUpdate E (server_worker E) i upd) w =
      (Inr ?t, snd (run_state (reactions E (server_worker E) ?t) w1))"
    "db_ok (w_db w1)" "extraction_requests (w_db w1) = extraction_requests (w_db w)"
    by (rule HandleStatusUpdate_calm [OF ok calm t]) (use st in auto)
  obtain r0 where "stored_request (w_db w) j = Some r0" by (rule task_request_stored [OF ok t rq])
  then have r0: "stored_request (w_db w1) j = Some r0" using w1(3) by (simp add: stored_request_def)
  have w': "w' = snd (run_state (after_extract (server_worker E) ?t) w1)"
    using w1(1) run reactions_extract [of ?t] module st by simp
  obtain x w2 where run2: "run_state (OnExtractCompleted E ?t) w1 = (x, w2)"
    by (cases "run_state (OnExtractCompleted E ?t) w1")
  have rq': "task_extraction_request_id ?t = Some j" using rq by simp
  show ?thesis
  proof (cases x)
    case (Inr u)
    then have "run_state (OnExtractCompleted E ?t) w1 = (Inr (), w2)" using run2 by simp
    then obtain rq2 where "stored_request (w_db w2) j = Some rq2" "req_status rq2 = ''completed''"
      by (rule OnExtractCompleted_runs [OF _ w1(2) rq'])
    moreover have "w' = w2" using w' run2 Inr module st by (simp add: after_extract_def pipeline_of_def)
    ultimately show ?thesis by (auto simp: in_flight_def)
  next
    case (Inl e)
    have "if_ok (publishes E) w1 w2"
      using server_pipeline.OnExtractCompleted_rel [of E ?t] run2 by (metis state_io_rel_def snd_conv)
    then have ok2: "db_ok (w_db w2)" "evolves (w_db w1) (w_db w2)"
      using w1(2) by (auto simp: if_ok_def publishes_def sound_def)
    obtain r2 where r2: "stored_request (w_db w2) j = Some r2" by (rule stored_request_evolves [OF ok2(2,1) r0])
    have "w' = snd (run_state (fail_request_of (server_worker E) ?t ''pipeline error after extract'') w2)"
      using w' run2 Inl module st by (simp add: after_extract_def pipeline_of_def)
    moreover obtain w3 r3 where "snd (run_state (fail_request_of (server_worker E) ?t ''pipeline error after extract'') w2) = w3"
      "stored_request (w_db w3) j = Some r3" "req_status r3 = ''failed''"
      by (rule fail_request_of_calm [OF ok2(1) calm rq' r2])
    ultimately show ?thesis by (auto simp: in_flight_def)
  qed
qed

section \<open>Registering the file of a conversion\<close>

lemma CreateArtifact_stores:
  assumes "stmt_CreateArtifactDocument p g t d = (Inr x, d')"
  shows "x \<in> set (documents d')" and "artifact_key x = artifact_key (new_document (g 0) t p)"
    and "doc_storage_path x = cd_StoragePath p" and "doc_mime_type x = cd_MimeType p"
    and "doc_file_name x = cd_FileName p" and "document_tasks d' = document_tasks d"
proof -
  have "x \<in> set (documents d') \<and> artifact_key x = artifact_key (new_document (g 0) t p) \<and>
      doc_storage_path x = cd_StoragePath p \<and> doc_mime_type x = cd_MimeType p \<and>
      doc_file_name x = cd_FileName p \<and> document_tasks d' = document_tasks d"
  proof (cases "index_conflict artifact_key (new_document (g 0) t p) (documents d)")
    case True
    then obtain y where y: "y \<in> set (documents d)" "artifact_key y = artifact_key (new_document (g 0) t p)"
        "x = refresh_artifact p t y" "d' = d\<lparr>documents := put_row doc_id x (documents d)\<rparr>"
      using assms by (auto simp: stmt_CreateArtifactDocument_def Let_def update_document_def
          dest!: find_Some_iff_mem split: option.splits)
    moreover have "artifact_key (refresh_artifact p t y) = artifact_key y" "doc_id (refresh_artifact p t y) = doc_id y"
      "doc_storage_path (refresh_artifact p t y) = cd_StoragePath p"
      "doc_mime_type (refresh_artifact p t y) = cd_MimeType p" "doc_file_name (refresh_artifact p t y) = cd_FileName p"
      by (simp_all add: refresh_artifact_def artifact_key_def split: option.split)
    ultimately show ?thesis by (auto intro!: put_row_mem)
  next
    case False
    then show ?thesis using assms
      by (auto simp: stmt_CreateArtifactDocument_def Let_def insert_document_def new_document_def split: option.splits)
  qed
  then show "x \<in> set (documents d')" and "artifact_key x = artifact_key (new_document (g 0) t p)"
    and "doc_storage_path x = cd_StoragePath p" and "doc_mime_type x = cd_MimeType p"
    and "doc_file_name x = cd_FileName p" and "document_tasks d' = document_tasks d" by auto
qed

lemma artifact_unique:
  "db_ok d \<Longrightarrow> artifact_of d docID kind x \<Longrightarrow> artifact_of d docID kind y \<Longrightarrow> y = x"
  unfolding artifact_of_def
  using table_ok_index [OF db_ok_documents, of d artifact_key y x "(docID, Some kind)"]
  by (auto simp: artifact_key_def)

lemma artifact_organization:
  assumes "db_ok d" and "artifact_of d docID kind x" and "p \<in> set (documents d)" and "doc_id p = docID"
  shows "doc_organization_id x = doc_organization_id p"
proof -
  have "document_ok d x" using assms(1,2) by (auto simp: artifact_of_def dest: db_ok_documents table_ok_row)
  then obtain p' where "p' \<in> set (documents d)" "doc_id p' = docID" "doc_organization_id p' = doc_organization_id x"
    using assms(2) by (auto simp: document_ok_def artifact_of_def org_document_exists_def list_ex_iff)
  then show ?thesis using table_ok_key [OF db_ok_documents [OF assms(1)] _ assms(3)] assms(4) by metis
qed

lemma sound_exec: "(\<And>g t d. sound d (snd (f g t d))) \<Longrightarrow> run_state (exec E f) w = (r, w') \<Longrightarrow> sound (w_db w) (w_db w')"
  using exec_db_rel [of sound f E] by (auto simp: state_io_rel_def db_rel_def) (metis snd_conv)

lemma UpdateTaskResultPayload_sets:
  assumes "stmt_UpdateTaskResultPayload i j g tm d = (Inr t, d')"
  obtains t0 where "stored_task d i = Some t0" "t = t0\<lparr>task_result_payload := j, task_updated_at := tm\<rparr>"
    "document_tasks d' = put_row task_id t (document_tasks d)" "documents d' = documents d"
    "stored_task d' i = Some t"
proof -
  obtain t0 where t0: "stored_task d i = Some t0" "t = t0\<lparr>task_result_payload := j, task_updated_at := tm\<rparr>"
      "d' = d\<lparr>document_tasks := put_row task_id t (document_tasks d)\<rparr>"
    using assms by (auto simp: stmt_UpdateTaskResultPayload_def update_task_def stored_task_def split: option.splits)
  have "task_id t = i" using t0 by (auto simp: stored_task_def dest: find_Some_iff_mem)
  then have "stored_task d' i = Some t"
    using find_put_row [of task_id t "document_tasks d" t0] t0 by (simp add: stored_task_def)
  then show thesis using that t0 by simp
qed

lemma registerConvert_runs:
  assumes ok: "db_ok (w_db w)" and run: "run_state (registerConvertArtifacts E task) w = (Inr (), w')"
    and p: "dec_convert_payload (task_result_payload task) = Some p" and md: "cp_MDStoragePath p \<noteq> []"
  obtains parent x t where "parent \<in> set (documents (w_db w))" "doc_id parent = task_document_id task"
    "artifact_of (w_db w') (task_document_id task) artifactKindConvertMD x"
    "doc_storage_path x = cp_MDStoragePath p" "doc_organization_id x = doc_organization_id parent"
    "stored_task (w_db w') (task_id task) = Some t" "task_result_payload t = convertResultFinal E x p"
    "db_ok (w_db w')"
proof (cases rule: exec_sel_one_cases [of "\<lambda>d. find (\<lambda>x. doc_id x = task_document_id task) (documents d)" w E])
  case (failed e)
  then show thesis using run p md by (simp add: registerConvertArtifacts_def GetDocumentByID_def)
next
  case (row parent)
  let ?w = "w\<lparr>w_tick := Suc (w_tick w)\<rparr>"
  let ?p = "artifact_params parent (cp_MDStoragePath p) (fileNameFromPath (cp_MDStoragePath p)) ''text/markdown'' artifactKindConvertMD"
  have parent: "parent \<in> set (documents (w_db w))" "doc_id parent = task_document_id task"
    using row(1) by (auto dest: find_Some_iff_mem)
  obtain x w1 t where w1: "run_state (CreateArtifactDocument E ?p) ?w = (Inr x, w1)"
      and w': "run_state (UpdateTaskResultPayload E (task_id task) (convertResultFinal E x p)) w1 = (Inr t, w')"
    using run p md row
    by (auto simp: registerConvertArtifacts_def GetDocumentByID_def registerArtifact_def run_call
        split: prod.splits sum.splits)
  have s1: "sound (w_db w) (w_db w1)"
    using sound_exec [OF sound_CreateArtifactDocument w1 [unfolded CreateArtifactDocument_def]] by simp
  then have ok1: "db_ok (w_db w1)" using ok by (simp add: sound_def)
  have s2: "sound (w_db w1) (w_db w')"
    by (rule sound_exec [OF sound_UpdateTaskResultPayload w' [unfolded UpdateTaskResultPayload_def]])
  then have ok': "db_ok (w_db w')" using ok1 by (simp add: sound_def)
  obtain g tm where stmt1: "stmt_CreateArtifactDocument ?p g tm (w_db w) = (Inr x, w_db w1)"
    using exec_Inr [OF w1 [unfolded CreateArtifactDocument_def]] by auto
  obtain g' tm' where stmt2: "stmt_UpdateTaskResultPayload (task_id task) (convertResultFinal E x p) g' tm' (w_db w1) = (Inr t, w_db w')"
    using exec_Inr [OF w' [unfolded UpdateTaskResultPayload_def]] by auto
  obtain t0 where t: "t = t0\<lparr>task_result_payload := convertResultFinal E x p, task_updated_at := tm'\<rparr>"
      and docs: "documents (w_db w') = documents (w_db w1)" and stored: "stored_task (w_db w') (task_id task) = Some t"
    by (rule UpdateTaskResultPayload_sets [OF stmt2])
  have art1: "artifact_of (w_db w1) (task_document_id task) artifactKindConvertMD x"
    using CreateArtifact_stores(1,2) [OF stmt1] parent(2)
    by (auto simp: artifact_of_def artifact_key_def new_document_def artifact_params_def split: option.splits)
  have "org_document_exists (w_db w1) (doc_id parent) (doc_organization_id parent)"
  proof -
    obtain q where "q \<in> set (documents (w_db w1))" "same_document parent q"
      using s1 ok parent(1) by (auto simp: sound_def evolves_def grows_def)
    then show ?thesis by (auto simp: org_document_exists_def list_ex_iff same_document_def)
  qed
  then obtain q where "q \<in> set (documents (w_db w1))" "doc_id q = task_document_id task"
      "doc_organization_id q = doc_organization_id parent"
    using parent(2) by (auto simp: org_document_exists_def list_ex_iff)
  then have org: "doc_organization_id x = doc_organization_id parent"
    using artifact_organization [OF ok1 art1] by metis
  show thesis
    by (rule that [OF parent _ _ org stored _ ok'])
      (use art1 docs t CreateArtifact_stores(3) [OF stmt1] in \<open>simp_all add: artifact_of_def artifact_params_def\<close>)
qed

end
