(* ===== verification/Pipeline_Progress.thy ===== *)
theory Pipeline_Progress
  imports Worker_Properties
begin

text \<open>
  A finished task of a request moves the request on: after \<open>resolve_keys\<close> the \<open>extract\<close> task is stored and
  published, or the request is failed.
\<close>

section \<open>What is queued\<close>

definition same_queues :: "world \<Rightarrow> world \<Rightarrow> bool" where
  "same_queues w v \<longleftrightarrow> document_tasks (w_db v) = document_tasks (w_db w) \<and> w_redis v = w_redis w"

interpretation same_queues: effect_rel same_queues
  by unfold_locales (auto simp: same_queues_def)

lemma same_queues_exec [io_rel]:
  "state_io_rel same_queues (UpsertExtractionKey E org n q ty)"
  "state_io_rel same_queues (SetExtractionRequestResolvedSchema E i j)"
  "state_io_rel same_queues (exec E (sel f))" "state_io_rel same_queues (exec E (sel_one g))"
  unfolding UpsertExtractionKey_def SetExtractionRequestResolvedSchema_def
  by (intro exec_rel; auto simp: same_queues_def stmt_UpsertExtractionKey_def Let_def
      stmt_SetExtractionRequestResolvedSchema_def update_request_def split: option.split)+

lemma same_queues_post: "state_io_rel same_queues m \<Longrightarrow> post (same_queues w) m (\<lambda>_. same_queues w)"
  by (erule post_of_rel) (auto simp: same_queues_def)

text \<open>The \<open>extract\<close> task of the request is stored; it was there before, or it is published.\<close>

abbreviation has_extract :: "uuid \<Rightarrow> world \<Rightarrow> bool" where
  "has_extract j w \<equiv> has_key request_key (j, moduleExtract) (w_db w)"

definition extract_queued :: "uuid \<Rightarrow> world \<Rightarrow> world \<Rightarrow> bool" where
  "extract_queued j w w' \<longleftrightarrow> has_extract j w' \<and> (has_extract j w \<or> (\<exists>m. w_redis w' ''llm'' = m # w_redis w ''llm''))"

lemma Process_extract:
  assumes "run_state (Process E (task_request E t moduleExtract path kw)) w = (Inr (), w')"
  shows "\<exists>m. w_redis w' ''llm'' = m # w_redis w ''llm''"
  using assms by (cases rule: Process_cases [of E "task_request E t moduleExtract path kw" w])
    (auto simp: resolveModule_def task_request_def)

lemma create_extract_no_rows:
  assumes "run_state (CreateDocumentTaskForRequest E doc moduleExtract path (Some j)) w = (Inl e, w')" and "is_no_rows e"
  shows "has_extract j w"
proof -
  have "e = ErrNoRows"
    using assms by (cases rule: run_exec_cases [of "stmt_CreateDocumentTaskForRequest doc moduleExtract path (Some j)" E w])
      (auto simp: CreateDocumentTaskForRequest_def stmt_CreateDocumentTaskForRequest_def is_no_rows_def
        insert_task_or_nothing_def insert_task_def split: option.splits if_splits dest!: first_violation_Some
        simp: task_checks_def task_keys_def task_fks_def)
  then show ?thesis using assms(1)
    by (auto simp: CreateDocumentTaskForRequest_def stmt_CreateDocumentTaskForRequest_def has_key_def
        insert_task_or_nothing_def insert_task_def index_conflict_def set_index_keys request_key_new
        split: option.splits if_splits dest!: exec_no_rows)
qed

lemma enqueueExtract_stores:
  "post (\<lambda>_. True) (enqueueExtract E (server_extraction E) rq target schema)
     (\<lambda>r w. r = Inr () \<longrightarrow> has_extract (req_id rq) w)"
proof -
  have "post (\<lambda>v. documents (w_db v) = xs) (enqueueExtract E (server_extraction E) rq target schema)
      (settled request_key (req_id rq, moduleExtract) xs)" for xs
    unfolding enqueueExtract_def server_python option.case CreateDocumentTaskForRequest_def
    by (rule create_then [OF stmt_CreateDocumentTaskForRequest_def], simp add: request_key_new,
        rule post_publish, rule post_ends_fail)
  then show ?thesis by (auto simp: post_def settled_def)
qed

lemma enqueueExtract_publishes:
  "post (\<lambda>v. same_queues w v \<and> \<not> has_extract (req_id rq) w) (enqueueExtract E (server_extraction E) rq target schema)
     (\<lambda>r w'. r = Inr () \<longrightarrow> (\<exists>m. w_redis w' ''llm'' = m # w_redis w ''llm''))"
  unfolding enqueueExtract_def server_python option.case
proof (rule post_bind)
  let ?create = "CreateDocumentTaskForRequest E (req_document_id rq) moduleExtract (doc_storage_path target) (Some (req_id rq))"
  show "post (\<lambda>v. same_queues w v \<and> \<not> has_extract (req_id rq) w) ?create
      (\<lambda>r v. w_redis v = w_redis w \<and> (\<forall>e. r = Inl e \<longrightarrow> \<not> is_no_rows e))"
  proof (rule postI, intro conjI allI impI)
    fix v r v' assume v: "same_queues w v \<and> \<not> has_extract (req_id rq) w" and run: "run_state ?create v = (r, v')"
    show "w_redis v' = w_redis w" using v run
      by (cases rule: run_exec_cases [of "stmt_CreateDocumentTaskForRequest (req_document_id rq) moduleExtract
          (doc_storage_path target) (Some (req_id rq))" E v])
        (auto simp: CreateDocumentTaskForRequest_def same_queues_def)
    show "\<not> is_no_rows e" if "r = Inl e" for e
      using create_extract_no_rows [of E _ _ _ v e v'] run v that by (auto simp: same_queues_def has_key_def)
  qed
  have publish: "post (\<lambda>v. w_redis v = w_redis w) (Process E (task_request E t moduleExtract path kw))
      (\<lambda>r w'. r = Inr () \<longrightarrow> (\<exists>m. w_redis w' ''llm'' = m # w_redis w ''llm''))" for t path kw
    by (rule postI) (auto dest: Process_extract)
  show "post (\<lambda>v. w_redis v = w_redis w \<and> (\<forall>e. r = Inl e \<longrightarrow> \<not> is_no_rows e))
      (case r of Inl err \<Rightarrow> if is_no_rows err then ok () else fail (Wrapped ''create extract task'' err)
       | Inr task \<Rightarrow> State_Monad.bind (Process E (task_request E task moduleExtract (doc_storage_path target)
             [(''extraction_schema'', enc_schema schema)]))
           (\<lambda>p. case p of Inl err \<Rightarrow> ignoring (extraction_markTaskFailed E (task_id task)
                  (error_text (env_error_text E) err))
                 (ignoring (MarkRequestFailed E (req_id rq) ''failed to publish extract task'')
                  (fail (Wrapped ''publish extract'' err)))
              | Inr _ \<Rightarrow> ok ()))
      (\<lambda>r w'. r = Inr () \<longrightarrow> (\<exists>m. w_redis w' ''llm'' = m # w_redis w ''llm''))" for r
  proof (cases r)
    case (Inl e)
    then show ?thesis by (auto simp: post_def)
  next
    case (Inr task)
    show ?thesis unfolding Inr sum.case
      by (rule post_bind, rule post_conseq [OF publish], simp, assumption, rule post_case_sum) (simp_all add: post_def)
  qed
qed

lemma enqueueExtract_queues:
  "post (same_queues w) (enqueueExtract E (server_extraction E) rq target schema)
     (\<lambda>r w'. r = Inr () \<longrightarrow> extract_queued (req_id rq) w w')"
proof (rule postI, intro impI)
  fix v r w' assume v: "same_queues w v" and run: "run_state (enqueueExtract E (server_extraction E) rq target schema) v = (r, w')"
    and r: "r = Inr ()"
  have "has_extract (req_id rq) w'" using postD [OF enqueueExtract_stores TrueI run] r by blast
  moreover have "\<exists>m. w_redis w' ''llm'' = m # w_redis w ''llm''" if "\<not> has_extract (req_id rq) w"
    using postD [OF enqueueExtract_publishes _ run, of w] v r that by blast
  ultimately show "extract_queued (req_id rq) w w'" by (auto simp: extract_queued_def)
qed

lemma OnResolveKeysCompleted_queues:
  assumes task: "task_extraction_request_id task = Some j"
    and run: "run_state (OnResolveKeysCompleted E (server_extraction E) task) w = (Inr (), w')"
  shows "extract_queued j w w'"
proof -
  let ?Q = "\<lambda>r v. r = (Inr () :: go_error + unit) \<longrightarrow> extract_queued j w v"
  have upserts: "state_io_rel same_queues (for_each (upsert_new_key E org) ks)" for org ks
    unfolding upsert_new_key_def by (intro io_rel)
  have tail: "post (same_queues w) (case target_artifact a xs of
      None \<Rightarrow> fail e | Some target \<Rightarrow> enqueueExtract E (server_extraction E) rq target schema) ?Q"
    if "req_id rq = j" for a xs e rq schema
    using enqueueExtract_queues [of w E rq] that by (auto intro!: post_case_option post_fail)
  have rest: "post (same_queues w) (ignoring (for_each (upsert_new_key E (req_organization_id rq)) (rk_NewKeys payload))
      (call (SetExtractionRequestResolvedSchema E j (enc_schema (rk_ResolvedSchema payload)))
               (Wrapped ''save resolved_schema'') (\<lambda>_.
          call (GetDocumentByID E (req_document_id rq)) (Wrapped ''get document'') (\<lambda>doc.
          call (ListDocumentsByParent E (doc_id doc) (doc_organization_id doc))
               (Wrapped ''list artifacts'') (\<lambda>artifacts.
          case target_artifact (req_anonymize rq) artifacts of
            None \<Rightarrow> fail (Other (''target artifact missing for extraction_request '' @ env_uuid_string E j))
          | Some target \<Rightarrow> enqueueExtract E (server_extraction E) rq target (rk_ResolvedSchema payload)))))) ?Q"
    if "req_id rq = j" for rq payload
    unfolding GetDocumentByID_def ListDocumentsByParent_def
    by (rule post_ignoring [OF same_queues_post [OF upserts]],
        (rule post_call [OF same_queues_post], intro io_rel, simp)+, rule tail [OF that])
  show ?thesis
  proof (cases rule: exec_sel_one_cases [of "\<lambda>d. find (\<lambda>r. req_id r = j) (extraction_requests d)" w E])
    case (failed e)
    then show ?thesis using task run
      by (auto simp: OnResolveKeysCompleted_def GetExtractionRequestByID_def split: option.splits if_splits)
  next
    case (row rq)
    then have rq: "req_id rq = j" by (auto dest: find_Some_iff_mem)
    obtain payload where payload: "dec_resolve_keys_payload (task_result_payload task) = Some payload"
      "rk_ResolvedSchema payload \<noteq> []"
      using task run by (auto simp: OnResolveKeysCompleted_def split: option.splits if_splits)
    show ?thesis
      using rest [OF rq, of payload, unfolded post_def, rule_format, of "w\<lparr>w_tick := Suc (w_tick w)\<rparr>"] task run row payload
      by (simp add: OnResolveKeysCompleted_def GetExtractionRequestByID_def same_queues_def)
  qed
qed

section \<open>The callback\<close>

lemma reactions_resolve_keys:
  assumes "task_status t = ''completed''" and "task_module_name t = ''resolve_keys''"
  shows "snd (run_state (reactions E s t) w) = snd (run_state (after_resolve_keys s t) w)"
  using assms
  by (auto simp: reactions_def after_convert_def after_anonymize_def after_extract_def
      after_request_task_failed_def after_prerequisite_failed_def)

lemma has_extract_updated:
  assumes "db_ok (w_db w)" and "stored_task (w_db w) i = Some t"
    and "document_tasks (w_db w') = put_row task_id (apply_worker_update p n t) (document_tasks (w_db w))"
  shows "has_extract j w' = has_extract j w"
proof -
  have t: "t \<in> set (document_tasks (w_db w))" using assms(2) by (auto simp: stored_task_def dest: find_Some_iff_mem)
  have "map request_key (put_row task_id (apply_worker_update p n t) (document_tasks (w_db w))) =
      map request_key (document_tasks (w_db w))"
  proof -
    have same: "request_key (apply_worker_update p n t) = request_key t"
      by (simp only: request_key_def apply_worker_update_simps)
    have "z = t" if "z \<in> set (document_tasks (w_db w))" "task_id z = task_id t" for z
      by (rule distinct_key_inj [OF db_ok_distinct(1) [OF assms(1)] that(1) t that(2)])
    then show ?thesis using same by (auto simp: put_row_def)
  qed
  then have "request_key ` set (document_tasks (w_db w')) = request_key ` set (document_tasks (w_db w))"
    unfolding assms(3) by (metis set_map)
  then show ?thesis by (auto simp: has_key_def image_iff set_eq_iff) metis+
qed

lemma finished_resolve_keys:
  assumes ok: "db_ok (w_db w)" and calm: "db_calm E" and t: "stored_task (w_db w) i = Some t"
    and module: "task_module_name t = ''resolve_keys''" and st: "up_Status upd = ''completed''"
    and rq: "task_extraction_request_id t = Some j"
    and run: "run_state (HandleStatusUpdate E (server_worker E) i upd) w = (r, w')"
  shows "\<exists>rq'. stored_request (w_db w') j = Some rq' \<and> (in_flight rq' \<longrightarrow> extract_queued j w w')"
proof -
  let ?t = "apply_worker_update (the_update i upd) (env_now E (w_tick w)) t"
  obtain w1 where w1: "run_state (HandleStatusUpdate E (server_worker E) i upd) w =
      (Inr ?t, snd (run_state (reactions E (server_worker E) ?t) w1))"
    "db_ok (w_db w1)" "extraction_requests (w_db w1) = extraction_requests (w_db w)" "w_redis w1 = w_redis w"
    "document_tasks (w_db w1) = put_row task_id ?t (document_tasks (w_db w))"
    by (rule HandleStatusUpdate_calm [OF ok calm t]) (use st in auto)
  obtain r0 where "stored_request (w_db w) j = Some r0" by (rule task_request_stored [OF ok t rq])
  then have r0: "stored_request (w_db w1) j = Some r0" using w1(3) by (simp add: stored_request_def)
  have w': "w' = snd (run_state (after_resolve_keys (server_worker E) ?t) w1)"
    using w1(1) run reactions_resolve_keys [of ?t] module st by simp
  obtain x w2 where run2: "run_state (OnResolveKeysCompleted E (server_extraction E) ?t) w1 = (x, w2)"
    by (cases "run_state (OnResolveKeysCompleted E (server_extraction E) ?t) w1")
  have rq': "task_extraction_request_id ?t = Some j" using rq by simp
  have "if_ok (publishes E) w1 w2"
    by (rule rel_runD [OF server_pipeline.OnResolveKeysCompleted_rel run2])
  then have ok2: "db_ok (w_db w2)" "evolves (w_db w1) (w_db w2)"
    using w1(2) by (auto simp: if_ok_def publishes_def sound_def)
  obtain r2 where r2: "stored_request (w_db w2) j = Some r2" by (rule stored_request_evolves [OF ok2(2,1) r0])
  show ?thesis
  proof (cases x)
    case (Inr u)
    then have "extract_queued j w1 w2" using OnResolveKeysCompleted_queues [OF rq'] run2 by simp
    moreover have "w' = w2" using w' run2 Inr module st by (simp add: after_resolve_keys_def pipeline_of_def)
    moreover have "has_extract j w1 = has_extract j w" by (rule has_extract_updated [OF ok t w1(5)])
    ultimately show ?thesis using r2 w1(4) by (simp add: extract_queued_def)
  next
    case (Inl e)
    have "w' = snd (run_state (fail_request_of (server_worker E) ?t ''pipeline error after resolve_keys'') w2)"
      using w' run2 Inl module st by (simp add: after_resolve_keys_def pipeline_of_def)
    moreover obtain w3 r3 where "snd (run_state (fail_request_of (server_worker E) ?t ''pipeline error after resolve_keys'') w2) = w3"
      "stored_request (w_db w3) j = Some r3" "req_status r3 = ''failed''"
      by (rule fail_request_of_calm [OF ok2(1) calm rq' r2])
    ultimately show ?thesis by (auto simp: in_flight_def)
  qed
qed

end
