(* ===== verification/Worker_Theorems.thy ===== *)
theory Worker_Theorems
  imports Pipeline_Progress
begin

text \<open>
  The properties of the callbacks of the workers (\<open>HandleStatusUpdate\<close>).
\<close>


definition demo_report :: "string \<Rightarrow> worker_status_update" where
  "demo_report st = \<lparr>up_Status = st, up_CeleryTaskID = None,
     up_ResultPayload = Some (JObj [(''price'', JStr ''5'')]), up_ErrorMessage = Some ''boom''\<rparr>"


text \<open>
  C16. A failed prerequisite closes what waits for it. When a worker reports that the conversion or
  the anonymization of a document has failed and the database answers, then every extraction
  request of that document that was pending or running is failed, with the text
  \<^verbatim>\<open><module> task failed\<close>, every other request is unchanged, and no request of the document is
  left in flight.
\<close>

theorem failed_prerequisite_closes_requests:
  assumes "db_ok (w_db w)" and "db_calm E" and "stored_task (w_db w) i = Some t"
    and "task_module_name t \<in> {''convert'', ''anonymize''}" and "up_Status upd = ''failed''"
    and "run_state (HandleStatusUpdate E (server_worker E) i upd) w = (r, w')"
  shows "failed_for (task_module_name t @ '' task failed'')
      (req_id ` set (pending_requests (task_document_id t) (w_db w))) (w_db w) (w_db w') \<and>
    (\<forall>rq \<in> set (extraction_requests (w_db w')). req_document_id rq = task_document_id t \<longrightarrow> \<not> in_flight rq)"
proof -
  have f: "failed_for (task_module_name t @ '' task failed'')
      (req_id ` set (pending_requests (task_document_id t) (w_db w))) (w_db w) (w_db w')"
    by (rule failed_prerequisite [OF assms])
  have "db_ok (w_db w')"
    using rel_runD [OF server_callbacks.HandleStatusUpdate_rel assms(6)] assms(1)
    by (auto simp: if_ok_def publishes_def sound_def)
  then show ?thesis using f failed_for_closes [OF assms(1) _ f] by blast
qed

theorem failed_prerequisite_closes_requests_witness:
  "list_all (\<lambda>rq. req_document_id rq = 3 \<longrightarrow> \<not> in_flight rq) (extraction_requests (w_db (snd (run_state
      (HandleStatusUpdate demo_env (server_worker demo_env) 30 (demo_report ''failed'')) demo_world))))"
  using failed_prerequisite_closes_requests [of demo_world demo_env 30 demo_anonymize_task "demo_report ''failed''",
      OF _ _ _ _ _ prod.collapse [symmetric]]
  by (simp add: stored_task_def demo_anonymize_task_def new_task_def demo_report_def list_all_iff)

text \<open>
  A failed task of a request closes the request. When a worker reports that a \<open>resolve_keys\<close> or
  \<open>extract\<close> task has failed and the database answers, the request of the task is failed, with the
  error text of the report, or else the one the task had before, or else \<^verbatim>\<open>task failed\<close>.
\<close>

lemma failed_request_task_closes_request:
  assumes "db_ok (w_db w)" and "db_calm E" and "stored_task (w_db w) i = Some t"
    and "task_module_name t \<in> {''resolve_keys'', ''extract''}" and "up_Status upd = ''failed''"
    and "task_extraction_request_id t = Some j"
    and "run_state (HandleStatusUpdate E (server_worker E) i upd) w = (r, w')"
  shows "\<exists>rq. stored_request (w_db w') j = Some rq \<and> req_status rq = ''failed'' \<and>
    req_error_message rq = Some (case coalesce_opt (up_ErrorMessage upd) (task_error_message t) of
      None \<Rightarrow> ''task failed'' | Some m \<Rightarrow> m)"
  by (rule failed_request_task [OF assms])



lemma finished_extract_settles_request:
  assumes "db_ok (w_db w)" and "db_calm E" and "stored_task (w_db w) i = Some t"
    and "task_module_name t = ''extract''" and "up_Status upd = ''completed''"
    and "task_extraction_request_id t = Some j"
    and "run_state (HandleStatusUpdate E (server_worker E) i upd) w = (r, w')"
  shows "\<exists>rq. stored_request (w_db w') j = Some rq \<and> \<not> in_flight rq"
  by (rule finished_extract [OF assms])

text \<open>
  C27. A completed conversion has its file registered once. When \<open>registerConvertArtifacts\<close> succeeds
  for a payload that names a file, the document of the task has exactly one \<open>convert_md\<close> artifact,
  its path is that of the payload and its organization that of the document, and the payload of the
  task is replaced by the final one, which names that artifact. A repeated callback therefore
  refreshes the artifact that is there and never adds a second one.
\<close>

theorem convert_artifact_registered:
  assumes "db_ok (w_db w)" and "run_state (registerConvertArtifacts E task) w = (Inr (), w')"
    and "dec_convert_payload (task_result_payload task) = Some p" and "cp_MDStoragePath p \<noteq> []"
  shows "\<exists>parent x t. parent \<in> set (documents (w_db w)) \<and> doc_id parent = task_document_id task \<and>
    (\<forall>y. artifact_of (w_db w') (task_document_id task) ''convert_md'' y \<longleftrightarrow> y = x) \<and>
    doc_storage_path x = cp_MDStoragePath p \<and> doc_organization_id x = doc_organization_id parent \<and>
    stored_task (w_db w') (task_id task) = Some t \<and> task_result_payload t = convertResultFinal E x p"
  by (rule registerConvert_runs [OF assms]) (blast intro: artifact_unique)

definition demo_converted :: document_task where
  "demo_converted = demo_anonymize_task\<lparr>task_result_payload :=
     JObj [(''md_storage_path'', JStr ''o/new.md''), (''char_count'', JInt 7)]\<rparr>"

theorem convert_artifact_registered_witness:
  "\<exists>w' x. run_state (registerConvertArtifacts demo_env demo_converted) demo_world = (Inr (), w') \<and>
    artifact_of (w_db w') 3 ''convert_md'' x \<and> doc_storage_path x = ''o/new.md''"
proof -
  have "fst (run_state (registerConvertArtifacts demo_env demo_converted) demo_world) = Inr ()"
    by (simp add: registerConvertArtifacts_def demo_converted_def demo_anonymize_task_def new_task_def
        dec_convert_payload_def same_name_def ascii_lower_def demo_run registerArtifact_def artifact_params_def
        demo_doc_def demo_md_def stmt_CreateArtifactDocument_def new_document_def document_triggers_def
        org_user_exists_def demo_user_def org_document_exists_def document_checks_def blank_def
        index_conflict_def artifact_key_def update_document_def refresh_artifact_def Let_def
        stmt_UpdateTaskResultPayload_def update_task_def task_checks_def demo_extract_task_def put_row_def)
  then obtain w' where run: "run_state (registerConvertArtifacts demo_env demo_converted) demo_world = (Inr (), w')"
    by (metis prod.collapse)
  have "dec_convert_payload (task_result_payload demo_converted) =
      Some \<lparr>cp_MDStoragePath = ''o/new.md'', cp_CharCount = 7, cp_SectionCount = 0\<rparr>"
    by (simp add: demo_converted_def dec_convert_payload_def same_name_def ascii_lower_def)
  from convert_artifact_registered [OF _ run this] run show ?thesis
    by (auto simp: demo_converted_def demo_anonymize_task_def new_task_def)
qed

text \<open>
  A report for an unknown task changes nothing. When no task has the reported identifier and the
  database answers, \<open>HandleStatusUpdate\<close> gives the error \<open>not_found\<close>, which the server answers with
  404, and neither the database nor a queue changes.
\<close>

lemma HandleStatusUpdate_unknown_task:
  assumes "db_calm E" and "stored_task (w_db w) i = None"
    and "run_state (HandleStatusUpdate E (server_worker E) i upd) w = (r, w')"
  shows "\<exists>e. r = Inl e \<and> resp_status (respondWithError e) = 404 \<and> w_db w' = w_db w \<and> w_redis w' = w_redis w"
  using assms
  by (auto simp: HandleStatusUpdate_def UpdateWorkerTaskStatus_def exec_def db_calm_def
      stmt_UpdateWorkerTaskStatus_def update_task_def stored_task_def run_call errs_New_def
      respondWithError_def codeToStatus_def code_defs)

end
