(* ===== verification/Watchdog_Properties.thy ===== *)
theory Watchdog_Properties
  imports Worker_Properties
begin

text \<open>
  What one scan of the watchdog does to every task, for any environment; how often it publishes;
  and what several watchdogs and the workers may do to a task when their statements interleave.
\<close>

section \<open>One task\<close>

text \<open>What the scan makes of a stale task at the time \<open>tm\<close> of its statement.\<close>

definition treat :: "watchdog_config \<Rightarrow> int \<Rightarrow> document_task \<Rightarrow> document_task" where
  "treat cfg tm t =
     (if WatchdogMaxRetries cfg \<le> task_retry_count t
      then t\<lparr>task_status := ''failed'',
             task_error_message := Some (retries_exhausted_msg (task_retry_count t) (WatchdogMaxRetries cfg)),
             task_updated_at := tm\<rparr>
      else claim t tm)"

lemma treat_id [simp]: "task_id (treat cfg tm t) = task_id t"
  by (simp add: treat_def claim_def)

lemma stored_task_put: "stored_task d (task_id t) = Some t0 \<Longrightarrow>
    stored_task (d\<lparr>document_tasks := put_row task_id t (document_tasks d)\<rparr>) j =
      (if j = task_id t then Some t else stored_task d j)"
  by (simp add: stored_task_def find_put_row find_put_row_other)

lemma find_unique:
  assumes "t \<in> set xs" "P t" "\<And>x. x \<in> set xs \<Longrightarrow> P x \<Longrightarrow> x = t"
  shows "find P xs = Some t"
proof (cases "find P xs")
  case None
  then show ?thesis using assms(1,2) by (simp add: find_None_iff)
next
  case (Some y)
  then have "y \<in> set xs \<and> P y" by (rule find_Some_iff_mem)
  then show ?thesis using Some assms(3) by simp
qed

lemma stored_task_unique:
  assumes "stored_task d i = Some t" and "db_ok d"
  shows "t \<in> set (document_tasks d)" "task_id t = i"
    and "x \<in> set (document_tasks d) \<Longrightarrow> task_id x = i \<Longrightarrow> x = t"
proof -
  show mem: "t \<in> set (document_tasks d)" "task_id t = i"
    using assms(1) by (auto simp: stored_task_def dest: find_Some_iff_mem)
  show "x \<in> set (document_tasks d) \<Longrightarrow> task_id x = i \<Longrightarrow> x = t"
    using table_ok_key [OF db_ok_tasks [OF assms(2)] _ mem(1)] mem(2) by simp
qed

lemma find_stale:
  assumes "stored_task d i = Some t" and "db_ok d"
  shows "find (\<lambda>x. task_id x = i \<and> stale cutoff x) (document_tasks d) = (if stale cutoff t then Some t else None)"
proof (cases "stale cutoff t")
  case True
  have "find (\<lambda>x. task_id x = i \<and> stale cutoff x) (document_tasks d) = Some t"
    using True stored_task_unique [OF assms] by (intro find_unique) blast+
  then show ?thesis using True by simp
next
  case False
  have "find (\<lambda>x. task_id x = i \<and> stale cutoff x) (document_tasks d) = None"
    unfolding find_None_iff
  proof
    assume "\<exists>x. x \<in> set (document_tasks d) \<and> task_id x = i \<and> stale cutoff x"
    then obtain x where "x \<in> set (document_tasks d)" "task_id x = i" "stale cutoff x" by (elim exE conjE)
    then show False using stored_task_unique(3) [OF assms, of x] False by simp
  qed
  then show ?thesis using False by (simp only: if_False)
qed

text \<open>The two updates, on the task as it is stored.\<close>

lemma mark_failed_stored:
  assumes "db_ok d" and "stored_task d i = Some t" and "stale cutoff t"
  shows "stmt_MarkStaleTaskFailed i cutoff msg g tm d = (Inr 1, d\<lparr>document_tasks := put_row task_id
     (t\<lparr>task_status := ''failed'', task_error_message := Some msg, task_updated_at := tm\<rparr>) (document_tasks d)\<rparr>)"
  using find_stale [OF assms(2,1), of cutoff] assms(3) by (simp add: stmt_MarkStaleTaskFailed_def)

lemma mark_pending_stored:
  assumes "db_ok d" and "stored_task d i = Some t" and "stale cutoff t"
  shows "stmt_MarkStaleTaskPending i cutoff g tm d =
    (if 2 ^ 31 - 1 \<le> task_retry_count t then (Inl (PgError ''22003'' []), d)
     else (Inr 1, d\<lparr>document_tasks := put_row task_id (claim t tm) (document_tasks d)\<rparr>))"
  using find_stale [OF assms(2,1), of cutoff] assms(3) by (simp add: stmt_MarkStaleTaskPending_def)

definition changes_to :: "uuid \<Rightarrow> document_task \<Rightarrow> db \<Rightarrow> db \<Rightarrow> bool" where
  "changes_to i t d d' \<longleftrightarrow> stored_task d' = (stored_task d)(i \<mapsto> t)"

lemma changes_to_put: "stored_task d i = Some t0 \<Longrightarrow> task_id t = i \<Longrightarrow>
    changes_to i t d (d\<lparr>document_tasks := put_row task_id t (document_tasks d)\<rparr>)"
  using stored_task_put [of d t t0] by (auto simp: changes_to_def)

lemma changes_to_refl: "stored_task d i = Some t \<Longrightarrow> changes_to i t d d"
  by (auto simp: changes_to_def)

text \<open>Publishing does not touch the database, whatever becomes of it.\<close>

definition same_db :: "world \<Rightarrow> world \<Rightarrow> bool" where
  "same_db w w' \<longleftrightarrow> w_db w' = w_db w"

interpretation same_db: effect_rel same_db
  by unfold_locales (auto simp: same_db_def)

lemma same_db_steps [io_rel]:
  "state_io_rel same_db (Process E r)" "state_io_rel same_db (ctx_canceled E)"
  "state_io_rel same_db (ListStaleTasks E cutoff n)"
  using Process_db_rel [of "\<lambda>d d'. d' = d" E r]
  by (simp_all add: db_rel_def same_db_def state_io_rel_def ListStaleTasks_def)
     (auto simp: exec_def stmt_ListStaleTasks_def Let_def split: fault.splits)

lemma publish_attempts_same_db [io_rel]: "state_io_rel same_db (publish_attempts E (Process E) r n)"
  by (induction n) (auto intro!: io_rel)

lemma exec_stored:
  assumes "run_state (exec E f) w = (r, w')"
  shows "(w_db w' = w_db w \<and> \<not> db_calm E) \<or>
    w_db w' = snd (f (env_uuid E (w_tick w)) (env_now E (w_tick w)) (w_db w))"
  using assms by (auto simp: exec_def Let_def db_calm_def split: fault.splits prod.splits)

lemma processTask_effect:
  assumes ok: "db_ok (w_db w)" and t: "stored_task (w_db w) (st_ID row) = Some t" and st: "stale cutoff t"
    and retry: "st_RetryCount row = task_retry_count t"
    and run: "run_state (processTask E (Process E) cfg cutoff row) w = (u, w')"
  obtains tm t' where "changes_to (st_ID row) t' (w_db w) (w_db w')" "t' = t \<or> t' = treat cfg tm t"
    "db_calm E \<Longrightarrow> WatchdogMaxRetries cfg < 2 ^ 31 \<Longrightarrow> t' = treat cfg tm t"
proof -
  let ?tm = "env_now E (w_tick w)" and ?i = "st_ID row"
  let ?d = "(w_db w)\<lparr>document_tasks := put_row task_id (treat cfg ?tm t) (document_tasks (w_db w))\<rparr>"
  have ch: "changes_to ?i (treat cfg ?tm t) (w_db w) ?d" "changes_to ?i t (w_db w) (w_db w)"
    using changes_to_put [OF t, of "treat cfg ?tm t"] changes_to_refl [OF t] stored_task_unique(2) [OF t ok]
    by simp_all
  show thesis
  proof (cases "WatchdogMaxRetries cfg \<le> task_retry_count t")
    case True
    let ?f = "stmt_MarkStaleTaskFailed ?i cutoff (retries_exhausted_msg (st_RetryCount row) (WatchdogMaxRetries cfg))"
    obtain r w1 where r: "run_state (exec E ?f) w = (r, w1)" by (cases "run_state (exec E ?f) w")
    have "w' = w1" using run True retry r by (simp add: processTask_def MarkStaleTaskFailed_def)
    moreover have "?f g ?tm (w_db w) = (Inr 1, ?d)" for g
      using mark_failed_stored [OF ok t st] True retry by (simp add: treat_def)
    ultimately show thesis
      using exec_stored [OF r] that [of "treat cfg ?tm t" ?tm] that [of t ?tm] ch by auto
  next
    case False
    let ?f = "stmt_MarkStaleTaskPending ?i cutoff"
    obtain r w1 where r: "run_state (exec E ?f) w = (r, w1)" by (cases "run_state (exec E ?f) w")
    have "state_io_rel same_db (case r of Inl _ \<Rightarrow> State_Monad.return () | Inr rows \<Rightarrow>
        (if rows = 0 then State_Monad.return ()
         else publish_attempts E (Process E) (stale_request E row) maxPublishAttempts))"
      by (intro io_rel)
    then have w': "w_db w' = w_db w1"
      using run False retry r
      by (auto simp: processTask_def MarkStaleTaskPending_def state_io_rel_def same_db_def) (metis snd_conv)
    have "?f g ?tm (w_db w) = (if 2 ^ 31 - 1 \<le> task_retry_count t then (Inl (PgError ''22003'' []), w_db w)
        else (Inr 1, ?d))" for g
      using mark_pending_stored [OF ok t st] False by (simp add: treat_def)
    then show thesis
      using exec_stored [OF r] that [of "treat cfg ?tm t" ?tm] that [of t ?tm] ch w' False
      by (cases "2 ^ 31 - 1 \<le> task_retry_count t") auto
  qed
qed

section \<open>One scan\<close>

text \<open>
  After a scan of the tasks \<open>rows\<close>, each of them is as it was or as \<open>treat\<close> makes it, and treated
  when the database answers; every other task is as it was.
\<close>

definition scanned :: "env \<Rightarrow> watchdog_config \<Rightarrow> uuid set \<Rightarrow> db \<Rightarrow> db \<Rightarrow> bool" where
  "scanned E cfg ids d d' \<longleftrightarrow> (\<forall>i t. stored_task d i = Some t \<longrightarrow>
     (if i \<in> ids
      then \<exists>tm t'. stored_task d' i = Some t' \<and> (t' = t \<or> t' = treat cfg tm t) \<and>
        (db_calm E \<longrightarrow> WatchdogMaxRetries cfg < 2 ^ 31 \<longrightarrow> t' = treat cfg tm t)
      else stored_task d' i = Some t))"

lemma scanned_empty: "scanned E cfg {} d d"
  by (simp add: scanned_def)

lemma scannedD: "scanned E cfg ids d d' \<Longrightarrow> stored_task d i = Some t \<Longrightarrow>
    if i \<in> ids
      then \<exists>tm t'. stored_task d' i = Some t' \<and> (t' = t \<or> t' = treat cfg tm t) \<and>
        (db_calm E \<longrightarrow> WatchdogMaxRetries cfg < 2 ^ 31 \<longrightarrow> t' = treat cfg tm t)
      else stored_task d' i = Some t"
  unfolding scanned_def by blast

lemma scanned_step:
  assumes ch: "changes_to i t' d d1" and t: "stored_task d i = Some t" and i: "i \<notin> ids"
    and t': "t' = t \<or> t' = treat cfg tm t"
      "db_calm E \<Longrightarrow> WatchdogMaxRetries cfg < 2 ^ 31 \<Longrightarrow> t' = treat cfg tm t"
    and rest: "scanned E cfg ids d1 d'"
  shows "scanned E cfg (insert i ids) d d'"
  unfolding scanned_def
proof (intro allI impI)
  fix j u assume u: "stored_task d j = Some u"
  show "if j \<in> insert i ids
      then \<exists>tm t'. stored_task d' j = Some t' \<and> (t' = u \<or> t' = treat cfg tm u) \<and>
        (db_calm E \<longrightarrow> WatchdogMaxRetries cfg < 2 ^ 31 \<longrightarrow> t' = treat cfg tm u)
      else stored_task d' j = Some u"
  proof (cases "j = i")
    case True
    have "stored_task d1 i = Some t'" using ch by (simp add: changes_to_def)
    then have "stored_task d' i = Some t'" using scannedD [OF rest] i by fastforce
    then show ?thesis using True t t' u by auto
  next
    case False
    then have "stored_task d1 j = Some u" using ch u by (simp add: changes_to_def)
    from scannedD [OF rest this] show ?thesis using False by simp
  qed
qed

definition fresh_row :: "int \<Rightarrow> db \<Rightarrow> stale_row \<Rightarrow> bool" where
  "fresh_row cutoff d row \<longleftrightarrow> (\<exists>t. stored_task d (st_ID row) = Some t \<and> stale cutoff t \<and>
     st_RetryCount row = task_retry_count t)"

lemma fresh_row_changes: "changes_to i t d d' \<Longrightarrow> st_ID row \<noteq> i \<Longrightarrow> fresh_row cutoff d row \<Longrightarrow> fresh_row cutoff d' row"
  by (auto simp: fresh_row_def changes_to_def)

lemma processTask_sound:
  assumes "db_ok (w_db w)" and "run_state (processTask E (Process E) cfg cutoff row) w = (u, w')"
    and "holding E (stale_request E row) w"
  shows "db_ok (w_db w')"
  using redis.processTask_from [of E row cfg cutoff] assms
  by (auto simp: rel_from_def publishes_def sound_def)

lemma for_each_scanned:
  assumes "db_ok (w_db w)" and "distinct (map st_ID rows)"
    and "\<forall>row \<in> set rows. fresh_row cutoff (w_db w) row \<and> holding E (stale_request E row) w"
  shows "scanned E cfg (st_ID ` set rows) (w_db w)
    (w_db (snd (run_state (for_each (processTask E (Process E) cfg cutoff) rows) w)))"
  using assms
proof (induction rows arbitrary: w)
  case Nil
  then show ?case by (simp add: scanned_empty)
next
  case (Cons row rows)
  obtain t where t: "stored_task (w_db w) (st_ID row) = Some t" "stale cutoff t"
      "st_RetryCount row = task_retry_count t"
    using Cons.prems(3) by (auto simp: fresh_row_def)
  obtain u w1 where run: "run_state (processTask E (Process E) cfg cutoff row) w = (u, w1)"
    by (cases "run_state (processTask E (Process E) cfg cutoff row) w")
  obtain tm t' where ch: "changes_to (st_ID row) t' (w_db w) (w_db w1)" "t' = t \<or> t' = treat cfg tm t"
    "db_calm E \<Longrightarrow> WatchdogMaxRetries cfg < 2 ^ 31 \<Longrightarrow> t' = treat cfg tm t"
    using processTask_effect [OF Cons.prems(1) t run] by blast
  have R: "publishes E w w1"
    using redis.processTask_from [of E row cfg cutoff] Cons.prems(3) run
    by (auto simp: rel_from_def)
  then have ok1: "db_ok (w_db w1)" using Cons.prems(1) by (simp add: publishes_def sound_def)
  have "\<forall>r \<in> set rows. fresh_row cutoff (w_db w1) r \<and> holding E (stale_request E r) w1"
  proof
    fix r assume r: "r \<in> set rows"
    then have "st_ID r \<noteq> st_ID row" using Cons.prems(2) by (auto simp: image_iff)
    moreover have "fresh_row cutoff (w_db w) r" "holding E (stale_request E r) w"
      using Cons.prems(3) r by simp_all
    ultimately show "fresh_row cutoff (w_db w1) r \<and> holding E (stale_request E r) w1"
      using fresh_row_changes [OF ch(1)] redis.holding_kept [OF _ R] by simp
  qed
  then have "scanned E cfg (st_ID ` set rows) (w_db w1)
      (w_db (snd (run_state (for_each (processTask E (Process E) cfg cutoff) rows) w1)))"
    using Cons.IH ok1 Cons.prems(2) by simp
  from scanned_step [OF ch(1) t(1) _ ch(2,3) this] show ?case
    using Cons.prems(2) run by auto
qed

text \<open>The tasks a scan takes: the stale ones, the longest untouched first, as many as the batch.\<close>

definition selected :: "int \<Rightarrow> int \<Rightarrow> db \<Rightarrow> document_task list" where
  "selected cutoff batch d = take (nat batch) (sort_key task_updated_at (filter (stale cutoff) (document_tasks d)))"

lemma selected_mem: "t \<in> set (selected cutoff batch d) \<Longrightarrow> t \<in> set (document_tasks d) \<and> stale cutoff t"
  by (auto simp: selected_def dest: in_set_takeD)

lemma selected_distinct: "db_ok d \<Longrightarrow> distinct (map task_id (selected cutoff batch d))"
proof -
  assume ok: "db_ok d"
  let ?s = "sort_key task_updated_at (filter (stale cutoff) (document_tasks d))"
  have "distinct (map task_id ?s)"
    using db_ok_distinct(1) [OF ok]
    by (simp add: distinct_map inj_on_def)
  then show ?thesis unfolding selected_def by (simp add: take_map [symmetric] distinct_take)
qed

lemma stored_task_row: "db_ok d \<Longrightarrow> t \<in> set (document_tasks d) \<Longrightarrow> stored_task d (task_id t) = Some t"
  unfolding stored_task_def by (rule find_distinct) (auto dest: db_ok_distinct)

lemma runOnce_cases:
  obtains (listed) w1 where "w_db w1 = w_db w" "w_redis w1 = w_redis w" "0 \<le> go_int32 (WatchdogBatchSize cfg)"
      "snd (run_state (runOnce E pub cfg now) w) = snd (run_state (for_each
        (processTask E pub cfg (now - WatchdogThreshold cfg))
        (map stale_row_of (selected (now - WatchdogThreshold cfg) (go_int32 (WatchdogBatchSize cfg)) (w_db w)))) w1)"
    | (skipped) "w_db (snd (run_state (runOnce E pub cfg now) w)) = w_db w"
      "w_redis (snd (run_state (runOnce E pub cfg now) w)) = w_redis w"
      "db_calm E \<Longrightarrow> go_int32 (WatchdogBatchSize cfg) < 0"
proof (cases rule: run_exec_cases [of "stmt_ListStaleTasks (now - WatchdogThreshold cfg) (go_int32 (WatchdogBatchSize cfg))" E w])
  case (effect d r)
  show thesis
  proof (cases "go_int32 (WatchdogBatchSize cfg) < 0")
    case True
    then show thesis using that(2) effect by (auto simp: runOnce_def ListStaleTasks_def stmt_ListStaleTasks_def)
  next
    case False
    then show thesis using effect that(1) [of "w\<lparr>w_tick := Suc (w_tick w)\<rparr>"]
      by (auto simp: runOnce_def ListStaleTasks_def stmt_ListStaleTasks_def selected_def)
  qed
next
  case (rejected s)
  have "db_calm E \<Longrightarrow> go_int32 (WatchdogBatchSize cfg) < 0"
    using rejected by (auto simp: exec_def stmt_ListStaleTasks_def db_calm_def Let_def split: if_splits)
  then show thesis using that(2) rejected
    by (auto simp: runOnce_def ListStaleTasks_def stmt_ListStaleTasks_def split: if_splits)
next
  case (lost d r s)
  have "db_calm E \<Longrightarrow> go_int32 (WatchdogBatchSize cfg) < 0"
    using lost by (auto simp: exec_def stmt_ListStaleTasks_def db_calm_def Let_def split: if_splits)
  then show thesis using that(2) lost
    by (auto simp: runOnce_def ListStaleTasks_def stmt_ListStaleTasks_def split: if_splits)
qed

lemma runOnce_scanned:
  assumes ok: "db_ok (w_db w)" and batch: "0 \<le> go_int32 (WatchdogBatchSize cfg)"
    and run: "run_state (runOnce E (Process E) cfg now) w = (u, w')"
  obtains ids where "scanned E cfg ids (w_db w) (w_db w')"
    "ids = task_id ` set (selected (now - WatchdogThreshold cfg) (go_int32 (WatchdogBatchSize cfg)) (w_db w)) \<or>
     (ids = {} \<and> \<not> db_calm E)"
proof (cases rule: runOnce_cases [of w cfg E "Process E" now])
  case (listed w1)
  let ?c = "now - WatchdogThreshold cfg" and ?n = "go_int32 (WatchdogBatchSize cfg)"
  let ?rows = "map stale_row_of (selected ?c ?n (w_db w))"
  have "fresh_row ?c (w_db w) row \<and> holding E (stale_request E row) w1" if row: "row \<in> set ?rows" for row
  proof -
    obtain t where t: "t \<in> set (selected ?c ?n (w_db w))" "row = stale_row_of t" using row by auto
    have "recorded E (w_db w) (stale_request E row)"
      using selected_mem [OF t(1)] t(2)
      by (auto simp: recorded_def request_for_def stale_request_def stale_row_of_def intro!: bexI [of _ t])
    then show ?thesis
      using selected_mem [OF t(1)] t(2) stored_task_row [OF ok] ok listed(1)
      by (auto simp: fresh_row_def holding_def stale_row_of_def)
  qed
  moreover have "distinct (map st_ID ?rows)"
    using selected_distinct [OF ok] by (simp add: stale_row_of_def o_def)
  ultimately have "scanned E cfg (st_ID ` set ?rows) (w_db w1)
      (w_db (snd (run_state (for_each (processTask E (Process E) cfg ?c) ?rows) w1)))"
    by (intro for_each_scanned) (use ok listed(1) in auto)
  moreover have "st_ID ` set ?rows = task_id ` set (selected ?c ?n (w_db w))"
    by (force simp: stale_row_of_def)
  ultimately show thesis using that run listed by (metis snd_conv)
next
  case skipped
  then have "\<not> db_calm E" "w_db w' = w_db w" using batch run by auto
  then show thesis using that [of "{}"] scanned_empty by metis
qed

section \<open>Publishing again\<close>

text \<open>
  The attempts to publish one request put at most one message per attempt on the queue of its
  module, and more than one only when the answer to a successful push was lost.
\<close>

definition pushes :: "env \<Rightarrow> process_request \<Rightarrow> nat \<Rightarrow> world \<Rightarrow> world \<Rightarrow> bool" where
  "pushes E r n w w' \<longleftrightarrow> (\<forall>q. \<exists>ms. w_redis w' q = ms @ w_redis w q \<and> length ms \<le> n \<and>
     (\<forall>m \<in> set ms. celery_text E r m) \<and>
     (ms \<noteq> [] \<longrightarrow> (\<exists>nm. resolveModule (env_quote E) (pr_ModuleName r) = Inr (q, nm))))"

lemma pushes_none: "w_redis w' = w_redis w \<Longrightarrow> pushes E r n w w'"
  by (simp add: pushes_def)

lemma pushes_trans:
  assumes "pushes E r n w v" and "pushes E r m v u" shows "pushes E r (n + m) w u"
  unfolding pushes_def
proof
  fix q
  obtain ms where ms: "w_redis v q = ms @ w_redis w q" "length ms \<le> n" "\<forall>m \<in> set ms. celery_text E r m"
      "ms \<noteq> [] \<longrightarrow> (\<exists>nm. resolveModule (env_quote E) (pr_ModuleName r) = Inr (q, nm))"
    using assms(1) unfolding pushes_def by blast
  obtain ns where ns: "w_redis u q = ns @ w_redis v q" "length ns \<le> m" "\<forall>m \<in> set ns. celery_text E r m"
      "ns \<noteq> [] \<longrightarrow> (\<exists>nm. resolveModule (env_quote E) (pr_ModuleName r) = Inr (q, nm))"
    using assms(2) unfolding pushes_def by blast
  show "\<exists>ms. w_redis u q = ms @ w_redis w q \<and> length ms \<le> n + m \<and> (\<forall>m \<in> set ms. celery_text E r m) \<and>
     (ms \<noteq> [] \<longrightarrow> (\<exists>nm. resolveModule (env_quote E) (pr_ModuleName r) = Inr (q, nm)))"
    by (rule exI [of _ "ns @ ms"]) (use ms ns in auto)
qed

definition no_lost_push :: "env \<Rightarrow> bool" where
  "no_lost_push E \<longleftrightarrow> (\<forall>n s. env_push E n \<noteq> Lost s)"

lemma Process_pushes:
  assumes "run_state (Process E r) w = (x, w')"
  shows "pushes E r (Suc 0) w w'" and "no_lost_push E \<Longrightarrow> x = Inl e \<Longrightarrow> w_redis w' = w_redis w"
proof -
  show "pushes E r (Suc 0) w w'"
  proof (cases rule: Process_cases [of E r w])
    case (sent q n m y v)
    then show ?thesis using assms by (auto simp: pushes_def)
  next
    case (unsent e v)
    then show ?thesis using assms by (auto intro: pushes_none)
  qed
  show "no_lost_push E \<Longrightarrow> x = Inl e \<Longrightarrow> w_redis w' = w_redis w"
    using assms by (auto simp: Process_def lpush_def call_def no_lost_push_def Let_def
        split: sum.splits prod.splits fault.splits)
qed

lemma publish_attempts_pushes:
  "pushes E r n w (snd (run_state (publish_attempts E (Process E) r n) w))"
proof (induction n arbitrary: w)
  case (Suc n)
  let ?w = "w\<lparr>w_tick := Suc (w_tick w)\<rparr>"
  obtain x w1 where run: "run_state (Process E r) ?w = (x, w1)" by (cases "run_state (Process E r) ?w")
  have one: "pushes E r (Suc 0) w w1" using Process_pushes(1) [OF run] by (simp add: pushes_def)
  have more: "pushes E r m w w1" if "Suc 0 \<le> m" for m
    using one that unfolding pushes_def by (meson le_trans)
  let ?w1 = "w1\<lparr>w_tick := Suc (w_tick w1)\<rparr>"
  have "pushes E r (Suc n) w (snd (run_state (publish_attempts E (Process E) r n) ?w1))"
    using pushes_trans [OF one, of n] Suc.IH [of ?w1] by (simp add: pushes_def)
  moreover have "pushes E r (Suc n) w ?w1" using more [of "Suc n"] by (simp add: pushes_def)
  ultimately show ?case
    using run more [of "Suc n"] by (cases x) (auto intro: pushes_none)
qed (simp add: pushes_none)

lemma publish_attempts_once:
  assumes "no_lost_push E"
  shows "pushes E r (Suc 0) w (snd (run_state (publish_attempts E (Process E) r n) w))"
proof (induction n arbitrary: w)
  case (Suc n)
  let ?w = "w\<lparr>w_tick := Suc (w_tick w)\<rparr>"
  obtain x w1 where run: "run_state (Process E r) ?w = (x, w1)" by (cases "run_state (Process E r) ?w")
  show ?case
  proof (cases x)
    case (Inr u)
    have "pushes E r (Suc 0) w w1" using Process_pushes(1) [OF run] by (simp add: pushes_def)
    then show ?thesis using run Inr by (auto intro: pushes_none)
  next
    case (Inl e)
    then have "w_redis w1 = w_redis w" using Process_pushes(2) [OF run assms] by simp
    then show ?thesis
      using run Inl Suc.IH [of "w1\<lparr>w_tick := Suc (w_tick w1)\<rparr>"] by (auto simp: pushes_def)
  qed
qed (simp add: pushes_none)

section \<open>Several watchdogs and workers\<close>

text \<open>
  The statements that replicas of the watchdog and the callbacks of the workers execute on tasks,
  in any order; the database executes them one at a time, at times that do not decrease. The
  count is the number of rows that a statement reports to have changed.
\<close>

datatype task_write =
    Claim uuid int
  | GiveUp uuid int string
  | Report worker_task_update

definition count_rows :: "(go_error + 'a) \<times> db \<Rightarrow> (go_error + nat) \<times> db" where
  "count_rows p = (case p of (Inl e, d) \<Rightarrow> (Inl e, d) | (Inr _, d) \<Rightarrow> (Inr 1, d))"

fun task_write_stmt :: "task_write \<Rightarrow> nat stmt" where
  "task_write_stmt (Claim i cutoff) g t d = stmt_MarkStaleTaskPending i cutoff g t d"
| "task_write_stmt (GiveUp i cutoff msg) g t d = stmt_MarkStaleTaskFailed i cutoff msg g t d"
| "task_write_stmt (Report p) g t d = count_rows (stmt_UpdateWorkerTaskStatus p g t d)"

inductive interleaving :: "(int \<times> task_write \<times> nat) list \<Rightarrow> db \<Rightarrow> db \<Rightarrow> bool" where
  no_writes: "interleaving [] d d"
| one_write: "interleaving ((t, op, n) # evs) d d'"
    if "task_write_stmt op g t d = (Inr n, d1)" "interleaving evs d1 d'"
      "\<forall>e \<in> set evs. t \<le> fst e"
| refused_write: "interleaving evs d d'"
    if "task_write_stmt op g t d = (Inl e, d1)" "interleaving evs d1 d'"

lemma task_write_sound: "sound d (snd (task_write_stmt op g t d))"
proof (cases op)
  case (Report p)
  then show ?thesis using sound_UpdateWorkerTaskStatus [of d p g t]
    by (auto simp: count_rows_def split: prod.splits sum.splits)
qed (auto intro: sound_stmt)

text \<open>The time of a task's last change never goes back before the time of a statement.\<close>

definition touched_since :: "int \<Rightarrow> uuid \<Rightarrow> db \<Rightarrow> bool" where
  "touched_since t i d \<longleftrightarrow> (\<forall>x \<in> set (document_tasks d). task_id x = i \<longrightarrow> t \<le> task_updated_at x)"

lemma touched_put: "touched_since t i d \<Longrightarrow> t \<le> task_updated_at x \<Longrightarrow>
    touched_since t i (d\<lparr>document_tasks := put_row task_id x (document_tasks d)\<rparr>)"
  by (auto simp: touched_since_def dest!: set_put_rowD)

lemma touched_write: "touched_since t i d \<Longrightarrow> t \<le> t' \<Longrightarrow> touched_since t i (snd (task_write_stmt op g t' d))"
  by (cases op)
    (auto simp: stmt_MarkStaleTaskPending_def stmt_MarkStaleTaskFailed_def stmt_UpdateWorkerTaskStatus_def
      update_task_def count_rows_def claim_def apply_worker_update_def intro!: touched_put split: option.splits)

lemma claim_touches:
  assumes "db_ok d" and "stmt_MarkStaleTaskPending i c g t d = (Inr 1, d')"
  shows "touched_since t i d'"
proof -
  obtain x where x: "x \<in> set (document_tasks d)" "task_id x = i"
      "d' = d\<lparr>document_tasks := put_row task_id (claim x t) (document_tasks d)\<rparr>"
    using assms(2) by (auto simp: stmt_MarkStaleTaskPending_def dest!: find_Some_iff_mem split: option.splits if_splits)
  then show ?thesis by (auto simp: touched_since_def claim_def dest!: set_put_row)
qed

lemma claim_blocked:
  "touched_since t i d \<Longrightarrow> stmt_MarkStaleTaskPending i c g t' d = (Inr 1, d') \<Longrightarrow> t < c"
  by (auto simp: stmt_MarkStaleTaskPending_def touched_since_def stale_def
      dest!: find_Some_iff_mem split: option.splits if_splits)

lemma task_write_refused: "task_write_stmt op g t d = (Inl e, d1) \<Longrightarrow> d1 = d"
  by (cases op) (auto simp: stmt_MarkStaleTaskPending_def stmt_MarkStaleTaskFailed_def count_rows_def
      stmt_UpdateWorkerTaskStatus_def update_task_def split: option.splits if_splits sum.splits prod.splits)

lemma later_claim:
  "interleaving evs d d' \<Longrightarrow> touched_since t0 i d \<Longrightarrow> \<forall>e \<in> set evs. t0 \<le> fst e \<Longrightarrow>
   (t, Claim i c, 1) \<in> set evs \<Longrightarrow> t0 < c"
proof (induction rule: interleaving.induct)
  case (one_write op g tm d n d1 evs d')
  have touched: "touched_since t0 i d1"
    using touched_write [of t0 i d tm op g] one_write.prems(1,2) one_write.hyps(1) by simp
  show ?case
  proof (cases "(t, Claim i c, 1) = (tm, op, n)")
    case True
    then show ?thesis using claim_blocked [OF one_write.prems(1), of c g tm d1] one_write.hyps(1) by auto
  next
    case False
    then show ?thesis using one_write.IH [OF touched] one_write.prems(2,3) by auto
  qed
next
  case (refused_write op g tm d e d1 evs d')
  then show ?case using task_write_refused [OF refused_write.hyps(1)] by simp
qed simp

lemma claims_apart:
  "interleaving evs d d' \<Longrightarrow> db_ok d \<Longrightarrow> evs = pre @ (t1, Claim i c1, 1) # mid \<Longrightarrow>
   (t2, Claim i c2, 1) \<in> set mid \<Longrightarrow> t1 < c2"
proof (induction arbitrary: pre rule: interleaving.induct)
  case (one_write op g tm d n d1 evs d')
  have ok1: "db_ok d1" using task_write_sound [of d op g tm] one_write.hyps(1) one_write.prems(1) by (simp add: sound_def)
  show ?case
  proof (cases pre)
    case Nil
    then have eq: "tm = t1" "op = Claim i c1" "n = 1" "evs = mid" using one_write.prems(2) by auto
    then have "touched_since t1 i d1"
      using claim_touches [OF one_write.prems(1)] one_write.hyps(1) by auto
    then show ?thesis using later_claim [OF one_write.hyps(2)] one_write.hyps(3) one_write.prems(3) eq by auto
  next
    case (Cons e pre')
    then show ?thesis using one_write.IH [OF ok1, of pre'] one_write.prems(2,3) by auto
  qed
next
  case (refused_write op g tm d e d1 evs d')
  have "db_ok d1" using task_write_sound [of d op g tm] refused_write.hyps(1) refused_write.prems(1) by (simp add: sound_def)
  then show ?case using refused_write.IH refused_write.prems by blast
qed simp

text \<open>What a claim leaves for a watchdog that listed the task before.\<close>

lemma touched_kept:
  "interleaving evs d d' \<Longrightarrow> touched_since t0 i d \<Longrightarrow> \<forall>e \<in> set evs. t0 \<le> fst e \<Longrightarrow> touched_since t0 i d'"
proof (induction rule: interleaving.induct)
  case (one_write op g tm d n d1 evs d')
  then have "touched_since t0 i d1" using touched_write [of t0 i d tm op g] by simp
  then show ?case using one_write by simp
next
  case (refused_write op g tm d e d1 evs d')
  then show ?case using task_write_refused [OF refused_write.hyps(1)] by simp
qed simp

lemma claim_leaves_touched:
  "interleaving evs d d' \<Longrightarrow> db_ok d \<Longrightarrow> evs = pre @ (t1, Claim i c1, 1) # mid \<Longrightarrow> touched_since t1 i d'"
proof (induction arbitrary: pre rule: interleaving.induct)
  case (one_write op g tm d n d1 evs d')
  have ok1: "db_ok d1" using task_write_sound [of d op g tm] one_write.hyps(1) one_write.prems(1) by (simp add: sound_def)
  show ?case
  proof (cases pre)
    case Nil
    then have eq: "tm = t1" "op = Claim i c1" "n = 1" "evs = mid" using one_write.prems(2) by auto
    then have "touched_since t1 i d1"
      using claim_touches [OF one_write.prems(1)] one_write.hyps(1) by auto
    then show ?thesis using touched_kept [OF one_write.hyps(2)] one_write.hyps(3) eq by auto
  next
    case (Cons e pre')
    then show ?thesis using one_write.IH [OF ok1, of pre'] one_write.prems(2) by auto
  qed
next
  case (refused_write op g tm d e d1 evs d')
  have "db_ok d1" using task_write_sound [of d op g tm] refused_write.hyps(1) refused_write.prems(1) by (simp add: sound_def)
  then show ?case using refused_write.IH refused_write.prems by blast
qed simp

lemma not_stale_now:
  assumes "touched_since t0 i d" and "cutoff \<le> t0"
  shows "find (\<lambda>x. task_id x = i \<and> stale cutoff x) (document_tasks d) = None"
  using assms by (auto simp: find_None_iff touched_since_def stale_def)

lemma processTask_not_stale:
  assumes "touched_since t0 (st_ID row) (w_db w)" and "cutoff \<le> t0"
    and "run_state (processTask E pub cfg cutoff row) w = (u, w')"
  shows "w_db w' = w_db w \<and> w_redis w' = w_redis w"
proof -
  note none = not_stale_now [OF assms(1,2)]
  have pending: "fst (run_state (MarkStaleTaskPending E (st_ID row) cutoff) w) \<in> {Inr 0} \<union> range Inl"
    "w_db (snd (run_state (MarkStaleTaskPending E (st_ID row) cutoff) w)) = w_db w"
    "w_redis (snd (run_state (MarkStaleTaskPending E (st_ID row) cutoff) w)) = w_redis w"
    by (simp_all add: MarkStaleTaskPending_def stmt_MarkStaleTaskPending_def exec_def none Let_def split: fault.split)
  have failed: "w_db (snd (run_state (MarkStaleTaskFailed E (st_ID row) cutoff msg) w)) = w_db w"
    "w_redis (snd (run_state (MarkStaleTaskFailed E (st_ID row) cutoff msg) w)) = w_redis w" for msg
    by (simp_all add: MarkStaleTaskFailed_def stmt_MarkStaleTaskFailed_def exec_def none Let_def split: fault.split)
  show ?thesis
  proof (cases "WatchdogMaxRetries cfg \<le> st_RetryCount row")
    case True
    then show ?thesis using assms(3) failed [of "retries_exhausted_msg (st_RetryCount row) (WatchdogMaxRetries cfg)"]
      by (auto simp: processTask_def ignoring_def split: prod.splits)
  next
    case False
    then show ?thesis using assms(3) pending
      by (cases "run_state (MarkStaleTaskPending E (st_ID row) cutoff) w") (auto simp: processTask_def)
  qed
qed

section \<open>What a scan leaves alone\<close>

text \<open>A scan writes no table but the tasks.\<close>

definition only_tasks :: "world \<Rightarrow> world \<Rightarrow> bool" where
  "only_tasks w w' \<longleftrightarrow> (\<exists>ts. w_db w' = (w_db w)\<lparr>document_tasks := ts\<rparr>)"

lemma set_same_tasks [simp]: "\<exists>ts. d = d\<lparr>document_tasks := ts\<rparr>" for d :: db
  by (rule exI [of _ "document_tasks d"]) simp

lemma only_tasks_same: "w_db w' = w_db w \<Longrightarrow> only_tasks w w'"
  unfolding only_tasks_def by (rule exI [of _ "document_tasks (w_db w)"]) simp

interpretation only_tasks: effect_rel only_tasks
proof
  show "only_tasks w w" for w by (simp add: only_tasks_same)
  show "only_tasks w u" if "only_tasks w v" "only_tasks v u" for w v u
    using that by (auto simp: only_tasks_def)
qed

lemma only_tasks_steps [io_rel]:
  "state_io_rel only_tasks (MarkStaleTaskPending E i c)" "state_io_rel only_tasks (MarkStaleTaskFailed E i c msg)"
  "state_io_rel only_tasks (ListStaleTasks E c n)" "state_io_rel only_tasks (ctx_canceled E)"
  unfolding MarkStaleTaskPending_def MarkStaleTaskFailed_def ListStaleTasks_def
proof -
  show "state_io_rel only_tasks (exec E (stmt_MarkStaleTaskPending i c))"
    by (rule exec_rel) (auto simp: only_tasks_same only_tasks_def stmt_MarkStaleTaskPending_def split: option.split)
  show "state_io_rel only_tasks (exec E (stmt_MarkStaleTaskFailed i c msg))"
    by (rule exec_rel) (auto simp: only_tasks_same only_tasks_def stmt_MarkStaleTaskFailed_def split: option.split)
  show "state_io_rel only_tasks (exec E (stmt_ListStaleTasks c n))"
    by (rule exec_rel) (auto simp: only_tasks_same stmt_ListStaleTasks_def)
  show "state_io_rel only_tasks (ctx_canceled E)"
    by (simp add: state_io_rel_def only_tasks_same)
qed

lemma only_tasks_Process [io_rel]: "state_io_rel only_tasks (Process E r)"
  using same_db_steps(1) [of E r] by (auto simp: state_io_rel_def same_db_def only_tasks_same)

lemma only_tasks_publish [io_rel]: "state_io_rel only_tasks (publish_attempts E (Process E) r n)"
  by (induction n) (auto intro!: io_rel)

lemma only_tasks_runOnce [io_rel]: "state_io_rel only_tasks (runOnce E (Process E) cfg now)"
  unfolding runOnce_def processTask_def by (intro io_rel)

lemma only_tasks_Start: "state_io_rel only_tasks (watchdog_Start E (Process E) cfg now ts)"
  by (induction ts arbitrary: now) (auto intro!: io_rel)

text \<open>A scan neither adds nor removes a task.\<close>

definition same_ids :: "world \<Rightarrow> world \<Rightarrow> bool" where
  "same_ids w w' \<longleftrightarrow> map task_id (document_tasks (w_db w')) = map task_id (document_tasks (w_db w))"

interpretation same_ids: effect_rel same_ids
  by unfold_locales (auto simp: same_ids_def)

lemma same_ids_steps [io_rel]:
  "state_io_rel same_ids (MarkStaleTaskPending E i c)" "state_io_rel same_ids (MarkStaleTaskFailed E i c msg)"
  "state_io_rel same_ids (ListStaleTasks E c n)" "state_io_rel same_ids (ctx_canceled E)"
  "state_io_rel same_ids (Process E r)"
proof -
  show "state_io_rel same_ids (MarkStaleTaskPending E i c)"
    unfolding MarkStaleTaskPending_def
    by (rule exec_rel) (auto simp: same_ids_def stmt_MarkStaleTaskPending_def split: option.split)
  show "state_io_rel same_ids (MarkStaleTaskFailed E i c msg)"
    unfolding MarkStaleTaskFailed_def
    by (rule exec_rel) (auto simp: same_ids_def stmt_MarkStaleTaskFailed_def split: option.split)
  show "state_io_rel same_ids (ListStaleTasks E c n)"
    unfolding ListStaleTasks_def by (rule exec_rel) (auto simp: same_ids_def stmt_ListStaleTasks_def)
  show "state_io_rel same_ids (ctx_canceled E)" by (simp add: state_io_rel_def same_ids_def)
  show "state_io_rel same_ids (Process E r)"
    using same_db_steps(1) [of E r] by (simp add: state_io_rel_def same_db_def same_ids_def)
qed

lemma same_ids_publish [io_rel]: "state_io_rel same_ids (publish_attempts E (Process E) r n)"
  by (induction n) (auto intro!: io_rel)

lemma same_ids_runOnce: "state_io_rel same_ids (runOnce E (Process E) cfg now)"
  unfolding runOnce_def processTask_def by (intro io_rel)

text \<open>The effect of a scan on one task, and on its retry count.\<close>

lemma runOnce_task:
  assumes "db_ok (w_db w)" and "0 \<le> go_int32 (WatchdogBatchSize cfg)"
    and "run_state (runOnce E (Process E) cfg now) w = (u, w')"
    and "t \<in> set (document_tasks (w_db w))"
  shows "\<exists>tm t'. stored_task (w_db w') (task_id t) = Some t' \<and>
    (t' = t \<or> t' = treat cfg tm t \<and>
       t \<in> set (selected (now - WatchdogThreshold cfg) (go_int32 (WatchdogBatchSize cfg)) (w_db w))) \<and>
    (db_calm E \<longrightarrow> WatchdogMaxRetries cfg < 2 ^ 31 \<longrightarrow>
       t \<in> set (selected (now - WatchdogThreshold cfg) (go_int32 (WatchdogBatchSize cfg)) (w_db w)) \<longrightarrow>
       t' = treat cfg tm t)"
proof -
  let ?sel = "selected (now - WatchdogThreshold cfg) (go_int32 (WatchdogBatchSize cfg)) (w_db w)"
  obtain ids where ids: "scanned E cfg ids (w_db w) (w_db w')" "ids = task_id ` set ?sel \<or> (ids = {} \<and> \<not> db_calm E)"
    by (rule runOnce_scanned [OF assms(1-3)])
  have stored: "stored_task (w_db w) (task_id t) = Some t" by (rule stored_task_row [OF assms(1,4)])
  have mem: "task_id t \<in> task_id ` set ?sel \<longleftrightarrow> t \<in> set ?sel"
  proof
    assume "task_id t \<in> task_id ` set ?sel"
    then obtain x where x: "x \<in> set ?sel" "task_id x = task_id t" by auto
    then have "x = t" using selected_mem [OF x(1)] table_ok_key [OF db_ok_tasks [OF assms(1)] _ assms(4)] by blast
    then show "t \<in> set ?sel" using x(1) by simp
  qed simp
  from scannedD [OF ids(1) stored] ids(2) mem show ?thesis
    by (cases "task_id t \<in> ids") auto
qed

lemma runOnce_negative_batch:
  "go_int32 (WatchdogBatchSize cfg) < 0 \<Longrightarrow> w_db (snd (run_state (runOnce E pub cfg now) w)) = w_db w \<and>
   w_redis (snd (run_state (runOnce E pub cfg now) w)) = w_redis w"
  by (cases rule: runOnce_cases [of w cfg E pub now]) auto

lemma treat_retry: "task_retry_count (treat cfg tm t) \<le> max (task_retry_count t) (WatchdogMaxRetries cfg)"
  by (simp add: treat_def claim_def)

lemma runOnce_retries:
  assumes ok: "db_ok (w_db w)" and run: "run_state (runOnce E (Process E) cfg now) w = (u, w')"
    and t': "t' \<in> set (document_tasks (w_db w'))"
  shows "\<exists>t \<in> set (document_tasks (w_db w)). task_id t' = task_id t \<and>
    task_retry_count t' \<le> max (task_retry_count t) (WatchdogMaxRetries cfg)"
proof (cases "0 \<le> go_int32 (WatchdogBatchSize cfg)")
  case True
  have "if_ok (publishes E) w w'" by (rule rel_runD [OF redis.runOnce_rel run])
  then have ok': "db_ok (w_db w')" using ok by (auto simp: if_ok_def publishes_def sound_def)
  have "map task_id (document_tasks (w_db w')) = map task_id (document_tasks (w_db w))"
    using rel_runD [OF same_ids_runOnce run] by (simp add: same_ids_def)
  then have "task_id t' \<in> set (map task_id (document_tasks (w_db w)))" using t' by (metis image_eqI set_map)
  then obtain t where t: "t \<in> set (document_tasks (w_db w))" "task_id t' = task_id t" by auto
  have "stored_task (w_db w') (task_id t) = Some t'" using stored_task_row [OF ok' t'] t(2) by simp
  then obtain tm where "t' = t \<or> t' = treat cfg tm t" using runOnce_task [OF ok True run t(1)] by auto
  then show ?thesis using t treat_retry [of cfg tm t] by (intro bexI [OF _ t(1)]) auto
next
  case False
  then have "w_db w' = w_db w" using runOnce_negative_batch [of cfg E "Process E" now w] run by simp
  then show ?thesis using t' by (intro bexI [of _ t']) simp_all
qed

text \<open>A batch of no rows, which the conversion to 32 bits can make of a positive one.\<close>

lemma runOnce_zero_batch:
  "go_int32 (WatchdogBatchSize cfg) = 0 \<Longrightarrow> w_db (snd (run_state (runOnce E pub cfg now) w)) = w_db w \<and>
   w_redis (snd (run_state (runOnce E pub cfg now) w)) = w_redis w"
  by (cases rule: runOnce_cases [of w cfg E pub now]) (auto simp: selected_def)

end
