(* ===== verification/Watchdog_Theorems.thy ===== *)
theory Watchdog_Theorems
  imports Watchdog_Properties
begin

text \<open>
  The properties of the watchdog.
\<close>

text \<open>
  C28. A scan treats the stale tasks and only them. In a sound database and with a batch size that is not
  negative after its conversion to 32 bits, whatever fails, each task is after a scan as it was, or, if it is one of the selected tasks (stale, the longest untouched
  first, at most the batch size), as \<open>treat\<close> makes it: failed with the retries-exhausted text when
  its retries are used up, else pending with one more retry and without Celery identifier and
  error. When the database answers (and the retry limit fits the column), every selected task is
  treated.
\<close>

theorem runOnce_treats_stale:
  assumes "db_ok (w_db w)" and "0 \<le> go_int32 (WatchdogBatchSize cfg)"
    and "run_state (runOnce E (Process E) cfg now) w = (u, w')"
    and "t \<in> set (document_tasks (w_db w))"
  shows "\<exists>tm t'. stored_task (w_db w') (task_id t) = Some t' \<and>
    (t' = t \<or> t' = treat cfg tm t \<and>
       t \<in> set (selected (now - WatchdogThreshold cfg) (go_int32 (WatchdogBatchSize cfg)) (w_db w))) \<and>
    (db_calm E \<longrightarrow> WatchdogMaxRetries cfg < 2 ^ 31 \<longrightarrow>
       t \<in> set (selected (now - WatchdogThreshold cfg) (go_int32 (WatchdogBatchSize cfg)) (w_db w)) \<longrightarrow>
       t' = treat cfg tm t)"
  by (rule runOnce_task [OF assms])

definition demo_config :: watchdog_config where
  "demo_config = \<lparr>WatchdogThreshold = 1000, WatchdogMaxRetries = 3, WatchdogBatchSize = 10\<rparr>"

lemma demo_batch [simp]: "go_int32 (WatchdogBatchSize demo_config) = 10"
  "WatchdogThreshold demo_config = 1000" "WatchdogMaxRetries demo_config = 3"
  by (simp_all add: demo_config_def go_int32_id)

theorem runOnce_treats_stale_witness:
  "\<exists>t'. stored_task (w_db (snd (run_state (runOnce demo_env (Process demo_env) demo_config 4000) demo_world))) 31 = Some t' \<and>
    task_status t' = ''failed'' \<and> task_retry_count t' = 3"
proof -
  have "demo_extract_task \<in> set (selected 3000 10 demo_db)"
    by (simp add: selected_def stale_def demo_anonymize_task_def demo_extract_task_def new_task_def)
  then have "\<exists>tm t'. stored_task (w_db (snd (run_state (runOnce demo_env (Process demo_env) demo_config 4000) demo_world)))
      (task_id demo_extract_task) = Some t' \<and> t' = treat demo_config tm demo_extract_task"
    using runOnce_treats_stale [OF _ _ prod.collapse [symmetric], of demo_world demo_config demo_extract_task demo_env 4000]
    by auto
  then show ?thesis by (auto simp: treat_def demo_extract_task_def new_task_def demo_config_def)
qed

text \<open>
  C29. Retries are bounded, task by task. After a scan, whatever fails, every task is one that was there
  before, and its retry count is at most what it was or the configured maximum, whichever is greater: a task
  whose count does not exceed the maximum still does not, and one whose count does gets no further retry.
\<close>

theorem runOnce_retry_bound:
  assumes "db_ok (w_db w)" and "run_state (runOnce E (Process E) cfg now) w = (u, w')"
    and "t' \<in> set (document_tasks (w_db w'))"
  shows "\<exists>t \<in> set (document_tasks (w_db w)). task_id t' = task_id t \<and>
    task_retry_count t' \<le> max (task_retry_count t) (WatchdogMaxRetries cfg)"
  by (rule runOnce_retries [OF assms])

theorem runOnce_retry_bound_witness:
  "list_all (\<lambda>t'. \<exists>t \<in> {demo_anonymize_task, demo_extract_task}. task_id t' = task_id t \<and>
      task_retry_count t' \<le> max (task_retry_count t) 3)
    (document_tasks (w_db (snd (run_state (runOnce demo_env (Process demo_env) demo_config 4000) demo_world))))"
  using runOnce_retry_bound [OF _ prod.collapse [symmetric], of demo_world _ demo_env demo_config 4000]
  by (simp add: demo_config_def list_all_iff)

text \<open>
  C33. The watchdog writes tasks and nothing else, and keeps the database sound: over any sequence of
  scans and whatever fails, the database stays sound and evolves, every new message in a queue
  announces a recorded task, and no other table changes. In particular a scan that fails an
  exhausted \<open>resolve_keys\<close> or \<open>extract\<close> task leaves the extraction request it belongs to as it was.
\<close>

theorem watchdog_writes_only_tasks:
  assumes "db_ok (w_db w)" and "run_state (watchdog_Start E (Process E) cfg now ticks) w = (u, w')"
  shows "db_ok (w_db w') \<and> evolves (w_db w) (w_db w') \<and>
    w_db w' = (w_db w)\<lparr>document_tasks := document_tasks (w_db w')\<rparr> \<and>
    (\<forall>q. \<exists>ms. w_redis w' q = ms @ w_redis w q \<and> (\<forall>m \<in> set ms. announces E (w_db w') q m))"
proof -
  have "if_ok (publishes E) w w'" by (rule rel_runD [OF redis.watchdog_Start_rel assms(2)])
  then have p: "publishes E w w'" using assms(1) by (simp add: if_ok_def)
  have "w_db w' = (w_db w)\<lparr>document_tasks := document_tasks (w_db w')\<rparr>"
    using rel_runD [OF only_tasks_Start assms(2)] by (auto simp: only_tasks_def)
  then show ?thesis using p assms(1) by (auto simp: publishes_def sound_def)
qed

theorem watchdog_writes_only_tasks_witness:
  "extraction_requests (w_db (snd (run_state (watchdog_Start demo_env (Process demo_env) demo_config 4000 [5000, 6000])
     demo_world))) = [demo_request, demo_private_request, demo_running_request]"
proof -
  obtain u w' where run: "run_state (watchdog_Start demo_env (Process demo_env) demo_config 4000 [5000, 6000]) demo_world = (u, w')"
    by (cases "run_state (watchdog_Start demo_env (Process demo_env) demo_config 4000 [5000, 6000]) demo_world")
  have "w_db w' = demo_db\<lparr>document_tasks := document_tasks (w_db w')\<rparr>"
    using watchdog_writes_only_tasks [OF _ run] by simp
  then have "extraction_requests (w_db w') = extraction_requests (demo_db\<lparr>document_tasks := document_tasks (w_db w')\<rparr>)"
    by (rule arg_cong)
  then show ?thesis unfolding run by simp
qed

text \<open>
  Publishing again does not flood a queue. The attempts to publish a stale task add messages for
  that task only, on the queue of its module only, at most one per attempt and so at most three;
  and at most one when no answer to a push is lost.
\<close>

lemma publish_attempts_bounded:
  "pushes E r 3 w (snd (run_state (publish_attempts E (Process E) r maxPublishAttempts) w)) \<and>
   (no_lost_push E \<longrightarrow> pushes E r 1 w (snd (run_state (publish_attempts E (Process E) r maxPublishAttempts) w)))"
  using publish_attempts_pushes [of E r 3 w] publish_attempts_once [of E r w 3]
  by (simp add: maxPublishAttempts_def)

text \<open>
  C35. Replicas of the watchdog do not treat a task twice. Let several watchdogs and workers execute
  their statements on tasks in any order, at times that do not decrease, and let a claim of a task succeed at
  the time \<open>t1\<close>. Every later claim of it that succeeds has a cutoff after \<open>t1\<close>; and a watchdog that listed the
  task before, with a cutoff not after \<open>t1\<close> (at most its threshold has passed since), and processes its
  row after these statements, changes nothing in the database and publishes nothing, whatever fails.
\<close>

theorem claims_not_repeated:
  assumes "interleaving (pre @ (t1, Claim i c1, 1) # mid) d (w_db w)" and "db_ok d"
  shows "((t2, Claim i c2, 1) \<in> set mid \<longrightarrow> t1 < c2) \<and>
    (st_ID row = i \<longrightarrow> cutoff \<le> t1 \<longrightarrow> run_state (processTask E pub cfg cutoff row) w = (u, w') \<longrightarrow>
      w_db w' = w_db w \<and> w_redis w' = w_redis w)"
  using claims_apart [OF assms refl] claim_leaves_touched [OF assms refl]
    processTask_not_stale [of t1 row w cutoff E pub cfg u w'] by simp

text \<open>The small world after a first watchdog has claimed the task 30.\<close>

definition demo_claimed :: world where
  "demo_claimed = demo_world\<lparr>w_db := demo_db\<lparr>document_tasks := [claim demo_anonymize_task 5000, demo_extract_task]\<rparr>\<rparr>"

lemma demo_claim: "interleaving ([] @ (5000, Claim 30 4000, 1) # []) demo_db (w_db demo_claimed)"
  unfolding append_Nil
proof (rule one_write)
  show "task_write_stmt (Claim 30 4000) (\<lambda>_. 0) 5000 demo_db = (Inr 1, w_db demo_claimed)"
    by (simp add: stmt_MarkStaleTaskPending_def stale_def put_row_def demo_anonymize_task_def
        demo_extract_task_def new_task_def claim_def demo_claimed_def)
qed (simp_all add: no_writes)

theorem claims_not_repeated_witness:
  "\<exists>w'. run_state (processTask demo_env (Process demo_env) demo_config 4500 (stale_row_of demo_anonymize_task)) demo_claimed = ((), w') \<and>
    w_db w' = w_db demo_claimed \<and> w_redis w' = w_redis demo_claimed"
proof -
  obtain w' where run: "run_state (processTask demo_env (Process demo_env) demo_config 4500
      (stale_row_of demo_anonymize_task)) demo_claimed = ((), w')"
    by (cases "run_state (processTask demo_env (Process demo_env) demo_config 4500 (stale_row_of demo_anonymize_task)) demo_claimed") auto
  have "st_ID (stale_row_of demo_anonymize_task) = 30"
    by (simp add: stale_row_of_def demo_anonymize_task_def new_task_def)
  with claims_not_repeated [OF demo_claim, of _ _ "stale_row_of demo_anonymize_task" 4500 demo_env "Process demo_env" demo_config "()" w'] run
  show ?thesis by simp
qed

text \<open>
  A batch size that the configuration accepts may stop the watchdog: the size is converted to 32
  bits, and with \<open>2 ^ 32\<close>, which is positive, a scan reads no task, changes nothing and publishes
  nothing, however many tasks are stale.
\<close>

lemma huge_batch_scans_nothing:
  "w_db (snd (run_state (runOnce E pub (cfg\<lparr>WatchdogBatchSize := 2 ^ 32\<rparr>) now) w)) = w_db w \<and>
   w_redis (snd (run_state (runOnce E pub (cfg\<lparr>WatchdogBatchSize := 2 ^ 32\<rparr>) now) w)) = w_redis w"
proof (rule runOnce_zero_batch)
  show "go_int32 (WatchdogBatchSize (cfg\<lparr>WatchdogBatchSize := 2 ^ 32\<rparr>)) = 0"
    by (simp add: go_int32_def)
qed

end
