(* ===== verification/Repo_Base.thy ===== *)
theory Repo_Base
  imports Repo_Extraction
begin

text \<open>
  What the statements on the tables of accounts, sites, catalogs and comparison sessions share:
  insertion of a checked row, update of the row that a condition selects, and the referential
  actions of a deletion. A table is given by how its rows are read from the database and put back.
\<close>

section \<open>Insert and update\<close>

text \<open>\<open>INSERT ... RETURNING\<close>: the first constraint that the row violates is reported.\<close>

definition insert_row :: "(bool \<times> go_error) list \<Rightarrow> (db \<Rightarrow> 'r list) \<Rightarrow> ('r list \<Rightarrow> db \<Rightarrow> db) \<Rightarrow> 'r
    \<Rightarrow> db \<Rightarrow> (go_error + 'r) \<times> db" where
  "insert_row cs rows put r d =
     (case first_violation cs of
        Some e \<Rightarrow> (Inl e, d)
      | None \<Rightarrow> (Inr r, put (rows d @ [r]) d))"

text \<open>
  \<open>UPDATE ... WHERE ... RETURNING\<close> of at most one row: no row selected is \<open>pgx.ErrNoRows\<close>; the new
  row is checked before it replaces the old one, which its key identifies.
\<close>

definition update_row :: "('r \<Rightarrow> (bool \<times> go_error) list) \<Rightarrow> (db \<Rightarrow> 'r list) \<Rightarrow> ('r list \<Rightarrow> db \<Rightarrow> db)
    \<Rightarrow> ('r \<Rightarrow> uuid) \<Rightarrow> ('r \<Rightarrow> bool) \<Rightarrow> ('r \<Rightarrow> 'r) \<Rightarrow> db \<Rightarrow> (go_error + 'r) \<times> db" where
  "update_row cs rows put key p f d =
     (case find p (rows d) of
        None \<Rightarrow> (Inl ErrNoRows, d)
      | Some x \<Rightarrow>
          (case first_violation (cs (f x)) of
             Some e \<Rightarrow> (Inl e, d)
           | None \<Rightarrow> (Inr (f x), put (put_row key (f x) (rows d)) d)))"

text \<open>\<open>DELETE ... WHERE\<close>, with the number of deleted rows.\<close>

definition delete_rows :: "(db \<Rightarrow> 'r list) \<Rightarrow> ('r list \<Rightarrow> db \<Rightarrow> db) \<Rightarrow> ('r \<Rightarrow> bool) \<Rightarrow> db
    \<Rightarrow> (go_error + nat) \<times> db" where
  "delete_rows rows put p d = (Inr (length (filter p (rows d))), put (del_where p (rows d)) d)"

text \<open>A unique index as an update of the row \<open>x\<close> sees it: against the rows other than \<open>x\<close>.\<close>

definition others_conflict :: "('r \<Rightarrow> uuid) \<Rightarrow> ('r \<Rightarrow> 'k option) \<Rightarrow> 'r \<Rightarrow> 'r list \<Rightarrow> bool" where
  "others_conflict key u x rs = index_conflict u x (del_where (\<lambda>y. key y = key x) rs)"

lemma insert_row_cases:
  obtains (violated) e where "insert_row cs rows put r d = (Inl e, d)"
    | (inserted) "checks_hold cs" "insert_row cs rows put r d = (Inr r, put (rows d @ [r]) d)"
  by (cases "first_violation cs") (auto simp: insert_row_def)

lemma update_row_cases:
  obtains (unchanged) e where "update_row cs rows put key p f d = (Inl e, d)"
    | (updated) x where "x \<in> set (rows d)" "p x" "checks_hold (cs (f x))"
        "update_row cs rows put key p f d = (Inr (f x), put (put_row key (f x) (rows d)) d)"
proof (cases "find p (rows d)")
  case None
  then show ?thesis using unchanged by (simp add: update_row_def)
next
  case (Some x)
  then have x: "x \<in> set (rows d)" "p x" by (auto dest: find_Some_iff_mem)
  then show ?thesis using Some unchanged updated
    by (cases "first_violation (cs (f x))") (auto simp: update_row_def)
qed

section \<open>Referential actions\<close>

text \<open>
  The rows that a deletion removes directly or through \<open>ON DELETE CASCADE\<close>, by table.
\<close>

record gone =
  g_orgs :: "uuid list"
  g_users :: "uuid list"
  g_sites :: "uuid list"
  g_documents :: "uuid list"
  g_requests :: "uuid list"
  g_keys :: "uuid list"
  g_kinds :: "uuid list"
  g_roles :: "uuid list"
  g_sessions :: "uuid list"

definition nothing_gone :: gone where
  "nothing_gone = \<lparr>g_orgs = [], g_users = [], g_sites = [], g_documents = [], g_requests = [],
     g_keys = [], g_kinds = [], g_roles = [], g_sessions = []\<rparr>"

text \<open>\<open>refers ids v\<close>: the nullable reference \<open>v\<close> is to one of the rows \<open>ids\<close>; \<open>unref\<close>: \<open>ON DELETE SET NULL\<close>.\<close>

definition refers :: "uuid list \<Rightarrow> uuid option \<Rightarrow> bool" where
  "refers ids v = (case v of None \<Rightarrow> False | Some i \<Rightarrow> i \<in> set ids)"

definition unref :: "uuid list \<Rightarrow> uuid option \<Rightarrow> uuid option" where
  "unref ids v = (if refers ids v then None else v)"

lemma refers_simps [simp]: "\<not> refers ids None" "refers ids (Some i) \<longleftrightarrow> i \<in> set ids" "\<not> refers [] v"
  by (auto simp: refers_def split: option.splits)

lemma unref_simps [simp]: "unref ids None = None" "unref [] v = v"
  by (simp_all add: unref_def)

lemma unref_same [simp]: "unref ids v = v \<longleftrightarrow> \<not> refers ids v"
  by (cases v) (auto simp: unref_def)

text \<open>
  \<open>purge g\<close>: every table without the rows that are gone or cascade from them, and with the
  references to them set to null where the foreign key says so.
\<close>

definition purge_document :: "gone \<Rightarrow> document \<Rightarrow> document" where
  "purge_document g x = x\<lparr>doc_site_id := unref (g_sites g) (doc_site_id x),
     doc_contract_kind_id := unref (g_kinds g) (doc_contract_kind_id x),
     doc_file_role_id := unref (g_roles g) (doc_file_role_id x),
     doc_bundle_id := unref (g_documents g) (doc_bundle_id x)\<rparr>"

definition purge_site :: "gone \<Rightarrow> construction_site \<Rightarrow> construction_site" where
  "purge_site g x = x\<lparr>site_parent_id := unref (g_sites g) (site_parent_id x),
     site_created_by := unref (g_users g) (site_created_by x)\<rparr>"

definition purge_session :: "gone \<Rightarrow> comparison_session \<Rightarrow> comparison_session" where
  "purge_session g x = x\<lparr>cs_created_by := unref (g_users g) (cs_created_by x),
     cs_contract_kind_id := unref (g_kinds g) (cs_contract_kind_id x)\<rparr>"

definition purge :: "gone \<Rightarrow> db \<Rightarrow> db" where
  "purge g d = d\<lparr>
     organizations := del_where (\<lambda>x. org_id x \<in> set (g_orgs g)) (organizations d),
     users := del_where (\<lambda>x. usr_id x \<in> set (g_users g)) (users d),
     construction_sites := map (purge_site g)
       (del_where (\<lambda>x. site_id x \<in> set (g_sites g)) (construction_sites d)),
     documents := map (purge_document g)
       (del_where (\<lambda>x. doc_id x \<in> set (g_documents g)) (documents d)),
     document_tasks := del_where (\<lambda>t. task_document_id t \<in> set (g_documents g) \<or>
         refers (g_requests g) (task_extraction_request_id t)) (document_tasks d),
     extraction_requests := del_where (\<lambda>r. req_id r \<in> set (g_requests g)) (extraction_requests d),
     extraction_keys := del_where (\<lambda>k. key_id k \<in> set (g_keys g)) (extraction_keys d),
     document_extracted_data := del_where (\<lambda>x. dat_organization_id x \<in> set (g_orgs g) \<or>
         dat_document_id x \<in> set (g_documents g) \<or> dat_key_id x \<in> set (g_keys g))
       (document_extracted_data d),
     document_contract_kinds := del_where (\<lambda>x. cat_id x \<in> set (g_kinds g)) (document_contract_kinds d),
     document_file_roles := del_where (\<lambda>x. cat_id x \<in> set (g_roles g)) (document_file_roles d),
     user_invitations := map (\<lambda>x. x\<lparr>inv_invited_by := unref (g_users g) (inv_invited_by x)\<rparr>)
       (del_where (\<lambda>x. inv_organization_id x \<in> set (g_orgs g)) (user_invitations d)),
     site_audit_logs := map (\<lambda>x. x\<lparr>audit_actor_user_id := unref (g_users g) (audit_actor_user_id x)\<rparr>)
       (del_where (\<lambda>x. audit_organization_id x \<in> set (g_orgs g) \<or> audit_site_id x \<in> set (g_sites g))
         (site_audit_logs d)),
     comparison_sessions := map (purge_session g)
       (del_where (\<lambda>x. cs_id x \<in> set (g_sessions g)) (comparison_sessions d)),
     comparison_session_documents := del_where (\<lambda>x. csd_session_id x \<in> set (g_sessions g) \<or>
         csd_document_id x \<in> set (g_documents g)) (comparison_session_documents d)\<rparr>"

end
