(* ===== verification/Repo_Accounts.thy ===== *)
theory Repo_Accounts
  imports Repo_Base
begin

text \<open>
  The statements of \<^verbatim>\<open>organization.sql.go\<close>, \<^verbatim>\<open>user.sql.go\<close> and \<^verbatim>\<open>user_invitation.sql.go\<close> of
  \<^verbatim>\<open>internal/repository\<close>, with the constraints of their tables.
\<close>

section \<open>Organizations\<close>

definition new_organization :: "uuid \<Rightarrow> int \<Rightarrow> string \<Rightarrow> string option \<Rightarrow> organization" where
  "new_organization i t name inn = \<lparr>org_id = i, org_name = name, org_inn = inn,
     org_settings = JObj [], org_is_active = True, org_created_at = t, org_updated_at = t\<rparr>"

definition stmt_CreateOrganization :: "string \<Rightarrow> string option \<Rightarrow> organization stmt" where
  "stmt_CreateOrganization name inn g t d =
     (let x = new_organization (g 0) t name inn in
      insert_row
        [(org_id x \<notin> set (map org_id (organizations d)), unique_violation ''organizations_pkey''),
         (\<not> index_conflict org_inn x (organizations d), unique_violation ''organizations_inn_key'')]
        organizations (\<lambda>rs. organizations_update (\<lambda>_. rs)) x d)"

definition CreateOrganization :: "env \<Rightarrow> string \<Rightarrow> string option \<Rightarrow> organization act" where
  "CreateOrganization E name inn = exec E (stmt_CreateOrganization name inn)"

definition GetOrganizationByID :: "env \<Rightarrow> uuid \<Rightarrow> organization act" where
  "GetOrganizationByID E i = exec E (sel_one (\<lambda>d. find (\<lambda>x. org_id x = i) (organizations d)))"

definition GetOrganizationByINN :: "env \<Rightarrow> string option \<Rightarrow> organization act" where
  "GetOrganizationByINN E inn =
     exec E (sel_one (\<lambda>d. find (\<lambda>x. inn \<noteq> None \<and> org_inn x = inn) (organizations d)))"

definition stmt_UpdateOrganization :: "uuid \<Rightarrow> string \<Rightarrow> string option \<Rightarrow> bool \<Rightarrow> organization stmt" where
  "stmt_UpdateOrganization i name inn set_inn g t d =
     update_row
       (\<lambda>x. [(\<not> others_conflict org_id org_inn x (organizations d),
              unique_violation ''organizations_inn_key'')])
       organizations (\<lambda>rs. organizations_update (\<lambda>_. rs)) org_id (\<lambda>x. org_id x = i)
       (\<lambda>x. x\<lparr>org_name := name, org_inn := (if set_inn then inn else org_inn x), org_updated_at := t\<rparr>) d"

definition UpdateOrganization :: "env \<Rightarrow> uuid \<Rightarrow> string \<Rightarrow> string option \<Rightarrow> bool \<Rightarrow> organization act" where
  "UpdateOrganization E i name inn set_inn = exec E (stmt_UpdateOrganization i name inn set_inn)"

text \<open>
  What goes with an organization: its users, sites, documents (and the artifacts of those),
  the requests on these documents, keys, catalog entries and sessions. A document that would stay
  without its uploader makes the server refuse the deletion.
\<close>

definition gone_with_org :: "db \<Rightarrow> uuid \<Rightarrow> gone" where
  "gone_with_org d i =
     (let docs = doc_closure (documents d) (length (documents d))
                   (map doc_id (filter (\<lambda>x. doc_organization_id x = i) (documents d))) in
      \<lparr>g_orgs = [i],
       g_users = map usr_id (filter (\<lambda>x. usr_organization_id x = Some i) (users d)),
       g_sites = map site_id (filter (\<lambda>x. site_organization_id x = i) (construction_sites d)),
       g_documents = docs,
       g_requests = map req_id (filter (\<lambda>r. req_document_id r \<in> set docs) (extraction_requests d)),
       g_keys = map key_id (filter (\<lambda>k. key_organization_id k = Some i) (extraction_keys d)),
       g_kinds = map cat_id (filter (\<lambda>x. cat_organization_id x = Some i) (document_contract_kinds d)),
       g_roles = map cat_id (filter (\<lambda>x. cat_organization_id x = Some i) (document_file_roles d)),
       g_sessions = map cs_id (filter (\<lambda>x. cs_organization_id x = i) (comparison_sessions d))\<rparr>)"

definition stmt_DeleteOrganization :: "uuid \<Rightarrow> nat stmt" where
  "stmt_DeleteOrganization i g t d =
     (let n = length (filter (\<lambda>x. org_id x = i) (organizations d)); out = gone_with_org d i in
      if n = 0 then (Inr 0, d)
      else if list_ex (\<lambda>x. doc_id x \<notin> set (g_documents out) \<and> doc_uploaded_by x \<in> set (g_users out))
                (documents d)
      then (Inl (fk_violation ''documents_uploaded_by_fkey''), d)
      else (Inr n, purge out d))"

definition DeleteOrganization :: "env \<Rightarrow> uuid \<Rightarrow> nat act" where
  "DeleteOrganization E i = exec E (stmt_DeleteOrganization i)"

section \<open>Users\<close>

definition new_user :: "uuid \<Rightarrow> int \<Rightarrow> uuid option \<Rightarrow> string \<Rightarrow> string \<Rightarrow> string \<Rightarrow> string \<Rightarrow> user" where
  "new_user i t org email hash name role = \<lparr>usr_id = i, usr_organization_id = org,
     usr_email = email, usr_password_hash = hash, usr_full_name = name, usr_role = role,
     usr_is_active = True, usr_created_at = t, usr_updated_at = t, usr_last_login_at = None\<rparr>"

definition user_checks :: "user \<Rightarrow> (bool \<times> go_error) list" where
  "user_checks x =
     [((usr_role x = ''owner'') = (usr_organization_id x = None), check_violation ''users_owner_org_chk''),
      (usr_role x \<in> {''admin'', ''member'', ''owner''}, check_violation ''users_role_chk'')]"

definition org_known :: "db \<Rightarrow> uuid \<Rightarrow> bool" where
  "org_known d i \<longleftrightarrow> list_ex (\<lambda>x. org_id x = i) (organizations d)"

definition stmt_CreateUser :: "uuid option \<Rightarrow> string \<Rightarrow> string \<Rightarrow> string \<Rightarrow> string \<Rightarrow> user stmt" where
  "stmt_CreateUser org email hash name role g t d =
     (let x = new_user (g 0) t org email hash name role in
      insert_row
        (user_checks x @
         [(usr_id x \<notin> set (map usr_id (users d)), unique_violation ''users_pkey''),
          (usr_email x \<notin> set (map usr_email (users d)), unique_violation ''users_email_key''),
          (null_or (org_known d) (usr_organization_id x), fk_violation ''users_organization_id_fkey'')])
        users (\<lambda>rs. users_update (\<lambda>_. rs)) x d)"

definition CreateUser :: "env \<Rightarrow> uuid option \<Rightarrow> string \<Rightarrow> string \<Rightarrow> string \<Rightarrow> string \<Rightarrow> user act" where
  "CreateUser E org email hash name role = exec E (stmt_CreateUser org email hash name role)"

definition GetUserByEmail :: "env \<Rightarrow> string \<Rightarrow> user act" where
  "GetUserByEmail E email = exec E (sel_one (\<lambda>d. find (\<lambda>x. usr_email x = email) (users d)))"

definition GetUserByID :: "env \<Rightarrow> uuid \<Rightarrow> user act" where
  "GetUserByID E i = exec E (sel_one (\<lambda>d. find (\<lambda>x. usr_id x = i) (users d)))"

text \<open>The columns of a user that the API shows: all but the password hash and the last login.\<close>

record user_row =
  ur_ID :: uuid
  ur_OrganizationID :: "uuid option"
  ur_Email :: string
  ur_FullName :: string
  ur_Role :: string
  ur_IsActive :: bool
  ur_CreatedAt :: int
  ur_UpdatedAt :: int

definition user_row_of :: "user \<Rightarrow> user_row" where
  "user_row_of x = \<lparr>ur_ID = usr_id x, ur_OrganizationID = usr_organization_id x,
     ur_Email = usr_email x, ur_FullName = usr_full_name x, ur_Role = usr_role x,
     ur_IsActive = usr_is_active x, ur_CreatedAt = usr_created_at x, ur_UpdatedAt = usr_updated_at x\<rparr>"

definition GetUserByIDAndOrg :: "env \<Rightarrow> uuid \<Rightarrow> uuid \<Rightarrow> user_row act" where
  "GetUserByIDAndOrg E i orgID =
     exec E (sel_one (\<lambda>d. map_option user_row_of
       (find (\<lambda>x. usr_id x = i \<and> usr_organization_id x = Some orgID) (users d))))"

definition users_of_org :: "uuid \<Rightarrow> db \<Rightarrow> user_row list" where
  "users_of_org orgID d = map user_row_of (sort_key usr_created_at
     (filter (\<lambda>x. usr_organization_id x = Some orgID) (users d)))"

definition ListUsersByOrganization :: "env \<Rightarrow> uuid \<Rightarrow> user_row list act" where
  "ListUsersByOrganization E orgID = exec E (sel (users_of_org orgID))"

definition stmt_UpdateUser :: "uuid \<Rightarrow> uuid \<Rightarrow> string option \<Rightarrow> bool option \<Rightarrow> user_row stmt" where
  "stmt_UpdateUser i orgID role active g t d =
     (case update_row user_checks users (\<lambda>rs. users_update (\<lambda>_. rs)) usr_id
         (\<lambda>x. usr_id x = i \<and> usr_organization_id x = Some orgID)
         (\<lambda>x. x\<lparr>usr_role := coalesce role (usr_role x),
               usr_is_active := coalesce active (usr_is_active x), usr_updated_at := t\<rparr>) d of
        (Inl e, d') \<Rightarrow> (Inl e, d')
      | (Inr x, d') \<Rightarrow> (Inr (user_row_of x), d'))"

definition UpdateUser :: "env \<Rightarrow> uuid \<Rightarrow> uuid \<Rightarrow> string option \<Rightarrow> bool option \<Rightarrow> user_row act" where
  "UpdateUser E i orgID role active = exec E (stmt_UpdateUser i orgID role active)"

section \<open>Invitations\<close>

definition new_invitation :: "uuid \<Rightarrow> int \<Rightarrow> uuid \<Rightarrow> string \<Rightarrow> string \<Rightarrow> uuid option \<Rightarrow> string \<Rightarrow> int
    \<Rightarrow> user_invitation" where
  "new_invitation i t org email role by hash expires = \<lparr>inv_id = i, inv_organization_id = org,
     inv_email = email, inv_role = role, inv_invited_by = by, inv_token_hash = hash,
     inv_expires_at = expires, inv_accepted_at = None, inv_created_at = t\<rparr>"

text \<open>The index \<open>uq_user_invitations_org_email_active\<close>: one open invitation of an address.\<close>

definition open_invitation :: "user_invitation \<Rightarrow> (uuid \<times> string) option" where
  "open_invitation x =
     (if inv_accepted_at x = None then Some (inv_organization_id x, inv_email x) else None)"

definition user_known :: "db \<Rightarrow> uuid \<Rightarrow> bool" where
  "user_known d i \<longleftrightarrow> list_ex (\<lambda>x. usr_id x = i) (users d)"

definition stmt_CreateUserInvitation
    :: "uuid \<Rightarrow> string \<Rightarrow> string \<Rightarrow> uuid option \<Rightarrow> string \<Rightarrow> int \<Rightarrow> user_invitation stmt" where
  "stmt_CreateUserInvitation org email role by hash expires g t d =
     (let x = new_invitation (g 0) t org email role by hash expires in
      insert_row
        [(inv_role x \<in> {''admin'', ''member''}, check_violation ''user_invitations_role_check''),
         (inv_id x \<notin> set (map inv_id (user_invitations d)), unique_violation ''user_invitations_pkey''),
         (\<not> index_conflict open_invitation x (user_invitations d),
          unique_violation ''uq_user_invitations_org_email_active''),
         (inv_token_hash x \<notin> set (map inv_token_hash (user_invitations d)),
          unique_violation ''idx_user_invitations_token_hash''),
         (org_known d (inv_organization_id x), fk_violation ''user_invitations_organization_id_fkey''),
         (null_or (user_known d) (inv_invited_by x), fk_violation ''user_invitations_invited_by_fkey'')]
        user_invitations (\<lambda>rs. user_invitations_update (\<lambda>_. rs)) x d)"

definition CreateUserInvitation
    :: "env \<Rightarrow> uuid \<Rightarrow> string \<Rightarrow> string \<Rightarrow> uuid option \<Rightarrow> string \<Rightarrow> int \<Rightarrow> user_invitation act" where
  "CreateUserInvitation E org email role by hash expires =
     exec E (stmt_CreateUserInvitation org email role by hash expires)"

definition GetUserInvitationByTokenHash :: "env \<Rightarrow> string \<Rightarrow> user_invitation act" where
  "GetUserInvitationByTokenHash E hash =
     exec E (sel_one (\<lambda>d. find (\<lambda>x. inv_token_hash x = hash) (user_invitations d)))"

definition ListUserInvitationsByOrg :: "env \<Rightarrow> uuid \<Rightarrow> user_invitation list act" where
  "ListUserInvitationsByOrg E orgID = exec E (sel (\<lambda>d. sort_key (\<lambda>x. - inv_created_at x)
     (filter (\<lambda>x. inv_organization_id x = orgID) (user_invitations d))))"

definition stmt_AcceptUserInvitation :: "uuid \<Rightarrow> uuid \<Rightarrow> user_invitation stmt" where
  "stmt_AcceptUserInvitation i orgID g t d =
     update_row (\<lambda>_. []) user_invitations (\<lambda>rs. user_invitations_update (\<lambda>_. rs)) inv_id
       (\<lambda>x. inv_id x = i \<and> inv_organization_id x = orgID \<and> inv_accepted_at x = None \<and>
            t < inv_expires_at x)
       (\<lambda>x. x\<lparr>inv_accepted_at := Some t\<rparr>) d"

definition AcceptUserInvitation :: "env \<Rightarrow> uuid \<Rightarrow> uuid \<Rightarrow> user_invitation act" where
  "AcceptUserInvitation E i orgID = exec E (stmt_AcceptUserInvitation i orgID)"

definition stmt_DeleteUserInvitation :: "uuid \<Rightarrow> uuid \<Rightarrow> nat stmt" where
  "stmt_DeleteUserInvitation i orgID g t d =
     delete_rows user_invitations (\<lambda>rs. user_invitations_update (\<lambda>_. rs))
       (\<lambda>x. inv_id x = i \<and> inv_organization_id x = orgID) d"

definition DeleteUserInvitation :: "env \<Rightarrow> uuid \<Rightarrow> uuid \<Rightarrow> nat act" where
  "DeleteUserInvitation E i orgID = exec E (stmt_DeleteUserInvitation i orgID)"

end
