(* ===== verification/Go_Text.thy ===== *)
theory Go_Text
  imports Python_Worker
begin

text \<open>
  The functions of Go's packages \<open>strings\<close>, \<open>strconv\<close>, \<open>unicode/utf8\<close> and \<open>path/filepath\<close> that the
  handlers and services call. A Go string is its bytes.
\<close>

section \<open>Runes\<close>

text \<open>The length of the rune at the start of a string; a byte that starts no valid rune counts alone.\<close>

definition byte_in :: "nat \<Rightarrow> nat \<Rightarrow> char \<Rightarrow> bool" where
  "byte_in a b c \<longleftrightarrow> a \<le> of_char c \<and> of_char c \<le> b"

definition rune_bounds :: "nat \<Rightarrow> (nat \<times> nat) list" where
  "rune_bounds b0 =
     (if b0 < 194 then []
      else if b0 < 224 then [(128, 191)]
      else if b0 = 224 then [(160, 191), (128, 191)]
      else if b0 = 237 then [(128, 159), (128, 191)]
      else if b0 < 240 then [(128, 191), (128, 191)]
      else if b0 = 240 then [(144, 191), (128, 191), (128, 191)]
      else if b0 < 244 then [(128, 191), (128, 191), (128, 191)]
      else if b0 = 244 then [(128, 143), (128, 191), (128, 191)]
      else [])"

definition rune_len :: "string \<Rightarrow> nat" where
  "rune_len s = (case s of
     [] \<Rightarrow> 0
   | c # cs \<Rightarrow>
       (let bs = rune_bounds (of_char c) in
        if length bs \<le> length cs \<and> list_all2 (\<lambda>(a, b) d. byte_in a b d) bs (take (length bs) cs)
        then Suc (length bs) else 1))"

lemma rune_len_pos: "s \<noteq> [] \<Longrightarrow> 0 < rune_len s"
  by (cases s) (auto simp: rune_len_def Let_def)

function runes :: "string \<Rightarrow> string list" where
  "runes [] = []"
| "runes (c # cs) = take (rune_len (c # cs)) (c # cs) # runes (drop (rune_len (c # cs)) (c # cs))"
  by pat_completeness auto
termination
  by (relation "measure length") (simp_all add: rune_len_pos)

definition RuneCountInString :: "string \<Rightarrow> nat" where
  "RuneCountInString s = length (runes s)"

text \<open>
  \<open>strings.ToLower\<close>: ASCII letters are written out; what the Unicode tables say of another rune is
  the argument \<open>low\<close>.
\<close>

definition ToLower :: "(string \<Rightarrow> string) \<Rightarrow> string \<Rightarrow> string" where
  "ToLower low s = concat (map (\<lambda>r. case r of
       [c] \<Rightarrow> (if of_char c < (128::nat) then [ascii_lower c] else low r)
     | _ \<Rightarrow> low r) (runes s))"

section \<open>Trimming and splitting\<close>

text \<open>The encodings of the runes with Unicode's property \<open>White_Space\<close>.\<close>

definition white_space :: "string list" where
  "white_space = map (map char_of)
     ([[9], [10], [11], [12], [13], [32], [194, 133], [194, 160], [225, 154, 128]]
      @ map (\<lambda>n. [226, 128, n]) [128..<139] @ [[226, 128, 168], [226, 128, 169], [226, 128, 175],
      [226, 129, 159], [227, 128, 128::nat]])"

definition starts_with :: "string \<Rightarrow> string \<Rightarrow> bool" where
  "starts_with w s \<longleftrightarrow> take (length w) s = w"

function trim_left :: "string list \<Rightarrow> string \<Rightarrow> string" where
  "trim_left ws s = (case find (\<lambda>w. w \<noteq> [] \<and> starts_with w s) ws of
     None \<Rightarrow> s | Some w \<Rightarrow> trim_left ws (drop (length w) s))"
  by pat_completeness auto
termination
proof (relation "measure (length \<circ> snd)", goal_cases)
  case (2 ws s w)
  then have "w \<noteq> []" and w: "take (length w) s = w" by (auto simp: starts_with_def dest: find_Some_iff_mem)
  then have "length w \<le> length s" by (metis length_take min.cobounded1)
  with \<open>w \<noteq> []\<close> show ?case by (cases s) auto
qed simp

declare trim_left.simps [simp del]

definition TrimSpace :: "string \<Rightarrow> string" where
  "TrimSpace s = rev (trim_left (map rev white_space) (rev (trim_left white_space s)))"

fun split_on :: "char \<Rightarrow> string \<Rightarrow> string list" where
  "split_on c [] = [[]]"
| "split_on c (x # xs) =
     (if x = c then [] # split_on c xs
      else (case split_on c xs of [] \<Rightarrow> [[x]] | p # ps \<Rightarrow> (x # p) # ps))"

definition replace_char :: "char \<Rightarrow> string \<Rightarrow> string \<Rightarrow> string" where
  "replace_char c r s = concat (map (\<lambda>x. if x = c then r else [x]) s)"

fun has_substring :: "string \<Rightarrow> string \<Rightarrow> bool" where
  "has_substring w [] = (w = [])"
| "has_substring w (x # xs) = (starts_with w (x # xs) \<or> has_substring w xs)"

definition CutPrefix :: "string \<Rightarrow> string \<Rightarrow> string \<times> bool" where
  "CutPrefix s w = (if starts_with w s then (drop (length w) s, True) else (s, False))"

section \<open>Numbers\<close>

definition digit_val :: "char \<Rightarrow> nat option" where
  "digit_val c = (let n = of_char c in if 48 \<le> n \<and> n \<le> (57::nat) then Some (n - 48) else None)"

fun digits_val :: "nat \<Rightarrow> string \<Rightarrow> nat option" where
  "digits_val acc [] = Some acc"
| "digits_val acc (c # cs) =
     (case digit_val c of None \<Rightarrow> None | Some v \<Rightarrow> digits_val (10 * acc + v) cs)"

definition parse_digits :: "string \<Rightarrow> nat option" where
  "parse_digits s = (if s = [] then None else digits_val 0 s)"

text \<open>\<open>strconv.ParseInt(s, 10, 32)\<close>: a syntax error and a number out of range are both \<open>None\<close>.\<close>

definition parse_int32 :: "string \<Rightarrow> int option" where
  "parse_int32 s =
     (let (neg, ds) = (case s of
          [] \<Rightarrow> (False, [])
        | c # cs \<Rightarrow> (if c = CHR ''-'' then (True, cs) else if c = CHR ''+'' then (False, cs)
                    else (False, s)))
      in case parse_digits ds of
           None \<Rightarrow> None
         | Some n \<Rightarrow>
             (let v = (if neg then - int n else int n) in
              if - (2 ^ 31) \<le> v \<and> v < 2 ^ 31 then Some v else None))"

section \<open>Paths\<close>

text \<open>\<open>filepath.Ext\<close>: from the last dot of the last path element.\<close>

definition path_Ext :: "string \<Rightarrow> string" where
  "path_Ext s =
     (let r = takeWhile (\<lambda>c. c \<noteq> CHR ''/'') (rev s) in
      if CHR ''.'' \<in> set r then CHR ''.'' # rev (takeWhile (\<lambda>c. c \<noteq> CHR ''.'') r) else [])"

section \<open>Laws\<close>

lemma runes_concat [simp]: "concat (runes s) = s"
  by (induction s rule: runes.induct) auto

lemma rune_len_ascii: "of_char c < (128::nat) \<Longrightarrow> rune_len (c # cs) = 1"
  by (simp add: rune_len_def rune_bounds_def)

lemma split_on_nonempty [simp]: "split_on c s \<noteq> []"
  by (induction s) (auto split: list.splits)

lemma parse_int32_bounds: "parse_int32 s = Some v \<Longrightarrow> - (2 ^ 31) \<le> v \<and> v < 2 ^ 31"
  by (auto simp: parse_int32_def Let_def split: list.splits option.splits if_splits)

lemma path_Ext_dot: "path_Ext s \<noteq> [] \<Longrightarrow> hd (path_Ext s) = CHR ''.''"
  by (auto simp: path_Ext_def Let_def split: if_splits)

end
