(* ===== verification/Account_Services.thy ===== *)
theory Account_Services
  imports Extraction_Service Repo_Accounts Go_Text
begin

text \<open>
  The services of organizations, users and invitations: \<^verbatim>\<open>service_organization.go\<close>,
  \<^verbatim>\<open>service_user.go\<close> and \<^verbatim>\<open>service_invitation.go\<close> of \<^verbatim>\<open>internal/service\<close>.
\<close>

section \<open>Libraries\<close>

text \<open>
  What the repository does not define: bcrypt, the JWT library, the UUID parser, the e-mail check of
  the validator, SHA-256, the random source and the clock of the process. The salt, the random
  bytes and the time are those of the moment, given by the count of interactions.
\<close>

record libs =
  lib_bcrypt_Generate :: "nat \<Rightarrow> string \<Rightarrow> go_error + string"
  lib_bcrypt_Compare :: "string \<Rightarrow> string \<Rightarrow> bool"         \<comment> \<open>hash, password\<close>
  lib_jwt_SignedString :: "string \<Rightarrow> json \<Rightarrow> go_error + string"   \<comment> \<open>HS256 secret, claims\<close>
  lib_jwt_Parse :: "int \<Rightarrow> string \<Rightarrow> (string \<Rightarrow> go_error + string) \<Rightarrow> go_error + (json \<times> bool)"
    \<comment> \<open>time, token, key for the algorithm of the header; claims and \<open>token.Valid\<close>;
       \<open>WithExpirationRequired\<close>\<close>
  lib_NewNumericDate :: "int \<Rightarrow> int"
  lib_uuid_Parse :: "string \<Rightarrow> go_error + uuid"
  lib_email_ok :: "string \<Rightarrow> bool"
  lib_sha256 :: "string \<Rightarrow> string"
  lib_rand_Read :: "nat \<Rightarrow> nat \<Rightarrow> go_error + string"          \<comment> \<open>moment, number of bytes\<close>
  lib_now :: "nat \<Rightarrow> int"

text \<open>The moment of a call into such a library.\<close>

definition at_moment :: "(nat \<Rightarrow> 'a) \<Rightarrow> (world, 'a) state" where
  "at_moment f = State_Monad.bind State_Monad.get (\<lambda>w. State_Monad.return (f (w_tick w)))"

text \<open>The errors of a query for one row.\<close>

definition or_not_found :: "string \<Rightarrow> go_error \<Rightarrow> go_error" where
  "or_not_found msg err =
     (if is_no_rows err then errs_New CodeNotFound msg (Some err) else internal_error err)"

text \<open>The errors of a deletion: no row deleted is \<open>not_found\<close>.\<close>

definition deleted_or_not_found :: "string \<Rightarrow> nat act \<Rightarrow> unit act" where
  "deleted_or_not_found msg m = call m internal_error (\<lambda>rows.
     if rows = 0 then fail (errs_New CodeNotFound msg None) else ok ())"

section \<open>Organizations\<close>

record register_params =
  rp_OrgName :: string
  rp_INN :: string
  rp_Email :: string
  rp_Password :: string
  rp_FullName :: string

text \<open>The pattern \<^verbatim>\<open>^\d{10}$\<close>.\<close>

definition innRegexp :: "string \<Rightarrow> bool" where
  "innRegexp s \<longleftrightarrow> length s = 10 \<and> list_all (byte_in 48 57) s"

definition parseINN :: "string \<Rightarrow> go_error + string option" where
  "parseINN raw =
     (let s = TrimSpace raw in
      if s = [] then Inr None
      else if \<not> innRegexp s
      then Inl (errs_New CodeValidationFailed ''INN must be exactly 10 digits'' None)
      else Inr (Some s))"

text \<open>The body of the transaction of \<open>Register\<close>.\<close>

definition register_tx :: "register_params \<Rightarrow> string option \<Rightarrow> string \<Rightarrow> env \<Rightarrow> (organization \<times> user) act" where
  "register_tx p inn hash q =
     call (CreateOrganization q (rp_OrgName p) inn)
       (\<lambda>err. if IsUniqueViolation err ''organizations_inn_key''
              then errs_New CodeConflict ''INN already in use'' (Some err) else internal_error err)
       (\<lambda>org. call (CreateUser q (Some (org_id org)) (rp_Email p) hash (rp_FullName p) ''admin'')
         (\<lambda>err. if IsUniqueViolation err ''users_email_key''
                then errs_New CodeConflict ''email already in use'' (Some err) else internal_error err)
         (\<lambda>user. ok (org, user)))"

definition Register :: "env \<Rightarrow> libs \<Rightarrow> register_params \<Rightarrow> (organization \<times> user) act" where
  "Register E L p =
     (case parseINN (rp_INN p) of
        Inl e \<Rightarrow> fail e
      | Inr inn \<Rightarrow>
          call (at_moment (\<lambda>n. lib_bcrypt_Generate L n (rp_Password p))) internal_error (\<lambda>hash.
          call (ExecTx E (register_tx p inn hash))
            (\<lambda>err. if as_app_err err \<noteq> None then err else internal_error err)
            ok))"

definition organization_GetByID :: "env \<Rightarrow> uuid \<Rightarrow> organization act" where
  "organization_GetByID E i =
     call (GetOrganizationByID E i) (or_not_found ''organization not found'') ok"

definition organization_Update :: "env \<Rightarrow> uuid \<Rightarrow> string \<Rightarrow> string option \<Rightarrow> organization act" where
  "organization_Update E i name inn =
     (case (case inn of None \<Rightarrow> Inr None | Some raw \<Rightarrow> parseINN raw) of
        Inl e \<Rightarrow> fail e
      | Inr innVal \<Rightarrow>
          call (UpdateOrganization E i name innVal (inn \<noteq> None))
            (\<lambda>err. if is_no_rows err then errs_New CodeNotFound ''organization not found'' (Some err)
                   else if IsUniqueViolation err ''organizations_inn_key''
                   then errs_New CodeConflict ''INN already in use'' (Some err)
                   else internal_error err)
            ok)"

definition organization_Delete :: "env \<Rightarrow> uuid \<Rightarrow> unit act" where
  "organization_Delete E i = deleted_or_not_found ''organization not found'' (DeleteOrganization E i)"

section \<open>Users\<close>

record create_user_params =
  cu_OrgID :: uuid
  cu_Email :: string
  cu_Password :: string
  cu_FullName :: string
  cu_Role :: string

definition user_Create :: "env \<Rightarrow> libs \<Rightarrow> create_user_params \<Rightarrow> user act" where
  "user_Create E L p =
     (if cu_Role p \<noteq> ''admin'' \<and> cu_Role p \<noteq> ''member'' then
        fail (errs_New CodeValidationFailed ''role must be admin or member'' None)
      else
        call (at_moment (\<lambda>n. lib_bcrypt_Generate L n (cu_Password p)))
          (\<lambda>err. if is_password_too_long err
                 then errs_New CodeValidationFailed ''password must be at most 72 bytes'' (Some err)
                 else internal_error err)
          (\<lambda>hash. call (CreateUser E (Some (cu_OrgID p)) (cu_Email p) hash (cu_FullName p) (cu_Role p))
            (\<lambda>err. if IsUniqueViolation err ''users_email_key''
                   then errs_New CodeConflict ''email already in use'' (Some err) else internal_error err)
            ok))"

definition user_List :: "env \<Rightarrow> uuid \<Rightarrow> user_row list act" where
  "user_List E orgID = call (ListUsersByOrganization E orgID) internal_error ok"

record update_user_params =
  uu_UserID :: uuid
  uu_OrgID :: uuid
  uu_Role :: "string option"
  uu_Active :: "bool option"

definition user_Update :: "env \<Rightarrow> update_user_params \<Rightarrow> user_row act" where
  "user_Update E p =
     (if uu_Role p = None \<and> uu_Active p = None then
        fail (errs_New CodeValidationFailed ''at least one field must be provided'' None)
      else if (case uu_Role p of None \<Rightarrow> False | Some r \<Rightarrow> r \<noteq> ''admin'' \<and> r \<noteq> ''member'') then
        fail (errs_New CodeValidationFailed ''role must be admin or member'' None)
      else
        call (UpdateUser E (uu_UserID p) (uu_OrgID p) (uu_Role p) (uu_Active p))
          (or_not_found ''user not found'') ok)"

definition Deactivate :: "env \<Rightarrow> uuid \<Rightarrow> uuid \<Rightarrow> user_row act" where
  "Deactivate E userID orgID =
     user_Update E \<lparr>uu_UserID = userID, uu_OrgID = orgID, uu_Role = None, uu_Active = Some False\<rparr>"

definition GetProfile :: "env \<Rightarrow> uuid \<Rightarrow> uuid \<Rightarrow> user_row act" where
  "GetProfile E userID orgID =
     (if orgID = uuid_Nil then
        call (GetUserByID E userID) (or_not_found ''user not found'') (\<lambda>user.
          if \<not> usr_is_active user
          then fail (errs_New CodeUnauthorized ''account is unavailable'' None)
          else ok (user_row_of user))
      else
        call (GetUserByIDAndOrg E userID orgID) (or_not_found ''user not found'') (\<lambda>user.
          if \<not> ur_IsActive user
          then fail (errs_New CodeUnauthorized ''account is unavailable'' None)
          else ok user))"

section \<open>Invitations\<close>

definition invitation_Create :: "env \<Rightarrow> uuid \<Rightarrow> string \<Rightarrow> string \<Rightarrow> uuid \<Rightarrow> string \<Rightarrow> int \<Rightarrow> user_invitation act" where
  "invitation_Create E orgID email role invitedBy tokenHash expiresAt =
     call (CreateUserInvitation E orgID email role
             (if invitedBy \<noteq> uuid_Nil then Some invitedBy else None) tokenHash expiresAt)
       (\<lambda>err. if IsUniqueViolation err ''uq_user_invitations_org_email_active''
              then errs_New CodeConflict ''active invitation for this email already exists'' (Some err)
              else internal_error err)
       ok"

definition GetByTokenHash :: "env \<Rightarrow> string \<Rightarrow> user_invitation act" where
  "GetByTokenHash E tokenHash =
     call (GetUserInvitationByTokenHash E tokenHash) (or_not_found ''invitation not found'') ok"

definition invitation_ListByOrg :: "env \<Rightarrow> uuid \<Rightarrow> user_invitation list act" where
  "invitation_ListByOrg E orgID = call (ListUserInvitationsByOrg E orgID) internal_error ok"

definition invitation_Accept :: "env \<Rightarrow> uuid \<Rightarrow> uuid \<Rightarrow> user_invitation act" where
  "invitation_Accept E i orgID =
     call (AcceptUserInvitation E i orgID)
       (or_not_found ''invitation not found or already accepted'') ok"

definition invitation_Delete :: "env \<Rightarrow> uuid \<Rightarrow> uuid \<Rightarrow> unit act" where
  "invitation_Delete E i orgID =
     deleted_or_not_found ''invitation not found'' (DeleteUserInvitation E i orgID)"

end
