(* ===== verification/Repo_Catalogs.thy ===== *)
theory Repo_Catalogs
  imports Repo_Base
begin

text \<open>
  The statements of \<^verbatim>\<open>contract_kind.sql.go\<close>, \<^verbatim>\<open>file_role.sql.go\<close> and
  \<^verbatim>\<open>comparison_session.sql.go\<close> of \<^verbatim>\<open>internal/repository\<close>. The two catalogs have the same columns
  and constraints, so their statements are instances of the same ones, given the table and the
  names of its constraints.
\<close>

section \<open>Catalogs\<close>

definition cat_org_name :: "catalog_entry \<Rightarrow> (uuid option \<times> string) option" where
  "cat_org_name x = Some (cat_organization_id x, cat_display_name x)"

definition entries_of_org :: "catalog_entry list \<Rightarrow> uuid \<Rightarrow> catalog_entry list" where
  "entries_of_org es orgID = sort_key cat_sort_order (sort_key cat_display_name
     (filter (\<lambda>x. cat_organization_id x = Some orgID \<or> cat_organization_id x = None) es))"

definition get_entry :: "catalog_entry list \<Rightarrow> uuid \<Rightarrow> uuid \<Rightarrow> catalog_entry option" where
  "get_entry es i orgID =
     find (\<lambda>x. cat_id x = i \<and> (cat_organization_id x = Some orgID \<or> cat_organization_id x = None)) es"

definition new_entry :: "uuid \<Rightarrow> int \<Rightarrow> uuid option \<Rightarrow> string \<Rightarrow> int \<Rightarrow> bool \<Rightarrow> catalog_entry" where
  "new_entry i t org name order active = \<lparr>cat_id = i, cat_organization_id = org,
     cat_display_name = name, cat_sort_order = order, cat_is_active = active,
     cat_created_at = t, cat_updated_at = t\<rparr>"

text \<open>The unique constraint treats nulls as equal: \<open>UNIQUE NULLS NOT DISTINCT\<close>.\<close>

definition create_entry :: "string \<Rightarrow> string \<Rightarrow> string \<Rightarrow> (db \<Rightarrow> catalog_entry list)
    \<Rightarrow> (catalog_entry list \<Rightarrow> db \<Rightarrow> db) \<Rightarrow> uuid option \<Rightarrow> string \<Rightarrow> int \<Rightarrow> bool \<Rightarrow> catalog_entry stmt" where
  "create_entry pkey uq fkey rows put org name order active g t d =
     (let x = new_entry (g 0) t org name order active in
      insert_row
        [(cat_id x \<notin> set (map cat_id (rows d)), unique_violation pkey),
         (\<not> index_conflict cat_org_name x (rows d), unique_violation uq),
         (null_or (\<lambda>i. list_ex (\<lambda>o'. org_id o' = i) (organizations d)) org, fk_violation fkey)]
        rows put x d)"

definition update_entry :: "string \<Rightarrow> (db \<Rightarrow> catalog_entry list) \<Rightarrow> (catalog_entry list \<Rightarrow> db \<Rightarrow> db)
    \<Rightarrow> uuid \<Rightarrow> uuid \<Rightarrow> string \<Rightarrow> int \<Rightarrow> bool \<Rightarrow> catalog_entry stmt" where
  "update_entry uq rows put i orgID name order active g t d =
     update_row (\<lambda>x. [(\<not> others_conflict cat_id cat_org_name x (rows d), unique_violation uq)])
       rows put cat_id (\<lambda>x. cat_id x = i \<and> cat_organization_id x = Some orgID)
       (\<lambda>x. x\<lparr>cat_display_name := name, cat_sort_order := order, cat_is_active := active,
             cat_updated_at := t\<rparr>) d"

definition owned_entries :: "catalog_entry list \<Rightarrow> uuid \<Rightarrow> uuid \<Rightarrow> catalog_entry list" where
  "owned_entries es i orgID = filter (\<lambda>x. cat_id x = i \<and> cat_organization_id x = Some orgID) es"

abbreviation put_kinds :: "catalog_entry list \<Rightarrow> db \<Rightarrow> db" where
  "put_kinds rs \<equiv> document_contract_kinds_update (\<lambda>_. rs)"

abbreviation put_roles :: "catalog_entry list \<Rightarrow> db \<Rightarrow> db" where
  "put_roles rs \<equiv> document_file_roles_update (\<lambda>_. rs)"

subsection \<open>Contract kinds\<close>

definition ListContractKindsByOrg :: "env \<Rightarrow> uuid \<Rightarrow> catalog_entry list act" where
  "ListContractKindsByOrg E orgID = exec E (sel (\<lambda>d. entries_of_org (document_contract_kinds d) orgID))"

definition GetContractKind :: "env \<Rightarrow> uuid \<Rightarrow> uuid \<Rightarrow> catalog_entry act" where
  "GetContractKind E i orgID = exec E (sel_one (\<lambda>d. get_entry (document_contract_kinds d) i orgID))"

definition stmt_CreateContractKind :: "uuid option \<Rightarrow> string \<Rightarrow> int \<Rightarrow> bool \<Rightarrow> catalog_entry stmt" where
  "stmt_CreateContractKind = create_entry ''document_contract_kinds_pkey'' ''uq_contract_kinds_org_name''
     ''document_contract_kinds_organization_id_fkey'' document_contract_kinds put_kinds"

definition CreateContractKind :: "env \<Rightarrow> uuid option \<Rightarrow> string \<Rightarrow> int \<Rightarrow> bool \<Rightarrow> catalog_entry act" where
  "CreateContractKind E org name order active = exec E (stmt_CreateContractKind org name order active)"

definition stmt_UpdateContractKind :: "uuid \<Rightarrow> uuid \<Rightarrow> string \<Rightarrow> int \<Rightarrow> bool \<Rightarrow> catalog_entry stmt" where
  "stmt_UpdateContractKind = update_entry ''uq_contract_kinds_org_name'' document_contract_kinds put_kinds"

definition UpdateContractKind :: "env \<Rightarrow> uuid \<Rightarrow> uuid \<Rightarrow> string \<Rightarrow> int \<Rightarrow> bool \<Rightarrow> catalog_entry act" where
  "UpdateContractKind E i orgID name order active =
     exec E (stmt_UpdateContractKind i orgID name order active)"

definition stmt_DeleteContractKind :: "uuid \<Rightarrow> uuid \<Rightarrow> nat stmt" where
  "stmt_DeleteContractKind i orgID g t d =
     (let hits = owned_entries (document_contract_kinds d) i orgID in
      (Inr (length hits), if hits = [] then d else purge (nothing_gone\<lparr>g_kinds := [i]\<rparr>) d))"

definition DeleteContractKind :: "env \<Rightarrow> uuid \<Rightarrow> uuid \<Rightarrow> nat act" where
  "DeleteContractKind E i orgID = exec E (stmt_DeleteContractKind i orgID)"

subsection \<open>File roles\<close>

definition ListFileRolesByOrg :: "env \<Rightarrow> uuid \<Rightarrow> catalog_entry list act" where
  "ListFileRolesByOrg E orgID = exec E (sel (\<lambda>d. entries_of_org (document_file_roles d) orgID))"

definition GetFileRole :: "env \<Rightarrow> uuid \<Rightarrow> uuid \<Rightarrow> catalog_entry act" where
  "GetFileRole E i orgID = exec E (sel_one (\<lambda>d. get_entry (document_file_roles d) i orgID))"

definition stmt_CreateFileRole :: "uuid option \<Rightarrow> string \<Rightarrow> int \<Rightarrow> bool \<Rightarrow> catalog_entry stmt" where
  "stmt_CreateFileRole = create_entry ''document_file_roles_pkey'' ''uq_file_roles_org_name''
     ''document_file_roles_organization_id_fkey'' document_file_roles put_roles"

definition CreateFileRole :: "env \<Rightarrow> uuid option \<Rightarrow> string \<Rightarrow> int \<Rightarrow> bool \<Rightarrow> catalog_entry act" where
  "CreateFileRole E org name order active = exec E (stmt_CreateFileRole org name order active)"

definition stmt_UpdateFileRole :: "uuid \<Rightarrow> uuid \<Rightarrow> string \<Rightarrow> int \<Rightarrow> bool \<Rightarrow> catalog_entry stmt" where
  "stmt_UpdateFileRole = update_entry ''uq_file_roles_org_name'' document_file_roles put_roles"

definition UpdateFileRole :: "env \<Rightarrow> uuid \<Rightarrow> uuid \<Rightarrow> string \<Rightarrow> int \<Rightarrow> bool \<Rightarrow> catalog_entry act" where
  "UpdateFileRole E i orgID name order active = exec E (stmt_UpdateFileRole i orgID name order active)"

definition stmt_DeleteFileRole :: "uuid \<Rightarrow> uuid \<Rightarrow> nat stmt" where
  "stmt_DeleteFileRole i orgID g t d =
     (let hits = owned_entries (document_file_roles d) i orgID in
      (Inr (length hits), if hits = [] then d else purge (nothing_gone\<lparr>g_roles := [i]\<rparr>) d))"

definition DeleteFileRole :: "env \<Rightarrow> uuid \<Rightarrow> uuid \<Rightarrow> nat act" where
  "DeleteFileRole E i orgID = exec E (stmt_DeleteFileRole i orgID)"

section \<open>Comparison sessions\<close>

definition new_session :: "uuid \<Rightarrow> int \<Rightarrow> uuid \<Rightarrow> uuid option \<Rightarrow> string option \<Rightarrow> uuid option \<Rightarrow> comparison_session" where
  "new_session i t org by name kind = \<lparr>cs_id = i, cs_organization_id = org, cs_created_by = by,
     cs_name = name, cs_contract_kind_id = kind, cs_created_at = t\<rparr>"

definition stmt_CreateComparisonSession
    :: "uuid \<Rightarrow> uuid option \<Rightarrow> string option \<Rightarrow> uuid option \<Rightarrow> comparison_session stmt" where
  "stmt_CreateComparisonSession org by name kind g t d =
     (let x = new_session (g 0) t org by name kind in
      insert_row
        [(cs_id x \<notin> set (map cs_id (comparison_sessions d)), unique_violation ''comparison_sessions_pkey''),
         (list_ex (\<lambda>o'. org_id o' = org) (organizations d),
          fk_violation ''comparison_sessions_organization_id_fkey''),
         (null_or (\<lambda>u. list_ex (\<lambda>y. usr_id y = u) (users d)) by,
          fk_violation ''comparison_sessions_created_by_fkey''),
         (null_or (\<lambda>k. list_ex (\<lambda>y. cat_id y = k) (document_contract_kinds d)) kind,
          fk_violation ''comparison_sessions_contract_kind_id_fkey'')]
        comparison_sessions (\<lambda>rs. comparison_sessions_update (\<lambda>_. rs)) x d)"

definition CreateComparisonSession
    :: "env \<Rightarrow> uuid \<Rightarrow> uuid option \<Rightarrow> string option \<Rightarrow> uuid option \<Rightarrow> comparison_session act" where
  "CreateComparisonSession E org by name kind = exec E (stmt_CreateComparisonSession org by name kind)"

definition GetComparisonSession :: "env \<Rightarrow> uuid \<Rightarrow> uuid \<Rightarrow> comparison_session act" where
  "GetComparisonSession E i orgID = exec E (sel_one (\<lambda>d.
     find (\<lambda>x. cs_id x = i \<and> cs_organization_id x = orgID) (comparison_sessions d)))"

definition ListComparisonSessionsByOrg :: "env \<Rightarrow> uuid \<Rightarrow> comparison_session list act" where
  "ListComparisonSessionsByOrg E orgID = exec E (sel (\<lambda>d. sort_key (\<lambda>x. - cs_created_at x)
     (filter (\<lambda>x. cs_organization_id x = orgID) (comparison_sessions d))))"

definition stmt_DeleteComparisonSession :: "uuid \<Rightarrow> uuid \<Rightarrow> nat stmt" where
  "stmt_DeleteComparisonSession i orgID g t d =
     (let hits = filter (\<lambda>x. cs_id x = i \<and> cs_organization_id x = orgID) (comparison_sessions d) in
      (Inr (length hits), if hits = [] then d else purge (nothing_gone\<lparr>g_sessions := [i]\<rparr>) d))"

definition DeleteComparisonSession :: "env \<Rightarrow> uuid \<Rightarrow> uuid \<Rightarrow> nat act" where
  "DeleteComparisonSession E i orgID = exec E (stmt_DeleteComparisonSession i orgID)"

definition place_key :: "comparison_session_document \<Rightarrow> uuid \<times> uuid" where
  "place_key x = (csd_session_id x, csd_document_id x)"

text \<open>
  \<open>ON CONFLICT (session_id, document_id) DO UPDATE\<close>: the place that is there takes the new position.
\<close>

definition stmt_AddDocumentToComparisonSession
    :: "uuid \<Rightarrow> uuid \<Rightarrow> uuid \<Rightarrow> int \<Rightarrow> comparison_session_document stmt" where
  "stmt_AddDocumentToComparisonSession session doc org pos g t d =
     (let x = \<lparr>csd_session_id = session, csd_document_id = doc, csd_organization_id = org,
                csd_position = pos\<rparr> in
      case find (\<lambda>y. place_key y = place_key x) (comparison_session_documents d) of
        Some y \<Rightarrow> (Inr (y\<lparr>csd_position := pos\<rparr>), d\<lparr>comparison_session_documents :=
            put_row place_key (y\<lparr>csd_position := pos\<rparr>) (comparison_session_documents d)\<rparr>)
      | None \<Rightarrow>
          insert_row
            [(list_ex (\<lambda>y. cs_id y = session) (comparison_sessions d),
              fk_violation ''comparison_session_documents_session_id_fkey''),
             (org_document_exists d doc org, fk_violation ''fk_csd_doc_org'')]
            comparison_session_documents (\<lambda>rs. comparison_session_documents_update (\<lambda>_. rs)) x d)"

definition AddDocumentToComparisonSession
    :: "env \<Rightarrow> uuid \<Rightarrow> uuid \<Rightarrow> uuid \<Rightarrow> int \<Rightarrow> comparison_session_document act" where
  "AddDocumentToComparisonSession E session doc org pos =
     exec E (stmt_AddDocumentToComparisonSession session doc org pos)"

definition stmt_RemoveDocumentFromComparisonSession :: "uuid \<Rightarrow> uuid \<Rightarrow> uuid \<Rightarrow> nat stmt" where
  "stmt_RemoveDocumentFromComparisonSession session doc orgID g t d =
     delete_rows comparison_session_documents (\<lambda>rs. comparison_session_documents_update (\<lambda>_. rs))
       (\<lambda>x. csd_session_id x = session \<and> csd_document_id x = doc \<and> csd_organization_id x = orgID) d"

definition RemoveDocumentFromComparisonSession :: "env \<Rightarrow> uuid \<Rightarrow> uuid \<Rightarrow> uuid \<Rightarrow> nat act" where
  "RemoveDocumentFromComparisonSession E session doc orgID =
     exec E (stmt_RemoveDocumentFromComparisonSession session doc orgID)"

definition ListComparisonSessionDocuments :: "env \<Rightarrow> uuid \<Rightarrow> uuid \<Rightarrow> comparison_session_document list act" where
  "ListComparisonSessionDocuments E session orgID = exec E (sel (\<lambda>d. sort_key csd_position
     (filter (\<lambda>x. csd_session_id x = session \<and> csd_organization_id x = orgID)
       (comparison_session_documents d))))"

end
