(* ===== verification/Repo_Sites.thy ===== *)
theory Repo_Sites
  imports Repo_Base
begin

text \<open>
  The statements of \<^verbatim>\<open>construction_site.sql.go\<close>, \<^verbatim>\<open>site_audit_log.sql.go\<close> and
  \<^verbatim>\<open>site_status.sql.go\<close> of \<^verbatim>\<open>internal/repository\<close>, with the trigger that keeps the tree of
  sites inside a tenant and acyclic, and the view \<open>v_site_status\<close>.
\<close>

section \<open>Construction sites\<close>

text \<open>The trigger \<open>check_site_org_isolation\<close>, in the order of its tests.\<close>

definition site_triggers :: "db \<Rightarrow> construction_site \<Rightarrow> (bool \<times> go_error) list" where
  "site_triggers d x =
     [(site_parent_id x \<noteq> Some (site_id x), raised ''check_site_org_isolation''),
      (null_or (\<lambda>p. org_site_exists d p (site_organization_id x)) (site_parent_id x),
       raised ''check_site_org_isolation''),
      (null_or (\<lambda>p. site_id x \<notin> set (site_ancestors (construction_sites d)
          (length (construction_sites d)) p)) (site_parent_id x),
       raised ''check_site_org_isolation''),
      (null_or (\<lambda>u. org_user_exists d u (site_organization_id x)) (site_created_by x),
       raised ''check_site_org_isolation'')]"

definition site_types :: "string list" where
  "site_types = [''residential_complex'', ''business_center'', ''warehouse'', ''phase'',
     ''building'', ''section'', ''other'']"

definition site_checks :: "construction_site \<Rightarrow> (bool \<times> go_error) list" where
  "site_checks x =
     [(null_or (\<lambda>s. s \<in> set site_types) (site_site_type x),
       check_violation ''construction_sites_site_type_check''),
      (site_status x \<in> {''active'', ''completed'', ''archived''},
       check_violation ''construction_sites_status_check'')]"

definition new_site :: "uuid \<Rightarrow> int \<Rightarrow> uuid \<Rightarrow> uuid option \<Rightarrow> string \<Rightarrow> string \<Rightarrow> uuid option \<Rightarrow> construction_site" where
  "new_site i t org parent name status by = \<lparr>site_id = i, site_organization_id = org,
     site_parent_id = parent, site_name = name, site_status = status, site_created_by = by,
     site_created_at = t, site_updated_at = t, site_cover_image_path = None,
     site_cover_image_uploaded_at = None, site_site_type = None, site_last_activity_at = t\<rparr>"

record create_site_params =
  sp_OrganizationID :: uuid
  sp_ParentID :: "uuid option"
  sp_Name :: string
  sp_Status :: string
  sp_CreatedBy :: "uuid option"

definition stmt_CreateConstructionSite :: "create_site_params \<Rightarrow> construction_site stmt" where
  "stmt_CreateConstructionSite p g t d =
     (let x = new_site (g 0) t (sp_OrganizationID p) (sp_ParentID p) (sp_Name p) (sp_Status p)
                (sp_CreatedBy p) in
      insert_row
        (site_triggers d x @ site_checks x @
         [(site_id x \<notin> set (map site_id (construction_sites d)), unique_violation ''construction_sites_pkey''),
          (list_ex (\<lambda>o'. org_id o' = site_organization_id x) (organizations d),
           fk_violation ''construction_sites_organization_id_fkey'')])
        construction_sites (\<lambda>rs. construction_sites_update (\<lambda>_. rs)) x d)"

definition CreateConstructionSite :: "env \<Rightarrow> create_site_params \<Rightarrow> construction_site act" where
  "CreateConstructionSite E p = exec E (stmt_CreateConstructionSite p)"

definition GetConstructionSite :: "env \<Rightarrow> uuid \<Rightarrow> uuid \<Rightarrow> construction_site act" where
  "GetConstructionSite E i orgID = exec E (sel_one (\<lambda>d.
     find (\<lambda>x. site_id x = i \<and> site_organization_id x = orgID) (construction_sites d)))"

definition sites_where :: "(construction_site \<Rightarrow> int) \<Rightarrow> (construction_site \<Rightarrow> bool) \<Rightarrow> db
    \<Rightarrow> construction_site list" where
  "sites_where k p d = sort_key (\<lambda>x. - k x) (filter p (construction_sites d))"

definition ListConstructionSitesByOrganization :: "env \<Rightarrow> uuid \<Rightarrow> construction_site list act" where
  "ListConstructionSitesByOrganization E orgID =
     exec E (sel (sites_where site_created_at (\<lambda>x. site_organization_id x = orgID)))"

definition ListConstructionSitesByParent :: "env \<Rightarrow> uuid \<Rightarrow> uuid \<Rightarrow> construction_site list act" where
  "ListConstructionSitesByParent E orgID parent =
     exec E (sel (sites_where site_last_activity_at
       (\<lambda>x. site_organization_id x = orgID \<and> site_parent_id x = Some parent)))"

definition ListRootConstructionSites :: "env \<Rightarrow> uuid \<Rightarrow> construction_site list act" where
  "ListRootConstructionSites E orgID =
     exec E (sel (sites_where site_last_activity_at
       (\<lambda>x. site_organization_id x = orgID \<and> site_parent_id x = None)))"

definition update_site :: "uuid \<Rightarrow> uuid \<Rightarrow> (construction_site \<Rightarrow> construction_site) \<Rightarrow> db
    \<Rightarrow> (go_error + construction_site) \<times> db" where
  "update_site i orgID f d =
     update_row (\<lambda>x. site_triggers d x @ site_checks x)
       construction_sites (\<lambda>rs. construction_sites_update (\<lambda>_. rs)) site_id
       (\<lambda>x. site_id x = i \<and> site_organization_id x = orgID) f d"

definition stmt_UpdateConstructionSite :: "uuid \<Rightarrow> uuid \<Rightarrow> string \<Rightarrow> string \<Rightarrow> construction_site stmt" where
  "stmt_UpdateConstructionSite i orgID name status g t d =
     update_site i orgID (\<lambda>x. x\<lparr>site_name := name, site_status := status, site_updated_at := t\<rparr>) d"

definition stmt_UpdateConstructionSiteCover :: "uuid \<Rightarrow> uuid \<Rightarrow> string option \<Rightarrow> construction_site stmt" where
  "stmt_UpdateConstructionSiteCover i orgID path g t d =
     update_site i orgID (\<lambda>x. x\<lparr>site_cover_image_path := path,
       site_cover_image_uploaded_at := (if path \<noteq> None then Some t else site_cover_image_uploaded_at x),
       site_updated_at := t\<rparr>) d"

definition stmt_UpdateConstructionSiteType :: "uuid \<Rightarrow> uuid \<Rightarrow> string option \<Rightarrow> construction_site stmt" where
  "stmt_UpdateConstructionSiteType i orgID ty g t d =
     update_site i orgID (\<lambda>x. x\<lparr>site_site_type := ty, site_updated_at := t\<rparr>) d"

definition UpdateConstructionSite :: "env \<Rightarrow> uuid \<Rightarrow> uuid \<Rightarrow> string \<Rightarrow> string \<Rightarrow> construction_site act" where
  "UpdateConstructionSite E i orgID name status = exec E (stmt_UpdateConstructionSite i orgID name status)"

definition UpdateConstructionSiteCover :: "env \<Rightarrow> uuid \<Rightarrow> uuid \<Rightarrow> string option \<Rightarrow> construction_site act" where
  "UpdateConstructionSiteCover E i orgID path = exec E (stmt_UpdateConstructionSiteCover i orgID path)"

definition UpdateConstructionSiteType :: "env \<Rightarrow> uuid \<Rightarrow> uuid \<Rightarrow> string option \<Rightarrow> construction_site act" where
  "UpdateConstructionSiteType E i orgID ty = exec E (stmt_UpdateConstructionSiteType i orgID ty)"

text \<open>
  The sites below a deleted one become roots, its documents lose their site, its log goes with it.
\<close>

definition stmt_DeleteConstructionSite :: "uuid \<Rightarrow> uuid \<Rightarrow> nat stmt" where
  "stmt_DeleteConstructionSite i orgID g t d =
     (let hits = filter (\<lambda>x. site_id x = i \<and> site_organization_id x = orgID) (construction_sites d) in
      (Inr (length hits), if hits = [] then d else purge (nothing_gone\<lparr>g_sites := [i]\<rparr>) d))"

definition DeleteConstructionSite :: "env \<Rightarrow> uuid \<Rightarrow> uuid \<Rightarrow> nat act" where
  "DeleteConstructionSite E i orgID = exec E (stmt_DeleteConstructionSite i orgID)"

section \<open>Audit log\<close>

definition stmt_CreateSiteAuditEvent
    :: "uuid \<Rightarrow> uuid \<Rightarrow> uuid option \<Rightarrow> string \<Rightarrow> json \<Rightarrow> site_audit_log stmt" where
  "stmt_CreateSiteAuditEvent org site actor event payload g t d =
     (let x = \<lparr>audit_id = g 0, audit_organization_id = org, audit_site_id = site,
                audit_actor_user_id = actor, audit_event_type = event, audit_payload = payload,
                audit_created_at = t\<rparr> in
      insert_row
        [(audit_id x \<notin> set (map audit_id (site_audit_logs d)), unique_violation ''site_audit_log_pkey''),
         (list_ex (\<lambda>o'. org_id o' = org) (organizations d),
          fk_violation ''site_audit_log_organization_id_fkey''),
         (list_ex (\<lambda>y. site_id y = site) (construction_sites d), fk_violation ''site_audit_log_site_id_fkey''),
         (null_or (\<lambda>u. list_ex (\<lambda>y. usr_id y = u) (users d)) actor,
          fk_violation ''site_audit_log_actor_user_id_fkey'')]
        site_audit_logs (\<lambda>rs. site_audit_logs_update (\<lambda>_. rs)) x d)"

definition CreateSiteAuditEvent
    :: "env \<Rightarrow> uuid \<Rightarrow> uuid \<Rightarrow> uuid option \<Rightarrow> string \<Rightarrow> json \<Rightarrow> site_audit_log act" where
  "CreateSiteAuditEvent E org site actor event payload =
     exec E (stmt_CreateSiteAuditEvent org site actor event payload)"

definition audit_log_of :: "uuid \<Rightarrow> uuid \<Rightarrow> db \<Rightarrow> site_audit_log list" where
  "audit_log_of site orgID d = sort_key (\<lambda>x. - audit_created_at x) (sort_key (\<lambda>x. - uint (audit_id x))
     (filter (\<lambda>x. audit_site_id x = site \<and> audit_organization_id x = orgID) (site_audit_logs d)))"

definition stmt_ListSiteAuditLogBySite :: "uuid \<Rightarrow> uuid \<Rightarrow> int \<Rightarrow> int \<Rightarrow> site_audit_log list stmt" where
  "stmt_ListSiteAuditLogBySite site orgID limit offset g t d =
     (if limit < 0 then Inl (PgError ''2201W'' [])
      else if offset < 0 then Inl (PgError ''2201X'' [])
      else Inr (take (nat limit) (drop (nat offset) (audit_log_of site orgID d))), d)"

definition ListSiteAuditLogBySite :: "env \<Rightarrow> uuid \<Rightarrow> uuid \<Rightarrow> int \<Rightarrow> int \<Rightarrow> site_audit_log list act" where
  "ListSiteAuditLogBySite E site orgID limit offset =
     exec E (stmt_ListSiteAuditLogBySite site orgID limit offset)"

section \<open>Status of a site\<close>

text \<open>
  The view \<open>v_site_status\<close>: the status of each leaf of the tree, and for every site the statuses of
  the leaves below it, counted and summarised.
\<close>

definition leaf_status :: "db \<Rightarrow> uuid \<Rightarrow> string" where
  "leaf_status d s =
     (let docs = map doc_id (filter (\<lambda>x. doc_site_id x = Some s) (documents d));
          tasks = filter (\<lambda>t. task_document_id t \<in> set docs) (document_tasks d);
          reqs = filter (\<lambda>r. req_document_id r \<in> set docs) (extraction_requests d)
      in if \<not> list_ex (\<lambda>x. doc_site_id x = Some s \<and> doc_parent_id x = None) (documents d) then ''empty''
         else if list_ex (\<lambda>t. task_status t = ''failed'' \<and> task_extraction_request_id t = None) tasks
                 \<or> list_ex (\<lambda>r. req_status r = ''failed'') reqs then ''attention''
         else if list_ex (\<lambda>t. task_status t \<in> {''pending'', ''processing''}) tasks
                 \<or> list_ex (\<lambda>r. req_status r \<in> {''pending'', ''running''}) reqs then ''processing''
         else ''ready'')"

definition site_children :: "construction_site list \<Rightarrow> uuid \<Rightarrow> uuid list" where
  "site_children ss i = map site_id (filter (\<lambda>x. site_parent_id x = Some i) ss)"

text \<open>The recursive query \<open>site_tree\<close>; the number of sites bounds its depth.\<close>

fun site_subtree :: "construction_site list \<Rightarrow> nat \<Rightarrow> uuid \<Rightarrow> uuid list" where
  "site_subtree ss 0 i = [i]"
| "site_subtree ss (Suc n) i = i # concat (map (site_subtree ss n) (site_children ss i))"

definition site_leaves :: "construction_site list \<Rightarrow> uuid \<Rightarrow> uuid list" where
  "site_leaves ss i = filter (\<lambda>s. site_children ss s = []) (site_subtree ss (length ss) i)"

record v_site_status =
  vs_site_id :: uuid
  vs_organization_id :: uuid
  vs_status :: string
  vs_children_ready :: nat
  vs_children_processing :: nat
  vs_children_attention :: nat
  vs_children_empty :: nat

definition summary_status :: "string list \<Rightarrow> string" where
  "summary_status sts =
     (if ''attention'' \<in> set sts then ''attention''
      else if ''processing'' \<in> set sts then ''processing''
      else if list_all (\<lambda>s. s = ''empty'') sts then ''empty''
      else ''ready'')"

definition site_status_row :: "db \<Rightarrow> construction_site \<Rightarrow> v_site_status" where
  "site_status_row d x =
     (let sts = map (leaf_status d) (site_leaves (construction_sites d) (site_id x)) in
      \<lparr>vs_site_id = site_id x, vs_organization_id = site_organization_id x,
       vs_status = summary_status sts,
       vs_children_ready = length (filter (\<lambda>s. s = ''ready'') sts),
       vs_children_processing = length (filter (\<lambda>s. s = ''processing'') sts),
       vs_children_attention = length (filter (\<lambda>s. s = ''attention'') sts),
       vs_children_empty = length (filter (\<lambda>s. s = ''empty'') sts)\<rparr>)"

definition v_site_statuses :: "db \<Rightarrow> v_site_status list" where
  "v_site_statuses d = map (site_status_row d)
     (filter (\<lambda>x. site_leaves (construction_sites d) (site_id x) \<noteq> []) (construction_sites d))"

definition GetSiteStatus :: "env \<Rightarrow> uuid \<Rightarrow> uuid \<Rightarrow> v_site_status act" where
  "GetSiteStatus E i orgID = exec E (sel_one (\<lambda>d.
     find (\<lambda>v. vs_site_id v = i \<and> vs_organization_id v = orgID) (v_site_statuses d)))"

definition ListSiteStatusesByOrg :: "env \<Rightarrow> uuid \<Rightarrow> v_site_status list act" where
  "ListSiteStatusesByOrg E orgID = exec E (sel (\<lambda>d.
     filter (\<lambda>v. vs_organization_id v = orgID) (v_site_statuses d)))"

end
