(* ===== verification/Catalog_Services.thy ===== *)
theory Catalog_Services
  imports Account_Services Repo_Catalogs Repo_Sites
begin

text \<open>
  The services of the catalogs, of comparison sessions and of construction sites:
  \<^verbatim>\<open>service_contract_kind.go\<close>, \<^verbatim>\<open>service_file_role.go\<close>, \<^verbatim>\<open>service_comparison_session.go\<close>,
  \<^verbatim>\<open>service_construction_site.go\<close> and \<^verbatim>\<open>service_site_audit.go\<close> of \<^verbatim>\<open>internal/service\<close>.
\<close>

section \<open>Contract kinds\<close>

definition kind_List :: "env \<Rightarrow> uuid \<Rightarrow> catalog_entry list act" where
  "kind_List E orgID = call (ListContractKindsByOrg E orgID) internal_error ok"

definition kind_Get :: "env \<Rightarrow> uuid \<Rightarrow> uuid \<Rightarrow> catalog_entry act" where
  "kind_Get E i orgID = call (GetContractKind E i orgID) (or_not_found ''contract kind not found'') ok"

definition kind_Create :: "env \<Rightarrow> uuid \<Rightarrow> string \<Rightarrow> int \<Rightarrow> bool \<Rightarrow> catalog_entry act" where
  "kind_Create E orgID displayName sortOrder isActive =
     call (CreateContractKind E (Some orgID) displayName sortOrder isActive)
       (\<lambda>err. if IsUniqueViolation err ''uq_contract_kinds_org_name''
              then errs_New CodeConflict ''contract kind with this name already exists'' (Some err)
              else internal_error err)
       ok"

definition kind_Update :: "env \<Rightarrow> uuid \<Rightarrow> uuid \<Rightarrow> string \<Rightarrow> int \<Rightarrow> bool \<Rightarrow> catalog_entry act" where
  "kind_Update E i orgID displayName sortOrder isActive =
     call (UpdateContractKind E i orgID displayName sortOrder isActive)
       (\<lambda>err. if is_no_rows err then errs_New CodeNotFound ''contract kind not found'' (Some err)
              else if IsUniqueViolation err ''uq_contract_kinds_org_name''
              then errs_New CodeConflict ''contract kind with this name already exists'' (Some err)
              else internal_error err)
       ok"

definition kind_Delete :: "env \<Rightarrow> uuid \<Rightarrow> uuid \<Rightarrow> unit act" where
  "kind_Delete E i orgID = deleted_or_not_found ''contract kind not found'' (DeleteContractKind E i orgID)"

section \<open>File roles\<close>

definition role_List :: "env \<Rightarrow> uuid \<Rightarrow> catalog_entry list act" where
  "role_List E orgID = call (ListFileRolesByOrg E orgID) internal_error ok"

definition role_Get :: "env \<Rightarrow> uuid \<Rightarrow> uuid \<Rightarrow> catalog_entry act" where
  "role_Get E i orgID = call (GetFileRole E i orgID) (or_not_found ''file role not found'') ok"

definition role_Create :: "env \<Rightarrow> uuid \<Rightarrow> string \<Rightarrow> int \<Rightarrow> bool \<Rightarrow> catalog_entry act" where
  "role_Create E orgID displayName sortOrder isActive =
     call (CreateFileRole E (Some orgID) displayName sortOrder isActive)
       (\<lambda>err. if IsUniqueViolation err ''uq_file_roles_org_name''
              then errs_New CodeConflict ''file role with this name already exists'' (Some err)
              else internal_error err)
       ok"

definition role_Update :: "env \<Rightarrow> uuid \<Rightarrow> uuid \<Rightarrow> string \<Rightarrow> int \<Rightarrow> bool \<Rightarrow> catalog_entry act" where
  "role_Update E i orgID displayName sortOrder isActive =
     call (UpdateFileRole E i orgID displayName sortOrder isActive)
       (\<lambda>err. if is_no_rows err then errs_New CodeNotFound ''file role not found'' (Some err)
              else if IsUniqueViolation err ''uq_file_roles_org_name''
              then errs_New CodeConflict ''file role with this name already exists'' (Some err)
              else internal_error err)
       ok"

definition role_Delete :: "env \<Rightarrow> uuid \<Rightarrow> uuid \<Rightarrow> unit act" where
  "role_Delete E i orgID = deleted_or_not_found ''file role not found'' (DeleteFileRole E i orgID)"

section \<open>Comparison sessions\<close>

definition comparison_Create :: "env \<Rightarrow> uuid \<Rightarrow> uuid \<Rightarrow> string option \<Rightarrow> uuid option \<Rightarrow> comparison_session act" where
  "comparison_Create E orgID createdBy name contractKindID =
     (let create = (\<lambda>kind. call (CreateComparisonSession E orgID (Some createdBy) name kind) internal_error ok) in
      case contractKindID of
        None \<Rightarrow> create None
      | Some k \<Rightarrow>
          call (GetContractKind E k orgID)
            (\<lambda>err. if is_no_rows err
                   then errs_New CodeValidationFailed ''contract kind not found'' (Some err)
                   else internal_error err)
            (\<lambda>_. create (Some k)))"

definition comparison_Get :: "env \<Rightarrow> uuid \<Rightarrow> uuid \<Rightarrow> comparison_session act" where
  "comparison_Get E i orgID =
     call (GetComparisonSession E i orgID) (or_not_found ''comparison session not found'') ok"

definition comparison_ListByOrg :: "env \<Rightarrow> uuid \<Rightarrow> comparison_session list act" where
  "comparison_ListByOrg E orgID = call (ListComparisonSessionsByOrg E orgID) internal_error ok"

definition comparison_Delete :: "env \<Rightarrow> uuid \<Rightarrow> uuid \<Rightarrow> unit act" where
  "comparison_Delete E i orgID =
     deleted_or_not_found ''comparison session not found'' (DeleteComparisonSession E i orgID)"

definition AddDocument :: "env \<Rightarrow> uuid \<Rightarrow> uuid \<Rightarrow> uuid \<Rightarrow> int \<Rightarrow> comparison_session_document act" where
  "AddDocument E sessionID documentID orgID position =
     call (AddDocumentToComparisonSession E sessionID documentID orgID position)
       (\<lambda>err. if IsForeignKeyViolation err []
              then errs_New CodeNotFound ''session or document not found'' (Some err)
              else internal_error err)
       ok"

definition RemoveDocument :: "env \<Rightarrow> uuid \<Rightarrow> uuid \<Rightarrow> uuid \<Rightarrow> unit act" where
  "RemoveDocument E sessionID documentID orgID =
     deleted_or_not_found ''document not found in comparison session''
       (RemoveDocumentFromComparisonSession E sessionID documentID orgID)"

definition comparison_ListDocuments :: "env \<Rightarrow> uuid \<Rightarrow> uuid \<Rightarrow> comparison_session_document list act" where
  "comparison_ListDocuments E sessionID orgID =
     call (ListComparisonSessionDocuments E sessionID orgID) internal_error ok"

section \<open>Construction sites\<close>

definition site_Create :: "env \<Rightarrow> create_site_params \<Rightarrow> construction_site act" where
  "site_Create E params = call (CreateConstructionSite E params) internal_error ok"

definition site_Get :: "env \<Rightarrow> uuid \<Rightarrow> uuid \<Rightarrow> construction_site act" where
  "site_Get E i orgID =
     call (GetConstructionSite E i orgID) (or_not_found ''construction site not found'') ok"

definition site_ListByOrganization :: "env \<Rightarrow> uuid \<Rightarrow> construction_site list act" where
  "site_ListByOrganization E orgID = call (ListConstructionSitesByOrganization E orgID) internal_error ok"

definition site_Update :: "env \<Rightarrow> uuid \<Rightarrow> uuid \<Rightarrow> string \<Rightarrow> string \<Rightarrow> construction_site act" where
  "site_Update E i orgID name status =
     call (UpdateConstructionSite E i orgID name status) (or_not_found ''construction site not found'') ok"

definition site_Delete :: "env \<Rightarrow> uuid \<Rightarrow> uuid \<Rightarrow> unit act" where
  "site_Delete E i orgID =
     deleted_or_not_found ''construction site not found'' (DeleteConstructionSite E i orgID)"

definition site_ListByParent :: "env \<Rightarrow> uuid \<Rightarrow> uuid \<Rightarrow> construction_site list act" where
  "site_ListByParent E orgID parentID =
     call (ListConstructionSitesByParent E orgID parentID) internal_error ok"

definition site_ListRoot :: "env \<Rightarrow> uuid \<Rightarrow> construction_site list act" where
  "site_ListRoot E orgID = call (ListRootConstructionSites E orgID) internal_error ok"

definition site_UpdateCover :: "env \<Rightarrow> uuid \<Rightarrow> uuid \<Rightarrow> string option \<Rightarrow> construction_site act" where
  "site_UpdateCover E i orgID coverImagePath =
     call (UpdateConstructionSiteCover E i orgID coverImagePath)
       (or_not_found ''construction site not found'') ok"

definition site_UpdateType :: "env \<Rightarrow> uuid \<Rightarrow> uuid \<Rightarrow> string option \<Rightarrow> construction_site act" where
  "site_UpdateType E i orgID siteType =
     call (UpdateConstructionSiteType E i orgID siteType)
       (or_not_found ''construction site not found'') ok"

section \<open>Audit log\<close>

definition audit_Log :: "env \<Rightarrow> uuid \<Rightarrow> uuid \<Rightarrow> uuid \<Rightarrow> string \<Rightarrow> json option \<Rightarrow> site_audit_log act" where
  "audit_Log E orgID siteID actorUserID eventType payload =
     call (CreateSiteAuditEvent E orgID siteID
             (if actorUserID \<noteq> uuid_Nil then Some actorUserID else None) eventType
             (case payload of None \<Rightarrow> JObj [] | Some p \<Rightarrow> p))
       internal_error ok"

definition audit_ListBySite :: "env \<Rightarrow> uuid \<Rightarrow> uuid \<Rightarrow> int \<Rightarrow> int \<Rightarrow> site_audit_log list act" where
  "audit_ListBySite E siteID orgID limit offset =
     call (ListSiteAuditLogBySite E siteID orgID limit offset) internal_error ok"

end
