(* ===== verification/Storage.thy ===== *)
theory Storage
  imports Go_Text
begin

text \<open>
  \<^verbatim>\<open>internal/storage/client.go\<close>: the object store. The MinIO client is outside the repository: putting
  and removing an object are interactions with the bucket that may fail, the text of a presigned
  URL is an argument. The bucket's name is the client's only field that matters.
\<close>

record storage_client =
  sc_bucket :: string
  sc_ToLower :: "string \<Rightarrow> string"   \<comment> \<open>the Unicode tables, outside ASCII\<close>
  sc_presign :: "string \<Rightarrow> int \<Rightarrow> (string \<times> string) list \<Rightarrow> go_error + string"
    \<comment> \<open>object, lifetime, response overrides\<close>

text \<open>One interaction with the bucket.\<close>

definition bucket_op :: "env \<Rightarrow> ((string \<rightharpoonup> stored_object) \<Rightarrow> (string \<rightharpoonup> stored_object)) \<Rightarrow> unit act" where
  "bucket_op E f = State (\<lambda>w.
     let n = w_tick w; w' = w\<lparr>w_tick := Suc n\<rparr>; w'' = w'\<lparr>w_objects := f (w_objects w)\<rparr>
     in case env_store E n of
          NoFault \<Rightarrow> (Inr (), w'')
        | Rejected s \<Rightarrow> (Inl (Other s), w')
        | Lost s \<Rightarrow> (Inl (Other s), w''))"

definition objectNameFrom :: "env \<Rightarrow> storage_client \<Rightarrow> string \<Rightarrow> go_error + string" where
  "objectNameFrom E c storagePath =
     (let prefix = sc_bucket c @ ''/'' in
      if \<not> starts_with prefix storagePath
      then Inl (Other (''storage: storagePath '' @ env_quote E storagePath @
                       '' does not start with bucket '' @ env_quote E (sc_bucket c)))
      else (let objectName = drop (length prefix) storagePath in
            if objectName = []
            then Inl (Other (''storage: storagePath '' @ env_quote E storagePath @
                             '' has empty object name''))
            else Inr objectName))"

definition SafeExt :: "(string \<Rightarrow> string) \<Rightarrow> string \<Rightarrow> string" where
  "SafeExt low name =
     (let ext = ToLower low (path_Ext name) in
      if length ext \<le> 1 \<or> 10 < length ext then []
      else if list_all (\<lambda>c. byte_in 97 122 c \<or> byte_in 48 57 c) (tl ext) then ext
      else [])"

definition storage_Upload :: "env \<Rightarrow> storage_client \<Rightarrow> string \<Rightarrow> string \<Rightarrow> string \<Rightarrow> string act" where
  "storage_Upload E c content originalFilename contentType =
     State_Monad.bind State_Monad.get (\<lambda>w.
       let objectName = env_uuid_string E (env_go_uuid E (w_tick w) 0)
                          @ SafeExt (sc_ToLower c) originalFilename
       in call (bucket_op E (\<lambda>m. m(objectName \<mapsto> \<lparr>ob_content = content, ob_type = contentType\<rparr>)))
            (Wrapped (''storage: put object '' @ env_quote E objectName))
            (\<lambda>_. ok (sc_bucket c @ ''/'' @ objectName)))"

definition PresignedURLWithParams
    :: "env \<Rightarrow> storage_client \<Rightarrow> string \<Rightarrow> int \<Rightarrow> (string \<times> string) list \<Rightarrow> string act" where
  "PresignedURLWithParams E c storagePath ttl params =
     (case objectNameFrom E c storagePath of
        Inl e \<Rightarrow> fail e
      | Inr objectName \<Rightarrow>
          (case sc_presign c objectName ttl params of
             Inl e \<Rightarrow> fail (Wrapped (''storage: presign '' @ env_quote E objectName) e)
           | Inr u \<Rightarrow> ok u))"

definition PresignedURL :: "env \<Rightarrow> storage_client \<Rightarrow> string \<Rightarrow> int \<Rightarrow> string act" where
  "PresignedURL E c storagePath ttl = PresignedURLWithParams E c storagePath ttl []"

definition storage_Delete :: "env \<Rightarrow> storage_client \<Rightarrow> string \<Rightarrow> unit act" where
  "storage_Delete E c storagePath =
     (case objectNameFrom E c storagePath of
        Inl e \<Rightarrow> fail e
      | Inr objectName \<Rightarrow>
          call (bucket_op E (\<lambda>m. m(objectName := None)))
            (Wrapped (''storage: delete object '' @ env_quote E objectName)) (\<lambda>_. ok ()))"

section \<open>Names and paths\<close>

text \<open>The path that an upload returns names the object that it stored.\<close>

lemma objectNameFrom_path:
  "objectNameFrom E c (sc_bucket c @ ''/'' @ n) = (if n = [] then objectNameFrom E c (sc_bucket c @ ''/'') else Inr n)"
  by (simp add: objectNameFrom_def starts_with_def Let_def)

lemma objectNameFrom_Inr: "objectNameFrom E c p = Inr n \<Longrightarrow> p = sc_bucket c @ ''/'' @ n \<and> n \<noteq> []"
  by (auto simp: objectNameFrom_def starts_with_def Let_def split: if_splits)
     (metis append.assoc append_Cons append_Nil append_take_drop_id)+

lemma SafeExt_chars:
  assumes "SafeExt low name \<noteq> []"
  shows "\<exists>e. SafeExt low name = CHR ''.'' # e \<and> 1 \<le> length e \<and> length e \<le> 9 \<and>
    list_all (\<lambda>c. byte_in 97 122 c \<or> byte_in 48 57 c) e"
proof -
  let ?x = "path_Ext name"
  have ne: "?x \<noteq> []"
    using assms by (auto simp: SafeExt_def ToLower_def Let_def)
  then obtain cs where x: "?x = CHR ''.'' # cs" using path_Ext_dot [OF ne] by (cases ?x) auto
  have "runes ?x = [CHR ''.''] # runes cs" by (simp add: x rune_len_ascii)
  then have low: "ToLower low ?x = CHR ''.'' # ToLower low cs"
    by (simp add: ToLower_def ascii_lower_def)
  show ?thesis using assms by (auto simp: SafeExt_def Let_def low Suc_le_eq split: if_splits)
qed

end
