(* ===== verification/Document_Services.thy ===== *)
theory Document_Services
  imports Catalog_Services Storage
begin

text \<open>
  The services of documents and of their tasks: \<^verbatim>\<open>service_document.go\<close> and
  \<^verbatim>\<open>service_document_task.go\<close> of \<^verbatim>\<open>internal/service\<close>.
\<close>

section \<open>Documents\<close>

definition presignedURLTTL :: int where
  "presignedURLTTL = 15 * 60 * 1000000"

definition document_Create :: "env \<Rightarrow> create_document_params \<Rightarrow> document act" where
  "document_Create E params = call (CreateDocument E params) internal_error ok"

definition document_Get :: "env \<Rightarrow> uuid \<Rightarrow> uuid \<Rightarrow> document act" where
  "document_Get E i orgID = call (GetDocument E i orgID) (or_not_found ''document not found'') ok"

definition document_ListByOrganization :: "env \<Rightarrow> uuid \<Rightarrow> document list act" where
  "document_ListByOrganization E orgID = call (ListRootDocumentsByOrganization E orgID) internal_error ok"

definition document_ListBySite :: "env \<Rightarrow> uuid \<Rightarrow> uuid \<Rightarrow> document list act" where
  "document_ListBySite E orgID siteID = call (ListRootDocumentsBySite E orgID siteID) internal_error ok"

definition document_ListByParent :: "env \<Rightarrow> uuid \<Rightarrow> uuid \<Rightarrow> document list act" where
  "document_ListByParent E parentID orgID = call (ListDocumentsByParent E parentID orgID) internal_error ok"

definition document_Delete :: "env \<Rightarrow> uuid \<Rightarrow> uuid \<Rightarrow> unit act" where
  "document_Delete E i orgID = deleted_or_not_found ''document not found'' (DeleteDocument E i orgID)"

text \<open>Quotes, carriage returns and line feeds are dropped from the file name of a header.\<close>

definition safe_file_name :: "string \<Rightarrow> string" where
  "safe_file_name s = filter (\<lambda>c. of_char c \<notin> {34, 13, 10 :: nat}) s"

definition disposition_params :: "bool \<Rightarrow> document \<Rightarrow> (string \<times> string) list" where
  "disposition_params download doc =
     (if download
      then [(''response-content-disposition'',
             ''attachment; filename='' @ [char_of (34::nat)] @ safe_file_name (doc_file_name doc) @ [char_of (34::nat)])]
      else [])"

definition GetPresignedURL :: "env \<Rightarrow> storage_client option \<Rightarrow> uuid \<Rightarrow> uuid \<Rightarrow> bool \<Rightarrow> string act" where
  "GetPresignedURL E storage docID orgID download =
     (case storage of
        None \<Rightarrow> fail (errs_New CodeInternalError ''storage unavailable'' None)
      | Some c \<Rightarrow>
          call (GetDocumentByID E docID) (or_not_found ''document not found'') (\<lambda>doc.
            if doc_organization_id doc \<noteq> orgID
            then fail (errs_New CodeNotFound ''document not found'' None)
            else
              call (PresignedURLWithParams E c (doc_storage_path doc) presignedURLTTL
                      (disposition_params download doc))
                (\<lambda>err. errs_New CodeInternalError ''storage error'' (Some err))
                ok))"

text \<open>The validations of \<open>UpdateMeta\<close>, each skipped when its reference is not given.\<close>

definition check_kind :: "env \<Rightarrow> uuid \<Rightarrow> uuid option \<Rightarrow> unit act" where
  "check_kind E orgID contractKindID =
     (case contractKindID of
        None \<Rightarrow> ok ()
      | Some k \<Rightarrow> call (GetContractKind E k orgID)
          (\<lambda>err. if is_no_rows err
                 then errs_New CodeValidationFailed
                        ''contract kind not found or does not belong to your organization'' (Some err)
                 else internal_error err)
          (\<lambda>_. ok ()))"

definition check_role :: "env \<Rightarrow> uuid \<Rightarrow> uuid option \<Rightarrow> unit act" where
  "check_role E orgID fileRoleID =
     (case fileRoleID of
        None \<Rightarrow> ok ()
      | Some r \<Rightarrow> call (GetFileRole E r orgID)
          (\<lambda>err. if is_no_rows err
                 then errs_New CodeValidationFailed
                        ''file role not found or does not belong to your organization'' (Some err)
                 else internal_error err)
          (\<lambda>_. ok ()))"

definition check_bundle :: "env \<Rightarrow> uuid \<Rightarrow> uuid option \<Rightarrow> unit act" where
  "check_bundle E orgID bundleID =
     (case bundleID of
        None \<Rightarrow> ok ()
      | Some b \<Rightarrow> call (GetDocumentByID E b) (or_not_found ''bundle document not found'') (\<lambda>bundleDoc.
          if doc_organization_id bundleDoc \<noteq> orgID
          then fail (errs_New CodeNotFound ''bundle document not found'' None)
          else if doc_parent_id bundleDoc \<noteq> None
          then fail (errs_New CodeValidationFailed ''bundle_id must reference a root document'' None)
          else ok ()))"

definition UpdateMeta :: "env \<Rightarrow> uuid \<Rightarrow> uuid \<Rightarrow> uuid option \<Rightarrow> uuid option \<Rightarrow> uuid option \<Rightarrow> document act" where
  "UpdateMeta E i orgID contractKindID fileRoleID bundleID =
     call (check_kind E orgID contractKindID) id (\<lambda>_.
     call (check_role E orgID fileRoleID) id (\<lambda>_.
     call (check_bundle E orgID bundleID) id (\<lambda>_.
     call (UpdateDocumentMeta E i orgID contractKindID fileRoleID bundleID)
       (or_not_found ''document not found'') ok)))"

section \<open>Tasks\<close>

definition task_Create :: "env \<Rightarrow> python_client option \<Rightarrow> uuid \<Rightarrow> string \<Rightarrow> uuid \<Rightarrow> document_task act" where
  "task_Create E pythonClient documentID moduleName orgID =
     (case ValidateModule (env_quote E) moduleName of
        Inl err \<Rightarrow> fail (errs_New CodeValidationFailed
                     (''unsupported module: '' @ env_quote E moduleName) (Some err))
      | Inr _ \<Rightarrow>
          if moduleName \<noteq> moduleConvert
          then fail (errs_New CodeValidationFailed
                 (''module '' @ env_quote E moduleName @ '' cannot be created via the public API; only ''
                  @ env_quote E moduleConvert @ '' is allowed'') None)
          else
            call (CreateDocumentTask E documentID moduleName orgID)
              (\<lambda>err. if is_no_rows err then errs_New CodeNotFound ''document not found'' (Some err)
                     else if IsUniqueViolation err ''uq_document_tasks_doc_singleton''
                     then errs_New CodeConflict ''task for this module already exists'' (Some err)
                     else internal_error err)
              (\<lambda>task. case pythonClient of
                 None \<Rightarrow> ok task
               | Some process \<Rightarrow>
                   ignoring (process (task_request E task (task_module_name task)
                                (task_input_storage_path task) []))
                     (ok task)))"

definition task_Get :: "env \<Rightarrow> uuid \<Rightarrow> uuid \<Rightarrow> document_task act" where
  "task_Get E i orgID = call (GetDocumentTask E i orgID) (or_not_found ''task not found'') ok"

definition task_ListByDocument :: "env \<Rightarrow> uuid \<Rightarrow> uuid \<Rightarrow> document_task list act" where
  "task_ListByDocument E documentID orgID = call (ListTasksByDocument E documentID orgID) internal_error ok"

definition task_ListByDocuments :: "env \<Rightarrow> uuid list \<Rightarrow> uuid \<Rightarrow> document_task list act" where
  "task_ListByDocuments E documentIDs orgID = call (ListTasksByDocuments E documentIDs orgID) internal_error ok"

definition task_UpdateStatus :: "env \<Rightarrow> uuid \<Rightarrow> uuid \<Rightarrow> string \<Rightarrow> document_task act" where
  "task_UpdateStatus E i orgID status =
     call (UpdateDocumentTaskStatus E i orgID status) (or_not_found ''task not found'') ok"

definition task_Delete :: "env \<Rightarrow> uuid \<Rightarrow> uuid \<Rightarrow> unit act" where
  "task_Delete E i orgID = deleted_or_not_found ''task not found'' (DeleteDocumentTask E i orgID)"

end
