(* ===== verification/Auth_Service.thy ===== *)
theory Auth_Service
  imports Account_Services
begin

text \<open>
  \<^verbatim>\<open>internal/service/service_auth.go\<close>: login, the access and refresh tokens and their validation.
  Times are in microseconds.
\<close>

definition second :: int where "second = 1000000"
definition AccessTokenTTL :: int where "AccessTokenTTL = 15 * 60 * second"
definition RefreshTokenTTL :: int where "RefreshTokenTTL = 30 * 24 * 3600 * second"

record auth_service =
  as_accessSecret :: string
  as_refreshSecret :: string

section \<open>Claims\<close>

text \<open>
  The claims are encoded as JSON and decoded into the struct again; of the registered claims the
  code sets the expiry and the time of issue. A UUID is decoded by its own text decoder.
\<close>

record access_claims =
  ac_UserID :: uuid
  ac_OrgID :: uuid
  ac_Role :: string
  ac_ExpiresAt :: int
  ac_IssuedAt :: int

record refresh_claims =
  rc_UserID :: uuid
  rc_ExpiresAt :: int
  rc_IssuedAt :: int

definition enc_access :: "env \<Rightarrow> access_claims \<Rightarrow> json" where
  "enc_access E c = JObj
     [(''user_id'', JStr (env_uuid_string E (ac_UserID c))),
      (''org_id'', JStr (env_uuid_string E (ac_OrgID c))),
      (''role'', JStr (ac_Role c)),
      (''exp'', JInt (ac_ExpiresAt c)), (''iat'', JInt (ac_IssuedAt c))]"

definition enc_refresh :: "env \<Rightarrow> refresh_claims \<Rightarrow> json" where
  "enc_refresh E c = JObj
     [(''user_id'', JStr (env_uuid_string E (rc_UserID c))),
      (''exp'', JInt (rc_ExpiresAt c)), (''iat'', JInt (rc_IssuedAt c))]"

text \<open>A JSON string into a UUID: the text decoder runs on the string; \<open>null\<close> changes nothing.\<close>

definition dec_uuid :: "libs \<Rightarrow> json \<Rightarrow> uuid \<Rightarrow> uuid option" where
  "dec_uuid L j old = (case j of
     JStr s \<Rightarrow> (case lib_uuid_Parse L s of Inl _ \<Rightarrow> None | Inr u \<Rightarrow> Some u)
   | JNull \<Rightarrow> Some old
   | _ \<Rightarrow> None)"

definition dec_access :: "libs \<Rightarrow> json \<Rightarrow> access_claims option" where
  "dec_access L j = dec_struct (\<lambda>k v r.
     if same_name k ''user_id'' then map_option (\<lambda>x. r\<lparr>ac_UserID := x\<rparr>) (dec_uuid L v (ac_UserID r))
     else if same_name k ''org_id'' then map_option (\<lambda>x. r\<lparr>ac_OrgID := x\<rparr>) (dec_uuid L v (ac_OrgID r))
     else if same_name k ''role'' then map_option (\<lambda>x. r\<lparr>ac_Role := x\<rparr>) (dec_string v (ac_Role r))
     else if same_name k ''exp'' then map_option (\<lambda>x. r\<lparr>ac_ExpiresAt := x\<rparr>) (dec_int v (ac_ExpiresAt r))
     else if same_name k ''iat'' then map_option (\<lambda>x. r\<lparr>ac_IssuedAt := x\<rparr>) (dec_int v (ac_IssuedAt r))
     else Some r) j
     \<lparr>ac_UserID = uuid_Nil, ac_OrgID = uuid_Nil, ac_Role = [], ac_ExpiresAt = 0, ac_IssuedAt = 0\<rparr>"

definition dec_refresh :: "libs \<Rightarrow> json \<Rightarrow> refresh_claims option" where
  "dec_refresh L j = dec_struct (\<lambda>k v r.
     if same_name k ''user_id'' then map_option (\<lambda>x. r\<lparr>rc_UserID := x\<rparr>) (dec_uuid L v (rc_UserID r))
     else if same_name k ''exp'' then map_option (\<lambda>x. r\<lparr>rc_ExpiresAt := x\<rparr>) (dec_int v (rc_ExpiresAt r))
     else if same_name k ''iat'' then map_option (\<lambda>x. r\<lparr>rc_IssuedAt := x\<rparr>) (dec_int v (rc_IssuedAt r))
     else Some r) j \<lparr>rc_UserID = uuid_Nil, rc_ExpiresAt = 0, rc_IssuedAt = 0\<rparr>"

section \<open>Tokens\<close>

definition GenerateTokens :: "env \<Rightarrow> libs \<Rightarrow> auth_service \<Rightarrow> uuid \<Rightarrow> uuid \<Rightarrow> string
    \<Rightarrow> (string \<times> string) act" where
  "GenerateTokens E L s userID orgID role =
     State_Monad.bind (at_moment (lib_now L)) (\<lambda>now.
       let date = lib_NewNumericDate L;
           access = \<lparr>ac_UserID = userID, ac_OrgID = orgID, ac_Role = role,
             ac_ExpiresAt = date (now + AccessTokenTTL), ac_IssuedAt = date now\<rparr>;
           refresh = \<lparr>rc_UserID = userID, rc_ExpiresAt = date (now + RefreshTokenTTL),
             rc_IssuedAt = date now\<rparr>
       in case lib_jwt_SignedString L (as_accessSecret s) (enc_access E access) of
            Inl err \<Rightarrow> fail (internal_error err)
          | Inr accessToken \<Rightarrow>
              (case lib_jwt_SignedString L (as_refreshSecret s) (enc_refresh E refresh) of
                 Inl err \<Rightarrow> fail (internal_error err)
               | Inr refreshToken \<Rightarrow> ok (accessToken, refreshToken)))"

definition invalid_token :: go_error where
  "invalid_token = errs_New CodeUnauthorized ''invalid or expired token'' None"

text \<open>The key function: the secret for HS256, an error for any other algorithm.\<close>

definition hs256_key :: "string \<Rightarrow> string \<Rightarrow> go_error + string" where
  "hs256_key secret alg = (if alg \<noteq> ''HS256'' then Inl invalid_token else Inr secret)"

definition ValidateAccessToken :: "libs \<Rightarrow> auth_service \<Rightarrow> string \<Rightarrow> access_claims act" where
  "ValidateAccessToken L s tokenStr =
     State_Monad.bind (at_moment (lib_now L)) (\<lambda>now.
       case lib_jwt_Parse L now tokenStr (hs256_key (as_accessSecret s)) of
         Inl _ \<Rightarrow> fail invalid_token
       | Inr (j, valid) \<Rightarrow>
           (case dec_access L j of
              None \<Rightarrow> fail invalid_token
            | Some claims \<Rightarrow> if valid then ok claims else fail invalid_token))"

definition ValidateRefreshToken :: "libs \<Rightarrow> auth_service \<Rightarrow> string \<Rightarrow> refresh_claims act" where
  "ValidateRefreshToken L s tokenStr =
     State_Monad.bind (at_moment (lib_now L)) (\<lambda>now.
       case lib_jwt_Parse L now tokenStr (hs256_key (as_refreshSecret s)) of
         Inl _ \<Rightarrow> fail invalid_token
       | Inr (j, valid) \<Rightarrow>
           (case dec_refresh L j of
              None \<Rightarrow> fail invalid_token
            | Some claims \<Rightarrow> if valid then ok claims else fail invalid_token))"

section \<open>Login\<close>

text \<open>
  The comparison with the dummy hash, which only equalises the time, has no result.
\<close>

definition Login :: "env \<Rightarrow> libs \<Rightarrow> auth_service \<Rightarrow> string \<Rightarrow> string \<Rightarrow> (string \<times> string) act" where
  "Login E L s email password =
     call (GetUserByEmail E email)
       (\<lambda>err. if is_no_rows err
              then errs_New CodeUnauthorized ''invalid email or password'' None
              else internal_error err)
       (\<lambda>user.
          if \<not> lib_bcrypt_Compare L (usr_password_hash user) password
          then fail (errs_New CodeUnauthorized ''invalid email or password'' None)
          else if \<not> usr_is_active user
          then fail (errs_New CodeUnauthorized ''account is unavailable'' None)
          else if usr_role user = ''owner''
          then GenerateTokens E L s (usr_id user) uuid_Nil (usr_role user)
          else
            call (GetOrganizationByID E (pg_bytes (usr_organization_id user)))
              (\<lambda>err. if is_no_rows err
                     then errs_New CodeUnauthorized ''organization is unavailable'' None
                     else internal_error err)
              (\<lambda>org.
                 if \<not> org_is_active org
                 then fail (errs_New CodeUnauthorized ''organization is unavailable'' None)
                 else GenerateTokens E L s (usr_id user) (pg_bytes (usr_organization_id user))
                        (usr_role user)))"

definition ResolveUserForRefresh :: "env \<Rightarrow> uuid \<Rightarrow> user act" where
  "ResolveUserForRefresh E userID =
     call (GetUserByID E userID)
       (\<lambda>err. if is_no_rows err
              then errs_New CodeUnauthorized ''invalid or expired token'' (Some err)
              else internal_error err)
       ok"

end
