(* ===== verification/Http.thy ===== *)
theory Http
  imports Document_Services Auth_Service Worker_Service
begin

text \<open>
  Requests, answers and the idioms of the handlers of \<^verbatim>\<open>internal/server\<close>. What gin and \<open>net/http\<close>
  make of the bytes of a request is the record \<open>http_request\<close>; an answer is its status, the Go value
  that \<open>c.JSON\<close> encodes and the cookies it sets.
\<close>

section \<open>Requests\<close>

text \<open>
  A body is empty, or does not start with a JSON value, or does, followed by something else or not.
  \<open>ShouldBindJSON\<close> decodes the leading value, \<open>json.Unmarshal\<close> wants nothing to follow it.
\<close>

datatype http_body = NoBody | Malformed | Leading json | Whole json

fun leading_json :: "http_body \<Rightarrow> json option" where
  "leading_json (Leading j) = Some j"
| "leading_json (Whole j) = Some j"
| "leading_json _ = None"

fun whole_json :: "http_body \<Rightarrow> json option" where
  "whole_json (Whole j) = Some j"
| "whole_json _ = None"

record uploaded_file =
  uf_Filename :: string
  uf_Size :: int
  uf_ContentType :: string
  uf_Content :: "go_error + string"   \<comment> \<open>the outcome of opening it\<close>

text \<open>
  The path of a request is the list of its segments. \<open>c.FormFile\<close> depends on the limit that
  \<open>http.MaxBytesReader\<close> was given; \<open>rq_param\<close> is set by the router.
\<close>

record http_request =
  rq_method :: string
  rq_path :: "string list"
  rq_param :: "string \<Rightarrow> string"
  rq_query :: "string \<Rightarrow> string option"
  rq_cookie :: "string \<Rightarrow> string option"
  rq_header :: "string \<Rightarrow> string"
  rq_body :: http_body
  rq_FormFile :: "int \<Rightarrow> string \<Rightarrow> go_error + uploaded_file"   \<comment> \<open>limit of the body, name of the field\<close>
  rq_postform :: "string \<Rightarrow> string"

text \<open>\<open>c.Query\<close>: an absent parameter is empty.\<close>

definition query :: "http_request \<Rightarrow> string \<Rightarrow> string" where
  "query r k = pg_text (rq_query r k)"

text \<open>What the middleware stores in the context of a request.\<close>

record gin_context =
  cx_userID :: "uuid option"
  cx_orgID :: "uuid option"
  cx_role :: "string option"

definition empty_context :: gin_context where
  "empty_context = \<lparr>cx_userID = None, cx_orgID = None, cx_role = None\<rparr>"

section \<open>Answers\<close>

record cookie =
  ck_name :: string
  ck_value :: string
  ck_maxAge :: int
  ck_path :: string
  ck_secure :: bool
  ck_httpOnly :: bool

record extraction_request_response =
  er_ID :: uuid
  er_DocumentID :: uuid
  er_Status :: string
  er_Anonymize :: bool
  er_Questions :: "string list"
  er_ResolvedSchema :: "extraction_schema_entry list"
  er_Answers :: "extraction_answer list"
  er_ErrorMessage :: "string option"
  er_CreatedAt :: int
  er_UpdatedAt :: int

record invitation_response =
  ir_ID :: uuid
  ir_OrganizationID :: uuid
  ir_Email :: string
  ir_Role :: string
  ir_InvitedBy :: "uuid option"
  ir_ExpiresAt :: int
  ir_AcceptedAt :: "int option"
  ir_CreatedAt :: int

record user_profile =
  up_ID :: uuid
  up_OrganizationID :: "uuid option"
  up_Email :: string
  up_FullName :: string
  up_Role :: string
  up_IsActive :: bool

datatype payload =
    PEmpty
  | PText string
  | PError code string
  | PMessage string
  | PHealth string
  | PRegistered uuid uuid "string option"
  | POrganization organization
  | PUserRow user_row
  | PUserRows "user_row list"
  | PCreatedUser user_profile int
  | PProfile user_profile
  | PInvitation invitation_response "string option"
  | PInvitations "invitation_response list"
  | PSite construction_site
  | PSites "construction_site list"
  | PAuditLog "site_audit_log list"
  | PDocument document
  | PDocuments "document list"
  | PUrl string
  | PTask document_task
  | PTasks "document_task list"
  | PExtractionCreated uuid string
  | PExtraction extraction_request_response
  | PEntry catalog_entry
  | PEntries "catalog_entry list"
  | PSession comparison_session
  | PSessions "comparison_session list"
  | PSessionDocuments comparison_session "comparison_session_document list"
  | PPlace comparison_session_document

record http_response =
  rs_status :: nat
  rs_body :: payload
  rs_cookies :: "cookie list"

type_synonym answer = "(world, http_response) state"

definition answer :: "nat \<Rightarrow> payload \<Rightarrow> answer" where
  "answer st b = State_Monad.return \<lparr>rs_status = st, rs_body = b, rs_cookies = []\<rparr>"

definition error_answer :: "go_error \<Rightarrow> http_response" where
  "error_answer e = (let r = respondWithError e in
     \<lparr>rs_status = resp_status r, rs_body = PError (resp_code r) (resp_message r), rs_cookies = []\<rparr>)"

definition respond :: "go_error \<Rightarrow> answer" where
  "respond e = State_Monad.return (error_answer e)"

text \<open>Cookies set before the answer is written.\<close>

definition with_cookies :: "cookie list \<Rightarrow> answer \<Rightarrow> answer" where
  "with_cookies cs m = State_Monad.bind m (\<lambda>r. State_Monad.return (r\<lparr>rs_cookies := cs @ rs_cookies r\<rparr>))"

section \<open>Idioms\<close>

text \<open>\<^verbatim>\<open>x, err := m; if err != nil { s.respondWithError(c, err); return }\<close>\<close>

definition attempt :: "'a act \<Rightarrow> ('a \<Rightarrow> answer) \<Rightarrow> answer" where
  "attempt m k = State_Monad.bind m (\<lambda>r. case r of Inl e \<Rightarrow> respond e | Inr x \<Rightarrow> k x)"

definition invalid :: "string \<Rightarrow> go_error option \<Rightarrow> go_error" where
  "invalid msg e = errs_New CodeValidationFailed msg e"

definition unless :: "bool \<Rightarrow> go_error \<Rightarrow> answer \<Rightarrow> answer" where
  "unless c e k = (if c then respond e else k)"

definition unauthorized :: go_error where
  "unauthorized = errs_New CodeUnauthorized ''unauthorized'' None"

definition orgIDFromContext :: "gin_context \<Rightarrow> (uuid \<Rightarrow> answer) \<Rightarrow> answer" where
  "orgIDFromContext cx k = (case cx_orgID cx of None \<Rightarrow> respond unauthorized | Some o' \<Rightarrow> k o')"

definition userIDFromContext :: "gin_context \<Rightarrow> (uuid \<Rightarrow> answer) \<Rightarrow> answer" where
  "userIDFromContext cx k = (case cx_userID cx of None \<Rightarrow> respond unauthorized | Some u \<Rightarrow> k u)"

definition isOwner :: "gin_context \<Rightarrow> bool" where
  "isOwner cx \<longleftrightarrow> cx_role cx = Some ''owner''"

definition requireAdminOrOwner :: "gin_context \<Rightarrow> answer \<Rightarrow> answer" where
  "requireAdminOrOwner cx k =
     (if cx_role cx = Some ''admin'' \<or> cx_role cx = Some ''owner'' then k
      else respond (errs_New CodeForbidden ''admin or owner role required'' None))"

definition parseUUID :: "libs \<Rightarrow> string \<Rightarrow> string \<Rightarrow> (uuid \<Rightarrow> answer) \<Rightarrow> answer" where
  "parseUUID L msg raw k =
     (case lib_uuid_Parse L raw of Inl err \<Rightarrow> respond (invalid msg (Some err)) | Inr u \<Rightarrow> k u)"

text \<open>An optional UUID in a body: absent, or parsed.\<close>

definition parseOptionalUUID :: "libs \<Rightarrow> string \<Rightarrow> string option \<Rightarrow> (uuid option \<Rightarrow> answer) \<Rightarrow> answer" where
  "parseOptionalUUID L msg raw k =
     (case raw of None \<Rightarrow> k None | Some s \<Rightarrow> parseUUID L msg s (\<lambda>u. k (Some u)))"

text \<open>
  \<open>c.ShouldBindJSON\<close>: decode the leading value, then check the struct's \<open>binding\<close> tags; any failure
  is answered with the same message.
\<close>

definition bind_json :: "(json \<Rightarrow> 'r option) \<Rightarrow> ('r \<Rightarrow> bool) \<Rightarrow> string \<Rightarrow> http_request \<Rightarrow> ('r \<Rightarrow> answer) \<Rightarrow> answer" where
  "bind_json dec valid msg req k =
     (case Option.bind (leading_json (rq_body req)) dec of
        None \<Rightarrow> respond (invalid msg (Some json_error))
      | Some r \<Rightarrow> (if valid r then k r else respond (invalid msg (Some json_error))))"

section \<open>Decoding of bodies\<close>

text \<open>A pointer field: \<open>null\<close> gives nil, any other value is decoded into a new zero value.\<close>

definition dec_ptr :: "(json \<Rightarrow> 'a \<Rightarrow> 'a option) \<Rightarrow> 'a \<Rightarrow> json \<Rightarrow> 'a option option" where
  "dec_ptr d z j = (if j = JNull then Some None else map_option Some (d j z))"

fun dec_bool :: "json \<Rightarrow> bool \<Rightarrow> bool option" where
  "dec_bool (JBool b) old = Some b"
| "dec_bool JNull old = Some old"
| "dec_bool _ old = None"

definition dec_int16 :: "json \<Rightarrow> int \<Rightarrow> int option" where
  "dec_int16 j old = (case dec_int j old of
     None \<Rightarrow> None | Some n \<Rightarrow> (if - (2 ^ 15) \<le> n \<and> n < 2 ^ 15 then Some n else None))"

text \<open>One field of a struct: the member of that name, through the field's decoder.\<close>

definition field :: "string \<Rightarrow> (json \<Rightarrow> 'r \<Rightarrow> 'r option) \<Rightarrow> (string \<Rightarrow> json \<Rightarrow> 'r \<Rightarrow> 'r option)
    \<Rightarrow> string \<Rightarrow> json \<Rightarrow> 'r \<Rightarrow> 'r option" where
  "field name d rest k v r = (if same_name k name then d v r else rest k v r)"

definition no_field :: "string \<Rightarrow> json \<Rightarrow> 'r \<Rightarrow> 'r option" where
  "no_field k v r = Some r"

section \<open>The server\<close>

record server =
  sv_env :: env
  sv_libs :: libs
  sv_AppEnv :: string
  sv_ServiceToken :: string
  sv_auth :: auth_service
  sv_storage :: "storage_client option"
  sv_python :: "python_client option"
  sv_worker :: "worker_service option"

definition HealthCheck :: "http_request \<Rightarrow> gin_context \<Rightarrow> answer" where
  "HealthCheck req cx = answer 200 (PHealth ''ok'')"

section \<open>Running the idioms\<close>

lemma run_answer [simp]: "run_state (answer st b) w = (\<lparr>rs_status = st, rs_body = b, rs_cookies = []\<rparr>, w)"
  by (simp add: answer_def)

lemma run_respond [simp]: "run_state (respond e) w = (error_answer e, w)"
  by (simp add: respond_def)

lemma run_attempt: "run_state (attempt m k) w =
    (case run_state m w of (Inl e, w') \<Rightarrow> (error_answer e, w') | (Inr x, w') \<Rightarrow> run_state (k x) w')"
  by (auto simp: attempt_def split: prod.splits sum.splits)

lemma run_with_cookies: "run_state (with_cookies cs m) w =
    (case run_state m w of (r, w') \<Rightarrow> (r\<lparr>rs_cookies := cs @ rs_cookies r\<rparr>, w'))"
  by (auto simp: with_cookies_def split: prod.splits)

end
