(* ===== verification/Http_Accounts.thy ===== *)
theory Http_Accounts
  imports Http
begin

text \<open>
  The handlers of authentication, organizations, users and invitations: \<^verbatim>\<open>handler_auth.go\<close>,
  \<^verbatim>\<open>handler_organization.go\<close>, \<^verbatim>\<open>handler_owner.go\<close>, \<^verbatim>\<open>handler_user.go\<close> and
  \<^verbatim>\<open>handler_invitation.go\<close> of \<^verbatim>\<open>internal/server\<close>. A method \<open>M\<close> of \<open>Server\<close> is \<open>Server_M\<close>.
\<close>

section \<open>Authentication\<close>

record login_request =
  lr_Email :: string
  lr_Password :: string

definition dec_login :: "json \<Rightarrow> login_request option" where
  "dec_login j = dec_struct
     (field ''email'' (\<lambda>v r. map_option (\<lambda>x. r\<lparr>lr_Email := x\<rparr>) (dec_string v (lr_Email r)))
     (field ''password'' (\<lambda>v r. map_option (\<lambda>x. r\<lparr>lr_Password := x\<rparr>) (dec_string v (lr_Password r)))
      no_field)) j \<lparr>lr_Email = [], lr_Password = []\<rparr>"

definition valid_login :: "libs \<Rightarrow> login_request \<Rightarrow> bool" where
  "valid_login L r \<longleftrightarrow> lr_Email r \<noteq> [] \<and> lib_email_ok L (lr_Email r) \<and> lr_Password r \<noteq> []"

definition secure_cookies :: "server \<Rightarrow> bool" where
  "secure_cookies S \<longleftrightarrow> sv_AppEnv S \<noteq> ''local''"

definition access_cookie :: "server \<Rightarrow> string \<Rightarrow> int \<Rightarrow> cookie" where
  "access_cookie S v age = \<lparr>ck_name = ''access_token'', ck_value = v, ck_maxAge = age,
     ck_path = ''/'', ck_secure = secure_cookies S, ck_httpOnly = True\<rparr>"

definition refresh_cookie :: "server \<Rightarrow> string \<Rightarrow> int \<Rightarrow> cookie" where
  "refresh_cookie S v age = \<lparr>ck_name = ''refresh_token'', ck_value = v, ck_maxAge = age,
     ck_path = ''/api/v1/auth'', ck_secure = secure_cookies S, ck_httpOnly = True\<rparr>"

definition setAuthCookies :: "server \<Rightarrow> string \<Rightarrow> string \<Rightarrow> answer \<Rightarrow> answer" where
  "setAuthCookies S accessToken refreshToken = with_cookies
     [access_cookie S accessToken (AccessTokenTTL div second),
      refresh_cookie S refreshToken (RefreshTokenTTL div second)]"

definition clearAuthCookies :: "server \<Rightarrow> answer \<Rightarrow> answer" where
  "clearAuthCookies S = with_cookies [access_cookie S [] (-1), refresh_cookie S [] (-1)]"

definition Server_Login :: "server \<Rightarrow> http_request \<Rightarrow> gin_context \<Rightarrow> answer" where
  "Server_Login S req cx =
     bind_json dec_login (valid_login (sv_libs S)) ''invalid request payload'' req (\<lambda>r.
     attempt (Login (sv_env S) (sv_libs S) (sv_auth S) (lr_Email r) (lr_Password r)) (\<lambda>(access, refresh).
     setAuthCookies S access refresh (answer 200 (PMessage ''logged in''))))"

text \<open>An error of the refresh clears the cookies only when it is an authentication failure.\<close>

definition Server_RefreshTokens :: "server \<Rightarrow> http_request \<Rightarrow> gin_context \<Rightarrow> answer" where
  "Server_RefreshTokens S req cx =
     (case rq_cookie req ''refresh_token'' of
        None \<Rightarrow> respond (errs_New CodeUnauthorized ''missing refresh token''
                          (Some (Other ''http: named cookie not present'')))
      | Some refreshToken \<Rightarrow>
          State_Monad.bind (ValidateRefreshToken (sv_libs S) (sv_auth S) refreshToken) (\<lambda>v.
          case v of
            Inl err \<Rightarrow> clearAuthCookies S (respond err)
          | Inr claims \<Rightarrow>
              State_Monad.bind (ResolveUserForRefresh (sv_env S) (rc_UserID claims)) (\<lambda>u.
              case u of
                Inl err \<Rightarrow>
                  (if map_option fst (as_app_err err) = Some CodeUnauthorized
                   then clearAuthCookies S (respond err) else respond err)
              | Inr user \<Rightarrow>
                  attempt (GenerateTokens (sv_env S) (sv_libs S) (sv_auth S) (usr_id user)
                            (pg_bytes (usr_organization_id user)) (usr_role user)) (\<lambda>(access, refresh).
                  setAuthCookies S access refresh (answer 200 (PMessage ''tokens refreshed''))))))"

definition Server_Logout :: "server \<Rightarrow> http_request \<Rightarrow> gin_context \<Rightarrow> answer" where
  "Server_Logout S req cx = clearAuthCookies S (answer 200 (PMessage ''logged out''))"

section \<open>Organizations\<close>

definition dec_register :: "json \<Rightarrow> register_params option" where
  "dec_register j = dec_struct
     (field ''name'' (\<lambda>v r. map_option (\<lambda>x. r\<lparr>rp_OrgName := x\<rparr>) (dec_string v (rp_OrgName r)))
     (field ''inn'' (\<lambda>v r. map_option (\<lambda>x. r\<lparr>rp_INN := x\<rparr>) (dec_string v (rp_INN r)))
     (field ''email'' (\<lambda>v r. map_option (\<lambda>x. r\<lparr>rp_Email := x\<rparr>) (dec_string v (rp_Email r)))
     (field ''password'' (\<lambda>v r. map_option (\<lambda>x. r\<lparr>rp_Password := x\<rparr>) (dec_string v (rp_Password r)))
     (field ''full_name'' (\<lambda>v r. map_option (\<lambda>x. r\<lparr>rp_FullName := x\<rparr>) (dec_string v (rp_FullName r)))
      no_field))))) j
     \<lparr>rp_OrgName = [], rp_INN = [], rp_Email = [], rp_Password = [], rp_FullName = []\<rparr>"

definition valid_register :: "libs \<Rightarrow> register_params \<Rightarrow> bool" where
  "valid_register L r \<longleftrightarrow> rp_OrgName r \<noteq> [] \<and> rp_Email r \<noteq> [] \<and> lib_email_ok L (rp_Email r) \<and>
     rp_Password r \<noteq> [] \<and> 8 \<le> RuneCountInString (rp_Password r) \<and> rp_FullName r \<noteq> []"

definition Server_RegisterOrganization :: "server \<Rightarrow> http_request \<Rightarrow> gin_context \<Rightarrow> answer" where
  "Server_RegisterOrganization S req cx =
     bind_json dec_register (valid_register (sv_libs S)) ''invalid request'' req (\<lambda>r.
     attempt (Register (sv_env S) (sv_libs S) r) (\<lambda>(org, user).
     State_Monad.bind (GenerateTokens (sv_env S) (sv_libs S) (sv_auth S)
                         (usr_id user) (org_id org) (usr_role user)) (\<lambda>t.
     case t of
       Inl _ \<Rightarrow> answer 201 (PRegistered (org_id org) (usr_id user)
                             (Some ''registered successfully, please sign in''))
     | Inr (access, refresh) \<Rightarrow>
         setAuthCookies S access refresh (answer 201 (PRegistered (org_id org) (usr_id user) None)))))"

text \<open>A tenant's token reaches its own organization only, the owner's any.\<close>

definition own_organization :: "gin_context \<Rightarrow> uuid \<Rightarrow> uuid \<Rightarrow> answer \<Rightarrow> answer" where
  "own_organization cx i orgID =
     unless (\<not> isOwner cx \<and> i \<noteq> orgID) (errs_New CodeForbidden ''forbidden'' None)"

definition Server_GetOrganization :: "server \<Rightarrow> http_request \<Rightarrow> gin_context \<Rightarrow> answer" where
  "Server_GetOrganization S req cx =
     orgIDFromContext cx (\<lambda>orgID.
     parseUUID (sv_libs S) ''invalid id'' (rq_param req ''id'') (\<lambda>i.
     own_organization cx i orgID (
     attempt (organization_GetByID (sv_env S) i) (\<lambda>org. answer 200 (POrganization org)))))"

record update_organization_request =
  uo_Name :: string
  uo_INN :: "string option"

definition dec_update_organization :: "json \<Rightarrow> update_organization_request option" where
  "dec_update_organization j = dec_struct
     (field ''name'' (\<lambda>v r. map_option (\<lambda>x. r\<lparr>uo_Name := x\<rparr>) (dec_string v (uo_Name r)))
     (field ''inn'' (\<lambda>v r. map_option (\<lambda>x. r\<lparr>uo_INN := x\<rparr>) (dec_ptr dec_string [] v))
      no_field)) j \<lparr>uo_Name = [], uo_INN = None\<rparr>"

definition Server_UpdateOrganization :: "server \<Rightarrow> http_request \<Rightarrow> gin_context \<Rightarrow> answer" where
  "Server_UpdateOrganization S req cx =
     orgIDFromContext cx (\<lambda>orgID.
     requireAdminOrOwner cx (
     parseUUID (sv_libs S) ''invalid id'' (rq_param req ''id'') (\<lambda>i.
     own_organization cx i orgID (
     bind_json dec_update_organization (\<lambda>r. uo_Name r \<noteq> []) ''invalid request'' req (\<lambda>r.
     attempt (organization_Update (sv_env S) i (uo_Name r) (uo_INN r)) (\<lambda>org.
     answer 200 (POrganization org)))))))"

definition Server_DeleteOrganization :: "server \<Rightarrow> http_request \<Rightarrow> gin_context \<Rightarrow> answer" where
  "Server_DeleteOrganization S req cx =
     orgIDFromContext cx (\<lambda>orgID.
     requireAdminOrOwner cx (
     parseUUID (sv_libs S) ''invalid id'' (rq_param req ''id'') (\<lambda>i.
     own_organization cx i orgID (
     attempt (organization_Delete (sv_env S) i) (\<lambda>_.
     clearAuthCookies S (answer 204 PEmpty))))))"

section \<open>Users of any organization, for the owner\<close>

record update_user_request =
  ub_Role :: "string option"
  ub_IsActive :: "bool option"

definition dec_update_user :: "json \<Rightarrow> update_user_request option" where
  "dec_update_user j = dec_struct
     (field ''role'' (\<lambda>v r. map_option (\<lambda>x. r\<lparr>ub_Role := x\<rparr>) (dec_ptr dec_string [] v))
     (field ''is_active'' (\<lambda>v r. map_option (\<lambda>x. r\<lparr>ub_IsActive := x\<rparr>) (dec_ptr dec_bool False v))
      no_field)) j \<lparr>ub_Role = None, ub_IsActive = None\<rparr>"

definition update_user_from :: "update_user_request \<Rightarrow> uuid \<Rightarrow> uuid \<Rightarrow> update_user_params" where
  "update_user_from r userID orgID = \<lparr>uu_UserID = userID, uu_OrgID = orgID, uu_Role = ub_Role r,
     uu_Active = ub_IsActive r\<rparr>"

definition nothing_to_update :: "update_user_request \<Rightarrow> answer \<Rightarrow> answer" where
  "nothing_to_update r = unless (ub_Role r = None \<and> ub_IsActive r = None)
     (errs_New CodeValidationFailed ''nothing to update'' None)"

definition Server_OwnerListOrganizationUsers :: "server \<Rightarrow> http_request \<Rightarrow> gin_context \<Rightarrow> answer" where
  "Server_OwnerListOrganizationUsers S req cx =
     parseUUID (sv_libs S) ''invalid organization id'' (rq_param req ''id'') (\<lambda>orgID.
     attempt (user_List (sv_env S) orgID) (\<lambda>us. answer 200 (PUserRows us)))"

definition Server_OwnerUpdateOrganizationUser :: "server \<Rightarrow> http_request \<Rightarrow> gin_context \<Rightarrow> answer" where
  "Server_OwnerUpdateOrganizationUser S req cx =
     parseUUID (sv_libs S) ''invalid organization id'' (rq_param req ''id'') (\<lambda>orgID.
     parseUUID (sv_libs S) ''invalid user id'' (rq_param req ''user_id'') (\<lambda>userID.
     bind_json dec_update_user (\<lambda>_. True) ''invalid request'' req (\<lambda>r.
     nothing_to_update r (
     attempt (user_Update (sv_env S) (update_user_from r userID orgID)) (\<lambda>u.
     answer 200 (PUserRow u))))))"

definition Server_OwnerDeactivateOrganizationUser :: "server \<Rightarrow> http_request \<Rightarrow> gin_context \<Rightarrow> answer" where
  "Server_OwnerDeactivateOrganizationUser S req cx =
     parseUUID (sv_libs S) ''invalid organization id'' (rq_param req ''id'') (\<lambda>orgID.
     parseUUID (sv_libs S) ''invalid user id'' (rq_param req ''user_id'') (\<lambda>userID.
     attempt (Deactivate (sv_env S) userID orgID) (\<lambda>_. answer 204 PEmpty)))"

section \<open>Users of the caller's organization\<close>

record create_user_request =
  cr_Email :: string
  cr_Password :: string
  cr_FullName :: string
  cr_Role :: string

definition dec_create_user :: "json \<Rightarrow> create_user_request option" where
  "dec_create_user j = dec_struct
     (field ''email'' (\<lambda>v r. map_option (\<lambda>x. r\<lparr>cr_Email := x\<rparr>) (dec_string v (cr_Email r)))
     (field ''password'' (\<lambda>v r. map_option (\<lambda>x. r\<lparr>cr_Password := x\<rparr>) (dec_string v (cr_Password r)))
     (field ''full_name'' (\<lambda>v r. map_option (\<lambda>x. r\<lparr>cr_FullName := x\<rparr>) (dec_string v (cr_FullName r)))
     (field ''role'' (\<lambda>v r. map_option (\<lambda>x. r\<lparr>cr_Role := x\<rparr>) (dec_string v (cr_Role r)))
      no_field)))) j \<lparr>cr_Email = [], cr_Password = [], cr_FullName = [], cr_Role = []\<rparr>"

definition valid_create_user :: "libs \<Rightarrow> create_user_request \<Rightarrow> bool" where
  "valid_create_user L r \<longleftrightarrow> cr_Email r \<noteq> [] \<and> lib_email_ok L (cr_Email r) \<and> cr_Password r \<noteq> [] \<and>
     8 \<le> RuneCountInString (cr_Password r) \<and> cr_FullName r \<noteq> [] \<and> cr_Role r \<in> {''admin'', ''member''}"

definition create_user_from :: "uuid \<Rightarrow> create_user_request \<Rightarrow> create_user_params" where
  "create_user_from orgID r = \<lparr>cu_OrgID = orgID, cu_Email = cr_Email r, cu_Password = cr_Password r,
     cu_FullName = cr_FullName r, cu_Role = cr_Role r\<rparr>"

definition created_profile :: "user \<Rightarrow> user_profile" where
  "created_profile u = \<lparr>up_ID = usr_id u, up_OrganizationID = usr_organization_id u,
     up_Email = usr_email u, up_FullName = usr_full_name u, up_Role = usr_role u,
     up_IsActive = usr_is_active u\<rparr>"

definition row_profile :: "user_row \<Rightarrow> user_profile" where
  "row_profile u = \<lparr>up_ID = ur_ID u, up_OrganizationID = ur_OrganizationID u, up_Email = ur_Email u,
     up_FullName = ur_FullName u, up_Role = ur_Role u, up_IsActive = ur_IsActive u\<rparr>"

definition Server_CreateUser :: "server \<Rightarrow> http_request \<Rightarrow> gin_context \<Rightarrow> answer" where
  "Server_CreateUser S req cx =
     orgIDFromContext cx (\<lambda>orgID.
     bind_json dec_create_user (valid_create_user (sv_libs S)) ''invalid request'' req (\<lambda>r.
     attempt (user_Create (sv_env S) (sv_libs S) (create_user_from orgID r)) (\<lambda>u.
     answer 201 (PCreatedUser (created_profile u) (usr_created_at u)))))"

definition Server_ListUsers :: "server \<Rightarrow> http_request \<Rightarrow> gin_context \<Rightarrow> answer" where
  "Server_ListUsers S req cx =
     orgIDFromContext cx (\<lambda>orgID.
     attempt (user_List (sv_env S) orgID) (\<lambda>us. answer 200 (PUserRows us)))"

definition Server_UpdateUser :: "server \<Rightarrow> http_request \<Rightarrow> gin_context \<Rightarrow> answer" where
  "Server_UpdateUser S req cx =
     orgIDFromContext cx (\<lambda>orgID.
     userIDFromContext cx (\<lambda>callerID.
     parseUUID (sv_libs S) ''invalid user id'' (rq_param req ''id'') (\<lambda>userID.
     unless (userID = callerID) (errs_New CodeForbidden ''cannot modify your own account'' None) (
     bind_json dec_update_user (\<lambda>_. True) ''invalid request'' req (\<lambda>r.
     nothing_to_update r (
     attempt (user_Update (sv_env S) (update_user_from r userID orgID)) (\<lambda>u.
     answer 200 (PUserRow u))))))))"

definition Server_DeactivateUser :: "server \<Rightarrow> http_request \<Rightarrow> gin_context \<Rightarrow> answer" where
  "Server_DeactivateUser S req cx =
     orgIDFromContext cx (\<lambda>orgID.
     userIDFromContext cx (\<lambda>callerID.
     parseUUID (sv_libs S) ''invalid user id'' (rq_param req ''id'') (\<lambda>userID.
     unless (userID = callerID) (errs_New CodeForbidden ''cannot deactivate your own account'' None) (
     attempt (Deactivate (sv_env S) userID orgID) (\<lambda>_. answer 204 PEmpty)))))"

definition Server_GetMe :: "server \<Rightarrow> http_request \<Rightarrow> gin_context \<Rightarrow> answer" where
  "Server_GetMe S req cx =
     userIDFromContext cx (\<lambda>userID.
     orgIDFromContext cx (\<lambda>orgID.
     attempt (GetProfile (sv_env S) userID orgID) (\<lambda>u. answer 200 (PProfile (row_profile u)))))"

section \<open>Invitations\<close>

definition toInvitationResponse :: "user_invitation \<Rightarrow> invitation_response" where
  "toInvitationResponse v = \<lparr>ir_ID = inv_id v, ir_OrganizationID = inv_organization_id v,
     ir_Email = inv_email v, ir_Role = inv_role v, ir_InvitedBy = inv_invited_by v,
     ir_ExpiresAt = inv_expires_at v, ir_AcceptedAt = inv_accepted_at v,
     ir_CreatedAt = inv_created_at v\<rparr>"

record create_invitation_request =
  ci_Email :: string
  ci_Role :: string

definition dec_create_invitation :: "json \<Rightarrow> create_invitation_request option" where
  "dec_create_invitation j = dec_struct
     (field ''email'' (\<lambda>v r. map_option (\<lambda>x. r\<lparr>ci_Email := x\<rparr>) (dec_string v (ci_Email r)))
     (field ''role'' (\<lambda>v r. map_option (\<lambda>x. r\<lparr>ci_Role := x\<rparr>) (dec_string v (ci_Role r)))
      no_field)) j \<lparr>ci_Email = [], ci_Role = []\<rparr>"

definition Server_ListInvitations :: "server \<Rightarrow> http_request \<Rightarrow> gin_context \<Rightarrow> answer" where
  "Server_ListInvitations S req cx =
     orgIDFromContext cx (\<lambda>orgID.
     attempt (invitation_ListByOrg (sv_env S) orgID) (\<lambda>invs.
     answer 200 (PInvitations (map toInvitationResponse invs))))"

text \<open>\<open>hex.EncodeToString\<close>.\<close>

definition hex_encode :: "string \<Rightarrow> string" where
  "hex_encode s = concat (map (\<lambda>c. [hex_digit (of_char c div 16), hex_digit (of_char c mod 16)]) s)"

definition invitation_lifetime :: int where
  "invitation_lifetime = 72 * 3600 * second"

definition Server_CreateInvitation :: "server \<Rightarrow> http_request \<Rightarrow> gin_context \<Rightarrow> answer" where
  "Server_CreateInvitation S req cx =
     orgIDFromContext cx (\<lambda>orgID.
     userIDFromContext cx (\<lambda>userID.
     bind_json dec_create_invitation (\<lambda>r. ci_Email r \<noteq> [] \<and> lib_email_ok (sv_libs S) (ci_Email r))
       ''invalid request'' req (\<lambda>r.
     let role = (if ci_Role r = [] then ''member'' else ci_Role r) in
     unless (role \<notin> {''admin'', ''member''})
       (errs_New CodeValidationFailed ''invalid role: must be admin or member'' None) (
     State_Monad.bind (at_moment (\<lambda>n. lib_rand_Read (sv_libs S) n 32)) (\<lambda>rnd.
     case rnd of
       Inl err \<Rightarrow> respond (errs_New CodeInternalError ''failed to generate token'' (Some err))
     | Inr tokenBytes \<Rightarrow>
         let rawToken = hex_encode tokenBytes;
             tokenHash = hex_encode (lib_sha256 (sv_libs S) rawToken)
         in State_Monad.bind (at_moment (lib_now (sv_libs S))) (\<lambda>now.
            attempt (invitation_Create (sv_env S) orgID (ci_Email r) role userID tokenHash
                       (now + invitation_lifetime)) (\<lambda>v.
            answer 201 (PInvitation (toInvitationResponse v)
              (if sv_AppEnv S = ''local'' then Some rawToken else None)))))))))"

definition Server_DeleteInvitation :: "server \<Rightarrow> http_request \<Rightarrow> gin_context \<Rightarrow> answer" where
  "Server_DeleteInvitation S req cx =
     orgIDFromContext cx (\<lambda>orgID.
     parseUUID (sv_libs S) ''invalid id'' (rq_param req ''id'') (\<lambda>i.
     attempt (invitation_Delete (sv_env S) i orgID) (\<lambda>_. answer 204 PEmpty)))"

section \<open>Lengths\<close>

lemma hex_encode_length: "length (hex_encode s) = 2 * length s"
  by (induction s) (auto simp: hex_encode_def)

end
