(* ===== verification/Http_Sites.thy ===== *)
theory Http_Sites
  imports Http
begin

text \<open>
  The handlers of construction sites, of their audit log, of the two catalogs and of comparison
  sessions: \<^verbatim>\<open>handler_construction_site.go\<close>, \<^verbatim>\<open>handler_site_audit.go\<close>,
  \<^verbatim>\<open>handler_contract_kind.go\<close>, \<^verbatim>\<open>handler_file_role.go\<close> and \<^verbatim>\<open>handler_comparison_session.go\<close>
  of \<^verbatim>\<open>internal/server\<close>.
\<close>

section \<open>Construction sites\<close>

record create_site_request =
  sr_ParentID :: "string option"
  sr_Name :: string
  sr_Status :: string

definition dec_create_site :: "json \<Rightarrow> create_site_request option" where
  "dec_create_site j = dec_struct
     (field ''parent_id'' (\<lambda>v r. map_option (\<lambda>x. r\<lparr>sr_ParentID := x\<rparr>) (dec_ptr dec_string [] v))
     (field ''name'' (\<lambda>v r. map_option (\<lambda>x. r\<lparr>sr_Name := x\<rparr>) (dec_string v (sr_Name r)))
     (field ''status'' (\<lambda>v r. map_option (\<lambda>x. r\<lparr>sr_Status := x\<rparr>) (dec_string v (sr_Status r)))
      no_field))) j \<lparr>sr_ParentID = None, sr_Name = [], sr_Status = []\<rparr>"

definition valid_site_status :: "string \<Rightarrow> answer \<Rightarrow> answer" where
  "valid_site_status status = unless (status \<notin> {''active'', ''completed'', ''archived''})
     (errs_New CodeValidationFailed ''invalid status: must be active, completed or archived'' None)"

text \<open>The parent must be a site of the same organization.\<close>

definition check_parent :: "server \<Rightarrow> uuid \<Rightarrow> string option \<Rightarrow> (uuid option \<Rightarrow> answer) \<Rightarrow> answer" where
  "check_parent S orgID raw k =
     (case raw of
        None \<Rightarrow> k None
      | Some s \<Rightarrow> parseUUID (sv_libs S) ''invalid parent_id'' s (\<lambda>parentID.
          attempt (site_Get (sv_env S) parentID orgID) (\<lambda>_. k (Some parentID))))"

definition Server_CreateConstructionSite :: "server \<Rightarrow> http_request \<Rightarrow> gin_context \<Rightarrow> answer" where
  "Server_CreateConstructionSite S req cx =
     orgIDFromContext cx (\<lambda>orgID.
     userIDFromContext cx (\<lambda>userID.
     bind_json dec_create_site (\<lambda>r. sr_Name r \<noteq> []) ''invalid request'' req (\<lambda>r.
     let status = (if sr_Status r = [] then ''active'' else sr_Status r) in
     valid_site_status status (
     check_parent S orgID (sr_ParentID r) (\<lambda>parent.
     attempt (site_Create (sv_env S) \<lparr>sp_OrganizationID = orgID, sp_ParentID = parent,
                sp_Name = sr_Name r, sp_Status = status, sp_CreatedBy = Some userID\<rparr>) (\<lambda>site.
     answer 201 (PSite site)))))))"

definition Server_ListConstructionSites :: "server \<Rightarrow> http_request \<Rightarrow> gin_context \<Rightarrow> answer" where
  "Server_ListConstructionSites S req cx =
     orgIDFromContext cx (\<lambda>orgID.
     attempt (site_ListByOrganization (sv_env S) orgID) (\<lambda>xs. answer 200 (PSites xs)))"

definition Server_GetConstructionSite :: "server \<Rightarrow> http_request \<Rightarrow> gin_context \<Rightarrow> answer" where
  "Server_GetConstructionSite S req cx =
     orgIDFromContext cx (\<lambda>orgID.
     parseUUID (sv_libs S) ''invalid id'' (rq_param req ''id'') (\<lambda>i.
     attempt (site_Get (sv_env S) i orgID) (\<lambda>x. answer 200 (PSite x))))"

record update_site_request =
  us_Name :: string
  us_Status :: string

definition dec_update_site :: "json \<Rightarrow> update_site_request option" where
  "dec_update_site j = dec_struct
     (field ''name'' (\<lambda>v r. map_option (\<lambda>x. r\<lparr>us_Name := x\<rparr>) (dec_string v (us_Name r)))
     (field ''status'' (\<lambda>v r. map_option (\<lambda>x. r\<lparr>us_Status := x\<rparr>) (dec_string v (us_Status r)))
      no_field)) j \<lparr>us_Name = [], us_Status = []\<rparr>"

definition Server_UpdateConstructionSite :: "server \<Rightarrow> http_request \<Rightarrow> gin_context \<Rightarrow> answer" where
  "Server_UpdateConstructionSite S req cx =
     orgIDFromContext cx (\<lambda>orgID.
     parseUUID (sv_libs S) ''invalid id'' (rq_param req ''id'') (\<lambda>i.
     bind_json dec_update_site (\<lambda>r. us_Name r \<noteq> [] \<and> us_Status r \<noteq> []) ''invalid request'' req (\<lambda>r.
     valid_site_status (us_Status r) (
     attempt (site_Update (sv_env S) i orgID (us_Name r) (us_Status r)) (\<lambda>x.
     answer 200 (PSite x))))))"

definition Server_DeleteConstructionSite :: "server \<Rightarrow> http_request \<Rightarrow> gin_context \<Rightarrow> answer" where
  "Server_DeleteConstructionSite S req cx =
     orgIDFromContext cx (\<lambda>orgID.
     parseUUID (sv_libs S) ''invalid id'' (rq_param req ''id'') (\<lambda>i.
     attempt (site_Delete (sv_env S) i orgID) (\<lambda>_. answer 204 PEmpty)))"

text \<open>
  The two patches of one nullable field: the whole body must be an object (or \<open>null\<close>) with a member
  of exactly that name, so that a missing member is told apart from \<open>null\<close>.
\<close>

fun raw_members :: "json \<Rightarrow> (string \<times> json) list option" where
  "raw_members (JObj ms) = Some ms"
| "raw_members JNull = Some []"
| "raw_members _ = None"

definition bind_nullable :: "string \<Rightarrow> string \<Rightarrow> http_request \<Rightarrow> (string option \<Rightarrow> answer) \<Rightarrow> answer" where
  "bind_nullable name missing req k =
     (case whole_json (rq_body req) of
        None \<Rightarrow> respond (invalid ''invalid request'' (Some json_error))
      | Some j \<Rightarrow>
          (case raw_members j of
             None \<Rightarrow> respond (invalid ''invalid request'' (Some json_error))
           | Some ms \<Rightarrow>
               if name \<notin> set (map fst ms) then respond (errs_New CodeValidationFailed missing None)
               else (case dec_struct (field name (\<lambda>v r. dec_ptr dec_string [] v) no_field) j None of
                       None \<Rightarrow> respond (invalid ''invalid request'' (Some json_error))
                     | Some v \<Rightarrow> k v)))"

definition Server_UpdateConstructionSiteCover :: "server \<Rightarrow> http_request \<Rightarrow> gin_context \<Rightarrow> answer" where
  "Server_UpdateConstructionSiteCover S req cx =
     orgIDFromContext cx (\<lambda>orgID.
     parseUUID (sv_libs S) ''invalid id'' (rq_param req ''id'') (\<lambda>i.
     bind_nullable ''cover_image_path'' ''cover_image_path field is required'' req (\<lambda>p.
     attempt (site_UpdateCover (sv_env S) i orgID p) (\<lambda>x. answer 200 (PSite x)))))"

definition Server_UpdateConstructionSiteType :: "server \<Rightarrow> http_request \<Rightarrow> gin_context \<Rightarrow> answer" where
  "Server_UpdateConstructionSiteType S req cx =
     orgIDFromContext cx (\<lambda>orgID.
     parseUUID (sv_libs S) ''invalid id'' (rq_param req ''id'') (\<lambda>i.
     bind_nullable ''site_type'' ''site_type field is required'' req (\<lambda>t.
     attempt (site_UpdateType (sv_env S) i orgID t) (\<lambda>x. answer 200 (PSite x)))))"

definition Server_ListRootConstructionSites :: "server \<Rightarrow> http_request \<Rightarrow> gin_context \<Rightarrow> answer" where
  "Server_ListRootConstructionSites S req cx =
     orgIDFromContext cx (\<lambda>orgID.
     attempt (site_ListRoot (sv_env S) orgID) (\<lambda>xs. answer 200 (PSites xs)))"

definition Server_ListConstructionSitesByParent :: "server \<Rightarrow> http_request \<Rightarrow> gin_context \<Rightarrow> answer" where
  "Server_ListConstructionSitesByParent S req cx =
     orgIDFromContext cx (\<lambda>orgID.
     parseUUID (sv_libs S) ''invalid id'' (rq_param req ''id'') (\<lambda>parentID.
     attempt (site_ListByParent (sv_env S) orgID parentID) (\<lambda>xs. answer 200 (PSites xs))))"

section \<open>Audit log\<close>

text \<open>A numeric query parameter with a default for an absent or empty one.\<close>

definition int_param :: "string \<Rightarrow> int \<Rightarrow> (int \<Rightarrow> bool) \<Rightarrow> int option" where
  "int_param raw dflt bad =
     (if raw = [] then Some dflt
      else (case parse_int32 raw of None \<Rightarrow> None | Some v \<Rightarrow> if bad v then None else Some v))"

definition Server_ListSiteAuditLog :: "server \<Rightarrow> http_request \<Rightarrow> gin_context \<Rightarrow> answer" where
  "Server_ListSiteAuditLog S req cx =
     orgIDFromContext cx (\<lambda>orgID.
     parseUUID (sv_libs S) ''invalid site id'' (rq_param req ''id'') (\<lambda>siteID.
     attempt (site_Get (sv_env S) siteID orgID) (\<lambda>_.
     case int_param (query req ''limit'') 50 (\<lambda>v. v < 1 \<or> 200 < v) of
       None \<Rightarrow> respond (errs_New CodeValidationFailed ''limit must be between 1 and 200'' None)
     | Some limit \<Rightarrow>
         (case int_param (query req ''offset'') 0 (\<lambda>v. v < 0) of
            None \<Rightarrow> respond (errs_New CodeValidationFailed ''offset must be non-negative'' None)
          | Some offset \<Rightarrow>
              attempt (audit_ListBySite (sv_env S) siteID orgID limit offset) (\<lambda>es.
              answer 200 (PAuditLog es))))))"

lemma int_param_bounds:
  "int_param raw dflt bad = Some v \<Longrightarrow> \<not> bad dflt \<Longrightarrow> \<not> bad v"
  by (auto simp: int_param_def split: if_splits option.splits)

section \<open>The catalogs\<close>

record catalog_request =
  ct_DisplayName :: string
  ct_SortOrder :: "int option"
  ct_IsActive :: "bool option"

definition dec_catalog :: "json \<Rightarrow> catalog_request option" where
  "dec_catalog j = dec_struct
     (field ''display_name'' (\<lambda>v r. map_option (\<lambda>x. r\<lparr>ct_DisplayName := x\<rparr>) (dec_string v (ct_DisplayName r)))
     (field ''sort_order'' (\<lambda>v r. map_option (\<lambda>x. r\<lparr>ct_SortOrder := x\<rparr>) (dec_ptr dec_int16 0 v))
     (field ''is_active'' (\<lambda>v r. map_option (\<lambda>x. r\<lparr>ct_IsActive := x\<rparr>) (dec_ptr dec_bool False v))
      no_field))) j \<lparr>ct_DisplayName = [], ct_SortOrder = None, ct_IsActive = None\<rparr>"

definition bind_catalog :: "http_request \<Rightarrow> (catalog_request \<Rightarrow> answer) \<Rightarrow> answer" where
  "bind_catalog = bind_json dec_catalog (\<lambda>r. ct_DisplayName r \<noteq> []) ''invalid request''"

text \<open>An update wants both optional fields.\<close>

definition required_fields :: "catalog_request \<Rightarrow> (int \<Rightarrow> bool \<Rightarrow> answer) \<Rightarrow> answer" where
  "required_fields r k =
     (case ct_SortOrder r of
        None \<Rightarrow> respond (errs_New CodeValidationFailed ''sort_order is required'' None)
      | Some so \<Rightarrow>
          (case ct_IsActive r of
             None \<Rightarrow> respond (errs_New CodeValidationFailed ''is_active is required'' None)
           | Some act \<Rightarrow> k so act))"

definition Server_ListContractKinds :: "server \<Rightarrow> http_request \<Rightarrow> gin_context \<Rightarrow> answer" where
  "Server_ListContractKinds S req cx =
     orgIDFromContext cx (\<lambda>orgID.
     attempt (kind_List (sv_env S) orgID) (\<lambda>xs. answer 200 (PEntries xs)))"

definition Server_CreateContractKind :: "server \<Rightarrow> http_request \<Rightarrow> gin_context \<Rightarrow> answer" where
  "Server_CreateContractKind S req cx =
     orgIDFromContext cx (\<lambda>orgID.
     bind_catalog req (\<lambda>r.
     attempt (kind_Create (sv_env S) orgID (ct_DisplayName r)
                (case ct_SortOrder r of None \<Rightarrow> 0 | Some n \<Rightarrow> n)
                (case ct_IsActive r of None \<Rightarrow> True | Some b \<Rightarrow> b)) (\<lambda>x.
     answer 201 (PEntry x))))"

definition Server_GetContractKind :: "server \<Rightarrow> http_request \<Rightarrow> gin_context \<Rightarrow> answer" where
  "Server_GetContractKind S req cx =
     orgIDFromContext cx (\<lambda>orgID.
     parseUUID (sv_libs S) ''invalid id'' (rq_param req ''id'') (\<lambda>i.
     attempt (kind_Get (sv_env S) i orgID) (\<lambda>x. answer 200 (PEntry x))))"

definition Server_UpdateContractKind :: "server \<Rightarrow> http_request \<Rightarrow> gin_context \<Rightarrow> answer" where
  "Server_UpdateContractKind S req cx =
     orgIDFromContext cx (\<lambda>orgID.
     parseUUID (sv_libs S) ''invalid id'' (rq_param req ''id'') (\<lambda>i.
     bind_catalog req (\<lambda>r.
     required_fields r (\<lambda>so act.
     attempt (kind_Update (sv_env S) i orgID (ct_DisplayName r) so act) (\<lambda>x.
     answer 200 (PEntry x))))))"

definition Server_DeleteContractKind :: "server \<Rightarrow> http_request \<Rightarrow> gin_context \<Rightarrow> answer" where
  "Server_DeleteContractKind S req cx =
     orgIDFromContext cx (\<lambda>orgID.
     parseUUID (sv_libs S) ''invalid id'' (rq_param req ''id'') (\<lambda>i.
     attempt (kind_Delete (sv_env S) i orgID) (\<lambda>_. answer 204 PEmpty)))"

definition Server_ListFileRoles :: "server \<Rightarrow> http_request \<Rightarrow> gin_context \<Rightarrow> answer" where
  "Server_ListFileRoles S req cx =
     orgIDFromContext cx (\<lambda>orgID.
     attempt (role_List (sv_env S) orgID) (\<lambda>xs. answer 200 (PEntries xs)))"

definition Server_CreateFileRole :: "server \<Rightarrow> http_request \<Rightarrow> gin_context \<Rightarrow> answer" where
  "Server_CreateFileRole S req cx =
     orgIDFromContext cx (\<lambda>orgID.
     bind_catalog req (\<lambda>r.
     attempt (role_Create (sv_env S) orgID (ct_DisplayName r)
                (case ct_SortOrder r of None \<Rightarrow> 0 | Some n \<Rightarrow> n)
                (case ct_IsActive r of None \<Rightarrow> True | Some b \<Rightarrow> b)) (\<lambda>x.
     answer 201 (PEntry x))))"

definition Server_GetFileRole :: "server \<Rightarrow> http_request \<Rightarrow> gin_context \<Rightarrow> answer" where
  "Server_GetFileRole S req cx =
     orgIDFromContext cx (\<lambda>orgID.
     parseUUID (sv_libs S) ''invalid id'' (rq_param req ''id'') (\<lambda>i.
     attempt (role_Get (sv_env S) i orgID) (\<lambda>x. answer 200 (PEntry x))))"

definition Server_UpdateFileRole :: "server \<Rightarrow> http_request \<Rightarrow> gin_context \<Rightarrow> answer" where
  "Server_UpdateFileRole S req cx =
     orgIDFromContext cx (\<lambda>orgID.
     parseUUID (sv_libs S) ''invalid id'' (rq_param req ''id'') (\<lambda>i.
     bind_catalog req (\<lambda>r.
     required_fields r (\<lambda>so act.
     attempt (role_Update (sv_env S) i orgID (ct_DisplayName r) so act) (\<lambda>x.
     answer 200 (PEntry x))))))"

definition Server_DeleteFileRole :: "server \<Rightarrow> http_request \<Rightarrow> gin_context \<Rightarrow> answer" where
  "Server_DeleteFileRole S req cx =
     orgIDFromContext cx (\<lambda>orgID.
     parseUUID (sv_libs S) ''invalid id'' (rq_param req ''id'') (\<lambda>i.
     attempt (role_Delete (sv_env S) i orgID) (\<lambda>_. answer 204 PEmpty)))"

section \<open>Comparison sessions\<close>

record create_session_request =
  cq_Name :: "string option"
  cq_ContractKindID :: "string option"

definition dec_create_session :: "json \<Rightarrow> create_session_request option" where
  "dec_create_session j = dec_struct
     (field ''name'' (\<lambda>v r. map_option (\<lambda>x. r\<lparr>cq_Name := x\<rparr>) (dec_ptr dec_string [] v))
     (field ''contract_kind_id'' (\<lambda>v r. map_option (\<lambda>x. r\<lparr>cq_ContractKindID := x\<rparr>) (dec_ptr dec_string [] v))
      no_field)) j \<lparr>cq_Name = None, cq_ContractKindID = None\<rparr>"

record add_document_request =
  ad_DocumentID :: string
  ad_Position :: "int option"

definition dec_add_document :: "json \<Rightarrow> add_document_request option" where
  "dec_add_document j = dec_struct
     (field ''document_id'' (\<lambda>v r. map_option (\<lambda>x. r\<lparr>ad_DocumentID := x\<rparr>) (dec_string v (ad_DocumentID r)))
     (field ''position'' (\<lambda>v r. map_option (\<lambda>x. r\<lparr>ad_Position := x\<rparr>) (dec_ptr dec_int16 0 v))
      no_field)) j \<lparr>ad_DocumentID = [], ad_Position = None\<rparr>"

definition Server_ListComparisonSessions :: "server \<Rightarrow> http_request \<Rightarrow> gin_context \<Rightarrow> answer" where
  "Server_ListComparisonSessions S req cx =
     orgIDFromContext cx (\<lambda>orgID.
     attempt (comparison_ListByOrg (sv_env S) orgID) (\<lambda>xs. answer 200 (PSessions xs)))"

definition Server_CreateComparisonSession :: "server \<Rightarrow> http_request \<Rightarrow> gin_context \<Rightarrow> answer" where
  "Server_CreateComparisonSession S req cx =
     orgIDFromContext cx (\<lambda>orgID.
     userIDFromContext cx (\<lambda>userID.
     bind_json dec_create_session (\<lambda>_. True) ''invalid request'' req (\<lambda>r.
     parseOptionalUUID (sv_libs S) ''invalid contract_kind_id'' (cq_ContractKindID r) (\<lambda>kind.
     attempt (comparison_Create (sv_env S) orgID userID (cq_Name r) kind) (\<lambda>x.
     answer 201 (PSession x))))))"

definition Server_GetComparisonSession :: "server \<Rightarrow> http_request \<Rightarrow> gin_context \<Rightarrow> answer" where
  "Server_GetComparisonSession S req cx =
     orgIDFromContext cx (\<lambda>orgID.
     parseUUID (sv_libs S) ''invalid id'' (rq_param req ''id'') (\<lambda>i.
     attempt (comparison_Get (sv_env S) i orgID) (\<lambda>session.
     attempt (comparison_ListDocuments (sv_env S) i orgID) (\<lambda>docs.
     answer 200 (PSessionDocuments session docs)))))"

definition Server_DeleteComparisonSession :: "server \<Rightarrow> http_request \<Rightarrow> gin_context \<Rightarrow> answer" where
  "Server_DeleteComparisonSession S req cx =
     orgIDFromContext cx (\<lambda>orgID.
     parseUUID (sv_libs S) ''invalid id'' (rq_param req ''id'') (\<lambda>i.
     attempt (comparison_Delete (sv_env S) i orgID) (\<lambda>_. answer 204 PEmpty)))"

definition Server_AddDocumentToSession :: "server \<Rightarrow> http_request \<Rightarrow> gin_context \<Rightarrow> answer" where
  "Server_AddDocumentToSession S req cx =
     orgIDFromContext cx (\<lambda>orgID.
     parseUUID (sv_libs S) ''invalid session id'' (rq_param req ''id'') (\<lambda>sessionID.
     attempt (comparison_Get (sv_env S) sessionID orgID) (\<lambda>_.
     bind_json dec_add_document (\<lambda>r. ad_DocumentID r \<noteq> []) ''invalid request'' req (\<lambda>r.
     parseUUID (sv_libs S) ''invalid document_id'' (ad_DocumentID r) (\<lambda>documentID.
     attempt (AddDocument (sv_env S) sessionID documentID orgID
                (case ad_Position r of None \<Rightarrow> 0 | Some n \<Rightarrow> n)) (\<lambda>x.
     answer 201 (PPlace x)))))))"

definition Server_RemoveDocumentFromSession :: "server \<Rightarrow> http_request \<Rightarrow> gin_context \<Rightarrow> answer" where
  "Server_RemoveDocumentFromSession S req cx =
     orgIDFromContext cx (\<lambda>orgID.
     parseUUID (sv_libs S) ''invalid session id'' (rq_param req ''id'') (\<lambda>sessionID.
     attempt (comparison_Get (sv_env S) sessionID orgID) (\<lambda>_.
     parseUUID (sv_libs S) ''invalid document_id'' (rq_param req ''doc_id'') (\<lambda>documentID.
     attempt (RemoveDocument (sv_env S) sessionID documentID orgID) (\<lambda>_. answer 204 PEmpty)))))"

end
