(* ===== verification/Http_Documents.thy ===== *)
theory Http_Documents
  imports Http
begin

text \<open>
  The handlers of documents, of their tasks, of extraction requests and of the Python worker:
  \<^verbatim>\<open>handler_document.go\<close>, \<^verbatim>\<open>handler_document_task.go\<close>, \<^verbatim>\<open>handler_extraction.go\<close>,
  \<^verbatim>\<open>handler_extraction_request.go\<close> and \<^verbatim>\<open>handler_worker.go\<close> of \<^verbatim>\<open>internal/server\<close>.
\<close>

section \<open>Documents\<close>

definition maxFileSize :: int where "maxFileSize = 100 * 2 ^ 20"
definition maxRequestBodySize :: int where "maxRequestBodySize = maxFileSize + 2 ^ 20"

record create_document_request =
  dr_SiteID :: "string option"
  dr_FileName :: string
  dr_StoragePath :: string
  dr_MimeType :: "string option"
  dr_FileSizeBytes :: "int option"

definition dec_create_document :: "json \<Rightarrow> create_document_request option" where
  "dec_create_document j = dec_struct
     (field ''site_id'' (\<lambda>v r. map_option (\<lambda>x. r\<lparr>dr_SiteID := x\<rparr>) (dec_ptr dec_string [] v))
     (field ''file_name'' (\<lambda>v r. map_option (\<lambda>x. r\<lparr>dr_FileName := x\<rparr>) (dec_string v (dr_FileName r)))
     (field ''storage_path'' (\<lambda>v r. map_option (\<lambda>x. r\<lparr>dr_StoragePath := x\<rparr>) (dec_string v (dr_StoragePath r)))
     (field ''mime_type'' (\<lambda>v r. map_option (\<lambda>x. r\<lparr>dr_MimeType := x\<rparr>) (dec_ptr dec_string [] v))
     (field ''file_size_bytes'' (\<lambda>v r. map_option (\<lambda>x. r\<lparr>dr_FileSizeBytes := x\<rparr>) (dec_ptr dec_int 0 v))
      no_field))))) j
     \<lparr>dr_SiteID = None, dr_FileName = [], dr_StoragePath = [], dr_MimeType = None, dr_FileSizeBytes = None\<rparr>"

text \<open>The site of a document must be one of the caller's organization.\<close>

definition check_site :: "server \<Rightarrow> uuid \<Rightarrow> string option \<Rightarrow> (uuid option \<Rightarrow> answer) \<Rightarrow> answer" where
  "check_site S orgID raw k =
     (case raw of
        None \<Rightarrow> k None
      | Some s \<Rightarrow> parseUUID (sv_libs S) ''invalid site_id'' s (\<lambda>i.
          attempt (site_Get (sv_env S) i orgID) (\<lambda>_. k (Some i))))"

definition Server_CreateDocument :: "server \<Rightarrow> http_request \<Rightarrow> gin_context \<Rightarrow> answer" where
  "Server_CreateDocument S req cx =
     orgIDFromContext cx (\<lambda>orgID.
     userIDFromContext cx (\<lambda>userID.
     bind_json dec_create_document (\<lambda>r. dr_FileName r \<noteq> [] \<and> dr_StoragePath r \<noteq> []) ''invalid request'' req (\<lambda>r.
     check_site S orgID (dr_SiteID r) (\<lambda>site.
     unless (case dr_FileSizeBytes r of None \<Rightarrow> False | Some n \<Rightarrow> n < 0)
       (errs_New CodeValidationFailed ''file_size_bytes must be non-negative'' None) (
     attempt (document_Create (sv_env S) \<lparr>cd_OrganizationID = orgID, cd_SiteID = site,
                cd_UploadedBy = userID, cd_ParentID = None, cd_FileName = dr_FileName r,
                cd_StoragePath = dr_StoragePath r, cd_MimeType = dr_MimeType r,
                cd_FileSizeBytes = dr_FileSizeBytes r, cd_ArtifactKind = None\<rparr>) (\<lambda>doc.
     answer 201 (PDocument doc)))))))"

definition Server_ListDocuments :: "server \<Rightarrow> http_request \<Rightarrow> gin_context \<Rightarrow> answer" where
  "Server_ListDocuments S req cx =
     orgIDFromContext cx (\<lambda>orgID.
     if query req ''parent_id'' \<noteq> [] then
       parseUUID (sv_libs S) ''invalid parent_id'' (query req ''parent_id'') (\<lambda>parentID.
       attempt (document_Get (sv_env S) parentID orgID) (\<lambda>_.
       attempt (document_ListByParent (sv_env S) parentID orgID) (\<lambda>ds. answer 200 (PDocuments ds))))
     else if query req ''site_id'' \<noteq> [] then
       parseUUID (sv_libs S) ''invalid site_id'' (query req ''site_id'') (\<lambda>siteID.
       attempt (document_ListBySite (sv_env S) orgID siteID) (\<lambda>ds. answer 200 (PDocuments ds)))
     else
       attempt (document_ListByOrganization (sv_env S) orgID) (\<lambda>ds. answer 200 (PDocuments ds)))"

definition Server_GetDocument :: "server \<Rightarrow> http_request \<Rightarrow> gin_context \<Rightarrow> answer" where
  "Server_GetDocument S req cx =
     orgIDFromContext cx (\<lambda>orgID.
     parseUUID (sv_libs S) ''invalid id'' (rq_param req ''id'') (\<lambda>i.
     attempt (document_Get (sv_env S) i orgID) (\<lambda>d. answer 200 (PDocument d))))"

definition Server_DeleteDocument :: "server \<Rightarrow> http_request \<Rightarrow> gin_context \<Rightarrow> answer" where
  "Server_DeleteDocument S req cx =
     orgIDFromContext cx (\<lambda>orgID.
     parseUUID (sv_libs S) ''invalid id'' (rq_param req ''id'') (\<lambda>i.
     attempt (document_Delete (sv_env S) i orgID) (\<lambda>_. answer 204 PEmpty)))"

definition Server_GetDocumentPresignedURL :: "server \<Rightarrow> http_request \<Rightarrow> gin_context \<Rightarrow> answer" where
  "Server_GetDocumentPresignedURL S req cx =
     orgIDFromContext cx (\<lambda>orgID.
     parseUUID (sv_libs S) ''invalid id'' (rq_param req ''id'') (\<lambda>i.
     unless (query req ''download'' \<notin> {[], ''true'', ''false''})
       (errs_New CodeValidationFailed ''invalid download param: expected true or false'' None) (
     attempt (GetPresignedURL (sv_env S) (sv_storage S) i orgID (query req ''download'' = ''true'')) (\<lambda>u.
     answer 200 (PUrl u)))))"

text \<open>The name of an uploaded file, with the directories of either kind stripped.\<close>

definition upload_name :: "uploaded_file \<Rightarrow> string" where
  "upload_name f = TrimSpace (path_Base (replace_char (char_of (92::nat)) ''/'' (uf_Filename f)))"

definition form_error :: "server \<Rightarrow> go_error \<Rightarrow> go_error" where
  "form_error S err =
     (if ErrMissingFile \<in> set (err_chain err)
      then errs_New CodeValidationFailed ''file is required'' (Some err)
      else if MaxBytesError \<in> set (err_chain err) \<or>
              has_substring ''request body too large'' (error_text (env_error_text (sv_env S)) err)
      then errs_New CodeValidationFailed ''file too large (max 100 MiB)'' (Some err)
      else errs_New CodeInternalError ''cannot parse upload'' (Some err))"

text \<open>A failed insertion removes the stored object again, whatever comes of the removal.\<close>

definition create_or_clean :: "server \<Rightarrow> storage_client \<Rightarrow> create_document_params \<Rightarrow> answer" where
  "create_or_clean S c params =
     State_Monad.bind (document_Create (sv_env S) params) (\<lambda>r.
       case r of
         Inl err \<Rightarrow> ignoring (storage_Delete (sv_env S) c (cd_StoragePath params)) (respond err)
       | Inr doc \<Rightarrow> answer 201 (PDocument doc))"

text \<open>What is stored and inserted, after the checks of the request.\<close>

definition content_type :: "uploaded_file \<Rightarrow> string" where
  "content_type f = (if uf_ContentType f = [] then ''application/octet-stream'' else uf_ContentType f)"

definition upload_params :: "uuid \<Rightarrow> uuid \<Rightarrow> uuid option \<Rightarrow> uploaded_file \<Rightarrow> string \<Rightarrow> create_document_params" where
  "upload_params o' u site f path = \<lparr>cd_OrganizationID = o', cd_SiteID = site, cd_UploadedBy = u,
     cd_ParentID = None, cd_FileName = upload_name f, cd_StoragePath = path,
     cd_MimeType = Some (content_type f), cd_FileSizeBytes = Some (uf_Size f), cd_ArtifactKind = None\<rparr>"

definition store_and_create :: "server \<Rightarrow> storage_client \<Rightarrow> uuid \<Rightarrow> uuid \<Rightarrow> uuid option \<Rightarrow> uploaded_file \<Rightarrow> string \<Rightarrow> answer" where
  "store_and_create S c o' u site f content =
     attempt (call (storage_Upload (sv_env S) c content (upload_name f) (content_type f))
         (\<lambda>err. errs_New CodeInternalError ''upload failed'' (Some err)) ok)
       (\<lambda>path. create_or_clean S c (upload_params o' u site f path))"

definition Server_UploadDocument :: "server \<Rightarrow> http_request \<Rightarrow> gin_context \<Rightarrow> answer" where
  "Server_UploadDocument S req cx =
     (case sv_storage S of
        None \<Rightarrow> respond (errs_New CodeInternalError ''storage unavailable'' None)
      | Some c \<Rightarrow>
          orgIDFromContext cx (\<lambda>orgID.
          userIDFromContext cx (\<lambda>userID.
          case rq_FormFile req maxRequestBodySize ''file'' of
            Inl err \<Rightarrow> respond (form_error S err)
          | Inr f \<Rightarrow>
              let fileName = upload_name f in
              unless (fileName \<in> {[], ''.'', ''..''})
                (errs_New CodeValidationFailed ''invalid file name'' None) (
              unless (maxFileSize < uf_Size f)
                (errs_New CodeValidationFailed ''file too large (max 100 MiB)'' None) (
              check_site S orgID (let s = rq_postform req ''site_id'' in if s = [] then None else Some s) (\<lambda>site.
              case uf_Content f of
                Inl err \<Rightarrow> respond (errs_New CodeInternalError ''cannot open uploaded file'' (Some err))
              | Inr content \<Rightarrow>
                  store_and_create S c orgID userID site f content))))))"

record update_meta_request =
  um_ContractKindID :: "string option"
  um_FileRoleID :: "string option"
  um_BundleID :: "string option"

definition dec_update_meta :: "json \<Rightarrow> update_meta_request option" where
  "dec_update_meta j = dec_struct
     (field ''contract_kind_id'' (\<lambda>v r. map_option (\<lambda>x. r\<lparr>um_ContractKindID := x\<rparr>) (dec_ptr dec_string [] v))
     (field ''file_role_id'' (\<lambda>v r. map_option (\<lambda>x. r\<lparr>um_FileRoleID := x\<rparr>) (dec_ptr dec_string [] v))
     (field ''bundle_id'' (\<lambda>v r. map_option (\<lambda>x. r\<lparr>um_BundleID := x\<rparr>) (dec_ptr dec_string [] v))
      no_field))) j \<lparr>um_ContractKindID = None, um_FileRoleID = None, um_BundleID = None\<rparr>"

definition Server_UpdateDocumentMeta :: "server \<Rightarrow> http_request \<Rightarrow> gin_context \<Rightarrow> answer" where
  "Server_UpdateDocumentMeta S req cx =
     orgIDFromContext cx (\<lambda>orgID.
     parseUUID (sv_libs S) ''invalid id'' (rq_param req ''id'') (\<lambda>i.
     bind_json dec_update_meta (\<lambda>_. True) ''invalid request'' req (\<lambda>r.
     parseOptionalUUID (sv_libs S) ''invalid contract_kind_id'' (um_ContractKindID r) (\<lambda>kind.
     parseOptionalUUID (sv_libs S) ''invalid file_role_id'' (um_FileRoleID r) (\<lambda>role.
     parseOptionalUUID (sv_libs S) ''invalid bundle_id'' (um_BundleID r) (\<lambda>bundle.
     attempt (UpdateMeta (sv_env S) i orgID kind role bundle) (\<lambda>d. answer 200 (PDocument d))))))))"

section \<open>Tasks\<close>

record create_task_request =
  tr_DocumentID :: string
  tr_ModuleName :: string

definition dec_create_task :: "json \<Rightarrow> create_task_request option" where
  "dec_create_task j = dec_struct
     (field ''document_id'' (\<lambda>v r. map_option (\<lambda>x. r\<lparr>tr_DocumentID := x\<rparr>) (dec_string v (tr_DocumentID r)))
     (field ''module_name'' (\<lambda>v r. map_option (\<lambda>x. r\<lparr>tr_ModuleName := x\<rparr>) (dec_string v (tr_ModuleName r)))
      no_field)) j \<lparr>tr_DocumentID = [], tr_ModuleName = []\<rparr>"

definition Server_CreateDocumentTask :: "server \<Rightarrow> http_request \<Rightarrow> gin_context \<Rightarrow> answer" where
  "Server_CreateDocumentTask S req cx =
     orgIDFromContext cx (\<lambda>orgID.
     bind_json dec_create_task (\<lambda>r. tr_DocumentID r \<noteq> [] \<and> tr_ModuleName r \<noteq> []) ''invalid request'' req (\<lambda>r.
     parseUUID (sv_libs S) ''invalid document_id'' (tr_DocumentID r) (\<lambda>docID.
     attempt (task_Create (sv_env S) (sv_python S) docID (tr_ModuleName r) orgID) (\<lambda>t.
     answer 201 (PTask t)))))"

text \<open>The loop that parses the identifiers of a list, up to the first that does not parse.\<close>

fun parse_uuids :: "libs \<Rightarrow> string list \<Rightarrow> go_error + uuid list" where
  "parse_uuids L [] = Inr []"
| "parse_uuids L (p # ps) =
     (case lib_uuid_Parse L p of
        Inl e \<Rightarrow> Inl e
      | Inr u \<Rightarrow> (case parse_uuids L ps of Inl e \<Rightarrow> Inl e | Inr us \<Rightarrow> Inr (u # us)))"

definition list_parts :: "string \<Rightarrow> string list" where
  "list_parts s = filter (\<lambda>t. t \<noteq> []) (map TrimSpace (split_on (CHR '','') s))"

definition Server_ListDocumentTasks :: "server \<Rightarrow> http_request \<Rightarrow> gin_context \<Rightarrow> answer" where
  "Server_ListDocumentTasks S req cx =
     orgIDFromContext cx (\<lambda>orgID.
     case map_option TrimSpace (rq_query req ''document_ids'') of
       Some docIDsStr \<Rightarrow>
         if rq_query req ''document_id'' \<noteq> None
         then respond (errs_New CodeValidationFailed ''use document_id or document_ids, not both'' None)
         else if docIDsStr = []
         then respond (errs_New CodeValidationFailed ''document_ids cannot be empty'' None)
         else
           let parts = list_parts docIDsStr in
           if parts = []
           then respond (errs_New CodeValidationFailed ''document_ids cannot be empty'' None)
           else if 100 < length parts
           then respond (errs_New CodeValidationFailed ''too many document_ids (max 100)'' None)
           else (case parse_uuids (sv_libs S) parts of
                   Inl err \<Rightarrow> respond (errs_New CodeValidationFailed
                                 ''invalid document_id in document_ids'' (Some err))
                 | Inr ids \<Rightarrow> attempt (task_ListByDocuments (sv_env S) ids orgID) (\<lambda>ts. answer 200 (PTasks ts)))
     | None \<Rightarrow>
         (case map_option TrimSpace (rq_query req ''document_id'') of
            None \<Rightarrow> respond (errs_New CodeValidationFailed
                      ''document_id or document_ids query param is required'' None)
          | Some docIDStr \<Rightarrow>
              parseUUID (sv_libs S) ''invalid document_id'' docIDStr (\<lambda>docID.
              attempt (task_ListByDocument (sv_env S) docID orgID) (\<lambda>ts. answer 200 (PTasks ts)))))"

definition Server_GetDocumentTask :: "server \<Rightarrow> http_request \<Rightarrow> gin_context \<Rightarrow> answer" where
  "Server_GetDocumentTask S req cx =
     orgIDFromContext cx (\<lambda>orgID.
     parseUUID (sv_libs S) ''invalid id'' (rq_param req ''id'') (\<lambda>i.
     attempt (task_Get (sv_env S) i orgID) (\<lambda>t. answer 200 (PTask t))))"

definition validTaskStatuses :: "string list" where
  "validTaskStatuses = [''pending'', ''processing'', ''completed'', ''failed'']"

definition dec_status_only :: "json \<Rightarrow> string option" where
  "dec_status_only j = dec_struct (field ''status'' dec_string no_field) j []"

definition Server_UpdateDocumentTaskStatus :: "server \<Rightarrow> http_request \<Rightarrow> gin_context \<Rightarrow> answer" where
  "Server_UpdateDocumentTaskStatus S req cx =
     orgIDFromContext cx (\<lambda>orgID.
     parseUUID (sv_libs S) ''invalid id'' (rq_param req ''id'') (\<lambda>i.
     bind_json dec_status_only (\<lambda>s. s \<noteq> []) ''invalid request'' req (\<lambda>status.
     unless (status \<notin> set validTaskStatuses)
       (errs_New CodeValidationFailed ''invalid status: must be pending, processing, completed or failed'' None) (
     attempt (task_UpdateStatus (sv_env S) i orgID status) (\<lambda>t. answer 200 (PTask t))))))"

definition Server_DeleteDocumentTask :: "server \<Rightarrow> http_request \<Rightarrow> gin_context \<Rightarrow> answer" where
  "Server_DeleteDocumentTask S req cx =
     orgIDFromContext cx (\<lambda>orgID.
     parseUUID (sv_libs S) ''invalid id'' (rq_param req ''id'') (\<lambda>i.
     attempt (task_Delete (sv_env S) i orgID) (\<lambda>_. answer 204 PEmpty)))"

section \<open>Extraction requests\<close>

record initiate_extraction_request =
  ie_Questions :: "string list"
  ie_Anonymize :: "bool option"

definition dec_initiate :: "json \<Rightarrow> initiate_extraction_request option" where
  "dec_initiate j = dec_struct
     (field ''questions'' (\<lambda>v r. map_option (\<lambda>x. r\<lparr>ie_Questions := x\<rparr>)
        (dec_slice (\<lambda>e. dec_string e []) v (ie_Questions r)))
     (field ''anonymize'' (\<lambda>v r. map_option (\<lambda>x. r\<lparr>ie_Anonymize := x\<rparr>) (dec_ptr dec_bool False v))
      no_field)) j \<lparr>ie_Questions = [], ie_Anonymize = None\<rparr>"

definition sv_extraction :: "server \<Rightarrow> extraction_service" where
  "sv_extraction S = \<lparr>es_python = sv_python S\<rparr>"

definition Server_InitiateExtraction :: "server \<Rightarrow> http_request \<Rightarrow> gin_context \<Rightarrow> answer" where
  "Server_InitiateExtraction S req cx =
     orgIDFromContext cx (\<lambda>orgID.
     parseUUID (sv_libs S) ''invalid document id'' (rq_param req ''id'') (\<lambda>docID.
     bind_json dec_initiate (\<lambda>r. ie_Questions r \<noteq> []) ''invalid request body'' req (\<lambda>r.
     let anonymize = (case ie_Anonymize r of None \<Rightarrow> True | Some b \<Rightarrow> b) in
     attempt (Initiate (sv_env S) (sv_extraction S) docID orgID (ie_Questions r) anonymize) (\<lambda>created.
     answer 201 (PExtractionCreated (req_id created) (req_status created))))))"

definition buildExtractionRequestResponse :: "extraction_request \<Rightarrow> extraction_answer list
    \<Rightarrow> go_error + extraction_request_response" where
  "buildExtractionRequestResponse r answers =
     (case dec_strings (req_questions r) of
        None \<Rightarrow> Inl (errs_New CodeInternalError ''malformed questions in database'' (Some json_error))
      | Some questions \<Rightarrow>
          (case (case req_resolved_schema r of None \<Rightarrow> Some [] | Some j \<Rightarrow> dec_schema j) of
             None \<Rightarrow> Inl (errs_New CodeInternalError ''malformed resolved_schema in database'' (Some json_error))
           | Some schema \<Rightarrow>
               Inr \<lparr>er_ID = req_id r, er_DocumentID = req_document_id r, er_Status = req_status r,
                 er_Anonymize = req_anonymize r, er_Questions = questions,
                 er_ResolvedSchema = schema, er_Answers = answers,
                 er_ErrorMessage = req_error_message r, er_CreatedAt = req_created_at r,
                 er_UpdatedAt = req_updated_at r\<rparr>))"

definition Server_GetExtractionRequest :: "server \<Rightarrow> http_request \<Rightarrow> gin_context \<Rightarrow> answer" where
  "Server_GetExtractionRequest S req cx =
     orgIDFromContext cx (\<lambda>orgID.
     parseUUID (sv_libs S) ''invalid extraction request id'' (rq_param req ''id'') (\<lambda>i.
     attempt (GetRequest (sv_env S) i orgID) (\<lambda>r.
     attempt (GetAnswers (sv_env S) r) (\<lambda>answers.
     case buildExtractionRequestResponse r answers of
       Inl err \<Rightarrow> respond err
     | Inr resp \<Rightarrow> answer 200 (PExtraction resp)))))"

section \<open>The Python worker\<close>

definition validWorkerStatuses :: "string list" where
  "validWorkerStatuses = [''processing'', ''completed'', ''failed'']"

definition dec_worker_update :: "json \<Rightarrow> worker_status_update option" where
  "dec_worker_update j = dec_struct
     (field ''status'' (\<lambda>v r. map_option (\<lambda>x. r\<lparr>up_Status := x\<rparr>) (dec_string v (up_Status r)))
     (field ''celery_task_id'' (\<lambda>v r. map_option (\<lambda>x. r\<lparr>up_CeleryTaskID := x\<rparr>) (dec_ptr dec_string [] v))
     (field ''result_payload'' (\<lambda>v r. Some (r\<lparr>up_ResultPayload := Some v\<rparr>))
     (field ''error_message'' (\<lambda>v r. map_option (\<lambda>x. r\<lparr>up_ErrorMessage := x\<rparr>) (dec_ptr dec_string [] v))
      no_field)))) j
     \<lparr>up_Status = [], up_CeleryTaskID = None, up_ResultPayload = None, up_ErrorMessage = None\<rparr>"

definition Server_WorkerUpdateTaskStatus :: "server \<Rightarrow> http_request \<Rightarrow> gin_context \<Rightarrow> answer" where
  "Server_WorkerUpdateTaskStatus S req cx =
     (case sv_worker S of
        None \<Rightarrow> respond (errs_New CodeInternalError ''worker service not configured'' None)
      | Some ws \<Rightarrow>
          parseUUID (sv_libs S) ''invalid task id'' (rq_param req ''id'') (\<lambda>taskID.
          bind_json dec_worker_update (\<lambda>_. True) ''invalid request body'' req (\<lambda>upd.
          unless (up_Status upd \<notin> set validWorkerStatuses)
            (errs_New CodeValidationFailed ''invalid status'' None) (
          attempt (HandleStatusUpdate (sv_env S) ws taskID upd) (\<lambda>t. answer 200 (PTask t))))))"

end
