(* ===== verification/Http_Router.thy ===== *)
theory Http_Router
  imports Http_Accounts Http_Sites Http_Documents
begin

text \<open>
  \<^verbatim>\<open>internal/server/middleware.go\<close> and \<open>setupRouter\<close> of \<^verbatim>\<open>internal/server/server.go\<close>: who may
  reach which handler. The routes are a table in the order of the code, each with its chain of
  middleware; gin's tree prefers a literal segment to a parameter, and so does the first match of
  the table, whose one such pair is \<^verbatim>\<open>/sites/root\<close> and \<^verbatim>\<open>/sites/:id\<close>. A path that no route matches is
  answered with gin's text. Recovery, the request
  log and the CORS headers are not modelled, nor are gin's redirects of paths with a trailing slash.
\<close>

section \<open>Middleware\<close>

definition abort :: "nat \<Rightarrow> code \<Rightarrow> string \<Rightarrow> answer" where
  "abort st c msg = answer st (PError c msg)"

definition AuthMiddleware :: "server \<Rightarrow> http_request \<Rightarrow> gin_context \<Rightarrow> (gin_context \<Rightarrow> answer) \<Rightarrow> answer" where
  "AuthMiddleware S req cx next =
     (case rq_cookie req ''access_token'' of
        None \<Rightarrow> abort 401 CodeUnauthorized ''missing access token''
      | Some tokenStr \<Rightarrow>
          State_Monad.bind (ValidateAccessToken (sv_libs S) (sv_auth S) tokenStr) (\<lambda>r.
          case r of
            Inl _ \<Rightarrow> abort 401 CodeUnauthorized ''invalid or expired token''
          | Inr claims \<Rightarrow>
              next (cx\<lparr>cx_userID := Some (ac_UserID claims), cx_orgID := Some (ac_OrgID claims),
                       cx_role := Some (ac_Role claims)\<rparr>)))"

definition AdminOnly :: "server \<Rightarrow> http_request \<Rightarrow> gin_context \<Rightarrow> (gin_context \<Rightarrow> answer) \<Rightarrow> answer" where
  "AdminOnly S req cx next =
     (if cx_role cx \<noteq> Some ''admin'' then abort 403 CodeForbidden ''admin rights required'' else next cx)"

definition OwnerOnly :: "server \<Rightarrow> http_request \<Rightarrow> gin_context \<Rightarrow> (gin_context \<Rightarrow> answer) \<Rightarrow> answer" where
  "OwnerOnly S req cx next =
     (if cx_role cx \<noteq> Some ''owner'' then abort 403 CodeForbidden ''owner rights required'' else next cx)"

definition TenantScopedOnly :: "server \<Rightarrow> http_request \<Rightarrow> gin_context \<Rightarrow> (gin_context \<Rightarrow> answer) \<Rightarrow> answer" where
  "TenantScopedOnly S req cx next =
     (if cx_role cx = Some ''owner''
      then abort 403 CodeForbidden ''owner token cannot access tenant-scoped route'' else next cx)"

definition ServiceBearerAuth :: "server \<Rightarrow> http_request \<Rightarrow> gin_context \<Rightarrow> (gin_context \<Rightarrow> answer) \<Rightarrow> answer" where
  "ServiceBearerAuth S req cx next =
     (let (token, found) = CutPrefix (rq_header req ''Authorization'') ''Bearer '' in
      if \<not> found \<or> token = [] then abort 401 CodeUnauthorized ''missing or malformed service token''
      else if token \<noteq> sv_ServiceToken S then abort 401 CodeUnauthorized ''invalid service token''
      else next cx)"

section \<open>The table of routes\<close>

datatype segment = Lit string | Param string

datatype guard = Auth | Admin | Owner | TenantScoped | Service

type_synonym handler = "server \<Rightarrow> http_request \<Rightarrow> gin_context \<Rightarrow> answer"

record route =
  rt_method :: string
  rt_path :: "segment list"
  rt_guards :: "guard list"
  rt_handler :: handler

definition mk_route :: "string \<Rightarrow> segment list \<Rightarrow> guard list \<Rightarrow> handler \<Rightarrow> route" where
  "mk_route m p gs h = \<lparr>rt_method = m, rt_path = p, rt_guards = gs, rt_handler = h\<rparr>"

text \<open>The group \<open>protected\<close> of \<^verbatim>\<open>/api/v1\<close>: a resource, what follows it, further guards.\<close>

definition protected_route :: "string \<Rightarrow> guard list \<Rightarrow> string \<Rightarrow> segment list \<Rightarrow> handler \<Rightarrow> route" where
  "protected_route res gs m p h =
     mk_route m ([Lit ''api'', Lit ''v1'', Lit res] @ p) (Auth # gs) h"

definition open_routes :: "route list" where
  "open_routes =
    [mk_route ''GET'' [Lit ''health''] [] (\<lambda>S. HealthCheck),
     mk_route ''PATCH'' [Lit ''internal'', Lit ''worker'', Lit ''tasks'', Param ''id'', Lit ''status'']
       [Service] Server_WorkerUpdateTaskStatus,
     mk_route ''GET'' [Lit ''api'', Lit ''v1'', Lit ''health''] [] (\<lambda>S. HealthCheck),
     mk_route ''POST'' [Lit ''api'', Lit ''v1'', Lit ''auth'', Lit ''register''] [] Server_RegisterOrganization,
     mk_route ''POST'' [Lit ''api'', Lit ''v1'', Lit ''auth'', Lit ''login''] [] Server_Login,
     mk_route ''POST'' [Lit ''api'', Lit ''v1'', Lit ''auth'', Lit ''refresh''] [] Server_RefreshTokens,
     mk_route ''POST'' [Lit ''api'', Lit ''v1'', Lit ''auth'', Lit ''logout''] [] Server_Logout,
     mk_route ''GET'' [Lit ''api'', Lit ''v1'', Lit ''auth'', Lit ''me''] [Auth] Server_GetMe]"

definition organization_routes :: "route list" where
  "organization_routes = (let r = protected_route ''organizations'' [];
       o' = protected_route ''organizations'' [Owner] in
    [r ''GET'' [Param ''id''] Server_GetOrganization,
     r ''PATCH'' [Param ''id''] Server_UpdateOrganization,
     r ''DELETE'' [Param ''id''] Server_DeleteOrganization,
     o' ''GET'' [Param ''id'', Lit ''users''] Server_OwnerListOrganizationUsers,
     o' ''PATCH'' [Param ''id'', Lit ''users'', Param ''user_id''] Server_OwnerUpdateOrganizationUser,
     o' ''DELETE'' [Param ''id'', Lit ''users'', Param ''user_id''] Server_OwnerDeactivateOrganizationUser])"

definition site_routes :: "route list" where
  "site_routes = (let r = protected_route ''sites'' [TenantScoped] in
    [r ''POST'' [] Server_CreateConstructionSite,
     r ''GET'' [] Server_ListConstructionSites,
     r ''GET'' [Lit ''root''] Server_ListRootConstructionSites,
     r ''GET'' [Param ''id''] Server_GetConstructionSite,
     r ''GET'' [Param ''id'', Lit ''children''] Server_ListConstructionSitesByParent,
     r ''PATCH'' [Param ''id''] Server_UpdateConstructionSite,
     r ''PATCH'' [Param ''id'', Lit ''cover''] Server_UpdateConstructionSiteCover,
     r ''PATCH'' [Param ''id'', Lit ''type''] Server_UpdateConstructionSiteType,
     r ''DELETE'' [Param ''id''] Server_DeleteConstructionSite,
     r ''GET'' [Param ''id'', Lit ''audit-log''] Server_ListSiteAuditLog])"

definition document_routes :: "route list" where
  "document_routes = (let r = protected_route ''documents'' [TenantScoped] in
    [r ''POST'' [] Server_CreateDocument,
     r ''POST'' [Lit ''upload''] Server_UploadDocument,
     r ''GET'' [] Server_ListDocuments,
     r ''GET'' [Param ''id''] Server_GetDocument,
     r ''GET'' [Param ''id'', Lit ''url''] Server_GetDocumentPresignedURL,
     r ''PATCH'' [Param ''id'', Lit ''meta''] Server_UpdateDocumentMeta,
     r ''DELETE'' [Param ''id''] Server_DeleteDocument,
     r ''POST'' [Param ''id'', Lit ''extract''] Server_InitiateExtraction])"

definition task_routes :: "route list" where
  "task_routes = (let r = protected_route ''tasks'' [TenantScoped] in
    [r ''POST'' [] Server_CreateDocumentTask,
     r ''GET'' [] Server_ListDocumentTasks,
     r ''GET'' [Param ''id''] Server_GetDocumentTask,
     r ''PATCH'' [Param ''id'', Lit ''status''] Server_UpdateDocumentTaskStatus,
     r ''DELETE'' [Param ''id''] Server_DeleteDocumentTask,
     protected_route ''extraction-requests'' [TenantScoped] ''GET'' [Param ''id''] Server_GetExtractionRequest])"

definition catalog_routes :: "route list" where
  "catalog_routes = (let k = protected_route ''contract-kinds'' [TenantScoped];
       f = protected_route ''file-roles'' [TenantScoped] in
    [k ''GET'' [] Server_ListContractKinds,
     k ''POST'' [] Server_CreateContractKind,
     k ''GET'' [Param ''id''] Server_GetContractKind,
     k ''PATCH'' [Param ''id''] Server_UpdateContractKind,
     k ''DELETE'' [Param ''id''] Server_DeleteContractKind,
     f ''GET'' [] Server_ListFileRoles,
     f ''POST'' [] Server_CreateFileRole,
     f ''GET'' [Param ''id''] Server_GetFileRole,
     f ''PATCH'' [Param ''id''] Server_UpdateFileRole,
     f ''DELETE'' [Param ''id''] Server_DeleteFileRole])"

definition admin_routes :: "route list" where
  "admin_routes = (let i = protected_route ''invitations'' [Admin]; u = protected_route ''users'' [Admin] in
    [i ''GET'' [] Server_ListInvitations,
     i ''POST'' [] Server_CreateInvitation,
     i ''DELETE'' [Param ''id''] Server_DeleteInvitation,
     u ''POST'' [] Server_CreateUser,
     u ''GET'' [] Server_ListUsers,
     u ''PATCH'' [Param ''id''] Server_UpdateUser,
     u ''DELETE'' [Param ''id''] Server_DeactivateUser])"

definition comparison_routes :: "route list" where
  "comparison_routes = (let r = protected_route ''comparison-sessions'' [TenantScoped] in
    [r ''GET'' [] Server_ListComparisonSessions,
     r ''POST'' [] Server_CreateComparisonSession,
     r ''GET'' [Param ''id''] Server_GetComparisonSession,
     r ''DELETE'' [Param ''id''] Server_DeleteComparisonSession,
     r ''POST'' [Param ''id'', Lit ''documents''] Server_AddDocumentToSession,
     r ''DELETE'' [Param ''id'', Lit ''documents'', Param ''doc_id''] Server_RemoveDocumentFromSession])"

definition setupRouter :: "route list" where
  "setupRouter = open_routes @ organization_routes @ site_routes @ document_routes @ task_routes
     @ catalog_routes @ admin_routes @ comparison_routes"

section \<open>Dispatch\<close>

text \<open>The parameters of a path that matches; a parameter wants a segment that is not empty.\<close>

fun match_path :: "segment list \<Rightarrow> string list \<Rightarrow> (string \<times> string) list option" where
  "match_path [] [] = Some []"
| "match_path (Lit l # ps) (s # ss) = (if l = s then match_path ps ss else None)"
| "match_path (Param k # ps) (s # ss) =
     (if s = [] then None else map_option ((#) (k, s)) (match_path ps ss))"
| "match_path _ _ = None"

definition match_route :: "http_request \<Rightarrow> route \<Rightarrow> bool" where
  "match_route req r \<longleftrightarrow> rt_method r = rq_method req \<and> match_path (rt_path r) (rq_path req) \<noteq> None"

fun run_guard :: "guard \<Rightarrow> server \<Rightarrow> http_request \<Rightarrow> gin_context \<Rightarrow> (gin_context \<Rightarrow> answer) \<Rightarrow> answer" where
  "run_guard Auth = AuthMiddleware"
| "run_guard Admin = AdminOnly"
| "run_guard Owner = OwnerOnly"
| "run_guard TenantScoped = TenantScopedOnly"
| "run_guard Service = ServiceBearerAuth"

fun run_guards :: "guard list \<Rightarrow> server \<Rightarrow> http_request \<Rightarrow> gin_context \<Rightarrow> (gin_context \<Rightarrow> answer) \<Rightarrow> answer" where
  "run_guards [] S req cx k = k cx"
| "run_guards (g # gs) S req cx k = run_guard g S req cx (\<lambda>cx'. run_guards gs S req cx' k)"

definition with_params :: "(string \<times> string) list \<Rightarrow> http_request \<Rightarrow> http_request" where
  "with_params ps req = req\<lparr>rq_param := \<lambda>k. pg_text (map_of ps k)\<rparr>"

definition serve_route :: "server \<Rightarrow> route \<Rightarrow> http_request \<Rightarrow> answer" where
  "serve_route S r req =
     (let req' = with_params (case match_path (rt_path r) (rq_path req) of None \<Rightarrow> [] | Some ps \<Rightarrow> ps) req in
      run_guards (rt_guards r) S req' empty_context (rt_handler r S req'))"

definition serve :: "server \<Rightarrow> http_request \<Rightarrow> answer" where
  "serve S req =
     (case find (match_route req) setupRouter of
        None \<Rightarrow> answer 404 (PText ''404 page not found'')
      | Some r \<Rightarrow> serve_route S r req)"

lemmas route_tables = setupRouter_def open_routes_def organization_routes_def site_routes_def
  document_routes_def task_routes_def catalog_routes_def admin_routes_def comparison_routes_def
  protected_route_def mk_route_def

end
