(* ===== verification/Config.thy ===== *)
theory Config
  imports Http_Router Watchdog
begin

text \<open>
  \<^verbatim>\<open>internal/config/config.go\<close> without the reading of the environment, which a library does, and
  the construction of the server in \<^verbatim>\<open>internal/server/server.go\<close>. Durations are in microseconds;
  \<open>url.Parse\<close>, \<open>redis.ParseURL\<close>, \<open>minio.New\<close> and the text of a duration are arguments.
\<close>

record config =
  cfg_AppEnv :: string
  cfg_AppPort :: string
  cfg_DBURL :: string
  cfg_RedisURL :: string
  cfg_WatchdogInterval :: int
  cfg_WatchdogThreshold :: int
  cfg_WatchdogMaxRetries :: int
  cfg_WatchdogBatchSize :: int
  cfg_JWTAccessSecret :: string
  cfg_JWTRefreshSecret :: string
  cfg_ServiceToken :: string
  cfg_S3Endpoint :: string
  cfg_S3Region :: string
  cfg_S3AccessKey :: string
  cfg_S3SecretKey :: string
  cfg_S3Bucket :: string
  cfg_S3UseSSL :: bool

record outside =
  out_url_Parse :: "string \<Rightarrow> go_error + (string \<times> string)"   \<comment> \<open>scheme and host\<close>
  out_duration_text :: "int \<Rightarrow> string"
  out_redis_ParseURL :: "string \<Rightarrow> go_error + unit"
  out_minio_New :: "config \<Rightarrow> go_error + (string \<Rightarrow> int \<Rightarrow> (string \<times> string) list \<Rightarrow> go_error + string)"
    \<comment> \<open>the client, as its presigning function\<close>
  out_ToLower :: "string \<Rightarrow> string"

definition minSecretLen :: nat where "minSecretLen = 32"

definition config_validate :: "env \<Rightarrow> outside \<Rightarrow> config \<Rightarrow> go_error option" where
  "config_validate E X c =
     (if length (cfg_JWTAccessSecret c) < minSecretLen
      then Some (Other (''JWT_ACCESS_SECRET must be at least '' @ int_text (int minSecretLen) @ '' characters''))
      else if length (cfg_JWTRefreshSecret c) < minSecretLen
      then Some (Other (''JWT_REFRESH_SECRET must be at least '' @ int_text (int minSecretLen) @ '' characters''))
      else if length (cfg_ServiceToken c) < minSecretLen
      then Some (Other (''SERVICE_TOKEN must be at least '' @ int_text (int minSecretLen) @ '' characters''))
      else case out_url_Parse X (cfg_RedisURL c) of
        Inl err \<Rightarrow> Some (Wrapped ''REDIS_URL is not a valid URL'' err)
      | Inr (scheme, host) \<Rightarrow>
          if (scheme \<noteq> ''redis'' \<and> scheme \<noteq> ''rediss'') \<or> host = []
          then Some (Other (''REDIS_URL must be a valid redis:// or rediss:// URL (got scheme='' @
                 env_quote E scheme @ '' host='' @ env_quote E host @ '')''))
          else if cfg_WatchdogInterval c \<le> 0
          then Some (Other (''WATCHDOG_INTERVAL must be positive (got '' @
                 out_duration_text X (cfg_WatchdogInterval c) @ '')''))
          else if cfg_WatchdogThreshold c \<le> 0
          then Some (Other (''WATCHDOG_THRESHOLD must be positive (got '' @
                 out_duration_text X (cfg_WatchdogThreshold c) @ '')''))
          else if cfg_WatchdogMaxRetries c < 0
          then Some (Other (''WATCHDOG_MAX_RETRIES must be >= 0 (got '' @
                 int_text (cfg_WatchdogMaxRetries c) @ '')''))
          else if cfg_WatchdogBatchSize c \<le> 0
          then Some (Other (''WATCHDOG_BATCH_SIZE must be > 0 (got '' @
                 int_text (cfg_WatchdogBatchSize c) @ '')''))
          else None)"

section \<open>Construction of the server\<close>

definition pythonworker_New :: "outside \<Rightarrow> env \<Rightarrow> string \<Rightarrow> go_error + python_client" where
  "pythonworker_New X E redisURL =
     (case out_redis_ParseURL X redisURL of
        Inl err \<Rightarrow> Inl (Wrapped ''pythonworker: parse redis URL'' err)
      | Inr _ \<Rightarrow> Inr (Process E))"

definition storage_New :: "outside \<Rightarrow> config \<Rightarrow> go_error + storage_client" where
  "storage_New X c =
     (if cfg_S3Endpoint c = [] then Inl (Other ''storage: S3Endpoint must not be empty'')
      else if cfg_S3Bucket c = [] then Inl (Other ''storage: S3Bucket must not be empty'')
      else case out_minio_New X c of
        Inl err \<Rightarrow> Inl (Wrapped ''storage: init minio client'' err)
      | Inr presign \<Rightarrow>
          Inr \<lparr>sc_bucket = cfg_S3Bucket c, sc_ToLower = out_ToLower X, sc_presign = presign\<rparr>)"

text \<open>A store that cannot be set up is logged and left out.\<close>

definition server_storage :: "outside \<Rightarrow> config \<Rightarrow> storage_client option" where
  "server_storage X c =
     (if cfg_S3AccessKey c \<noteq> [] \<and> cfg_S3SecretKey c \<noteq> []
      then (case storage_New X c of Inl _ \<Rightarrow> None | Inr sc \<Rightarrow> Some sc)
      else None)"

definition NewServer :: "env \<Rightarrow> libs \<Rightarrow> outside \<Rightarrow> config \<Rightarrow> go_error + server" where
  "NewServer E L X c =
     (case pythonworker_New X E (cfg_RedisURL c) of
        Inl err \<Rightarrow> Inl (Wrapped ''server: init redis publisher'' err)
      | Inr pythonClient \<Rightarrow>
          (case NewWorkerService (Some pythonClient)
                  (Some (pipeline_of E \<lparr>es_python = Some pythonClient\<rparr>)) of
             Inl err \<Rightarrow> Inl (Wrapped ''NewServer'' err)
           | Inr ws \<Rightarrow>
               Inr \<lparr>sv_env = E, sv_libs = L, sv_AppEnv = cfg_AppEnv c,
                 sv_ServiceToken = cfg_ServiceToken c,
                 sv_auth = \<lparr>as_accessSecret = cfg_JWTAccessSecret c,
                            as_refreshSecret = cfg_JWTRefreshSecret c\<rparr>,
                 sv_storage = server_storage X c, sv_python = Some pythonClient,
                 sv_worker = Some ws\<rparr>))"

text \<open>What a server built from a configuration is made of.\<close>

lemma NewServer_Inr:
  assumes "NewServer E L X c = Inr S"
  shows "sv_env S = E" "sv_libs S = L" "sv_worker S = Some (server_worker E)"
    "sv_python S = Some (Process E)" "sv_ServiceToken S = cfg_ServiceToken c"
    "sv_auth S = \<lparr>as_accessSecret = cfg_JWTAccessSecret c, as_refreshSecret = cfg_JWTRefreshSecret c\<rparr>"
    "sv_storage S = server_storage X c" "sv_AppEnv S = cfg_AppEnv c"
  using assms
  by (auto simp: NewServer_def pythonworker_New_def NewWorkerService_def server_worker_def
      server_extraction_def split: sum.splits)

lemma config_validate_None:
  assumes "config_validate E X c = None"
  shows "32 \<le> length (cfg_JWTAccessSecret c)" "32 \<le> length (cfg_JWTRefreshSecret c)"
    "32 \<le> length (cfg_ServiceToken c)" "0 < cfg_WatchdogInterval c" "0 < cfg_WatchdogThreshold c"
    "0 \<le> cfg_WatchdogMaxRetries c" "0 < cfg_WatchdogBatchSize c"
    "\<exists>scheme host. out_url_Parse X (cfg_RedisURL c) = Inr (scheme, host) \<and>
       scheme \<in> {''redis'', ''rediss''} \<and> host \<noteq> []"
  using assms by (auto simp: config_validate_def minSecretLen_def split: if_splits sum.splits)

end
