(* ===== verification/Handler_Effects.thy ===== *)
theory Handler_Effects
  imports Config Contracts
begin

text \<open>
  What the requests may change. Every handler is built from a few idioms and the statements it
  issues; the lemmas of \<open>statements\<close> lift a relation between worlds from the statements to the
  handlers. The handlers that only read are in every such relation.
\<close>

lemmas idiom_defs = query_defs GetDocumentTask_def ListTasksByDocument_def ListTasksByDocuments_def
  ListRootDocumentsByOrganization_def ListRootDocumentsBySite_def
  GetOrganizationByID_def GetUserByEmail_def GetUserByID_def GetUserByIDAndOrg_def
  ListUsersByOrganization_def ListUserInvitationsByOrg_def GetUserInvitationByTokenHash_def
  GetConstructionSite_def ListConstructionSitesByOrganization_def ListConstructionSitesByParent_def
  ListRootConstructionSites_def ListContractKindsByOrg_def GetContractKind_def ListFileRolesByOrg_def
  GetFileRole_def GetComparisonSession_def ListComparisonSessionsByOrg_def
  ListComparisonSessionDocuments_def

context statements
begin

section \<open>Idioms\<close>

lemma rel_answer [io_rel]: "state_io_rel R (answer st b)"
  by (simp add: answer_def rel_return)

lemma rel_respond [io_rel]: "state_io_rel R (respond e)"
  by (simp add: respond_def rel_return)

lemma rel_abort [io_rel]: "state_io_rel R (abort st c msg)"
  by (simp add: abort_def rel_answer)

lemma rel_with_cookies [io_rel]: "state_io_rel R m \<Longrightarrow> state_io_rel R (with_cookies cs m)"
  unfolding with_cookies_def by (intro io_rel)

lemma rel_setAuthCookies [io_rel]: "state_io_rel R m \<Longrightarrow> state_io_rel R (setAuthCookies S a r m)"
  by (simp add: setAuthCookies_def rel_with_cookies)

lemma rel_clearAuthCookies [io_rel]: "state_io_rel R m \<Longrightarrow> state_io_rel R (clearAuthCookies S m)"
  by (simp add: clearAuthCookies_def rel_with_cookies)

lemma rel_attempt [io_rel]:
  "state_io_rel R m \<Longrightarrow> (\<And>x. state_io_rel R (k x)) \<Longrightarrow> state_io_rel R (attempt m k)"
  unfolding attempt_def by (intro io_rel)

lemma rel_unless [io_rel]: "state_io_rel R k \<Longrightarrow> state_io_rel R (unless c e k)"
  by (simp add: unless_def rel_respond)

lemma rel_orgIDFromContext [io_rel]:
  "(\<And>i. cx_orgID cx = Some i \<Longrightarrow> state_io_rel R (k i)) \<Longrightarrow> state_io_rel R (orgIDFromContext cx k)"
  by (simp add: orgIDFromContext_def rel_respond split: option.splits)

lemma rel_userIDFromContext [io_rel]:
  "(\<And>i. cx_userID cx = Some i \<Longrightarrow> state_io_rel R (k i)) \<Longrightarrow> state_io_rel R (userIDFromContext cx k)"
  by (simp add: userIDFromContext_def rel_respond split: option.splits)

lemma rel_requireAdminOrOwner [io_rel]: "state_io_rel R k \<Longrightarrow> state_io_rel R (requireAdminOrOwner cx k)"
  by (simp add: requireAdminOrOwner_def rel_respond)

lemma rel_parseUUID [io_rel]: "(\<And>u. state_io_rel R (k u)) \<Longrightarrow> state_io_rel R (parseUUID L msg raw k)"
  by (simp add: parseUUID_def rel_respond split: sum.splits)

lemma rel_parseOptionalUUID [io_rel]:
  "(\<And>u. state_io_rel R (k u)) \<Longrightarrow> state_io_rel R (parseOptionalUUID L msg raw k)"
  by (simp add: parseOptionalUUID_def rel_parseUUID split: option.splits)

lemma rel_bind_json [io_rel]: "(\<And>r. state_io_rel R (k r)) \<Longrightarrow> state_io_rel R (bind_json dec valid msg req k)"
  by (simp add: bind_json_def rel_respond split: option.splits)

lemma rel_bind_nullable [io_rel]: "(\<And>r. state_io_rel R (k r)) \<Longrightarrow> state_io_rel R (bind_nullable n msg req k)"
  by (simp add: bind_nullable_def rel_respond split: option.splits)

lemma rel_bind_catalog [io_rel]: "(\<And>r. state_io_rel R (k r)) \<Longrightarrow> state_io_rel R (bind_catalog req k)"
  by (simp add: bind_catalog_def rel_bind_json)

lemma rel_required_fields [io_rel]: "(\<And>a b. state_io_rel R (k a b)) \<Longrightarrow> state_io_rel R (required_fields r k)"
  by (simp add: required_fields_def rel_respond split: option.splits)

lemma rel_nothing_to_update [io_rel]: "state_io_rel R k \<Longrightarrow> state_io_rel R (nothing_to_update r k)"
  by (simp add: nothing_to_update_def rel_unless)

lemma rel_valid_site_status [io_rel]: "state_io_rel R k \<Longrightarrow> state_io_rel R (valid_site_status s k)"
  by (simp add: valid_site_status_def rel_unless)

lemma rel_at_moment [io_rel]: "state_io_rel R (at_moment f)"
  by (auto simp: at_moment_def state_io_rel_def State_Monad.get_def intro: R_refl)

lemma rel_case_prod [io_rel]: "(\<And>a b. state_io_rel R (f a b)) \<Longrightarrow> state_io_rel R (case p of (a, b) \<Rightarrow> f a b)"
  by (simp split: prod.splits)

lemma rel_deleted_or_not_found [io_rel]: "state_io_rel R m \<Longrightarrow> state_io_rel R (deleted_or_not_found msg m)"
  unfolding deleted_or_not_found_def by (intro io_rel)

lemma rel_own_organization [io_rel]: "(\<not> isOwner cx \<Longrightarrow> i = orgID \<Longrightarrow> state_io_rel R k) \<Longrightarrow>
    (isOwner cx \<Longrightarrow> state_io_rel R k) \<Longrightarrow> state_io_rel R (own_organization cx i orgID k)"
  by (auto simp: own_organization_def unless_def rel_respond)

section \<open>Reading services\<close>

lemma rel_ListSiteAuditLogBySite [io_rel]: "state_io_rel R (ListSiteAuditLogBySite E site orgID l off)"
  unfolding ListSiteAuditLogBySite_def
  by (rule exec_rel) (simp_all add: stmt_ListSiteAuditLogBySite_def tick)

lemma rel_tokens [io_rel]: "state_io_rel R (GenerateTokens E L s u o' role)"
  "state_io_rel R (ValidateAccessToken L s tok)" "state_io_rel R (ValidateRefreshToken L s tok)"
  unfolding GenerateTokens_def ValidateAccessToken_def ValidateRefreshToken_def Let_def
  by (intro io_rel)+

lemma rel_reading_accounts [io_rel]:
  "state_io_rel R (Login E L s email pw)" "state_io_rel R (ResolveUserForRefresh E u)"
  "state_io_rel R (organization_GetByID E i)" "state_io_rel R (user_List E i)"
  "state_io_rel R (GetProfile E u i)" "state_io_rel R (invitation_ListByOrg E i)"
  unfolding Login_def ResolveUserForRefresh_def organization_GetByID_def user_List_def GetProfile_def
    invitation_ListByOrg_def idiom_defs
  by (intro io_rel)+

lemma rel_reading_catalogs [io_rel]:
  "state_io_rel R (kind_List E i)" "state_io_rel R (kind_Get E k i)"
  "state_io_rel R (role_List E i)" "state_io_rel R (role_Get E k i)"
  "state_io_rel R (comparison_Get E k i)" "state_io_rel R (comparison_ListByOrg E i)"
  "state_io_rel R (comparison_ListDocuments E k i)" "state_io_rel R (site_Get E k i)"
  "state_io_rel R (site_ListByOrganization E i)" "state_io_rel R (site_ListByParent E i p)"
  "state_io_rel R (site_ListRoot E i)" "state_io_rel R (audit_ListBySite E k i l off)"
  unfolding kind_List_def kind_Get_def role_List_def role_Get_def comparison_Get_def
    comparison_ListByOrg_def comparison_ListDocuments_def site_Get_def site_ListByOrganization_def
    site_ListByParent_def site_ListRoot_def audit_ListBySite_def idiom_defs
  by (intro io_rel)+

lemma rel_PresignedURL [io_rel]: "state_io_rel R (PresignedURLWithParams E c p ttl ps)"
  unfolding PresignedURLWithParams_def by (intro io_rel)

lemma rel_reading_documents [io_rel]:
  "state_io_rel R (document_Get E k i)" "state_io_rel R (document_ListByOrganization E i)"
  "state_io_rel R (document_ListBySite E i s)" "state_io_rel R (document_ListByParent E p i)"
  "state_io_rel R (GetPresignedURL E st k i down)" "state_io_rel R (task_Get E k i)"
  "state_io_rel R (task_ListByDocument E k i)" "state_io_rel R (task_ListByDocuments E ks i)"
  "state_io_rel R (GetRequest E k i)" "state_io_rel R (GetAnswers E r)"
  unfolding document_Get_def document_ListByOrganization_def document_ListBySite_def
    document_ListByParent_def GetPresignedURL_def task_Get_def task_ListByDocument_def
    task_ListByDocuments_def GetRequest_def GetAnswers_def idiom_defs
  by (intro io_rel)+

lemma rel_check_parent [io_rel]: "(\<And>p. state_io_rel R (k p)) \<Longrightarrow> state_io_rel R (check_parent S i raw k)"
  unfolding check_parent_def by (intro io_rel)

lemma rel_check_site [io_rel]: "(\<And>p. state_io_rel R (k p)) \<Longrightarrow> state_io_rel R (check_site S i raw k)"
  unfolding check_site_def by (intro io_rel)

section \<open>Reading handlers\<close>

lemma rel_reading_handlers:
  "state_io_rel R (HealthCheck req cx)" "state_io_rel R (Server_GetMe S req cx)"
  "state_io_rel R (Server_GetOrganization S req cx)"
  "state_io_rel R (Server_OwnerListOrganizationUsers S req cx)"
  "state_io_rel R (Server_ListUsers S req cx)" "state_io_rel R (Server_ListInvitations S req cx)"
  "state_io_rel R (Server_ListConstructionSites S req cx)"
  "state_io_rel R (Server_ListRootConstructionSites S req cx)"
  "state_io_rel R (Server_GetConstructionSite S req cx)"
  "state_io_rel R (Server_ListConstructionSitesByParent S req cx)"
  "state_io_rel R (Server_ListSiteAuditLog S req cx)" "state_io_rel R (Server_ListDocuments S req cx)"
  "state_io_rel R (Server_GetDocument S req cx)" "state_io_rel R (Server_GetDocumentPresignedURL S req cx)"
  "state_io_rel R (Server_ListDocumentTasks S req cx)" "state_io_rel R (Server_GetDocumentTask S req cx)"
  "state_io_rel R (Server_GetExtractionRequest S req cx)"
  "state_io_rel R (Server_ListContractKinds S req cx)" "state_io_rel R (Server_GetContractKind S req cx)"
  "state_io_rel R (Server_ListFileRoles S req cx)" "state_io_rel R (Server_GetFileRole S req cx)"
  "state_io_rel R (Server_ListComparisonSessions S req cx)"
  "state_io_rel R (Server_GetComparisonSession S req cx)"
  unfolding HealthCheck_def Server_GetMe_def Server_GetOrganization_def
    Server_OwnerListOrganizationUsers_def Server_ListUsers_def Server_ListInvitations_def
    Server_ListConstructionSites_def Server_ListRootConstructionSites_def
    Server_GetConstructionSite_def Server_ListConstructionSitesByParent_def
    Server_ListSiteAuditLog_def Server_ListDocuments_def Server_GetDocument_def
    Server_GetDocumentPresignedURL_def Server_ListDocumentTasks_def Server_GetDocumentTask_def
    Server_GetExtractionRequest_def Server_ListContractKinds_def Server_GetContractKind_def
    Server_ListFileRoles_def Server_GetFileRole_def Server_ListComparisonSessions_def
    Server_GetComparisonSession_def Let_def
  by (intro io_rel)+

lemma rel_session_handlers:
  "state_io_rel R (Server_Login S req cx)" "state_io_rel R (Server_RefreshTokens S req cx)"
  "state_io_rel R (Server_Logout S req cx)"
  unfolding Server_Login_def Server_RefreshTokens_def Server_Logout_def
  by (intro io_rel)+

section \<open>Guards\<close>

lemma rel_run_guard: "(\<And>cx'. state_io_rel R (k cx')) \<Longrightarrow> state_io_rel R (run_guard g S req cx k)"
  by (cases g) (auto simp: AuthMiddleware_def AdminOnly_def OwnerOnly_def TenantScopedOnly_def
      ServiceBearerAuth_def split: prod.splits intro!: io_rel split: option.splits)

lemma rel_run_guards: "(\<And>cx'. state_io_rel R (k cx')) \<Longrightarrow> state_io_rel R (run_guards gs S req cx k)"
  by (induction gs arbitrary: cx) (simp_all add: rel_run_guard)

end

section \<open>The world as it is\<close>

text \<open>Nothing that outlives a request is changed; interactions are counted.\<close>

definition unchanged :: "world \<Rightarrow> world \<Rightarrow> bool" where
  "unchanged w w' \<longleftrightarrow> w_db w' = w_db w \<and> w_redis w' = w_redis w \<and> w_objects w' = w_objects w"

interpretation unchanged: statements unchanged
  by unfold_locales (auto simp: unchanged_def)

end
