(* ===== verification/Example_Server.thy ===== *)
theory Example_Server
  imports Example_World Config
begin

text \<open>
  A concrete server over the world of \<^verbatim>\<open>Example_World\<close> for the closed examples. Its libraries are
  small concrete functions: a hash that marks the password, a JWT library that knows a fixed list of
  signed claims and checks secret and expiry, decimal UUIDs, and a clock that stands at 100 seconds.
\<close>

definition demo_access :: "uuid \<Rightarrow> uuid \<Rightarrow> string \<Rightarrow> json" where
  "demo_access u o' role = enc_access demo_env
     \<lparr>ac_UserID = u, ac_OrgID = o', ac_Role = role, ac_ExpiresAt = 1000, ac_IssuedAt = 100\<rparr>"

definition demo_refresh :: "uuid \<Rightarrow> json" where
  "demo_refresh u = enc_refresh demo_env \<lparr>rc_UserID = u, rc_ExpiresAt = 2592100, rc_IssuedAt = 100\<rparr>"

definition demo_signed :: "(string \<times> string \<times> json) list" where
  "demo_signed =
    [(''admin-token'', ''access-secret'', demo_access 2 1 ''admin''),
     (''member-token'', ''access-secret'', demo_access 5 1 ''member''),
     (''owner-token'', ''access-secret'', demo_access 9 uuid_Nil ''owner''),
     (''refresh-token'', ''refresh-secret'', demo_refresh 2)]"

text \<open>The expiry among the claims, in seconds.\<close>

definition claims_exp :: "json \<Rightarrow> int option" where
  "claims_exp j = (case j of
     JObj ms \<Rightarrow> (case map_of ms ''exp'' of Some (JInt n) \<Rightarrow> Some n | _ \<Rightarrow> None)
   | _ \<Rightarrow> None)"

definition demo_sign :: "string \<Rightarrow> json \<Rightarrow> go_error + string" where
  "demo_sign secret j = (case find (\<lambda>(t, s, k). s = secret \<and> k = j) demo_signed of
     None \<Rightarrow> Inl (Other ''cannot sign'') | Some (t, _) \<Rightarrow> Inr t)"

definition demo_parse :: "int \<Rightarrow> string \<Rightarrow> (string \<Rightarrow> go_error + string) \<Rightarrow> go_error + (json \<times> bool)" where
  "demo_parse now tok key = (case find (\<lambda>(t, s, k). t = tok) demo_signed of
     None \<Rightarrow> Inl (Other ''token is malformed'')
   | Some (_, secret, j) \<Rightarrow>
       (case key ''HS256'' of
          Inl e \<Rightarrow> Inl e
        | Inr s \<Rightarrow>
            (case claims_exp j of
               None \<Rightarrow> Inl (Other ''token has no expiry'')
             | Some e \<Rightarrow> if s = secret \<and> now < e * second then Inr (j, True)
                         else Inl (Other ''token is invalid''))))"

definition demo_libs :: libs where
  "demo_libs = \<lparr>
     lib_bcrypt_Generate = (\<lambda>n pw. if 72 < length pw then Inl ErrPasswordTooLong else Inr (''bcrypt:'' @ pw)),
     lib_bcrypt_Compare = (\<lambda>h pw. h = ''bcrypt:'' @ pw),
     lib_jwt_SignedString = demo_sign, lib_jwt_Parse = demo_parse,
     lib_NewNumericDate = (\<lambda>t. t div second),
     lib_uuid_Parse = (\<lambda>s. case parse_digits s of None \<Rightarrow> Inl (Other ''invalid UUID'') | Some n \<Rightarrow> Inr (of_nat n)),
     lib_email_ok = (\<lambda>s. CHR ''@'' \<in> set s), lib_sha256 = (\<lambda>s. ''sha:'' @ s),
     lib_rand_Read = (\<lambda>n k. Inr (replicate k CHR ''x'')), lib_now = (\<lambda>_. 100 * second)\<rparr>"

definition demo_storage :: storage_client where
  "demo_storage = \<lparr>sc_bucket = ''tenders'', sc_ToLower = (\<lambda>s. s),
     sc_presign = (\<lambda>name ttl ps. Inr (''https://store/'' @ name))\<rparr>"

definition demo_server :: server where
  "demo_server = \<lparr>sv_env = demo_env, sv_libs = demo_libs, sv_AppEnv = ''local'',
     sv_ServiceToken = ''service-token'',
     sv_auth = \<lparr>as_accessSecret = ''access-secret'', as_refreshSecret = ''refresh-secret''\<rparr>,
     sv_storage = Some demo_storage, sv_python = Some (Process demo_env),
     sv_worker = Some (server_worker demo_env)\<rparr>"

text \<open>A request without a body; \<open>tok\<close> is the access token it carries.\<close>

definition demo_req :: "string \<Rightarrow> string list \<Rightarrow> string option \<Rightarrow> http_request" where
  "demo_req m p tok = \<lparr>rq_method = m, rq_path = p, rq_param = (\<lambda>_. []), rq_query = (\<lambda>_. None),
     rq_cookie = (\<lambda>k. if k = ''access_token'' then tok else None), rq_header = (\<lambda>_. []),
     rq_body = NoBody, rq_FormFile = (\<lambda>_ _. Inl ErrMissingFile), rq_postform = (\<lambda>_. [])\<rparr>"

lemma demo_server_simps [simp]:
  "sv_env demo_server = demo_env" "sv_libs demo_server = demo_libs" "sv_AppEnv demo_server = ''local''"
  "sv_ServiceToken demo_server = ''service-token''"
  "as_accessSecret (sv_auth demo_server) = ''access-secret''"
  "as_refreshSecret (sv_auth demo_server) = ''refresh-secret''"
  "sv_storage demo_server = Some demo_storage" "sv_python demo_server = Some (Process demo_env)"
  "sv_worker demo_server = Some (server_worker demo_env)"
  by (simp_all add: demo_server_def)

lemma demo_req_simps [simp]:
  "rq_method (demo_req m p tok) = m" "rq_path (demo_req m p tok) = p"
  "rq_cookie (demo_req m p tok) ''access_token'' = tok" "rq_body (demo_req m p tok) = NoBody"
  "rq_header (demo_req m p tok) k = []"
  by (simp_all add: demo_req_def)

text \<open>The claims of the signed tokens.\<close>

lemma demo_validate:
  "run_state (ValidateAccessToken demo_libs (sv_auth demo_server) ''admin-token'') w =
     (Inr \<lparr>ac_UserID = 2, ac_OrgID = 1, ac_Role = ''admin'', ac_ExpiresAt = 1000, ac_IssuedAt = 100\<rparr>, w)"
  "run_state (ValidateAccessToken demo_libs (sv_auth demo_server) ''member-token'') w =
     (Inr \<lparr>ac_UserID = 5, ac_OrgID = 1, ac_Role = ''member'', ac_ExpiresAt = 1000, ac_IssuedAt = 100\<rparr>, w)"
  "run_state (ValidateAccessToken demo_libs (sv_auth demo_server) ''owner-token'') w =
     (Inr \<lparr>ac_UserID = 9, ac_OrgID = uuid_Nil, ac_Role = ''owner'', ac_ExpiresAt = 1000, ac_IssuedAt = 100\<rparr>, w)"
  by (simp_all add: ValidateAccessToken_def at_moment_def State_Monad.get_def demo_libs_def demo_parse_def
      demo_signed_def demo_access_def demo_refresh_def enc_access_def enc_refresh_def hs256_key_def claims_exp_def
      dec_access_def second_def same_name_def ascii_lower_def dec_uuid_def demo_env_def nat_digits.simps
      parse_digits_def digit_val_def hex_digit_def)

text \<open>The configuration and the libraries that this server is built from.\<close>

definition demo_outside :: outside where
  "demo_outside = \<lparr>out_url_Parse = (\<lambda>_. Inr (''redis'', ''localhost'')), out_duration_text = (\<lambda>_. ''d''),
     out_redis_ParseURL = (\<lambda>_. Inr ()), out_minio_New = (\<lambda>_. Inr (sc_presign demo_storage)),
     out_ToLower = (\<lambda>s. s)\<rparr>"

definition demo_config :: config where
  "demo_config = \<lparr>cfg_AppEnv = ''local'', cfg_AppPort = ''8080'', cfg_DBURL = ''postgres://localhost/kpi'',
     cfg_RedisURL = ''redis://localhost'', cfg_WatchdogInterval = 60 * second,
     cfg_WatchdogThreshold = 600 * second, cfg_WatchdogMaxRetries = 3, cfg_WatchdogBatchSize = 50,
     cfg_JWTAccessSecret = ''access-secret'', cfg_JWTRefreshSecret = ''refresh-secret'',
     cfg_ServiceToken = ''service-token'', cfg_S3Endpoint = ''localhost:9000'', cfg_S3Region = [],
     cfg_S3AccessKey = ''key'', cfg_S3SecretKey = ''secret'', cfg_S3Bucket = ''tenders'', cfg_S3UseSSL = False\<rparr>"

lemma NewServer_demo: "NewServer demo_env demo_libs demo_outside demo_config = Inr demo_server"
  by (simp add: NewServer_def pythonworker_New_def NewWorkerService_def server_worker_def server_extraction_def
      server_storage_def storage_New_def demo_config_def demo_outside_def demo_server_def demo_storage_def)

end
