(* ===== verification/Access.thy ===== *)
theory Access
  imports Handler_Effects Example_Server
begin

text \<open>
  Who may reach which handler, read off the table of routes: the public paths, the paths that want a
  tenant, an administrator or the owner, and the endpoint of the workers. A request that is turned
  away changes nothing.
\<close>

section \<open>The specification\<close>

definition public_paths :: "string list list" where
  "public_paths = [[''api'', ''v1'', ''health'']] @
     map (\<lambda>p. [''api'', ''v1'', ''auth'', p]) [''register'', ''login'', ''refresh'', ''logout'']"

definition protected_path :: "string list \<Rightarrow> bool" where
  "protected_path p \<longleftrightarrow> take 2 p = [''api'', ''v1''] \<and> p \<notin> set public_paths"

definition tenant_resources :: "string list" where
  "tenant_resources = [''sites'', ''documents'', ''tasks'', ''extraction-requests'', ''contract-kinds'',
     ''file-roles'', ''comparison-sessions'']"

definition admin_resources :: "string list" where
  "admin_resources = [''invitations'', ''users'']"

text \<open>The role that a path wants.\<close>

definition role_may :: "string \<Rightarrow> string list \<Rightarrow> bool" where
  "role_may role p \<longleftrightarrow> (case p of
     _ # _ # res # rest \<Rightarrow>
       (res \<in> set tenant_resources \<longrightarrow> role \<noteq> ''owner'') \<and>
       (res \<in> set admin_resources \<longrightarrow> role = ''admin'') \<and>
       (res = ''organizations'' \<and> 2 \<le> length rest \<longrightarrow> role = ''owner'')
   | _ \<Rightarrow> True)"

text \<open>Does the request carry an access token that is valid in the world \<open>w\<close>, and for which claims.\<close>

definition token_claims :: "server \<Rightarrow> http_request \<Rightarrow> world \<Rightarrow> access_claims option" where
  "token_claims S req w = (case rq_cookie req ''access_token'' of
     None \<Rightarrow> None
   | Some tok \<Rightarrow> (case fst (run_state (ValidateAccessToken (sv_libs S) (sv_auth S) tok) w) of
       Inl _ \<Rightarrow> None | Inr c \<Rightarrow> Some c))"

definition context_of :: "access_claims \<Rightarrow> gin_context" where
  "context_of c = \<lparr>cx_userID = Some (ac_UserID c), cx_orgID = Some (ac_OrgID c), cx_role = Some (ac_Role c)\<rparr>"

definition guard_permits :: "string \<Rightarrow> guard \<Rightarrow> bool" where
  "guard_permits role g = (case g of Admin \<Rightarrow> role = ''admin'' | Owner \<Rightarrow> role = ''owner''
     | TenantScoped \<Rightarrow> role \<noteq> ''owner'' | _ \<Rightarrow> True)"

section \<open>Guards\<close>

lemma validate_keeps [simp]: "snd (run_state (ValidateAccessToken L s tok) w) = w"
  by (auto simp: ValidateAccessToken_def at_moment_def State_Monad.get_def split: sum.splits option.splits)

lemma run_abort [simp]: "run_state (abort st c msg) w =
    (\<lparr>rs_status = st, rs_body = PError c msg, rs_cookies = []\<rparr>, w)"
  by (simp add: abort_def)

lemma run_AuthMiddleware: "run_state (AuthMiddleware S req cx k) w = (case token_claims S req w of
     None \<Rightarrow> (\<lparr>rs_status = 401,
        rs_body = PError CodeUnauthorized (if rq_cookie req ''access_token'' = None
          then ''missing access token'' else ''invalid or expired token''), rs_cookies = []\<rparr>, w)
   | Some c \<Rightarrow> run_state (k (cx\<lparr>cx_userID := Some (ac_UserID c), cx_orgID := Some (ac_OrgID c),
        cx_role := Some (ac_Role c)\<rparr>)) w)"
proof (cases "rq_cookie req ''access_token''")
  case None
  then show ?thesis by (simp add: AuthMiddleware_def token_claims_def)
next
  case (Some tok)
  obtain v where "run_state (ValidateAccessToken (sv_libs S) (sv_auth S) tok) w = (v, w)"
    by (metis prod.collapse validate_keeps)
  then show ?thesis by (simp add: AuthMiddleware_def token_claims_def Some split: sum.splits)
qed

text \<open>After the authentication the guards are tests of the role.\<close>

lemma guards_permit:
  "cx_role cx = Some role \<Longrightarrow> Auth \<notin> set gs \<Longrightarrow> Service \<notin> set gs \<Longrightarrow>
   list_all (guard_permits role) gs \<Longrightarrow> run_guards gs S req cx k = k cx"
proof (induction gs)
  case (Cons g gs)
  then show ?case by (cases g) (auto simp: guard_permits_def AdminOnly_def OwnerOnly_def TenantScopedOnly_def)
qed simp

lemma guards_refuse:
  "cx_role cx = Some role \<Longrightarrow> Auth \<notin> set gs \<Longrightarrow> Service \<notin> set gs \<Longrightarrow>
   \<not> list_all (guard_permits role) gs \<Longrightarrow> run_state (run_guards gs S req cx k) w = (r, w') \<Longrightarrow>
   rs_status r = 403 \<and> w' = w"
proof (induction gs)
  case (Cons g gs)
  then show ?case
    by (cases g) (auto simp: guard_permits_def AdminOnly_def OwnerOnly_def TenantScopedOnly_def split: if_splits)
qed simp

lemma CutPrefix_True: "CutPrefix h p = (t, True) \<Longrightarrow> h = p @ t"
  unfolding CutPrefix_def starts_with_def
  by (cases "take (length p) h = p") (use append_take_drop_id [of "length p" h] in auto)

lemma service_refuses:
  assumes "rq_header req ''Authorization'' \<noteq> ''Bearer '' @ sv_ServiceToken S"
    and "run_state (ServiceBearerAuth S req cx k) w = (r, w')"
  shows "rs_status r = 401 \<and> w' = w"
proof -
  obtain t f where cut: "CutPrefix (rq_header req ''Authorization'') ''Bearer '' = (t, f)" by fastforce
  have "\<not> f \<or> t \<noteq> sv_ServiceToken S"
    using CutPrefix_True [of "rq_header req ''Authorization''" "''Bearer ''" t] assms(1) cut by (cases f) auto
  then show ?thesis using assms(2) by (auto simp: ServiceBearerAuth_def cut split: if_splits)
qed

section \<open>The table\<close>

lemma match_Lit: "match_path (Lit l # ps) p \<noteq> None \<Longrightarrow> \<exists>ss. p = l # ss \<and> match_path ps ss \<noteq> None"
  by (cases p) (auto split: if_splits)

lemma match_length: "match_path ps p \<noteq> None \<Longrightarrow> length p = length ps"
  by (induction ps p rule: match_path.induct) (auto split: if_splits)

text \<open>What a path that a pattern matches looks like, as far as the literals say.\<close>

fun shape :: "segment list \<Rightarrow> string list \<Rightarrow> bool" where
  "shape [] p \<longleftrightarrow> p = []"
| "shape (Lit l # ps) p \<longleftrightarrow> (case p of [] \<Rightarrow> False | s # ss \<Rightarrow> s = l \<and> shape ps ss)"
| "shape (Param k # ps) p \<longleftrightarrow> (case p of [] \<Rightarrow> False | s # ss \<Rightarrow> shape ps ss)"

lemma match_shape: "match_path ps p \<noteq> None \<Longrightarrow> shape ps p"
  by (induction ps p rule: match_path.induct) (auto split: if_splits)

definition guarded_route :: "route \<Rightarrow> bool" where
  "guarded_route r \<longleftrightarrow> (case rt_guards r of Auth # gs \<Rightarrow> Auth \<notin> set gs \<and> Service \<notin> set gs | _ \<Rightarrow> False)"

text \<open>The segments that decide: the two of the prefix, the resource, and how many follow.\<close>

definition under_api :: "route \<Rightarrow> bool" where
  "under_api r \<longleftrightarrow> take 2 (rt_path r) = [Lit ''api'', Lit ''v1'']"

definition route_public :: "route \<Rightarrow> bool" where
  "route_public r \<longleftrightarrow> rt_path r \<in> set (map (map Lit) public_paths)"

definition route_permits :: "route \<Rightarrow> string \<Rightarrow> bool" where
  "route_permits r role \<longleftrightarrow> list_all (guard_permits role) (tl (rt_guards r))"

definition role_fits :: "route \<Rightarrow> bool" where
  "role_fits r \<longleftrightarrow> (case drop 2 (rt_path r) of
     Lit res # rest \<Rightarrow>
       (res \<in> set tenant_resources \<longleftrightarrow> TenantScoped \<in> set (rt_guards r)) \<and>
       (res \<in> set admin_resources \<longleftrightarrow> Admin \<in> set (rt_guards r)) \<and>
       (res = ''organizations'' \<and> 2 \<le> length rest \<longleftrightarrow> Owner \<in> set (rt_guards r))
   | _ \<Rightarrow> False)"

lemma table_guarded:
  "list_all (\<lambda>r. under_api r \<longrightarrow> route_public r \<or> guarded_route r \<and> role_fits r) setupRouter"
  by (simp add: route_tables under_api_def route_public_def guarded_route_def role_fits_def
      public_paths_def tenant_resources_def admin_resources_def)

lemma table_prefix: "list_all (\<lambda>r. case rt_path r of Lit l # _ \<Rightarrow> l = ''api'' \<longrightarrow> under_api r | _ \<Rightarrow> False) setupRouter"
  by (simp add: route_tables under_api_def)

section \<open>Serving a protected path\<close>

lemma find_route:
  "find (match_route req) setupRouter = Some r \<Longrightarrow>
   r \<in> set setupRouter \<and> rt_method r = rq_method req \<and> match_path (rt_path r) (rq_path req) \<noteq> None"
  by (auto dest!: find_Some_iff_mem simp: match_route_def)

lemma shape_Lits: "shape (map Lit q) p \<longleftrightarrow> p = q"
  by (induction q arbitrary: p) (auto split: list.splits)

lemma protected_route_found:
  assumes "protected_path (rq_path req)" and "find (match_route req) setupRouter = Some r"
  shows "under_api r" "guarded_route r" "role_fits r" "shape (rt_path r) (rq_path req)"
proof -
  have r: "r \<in> set setupRouter" and m: "match_path (rt_path r) (rq_path req) \<noteq> None"
    using find_route [OF assms(2)] by simp_all
  show shape: "shape (rt_path r) (rq_path req)" by (rule match_shape [OF m])
  obtain ss where p: "rq_path req = ''api'' # ss"
    using assms(1) by (cases "rq_path req") (auto simp: protected_path_def)
  have "case rt_path r of Lit l # _ \<Rightarrow> l = ''api'' \<longrightarrow> under_api r | _ \<Rightarrow> False"
    using table_prefix r by (auto simp: list_all_iff)
  then show u: "under_api r" using shape p by (auto split: list.splits segment.splits)
  have "\<not> route_public r"
  proof
    assume "route_public r"
    then obtain q where "q \<in> set public_paths" "rt_path r = map Lit q" by (auto simp: route_public_def)
    then show False using shape assms(1) by (simp add: shape_Lits protected_path_def)
  qed
  then show "guarded_route r" "role_fits r"
    using table_guarded r u by (auto simp: list_all_iff)
qed

lemma serve_protected:
  assumes "protected_path (rq_path req)" and r: "find (match_route req) setupRouter = Some r"
  shows "run_state (serve S req) w = (case token_claims S req w of
      None \<Rightarrow> run_state (abort 401 CodeUnauthorized (if rq_cookie req ''access_token'' = None
          then ''missing access token'' else ''invalid or expired token'')) w
    | Some c \<Rightarrow> run_state (run_guards (tl (rt_guards r)) S
        (with_params (case match_path (rt_path r) (rq_path req) of None \<Rightarrow> [] | Some ps \<Rightarrow> ps) req)
        (context_of c) (rt_handler r S
        (with_params (case match_path (rt_path r) (rq_path req) of None \<Rightarrow> [] | Some ps \<Rightarrow> ps) req))) w)"
proof -
  obtain gs where gs: "rt_guards r = Auth # gs"
    using protected_route_found(2) [OF assms] by (auto simp: guarded_route_def split: list.splits guard.splits)
  have "token_claims S (with_params ps req) w = token_claims S req w" for ps
    by (simp add: token_claims_def with_params_def)
  moreover have "rq_cookie (with_params ps req) = rq_cookie req" for ps by (simp add: with_params_def)
  ultimately show ?thesis
    by (simp add: serve_def r serve_route_def Let_def gs run_AuthMiddleware empty_context_def context_of_def
        split: option.splits)
qed

lemma guard_permits_simps:
  "guard_permits role Auth" "guard_permits role Service" "guard_permits role Admin \<longleftrightarrow> role = ''admin''"
  "guard_permits role Owner \<longleftrightarrow> role = ''owner''" "guard_permits role TenantScoped \<longleftrightarrow> role \<noteq> ''owner''"
  by (simp_all add: guard_permits_def)

lemma list_all_guards: "list_all P gs \<longleftrightarrow> (TenantScoped \<in> set gs \<longrightarrow> P TenantScoped) \<and>
    (Admin \<in> set gs \<longrightarrow> P Admin) \<and> (Owner \<in> set gs \<longrightarrow> P Owner)" if "P Auth" "P Service"
proof -
  have "P g" if "g \<in> set gs" "TenantScoped \<in> set gs \<longrightarrow> P TenantScoped" "Admin \<in> set gs \<longrightarrow> P Admin"
      "Owner \<in> set gs \<longrightarrow> P Owner" for g
  proof (cases g)
  qed (use that \<open>P Auth\<close> \<open>P Service\<close> in simp_all)
  then show ?thesis unfolding list_all_iff by blast
qed

lemma role_fits_may:
  assumes "role_fits r" "under_api r" "shape (rt_path r) p" "guarded_route r"
  shows "list_all (guard_permits role) (tl (rt_guards r)) \<longleftrightarrow> role_may role p"
proof -
  obtain ps where path: "rt_path r = Lit ''api'' # Lit ''v1'' # ps"
    using assms(2) by (cases "rt_path r"; cases "tl (rt_path r)") (auto simp: under_api_def)
  obtain res rest where ps: "ps = Lit res # rest"
    using assms(1) by (auto simp: role_fits_def path split: list.splits segment.splits)
  obtain gs where gs: "rt_guards r = Auth # gs" "Auth \<notin> set gs" "Service \<notin> set gs"
    using assms(4) by (auto simp: guarded_route_def split: list.splits guard.splits)
  have len: "shape qs q \<Longrightarrow> length q = length qs" for qs q
    by (induction qs q rule: shape.induct) (auto split: list.splits)
  obtain q where q: "p = ''api'' # ''v1'' # res # q" "length q = length rest"
    using assms(3) len by (auto simp: path ps split: list.splits)
  have fits: "res \<in> set tenant_resources \<longleftrightarrow> TenantScoped \<in> set gs"
    "res \<in> set admin_resources \<longleftrightarrow> Admin \<in> set gs"
    "res = ''organizations'' \<and> 2 \<le> length rest \<longleftrightarrow> Owner \<in> set gs"
    using assms(1) by (simp_all add: role_fits_def path ps gs)
  have "role_may role p \<longleftrightarrow> (TenantScoped \<in> set gs \<longrightarrow> role \<noteq> ''owner'') \<and>
      (Admin \<in> set gs \<longrightarrow> role = ''admin'') \<and> (Owner \<in> set gs \<longrightarrow> role = ''owner'')"
    by (simp only: role_may_def q list.case fits [symmetric])
  then show ?thesis
    by (simp add: gs list_all_guards [of "guard_permits role", OF guard_permits_simps(1,2)] guard_permits_simps)
qed

section \<open>Properties\<close>

text \<open>
  C15. Every path below \<^verbatim>\<open>/api/v1\<close> except registration, login, refresh, logout and health is closed to
  a request without a valid access token: it is answered with 401 (or 404 when no route matches) and
  neither the database nor the queues nor the bucket change.
\<close>

theorem no_token_no_access:
  assumes "protected_path (rq_path req)" and "token_claims S req w = None"
    and "run_state (serve S req) w = (r, w')"
  shows "rs_status r \<in> {401, 404} \<and> w' = w"
proof (cases "find (match_route req) setupRouter")
    case None
    then show ?thesis using assms(3) by (auto simp: serve_def)
  next
    case (Some rt)
    then show ?thesis using assms(3) by (auto simp: serve_protected [OF assms(1)] assms(2))
qed

theorem no_token_no_access_witness:
  "case run_state (serve demo_server (demo_req ''GET'' [''api'', ''v1'', ''users''] None)) demo_world of
     (r, w') \<Rightarrow> rs_status r \<in> {401, 404} \<and> w' = demo_world"
  by (auto split: prod.split dest!: no_token_no_access [rotated 2]
      simp: protected_path_def public_paths_def token_claims_def)

text \<open>
  C7. A valid token is not enough: the owner's token reaches no resource of a tenant, only an
  administrator's reaches users and invitations, only the owner's the users of an arbitrary
  organization. Everyone else gets 403 (or 404) and nothing changes.
\<close>

theorem wrong_role_no_access:
  assumes "protected_path (rq_path req)" and "token_claims S req w = Some c"
    and "\<not> role_may (ac_Role c) (rq_path req)" and "run_state (serve S req) w = (r, w')"
  shows "rs_status r \<in> {403, 404} \<and> w' = w"
proof (cases "find (match_route req) setupRouter")
    case None
    then show ?thesis using assms(4) by (auto simp: serve_def)
  next
    case (Some rt)
    note found = protected_route_found [OF assms(1) Some]
    obtain gs where gs: "rt_guards rt = Auth # gs" "Auth \<notin> set gs" "Service \<notin> set gs"
      using found(2) by (auto simp: guarded_route_def split: list.splits guard.splits)
    have "\<not> list_all (guard_permits (ac_Role c)) gs"
      using role_fits_may [OF found(3,1,4,2), of "ac_Role c"] assms(3) by (simp add: gs)
    then show ?thesis using assms(4) guards_refuse [OF _ gs(2,3), of "context_of c" "ac_Role c"]
      by (simp add: serve_protected [OF assms(1) Some] assms(2) gs(1) context_of_def)
qed


theorem wrong_role_no_access_witness:
  "case run_state (serve demo_server (demo_req ''POST'' [''api'', ''v1'', ''sites''] (Some ''owner-token''))) demo_world of
     (r, w') \<Rightarrow> rs_status r \<in> {403, 404} \<and> w' = demo_world"
  by (auto split: prod.split dest!: wrong_role_no_access [rotated 3]
      simp: protected_path_def public_paths_def token_claims_def demo_validate role_may_def tenant_resources_def)

text \<open>
  C6. A valid token of a role that the path wants reaches the handler of the matching route, with the
  claims of the token as the context: no guard turns it away, and the answer is that of the handler.
\<close>

theorem right_role_reaches_handler:
  assumes "protected_path (rq_path req)" and "find (match_route req) setupRouter = Some rt"
    and "match_path (rt_path rt) (rq_path req) = Some ps"
    and "token_claims S req w = Some c" and "role_may (ac_Role c) (rq_path req)"
  shows "run_state (serve S req) w = run_state (rt_handler rt S (with_params ps req) (context_of c)) w"
proof -
  note found = protected_route_found [OF assms(1,2)]
  obtain gs where gs: "rt_guards rt = Auth # gs" "Auth \<notin> set gs" "Service \<notin> set gs"
    using found(2) by (auto simp: guarded_route_def split: list.splits guard.splits)
  have "list_all (guard_permits (ac_Role c)) gs"
    using role_fits_may [OF found(3,1,4,2), of "ac_Role c"] assms(5) by (simp add: gs)
  then show ?thesis using guards_permit [OF _ gs(2,3), of "context_of c" "ac_Role c"]
    by (simp add: serve_protected [OF assms(1,2)] assms(3,4) gs(1) context_of_def)
qed

theorem right_role_reaches_handler_witness:
  "run_state (serve demo_server (demo_req ''GET'' [''api'', ''v1'', ''users''] (Some ''admin-token''))) demo_world =
   run_state (Server_ListUsers demo_server (with_params [] (demo_req ''GET'' [''api'', ''v1'', ''users''] (Some ''admin-token'')))
     \<lparr>cx_userID = Some 2, cx_orgID = Some 1, cx_role = Some ''admin''\<rparr>) demo_world"
  using right_role_reaches_handler [where req = "demo_req ''GET'' [''api'', ''v1'', ''users''] (Some ''admin-token'')"
      and rt = "protected_route ''users'' [Admin] ''GET'' [] Server_ListUsers" and ps = "[]"
      and S = demo_server and w = demo_world
      and c = "\<lparr>ac_UserID = 2, ac_OrgID = 1, ac_Role = ''admin'', ac_ExpiresAt = 1000, ac_IssuedAt = 100\<rparr>"]
  by (simp add: protected_path_def public_paths_def token_claims_def demo_validate role_may_def
      tenant_resources_def admin_resources_def route_tables match_route_def context_of_def)

text \<open>
  C30. The endpoint of the workers is reached only with the service token in the header
  \<^verbatim>\<open>Authorization: Bearer ...\<close>; without it the answer is 401 (or 404) and nothing changes, whatever access
  token of a user the request carries.
\<close>

theorem worker_endpoint_wants_service_token:
  assumes "take 1 (rq_path req) = [''internal'']"
    and "rq_header req ''Authorization'' \<noteq> ''Bearer '' @ sv_ServiceToken S"
    and "run_state (serve S req) w = (r, w')"
  shows "rs_status r \<in> {401, 404} \<and> w' = w"
proof (cases "find (match_route req) setupRouter")
  case None
  then show ?thesis using assms(3) by (auto simp: serve_def)
next
  case (Some rt)
  have "list_all (\<lambda>r. case rt_path r of Lit l # _ \<Rightarrow> l = ''internal'' \<longrightarrow> rt_guards r = [Service] | _ \<Rightarrow> False) setupRouter"
    by (simp add: route_tables)
  then have "case rt_path rt of Lit l # _ \<Rightarrow> l = ''internal'' \<longrightarrow> rt_guards rt = [Service] | _ \<Rightarrow> False"
    using find_route [OF Some] by (simp add: list_all_iff)
  moreover have "shape (rt_path rt) (rq_path req)"
    using find_route [OF Some] by (simp add: match_shape)
  moreover obtain ss where "rq_path req = ''internal'' # ss"
    using assms(1) by (cases "rq_path req") auto
  ultimately have "rt_guards rt = [Service]"
    by (auto split: list.splits segment.splits)
  moreover have "rq_header (with_params ps req) = rq_header req" for ps by (simp add: with_params_def)
  ultimately have "rs_status r = 401 \<and> w' = w" using assms(2,3)
    by (intro service_refuses [where S = S]) (auto simp: serve_def Some serve_route_def Let_def)
  then show ?thesis by simp
qed

theorem worker_endpoint_wants_service_token_witness:
  "case run_state (serve demo_server (demo_req ''PATCH'' [''internal'', ''worker'', ''tasks'', ''31'', ''status'']
      (Some ''admin-token''))) demo_world of
     (r, w') \<Rightarrow> rs_status r \<in> {401, 404} \<and> w' = demo_world"
  by (auto split: prod.split dest!: worker_endpoint_wants_service_token [rotated 2])

text \<open>
  C32. Every GET request is safe: whatever it is answered, and even when interactions fail half-way,
  it leaves the database, the queues and the bucket as they were.
\<close>

theorem GET_is_safe:
  assumes "rq_method req = ''GET''" and "run_state (serve S req) w = (r, w')"
  shows "w_db w' = w_db w \<and> w_redis w' = w_redis w \<and> w_objects w' = w_objects w"
proof -
  have table: "list_all (\<lambda>rt. rt_method rt = ''GET'' \<longrightarrow>
      (\<forall>S req cx. state_io_rel unchanged (rt_handler rt S req cx))) setupRouter"
    by (simp add: route_tables unchanged.rel_reading_handlers)
  have "state_io_rel unchanged (serve S req)"
  proof (cases "find (match_route req) setupRouter")
    case (Some rt)
    then have "\<forall>S req cx. state_io_rel unchanged (rt_handler rt S req cx)"
      using table find_route [OF Some] assms(1) by (auto simp: list_all_iff)
    then show ?thesis by (simp add: serve_def Some serve_route_def Let_def unchanged.rel_run_guards)
  qed (simp add: serve_def unchanged.rel_answer)
  from rel_runD [OF this assms(2)] show ?thesis by (simp add: unchanged_def)
qed

theorem GET_is_safe_witness:
  "case run_state (serve demo_server (demo_req ''GET'' [''api'', ''v1'', ''users''] (Some ''admin-token''))) demo_world of
     (r, w') \<Rightarrow> w_db w' = w_db demo_world \<and> w_redis w' = w_redis demo_world \<and> w_objects w' = w_objects demo_world"
  by (auto split: prod.split dest!: GET_is_safe [rotated])

end
