(* ===== verification/Answers.thy ===== *)
theory Answers
  imports Access
begin

text \<open>
  What the handlers answer: every answer is an error with the status of its code, or a success; and
  the rows in the answer to a tenant's request belong to that tenant.
\<close>

section \<open>Results of statements\<close>

text \<open>\<open>yields P m F\<close>: from a database with \<open>P\<close>, a result \<open>x\<close> of \<open>m\<close> comes with a database such that \<open>F x\<close>.\<close>

definition yields :: "(db \<Rightarrow> bool) \<Rightarrow> 'a act \<Rightarrow> ('a \<Rightarrow> db \<Rightarrow> bool) \<Rightarrow> bool" where
  "yields P m F \<longleftrightarrow> (\<forall>w x w'. P (w_db w) \<longrightarrow> run_state m w = (Inr x, w') \<longrightarrow> F x (w_db w'))"

named_theorems yield

lemma yields_exec:
  "(\<And>g t d x d'. P d \<Longrightarrow> f g t d = (Inr x, d') \<Longrightarrow> F x d') \<Longrightarrow> yields P (exec E f) F"
  by (auto simp: yields_def dest!: exec_Inr)

lemma yields_sel: "(\<And>d. P d \<Longrightarrow> F (f d) d) \<Longrightarrow> yields P (exec E (sel f)) F"
  by (rule yields_exec) auto

lemma yields_sel_one: "(\<And>d x. P d \<Longrightarrow> f d = Some x \<Longrightarrow> F x d) \<Longrightarrow> yields P (exec E (sel_one f)) F"
  by (rule yields_exec) auto

lemma yields_call_ok: "yields P m F \<Longrightarrow> yields P (call m h ok) F"
  by (auto simp: yields_def run_call split: prod.splits sum.splits)

lemma yields_call: "(\<And>x. yields (\<lambda>_. True) (k x) F) \<Longrightarrow> yields P (call m h k) F"
  by (fastforce simp: yields_def run_call split: prod.splits sum.splits)

lemma yields_fail: "yields P (fail e) F"
  by (simp add: yields_def)

lemma yields_if: "(c \<Longrightarrow> yields P a F) \<Longrightarrow> (\<not> c \<Longrightarrow> yields P b F) \<Longrightarrow> yields P (if c then a else b) F"
  by simp

lemma yields_sum:
  "(\<And>e. v = Inl e \<Longrightarrow> yields P (a e) F) \<Longrightarrow> (\<And>x. v = Inr x \<Longrightarrow> yields P (b x) F) \<Longrightarrow>
   yields P (case v of Inl e \<Rightarrow> a e | Inr x \<Rightarrow> b x) F"
  by (cases v) auto

lemma yields_option:
  "(v = None \<Longrightarrow> yields P a F) \<Longrightarrow> (\<And>x. v = Some x \<Longrightarrow> yields P (b x) F) \<Longrightarrow>
   yields P (case v of None \<Rightarrow> a | Some x \<Rightarrow> b x) F"
  by (cases v) auto

lemma insert_row_Inr: "insert_row cs rows put r d = (Inr x, d') \<Longrightarrow> x = r \<and> checks_hold cs"
  by (auto simp: insert_row_def split: option.splits)

lemma update_row_Inr: "update_row cs rows put key p f d = (Inr y, d') \<Longrightarrow> \<exists>x. x \<in> set (rows d) \<and> p x \<and> y = f x"
  by (cases rule: update_row_cases [of cs rows put key p f d]) auto

lemma find_pred: "find p xs = Some x \<Longrightarrow> p x" and find_mem: "find p xs = Some x \<Longrightarrow> x \<in> set xs"
  by (auto dest: find_Some_iff_mem)

section \<open>Rows of a tenant\<close>

definition task_of :: "uuid \<Rightarrow> db \<Rightarrow> document_task \<Rightarrow> bool" where
  "task_of o' d t \<longleftrightarrow> org_document_exists d (task_document_id t) o'"

definition entry_of :: "uuid \<Rightarrow> catalog_entry \<Rightarrow> bool" where
  "entry_of o' x \<longleftrightarrow> cat_organization_id x = Some o' \<or> cat_organization_id x = None"

definition session_of :: "uuid \<Rightarrow> db \<Rightarrow> uuid \<Rightarrow> bool" where
  "session_of o' d i \<longleftrightarrow> list_ex (\<lambda>s. cs_id s = i \<and> cs_organization_id s = o') (comparison_sessions d)"

text \<open>
  An answer of an extraction request is the stored value of some key for the request's document, with the
  name and the type of this key; in a sound database the key is the organization's own or a system key.
\<close>

definition answer_from :: "uuid \<Rightarrow> uuid \<Rightarrow> db \<Rightarrow> extraction_answer \<Rightarrow> bool" where
  "answer_from o' doc d a \<longleftrightarrow> (\<exists>x \<in> set (document_extracted_data d). \<exists>k \<in> set (extraction_keys d).
     dat_organization_id x = o' \<and> dat_document_id x = doc \<and> dat_key_id x = key_id k \<and>
     a = \<lparr>ans_KeyName = key_name k, ans_DataType = key_data_type k, ans_ExtractedValue = dat_extracted_value x\<rparr> \<and>
     (db_ok d \<longrightarrow> org_visible o' k))"

definition response_of :: "uuid \<Rightarrow> db \<Rightarrow> extraction_request_response \<Rightarrow> bool" where
  "response_of o' d y \<longleftrightarrow> (\<exists>r \<in> set (extraction_requests d). req_organization_id r = o' \<and>
     er_ID y = req_id r \<and> er_DocumentID y = req_document_id r \<and> er_Status y = req_status r \<and>
     er_Anonymize y = req_anonymize r \<and> er_ErrorMessage y = req_error_message r \<and>
     er_CreatedAt y = req_created_at r \<and> er_UpdatedAt y = req_updated_at r \<and>
     dec_strings (req_questions r) = Some (er_Questions y) \<and>
     (case req_resolved_schema r of None \<Rightarrow> er_ResolvedSchema y = [] | Some j \<Rightarrow> dec_schema j = Some (er_ResolvedSchema y)) \<and>
     list_all (answer_from o' (req_document_id r) d) (er_Answers y))"

text \<open>
  An entry without an organization is a system entry that everyone sees. Payloads without rows are
  those of login and registration, the number of a new request and the text of a URL.
\<close>

fun tenant_payload :: "uuid \<Rightarrow> db \<Rightarrow> payload \<Rightarrow> bool" where
  "tenant_payload o' d (POrganization x) = (org_id x = o')"
| "tenant_payload o' d (PUserRow x) = (ur_OrganizationID x = Some o')"
| "tenant_payload o' d (PUserRows xs) = list_all (\<lambda>x. ur_OrganizationID x = Some o') xs"
| "tenant_payload o' d (PCreatedUser x t) = (up_OrganizationID x = Some o')"
| "tenant_payload o' d (PProfile x) = (up_OrganizationID x = Some o')"
| "tenant_payload o' d (PInvitation x t) = (ir_OrganizationID x = o')"
| "tenant_payload o' d (PInvitations xs) = list_all (\<lambda>x. ir_OrganizationID x = o') xs"
| "tenant_payload o' d (PSite x) = (site_organization_id x = o')"
| "tenant_payload o' d (PSites xs) = list_all (\<lambda>x. site_organization_id x = o') xs"
| "tenant_payload o' d (PAuditLog xs) = list_all (\<lambda>x. audit_organization_id x = o') xs"
| "tenant_payload o' d (PDocument x) = (doc_organization_id x = o')"
| "tenant_payload o' d (PDocuments xs) = list_all (\<lambda>x. doc_organization_id x = o') xs"
| "tenant_payload o' d (PTask t) = task_of o' d t"
| "tenant_payload o' d (PTasks ts) = list_all (task_of o' d) ts"
| "tenant_payload o' d (PExtraction y) = response_of o' d y"
| "tenant_payload o' d (PEntry x) = entry_of o' x"
| "tenant_payload o' d (PEntries xs) = list_all (entry_of o') xs"
| "tenant_payload o' d (PSession s) = (cs_organization_id s = o')"
| "tenant_payload o' d (PSessions ss) = list_all (\<lambda>s. cs_organization_id s = o') ss"
| "tenant_payload o' d (PSessionDocuments s ps) =
     (cs_organization_id s = o' \<and> list_all (\<lambda>p. csd_organization_id p = o') ps)"
| "tenant_payload o' d (PPlace p) = session_of o' d (csd_session_id p)"
| "tenant_payload o' d b = True"

text \<open>What the context of a request promises of the payload: nothing for the owner, who has no tenant.\<close>

definition in_scope :: "gin_context \<Rightarrow> db \<Rightarrow> payload \<Rightarrow> bool" where
  "in_scope cx d b \<longleftrightarrow> (case cx_orgID cx of None \<Rightarrow> True
     | Some o' \<Rightarrow> cx_role cx = Some ''owner'' \<or> o' = uuid_Nil \<or> tenant_payload o' d b)"

fun is_error :: "payload \<Rightarrow> bool" where
  "is_error (PError c m) = True"
| "is_error (PText t) = True"
| "is_error b = False"

definition success_ok :: "gin_context \<Rightarrow> nat \<Rightarrow> payload \<Rightarrow> db \<Rightarrow> bool" where
  "success_ok cx st b d \<longleftrightarrow> (if b = PEmpty then st = 204 else st \<in> {200, 201}) \<and> \<not> is_error b \<and> in_scope cx d b"

definition answer_ok :: "gin_context \<Rightarrow> http_response \<Rightarrow> db \<Rightarrow> bool" where
  "answer_ok cx r d \<longleftrightarrow> (\<exists>e. rs_status r = rs_status (error_answer e) \<and> rs_body r = rs_body (error_answer e)) \<or>
     success_ok cx (rs_status r) (rs_body r) d"

definition answers :: "(db \<Rightarrow> bool) \<Rightarrow> gin_context \<Rightarrow> answer \<Rightarrow> bool" where
  "answers P cx m \<longleftrightarrow> (\<forall>w. P (w_db w) \<longrightarrow>
     answer_ok cx (fst (run_state m w)) (w_db (snd (run_state m w))))"

named_theorems ans

section \<open>Idioms\<close>

lemma answers_answer [ans]: "(\<And>d. P d \<Longrightarrow> success_ok cx st b d) \<Longrightarrow> answers P cx (answer st b)"
  by (simp add: answers_def answer_ok_def)

lemma answers_respond [ans]: "answers P cx (respond e)"
  by (auto simp: answers_def answer_ok_def)

lemma answers_attempt:
  "yields P m F \<Longrightarrow> (\<And>x d. F x d \<Longrightarrow> answers (F x) cx (k x)) \<Longrightarrow> answers P cx (attempt m k)"
  unfolding answers_def
proof (intro allI impI)
  fix w :: world
  assume y: "yields P m F" and k: "\<And>x d. F x d \<Longrightarrow> \<forall>w. F x (w_db w) \<longrightarrow>
      answer_ok cx (fst (run_state (k x) w)) (w_db (snd (run_state (k x) w)))" and P: "P (w_db w)"
  obtain r w' where run: "run_state m w = (r, w')" by fastforce
  show "answer_ok cx (fst (run_state (attempt m k) w)) (w_db (snd (run_state (attempt m k) w)))"
  proof (cases r)
    case (Inr x)
    then have "F x (w_db w')" using y P run by (auto simp: yields_def)
    then show ?thesis using k run Inr by (auto simp: run_attempt)
  qed (auto simp: run run_attempt answer_ok_def)
qed

lemma answers_attempt_any: "(\<And>x. answers (\<lambda>_. True) cx (k x)) \<Longrightarrow> answers P cx (attempt m k)"
  by (rule answers_attempt [where F = "\<lambda>_ _. True"]) (auto simp: yields_def)

lemma answers_bind: "(\<And>x. answers (\<lambda>_. True) cx (k x)) \<Longrightarrow> answers P cx (State_Monad.bind m k)"
  by (auto simp: answers_def split: prod.splits)

lemma answers_with_cookies [ans]: "answers P cx m \<Longrightarrow> answers P cx (with_cookies cs m)"
  by (force simp: answers_def run_with_cookies answer_ok_def split: prod.splits)

lemma answers_cookies [ans]: "answers P cx m \<Longrightarrow> answers P cx (setAuthCookies S a r m)"
  "answers P cx m \<Longrightarrow> answers P cx (clearAuthCookies S m)"
  by (simp_all add: setAuthCookies_def clearAuthCookies_def answers_with_cookies)

lemma answers_unless [ans]: "(\<not> c \<Longrightarrow> answers P cx k) \<Longrightarrow> answers P cx (unless c e k)"
  by (simp add: unless_def answers_respond)

lemma answers_orgID [ans]:
  "(\<And>i. cx_orgID cx = Some i \<Longrightarrow> answers P cx (k i)) \<Longrightarrow> answers P cx (orgIDFromContext cx k)"
  by (auto simp: orgIDFromContext_def intro: answers_respond split: option.splits)

lemma answers_userID [ans]: "(\<And>i. answers P cx (k i)) \<Longrightarrow> answers P cx (userIDFromContext cx k)"
  by (auto simp: userIDFromContext_def intro: answers_respond split: option.splits)

lemma answers_requireAdminOrOwner [ans]: "answers P cx k \<Longrightarrow> answers P cx (requireAdminOrOwner cx k)"
  by (simp add: requireAdminOrOwner_def answers_respond)

lemma answers_parseUUID [ans]: "(\<And>u. answers P cx (k u)) \<Longrightarrow> answers P cx (parseUUID L msg raw k)"
  by (auto simp: parseUUID_def intro: answers_respond split: sum.splits)

lemma answers_parseOptionalUUID [ans]:
  "(\<And>u. answers P cx (k u)) \<Longrightarrow> answers P cx (parseOptionalUUID L msg raw k)"
  by (auto simp: parseOptionalUUID_def intro: answers_parseUUID split: option.splits)

lemma answers_bind_json [ans]: "(\<And>r. answers P cx (k r)) \<Longrightarrow> answers P cx (bind_json dec valid msg req k)"
  by (auto simp: bind_json_def intro: answers_respond split: option.splits)

lemma answers_bind_nullable [ans]: "(\<And>r. answers P cx (k r)) \<Longrightarrow> answers P cx (bind_nullable n msg req k)"
  by (auto simp: bind_nullable_def intro: answers_respond split: option.splits)

lemma answers_bind_catalog [ans]: "(\<And>r. answers P cx (k r)) \<Longrightarrow> answers P cx (bind_catalog req k)"
  by (simp add: bind_catalog_def answers_bind_json)

lemma answers_required_fields [ans]: "(\<And>a b. answers P cx (k a b)) \<Longrightarrow> answers P cx (required_fields r k)"
  by (auto simp: required_fields_def intro: answers_respond split: option.splits)

lemma answers_nothing_to_update [ans]: "answers P cx k \<Longrightarrow> answers P cx (nothing_to_update r k)"
  by (simp add: nothing_to_update_def answers_unless)

lemma answers_valid_site_status [ans]: "answers P cx k \<Longrightarrow> answers P cx (valid_site_status s k)"
  by (simp add: valid_site_status_def answers_unless)

lemma answers_own_organization [ans]:
  "(isOwner cx \<or> i = orgID \<Longrightarrow> answers P cx k) \<Longrightarrow> answers P cx (own_organization cx i orgID k)"
  by (auto simp: own_organization_def intro!: answers_unless)

lemma answers_check [ans]:
  "(\<And>p. answers (\<lambda>_. True) cx (k p)) \<Longrightarrow> answers (\<lambda>_. True) cx (check_parent S i raw k)"
  "(\<And>p. answers (\<lambda>_. True) cx (k p)) \<Longrightarrow> answers (\<lambda>_. True) cx (check_site S i raw k)"
  by (auto simp: check_parent_def check_site_def intro!: answers_parseUUID answers_attempt_any split: option.splits)

lemma answers_if [ans]: "(c \<Longrightarrow> answers P cx a) \<Longrightarrow> (\<not> c \<Longrightarrow> answers P cx b) \<Longrightarrow> answers P cx (if c then a else b)"
  by simp

lemma answers_option [ans]: "answers P cx a \<Longrightarrow> (\<And>x. answers P cx (b x)) \<Longrightarrow>
   answers P cx (case v of None \<Rightarrow> a | Some x \<Rightarrow> b x)"
  by (simp split: option.splits)

lemma answers_sum [ans]: "(\<And>e. answers P cx (a e)) \<Longrightarrow> (\<And>x. v = Inr x \<Longrightarrow> answers P cx (b x)) \<Longrightarrow>
   answers P cx (case v of Inl e \<Rightarrow> a e | Inr x \<Rightarrow> b x)"
  by (simp split: sum.splits)

lemma answers_prod [ans]: "(\<And>a b. answers P cx (f a b)) \<Longrightarrow> answers P cx (case p of (a, b) \<Rightarrow> f a b)"
  by (simp split: prod.splits)

section \<open>Rows that the services return\<close>

lemma yields_organization:
  "yields P (organization_GetByID E i) (\<lambda>x d. org_id x = i)"
  "yields P (organization_Update E i n inn) (\<lambda>x d. org_id x = i)"
  unfolding organization_GetByID_def organization_Update_def GetOrganizationByID_def UpdateOrganization_def
  by (auto intro!: yields_call_ok yields_sel_one yields_sum yields_fail yields_exec split: option.splits
      dest!: find_pred update_row_Inr simp: stmt_UpdateOrganization_def)

lemma yields_users:
  "yields P (user_List E o') (\<lambda>xs d. list_all (\<lambda>x. ur_OrganizationID x = Some o') xs)"
  "yields P (user_Create E L p) (\<lambda>x d. usr_organization_id x = Some (cu_OrgID p))"
  "yields P (user_Update E q) (\<lambda>x d. ur_OrganizationID x = Some (uu_OrgID q))"
  "yields P (GetProfile E u o') (\<lambda>x d. o' = uuid_Nil \<or> ur_OrganizationID x = Some o')"
  unfolding user_List_def user_Create_def user_Update_def GetProfile_def
    ListUsersByOrganization_def CreateUser_def UpdateUser_def GetUserByIDAndOrg_def
  subgoal by (auto intro!: yields_call_ok yields_sel simp: users_of_org_def user_row_of_def list_all_iff)
  subgoal by (auto intro!: yields_if yields_fail yields_call yields_call_ok yields_exec
      simp: stmt_CreateUser_def Let_def new_user_def dest!: insert_row_Inr)
  subgoal by (auto intro!: yields_if yields_fail yields_call_ok yields_exec
      simp: stmt_UpdateUser_def user_row_of_def dest!: update_row_Inr split: prod.splits sum.splits)
  subgoal
    apply (rule yields_if)
     apply (simp add: yields_def)
    apply (auto simp: yields_def run_call user_row_of_def split: prod.splits sum.splits if_splits
        dest!: exec_Inr find_pred)
    done
  done

lemma yields_Deactivate: "yields P (Deactivate E u o') (\<lambda>x d. ur_OrganizationID x = Some o')"
  unfolding Deactivate_def using yields_users(3) [of P E "\<lparr>uu_UserID = u, uu_OrgID = o', uu_Role = None, uu_Active = Some False\<rparr>"]
  by simp

lemma yields_invitations:
  "yields P (invitation_ListByOrg E o') (\<lambda>xs d. list_all (\<lambda>x. inv_organization_id x = o') xs)"
  "yields P (invitation_Create E o' em role u h t) (\<lambda>x d. inv_organization_id x = o')"
  unfolding invitation_ListByOrg_def invitation_Create_def ListUserInvitationsByOrg_def CreateUserInvitation_def
  by (auto intro!: yields_call_ok yields_sel yields_exec
      simp: list_all_iff stmt_CreateUserInvitation_def Let_def new_invitation_def dest!: insert_row_Inr)

lemma yields_sites:
  "yields P (site_Get E i o') (\<lambda>x d. site_organization_id x = o')"
  "yields P (site_Create E p) (\<lambda>x d. site_organization_id x = sp_OrganizationID p)"
  "yields P (site_Update E i o' n st) (\<lambda>x d. site_organization_id x = o')"
  "yields P (site_UpdateCover E i o' c) (\<lambda>x d. site_organization_id x = o')"
  "yields P (site_UpdateType E i o' ty) (\<lambda>x d. site_organization_id x = o')"
  unfolding site_Get_def site_Create_def site_Update_def site_UpdateCover_def site_UpdateType_def
    GetConstructionSite_def CreateConstructionSite_def UpdateConstructionSite_def
    UpdateConstructionSiteCover_def UpdateConstructionSiteType_def
  by (auto intro!: yields_call_ok yields_sel_one yields_exec dest!: find_pred insert_row_Inr update_row_Inr
      simp: stmt_CreateConstructionSite_def new_site_def Let_def stmt_UpdateConstructionSite_def
        stmt_UpdateConstructionSiteCover_def stmt_UpdateConstructionSiteType_def update_site_def)

lemma yields_site_lists:
  "yields P (site_ListByOrganization E o') (\<lambda>xs d. list_all (\<lambda>x. site_organization_id x = o') xs)"
  "yields P (site_ListByParent E o' p) (\<lambda>xs d. list_all (\<lambda>x. site_organization_id x = o') xs)"
  "yields P (site_ListRoot E o') (\<lambda>xs d. list_all (\<lambda>x. site_organization_id x = o') xs)"
  "yields P (audit_ListBySite E i o' l off) (\<lambda>xs d. list_all (\<lambda>x. audit_organization_id x = o') xs)"
  unfolding site_ListByOrganization_def site_ListByParent_def site_ListRoot_def audit_ListBySite_def
    ListConstructionSitesByOrganization_def ListConstructionSitesByParent_def
    ListRootConstructionSites_def ListSiteAuditLogBySite_def
  by (auto intro!: yields_call_ok yields_sel yields_exec dest!: in_set_takeD in_set_dropD
      simp: list_all_iff sites_where_def stmt_ListSiteAuditLogBySite_def audit_log_of_def split: if_splits)

lemma create_entry_Inr: "create_entry pk uq fk rows put org n so act g t d = (Inr x, d') \<Longrightarrow> cat_organization_id x = org"
  by (auto simp: create_entry_def Let_def new_entry_def dest!: insert_row_Inr)

lemma update_entry_Inr: "update_entry uq rows put i org n so act g t d = (Inr x, d') \<Longrightarrow> cat_organization_id x = Some org"
  by (auto simp: update_entry_def dest!: update_row_Inr)

lemma yields_catalogs:
  "yields P (kind_List E o') (\<lambda>xs d. list_all (entry_of o') xs)"
  "yields P (kind_Get E i o') (\<lambda>x d. entry_of o' x)"
  "yields P (kind_Create E o' n so act) (\<lambda>x d. entry_of o' x)"
  "yields P (kind_Update E i o' n so act) (\<lambda>x d. entry_of o' x)"
  "yields P (role_List E o') (\<lambda>xs d. list_all (entry_of o') xs)"
  "yields P (role_Get E i o') (\<lambda>x d. entry_of o' x)"
  "yields P (role_Create E o' n so act) (\<lambda>x d. entry_of o' x)"
  "yields P (role_Update E i o' n so act) (\<lambda>x d. entry_of o' x)"
  unfolding kind_List_def kind_Get_def kind_Create_def kind_Update_def role_List_def role_Get_def
    role_Create_def role_Update_def ListContractKindsByOrg_def GetContractKind_def CreateContractKind_def
    UpdateContractKind_def ListFileRolesByOrg_def GetFileRole_def CreateFileRole_def UpdateFileRole_def
  by (auto intro!: yields_call_ok yields_sel yields_sel_one yields_exec
      dest!: find_pred create_entry_Inr update_entry_Inr
      simp: list_all_iff entries_of_org_def entry_of_def get_entry_def stmt_CreateContractKind_def
        stmt_UpdateContractKind_def stmt_CreateFileRole_def stmt_UpdateFileRole_def)

lemma yields_comparisons:
  "yields P (comparison_ListByOrg E o') (\<lambda>xs d. list_all (\<lambda>s. cs_organization_id s = o') xs)"
  "yields P (comparison_Get E i o') (\<lambda>x d. cs_organization_id x = o' \<and> session_of o' d i)"
  "yields P (comparison_ListDocuments E i o') (\<lambda>xs d. list_all (\<lambda>p. csd_organization_id p = o') xs)"
  unfolding comparison_ListByOrg_def comparison_Get_def comparison_ListDocuments_def
    ListComparisonSessionsByOrg_def GetComparisonSession_def ListComparisonSessionDocuments_def
  by (auto intro!: yields_call_ok yields_sel yields_sel_one dest!: find_Some_iff_mem
      simp: list_all_iff session_of_def list_ex_iff)

lemma yields_comparison_Create: "yields P (comparison_Create E o' u n k) (\<lambda>x d. cs_organization_id x = o')"
  unfolding comparison_Create_def Let_def CreateComparisonSession_def
  by (auto intro!: yields_option yields_call yields_call_ok yields_exec dest!: insert_row_Inr
      simp: stmt_CreateComparisonSession_def new_session_def Let_def)

lemma yields_AddDocument:
  "yields (\<lambda>d. session_of o' d i) (AddDocument E i doc o' pos) (\<lambda>x d. session_of o' d (csd_session_id x))"
  unfolding AddDocument_def AddDocumentToComparisonSession_def
proof (intro yields_call_ok yields_exec)
  fix g t d x d'
  assume "session_of o' d i" and "stmt_AddDocumentToComparisonSession i doc o' pos g t d = (Inr x, d')"
  then show "session_of o' d' (csd_session_id x)"
    by (auto simp: stmt_AddDocumentToComparisonSession_def Let_def insert_row_def session_of_def place_key_def
        split: option.splits dest: find_pred)
qed

lemma yields_documents:
  "yields P (document_Get E i o') (\<lambda>x d. doc_organization_id x = o')"
  "yields P (document_Create E p) (\<lambda>x d. doc_organization_id x = cd_OrganizationID p)"
  "yields P (document_ListByOrganization E o') (\<lambda>xs d. list_all (\<lambda>x. doc_organization_id x = o') xs)"
  "yields P (document_ListBySite E o' s) (\<lambda>xs d. list_all (\<lambda>x. doc_organization_id x = o') xs)"
  "yields P (document_ListByParent E i o') (\<lambda>xs d. list_all (\<lambda>x. doc_organization_id x = o') xs)"
  unfolding document_Get_def document_Create_def document_ListByOrganization_def document_ListBySite_def
    document_ListByParent_def GetDocument_def CreateDocument_def ListRootDocumentsByOrganization_def
    ListRootDocumentsBySite_def ListDocumentsByParent_def
  by (auto intro!: yields_call_ok yields_sel yields_sel_one yields_exec dest!: find_pred split: option.splits
      simp: stmt_CreateDocument_def insert_document_def new_document_def list_all_iff root_documents_def
        documents_by_parent_def)

lemma yields_UpdateMeta: "yields P (UpdateMeta E i o' k r b) (\<lambda>x d. doc_organization_id x = o')"
  unfolding UpdateMeta_def UpdateDocumentMeta_def
  by (auto intro!: yields_call yields_call_ok yields_exec dest!: find_pred split: option.splits
      simp: stmt_UpdateDocumentMeta_def update_document_def Let_def)

lemma yields_tasks:
  "yields P (task_Get E i o') (\<lambda>x d. task_of o' d x)"
  "yields P (task_ListByDocument E i o') (\<lambda>xs d. list_all (task_of o' d) xs)"
  "yields P (task_ListByDocuments E is o') (\<lambda>xs d. list_all (task_of o' d) xs)"
  "yields P (task_UpdateStatus E i o' st) (\<lambda>x d. task_of o' d x)"
  unfolding task_Get_def task_ListByDocument_def task_ListByDocuments_def task_UpdateStatus_def
    GetDocumentTask_def ListTasksByDocument_def ListTasksByDocuments_def UpdateDocumentTaskStatus_def
  by (auto intro!: yields_call_ok yields_sel yields_sel_one yields_exec dest!: find_pred split: option.splits
      simp: task_in_org_def task_of_def list_all_iff stmt_UpdateDocumentTaskStatus_def update_task_def
        org_document_exists_def)

lemma yields_GetRequest:
  "yields P (GetRequest E i o') (\<lambda>x d. x \<in> set (extraction_requests d) \<and> req_organization_id x = o')"
  unfolding GetRequest_def GetExtractionRequest_def
  by (auto intro!: yields_call_ok yields_sel_one dest!: find_Some_iff_mem)

text \<open>The rows of the join are answers of the organization for the document.\<close>

lemma datum_key_visible:
  assumes "db_ok d" and "x \<in> set (document_extracted_data d)" and "k \<in> set (extraction_keys d)"
    and "dat_key_id x = key_id k"
  shows "org_visible (dat_organization_id x) k"
proof -
  have "datum_ok d x" using assms(1,2) by (simp add: db_ok_def tables_ok_defs table_ok_def)
  then obtain k' where k': "k' \<in> set (extraction_keys d)" "key_id k' = key_id k" "org_visible (dat_organization_id x) k'"
    using assms(4) by (auto simp: datum_ok_def datum_triggers_def checks_hold_simps visible_key_def list_ex_iff org_visible_def)
  have "k' = k" by (rule distinct_key_inj [OF db_ok_distinct(4) [OF assms(1)] k'(1) assms(3) k'(2)])
  then show ?thesis using k'(3) by simp
qed

lemma extracted_for_keys_from: "x \<in> set (extracted_for_keys doc o' names d) \<Longrightarrow> answer_from o' doc d (answer_of x)"
  by (force simp: extracted_for_keys_def answer_from_def answer_of_def intro: datum_key_visible)

lemma yields_GetAnswers:
  "yields (\<lambda>d. r \<in> set (extraction_requests d) \<and> req_organization_id r = o') (GetAnswers E r)
     (\<lambda>as d. r \<in> set (extraction_requests d) \<and> req_organization_id r = o' \<and>
        list_all (answer_from o' (req_document_id r) d) as)"
  unfolding GetAnswers_def ListExtractedDataForKeys_def
  by (auto simp: yields_def run_call list_all_iff extracted_for_keys_from split: option.splits sum.splits prod.splits if_splits
      dest!: exec_Inr)

text \<open>A publisher writes to the queues only.\<close>

definition keeps_db :: "python_client \<Rightarrow> bool" where
  "keeps_db p \<longleftrightarrow> (\<forall>r w. w_db (snd (run_state (p r) w)) = w_db w)"

lemma keeps_db_Process: "keeps_db (Process E)"
  using Process_db_rel [of "\<lambda>d d'. d' = d" E] by (simp add: keeps_db_def state_io_rel_def db_rel_def)

lemma yields_task_Create:
  assumes "\<And>p. py = Some p \<Longrightarrow> keeps_db p"
  shows "yields P (task_Create E py i m o') (\<lambda>x d. task_of o' d x)"
proof -
  have stmt: "task_of o' d' x" if "stmt_CreateDocumentTask i m o' g t d = (Inr x, d')" for g t d d' x
    using that by (auto simp: stmt_CreateDocumentTask_def insert_task_def new_task_def task_of_def
        org_document_exists_def list_ex_iff split: option.splits dest!: find_Some_iff_mem)
  show ?thesis
    unfolding task_Create_def CreateDocumentTask_def
    by (auto simp: yields_def run_call assms keeps_db_def split: sum.splits prod.splits if_splits option.splits
        dest!: exec_Inr stmt) (use assms stmt in \<open>fastforce simp: keeps_db_def dest!: exec_Inr\<close>)+
qed

section \<open>Handlers\<close>

lemmas attempts [ans] = yields_organization [THEN answers_attempt] yields_users [THEN answers_attempt]
  yields_Deactivate [THEN answers_attempt] yields_invitations [THEN answers_attempt]
  yields_sites [THEN answers_attempt] yields_site_lists [THEN answers_attempt]
  yields_catalogs [THEN answers_attempt] yields_comparisons [THEN answers_attempt]
  yields_comparison_Create [THEN answers_attempt] yields_AddDocument [THEN answers_attempt]
  yields_documents [THEN answers_attempt] yields_UpdateMeta [THEN answers_attempt]
  yields_tasks [THEN answers_attempt] yields_GetRequest [THEN answers_attempt]

lemmas attempts_any [ans] =
  answers_attempt_any [where m = "Login E L s u p" for E L s u p]
  answers_attempt_any [where m = "GenerateTokens E L s u i r" for E L s u i r]
  answers_attempt_any [where m = "Register E L q" for E L q]
  answers_attempt_any [where m = "organization_Delete E i" for E i]
  answers_attempt_any [where m = "invitation_Delete E i j" for E i j]
  answers_attempt_any [where m = "site_Delete E i j" for E i j]
  answers_attempt_any [where m = "kind_Delete E i j" for E i j]
  answers_attempt_any [where m = "role_Delete E i j" for E i j]
  answers_attempt_any [where m = "comparison_Delete E i j" for E i j]
  answers_attempt_any [where m = "RemoveDocument E i j k" for E i j k]
  answers_attempt_any [where m = "document_Delete E i j" for E i j]
  answers_attempt_any [where m = "task_Delete E i j" for E i j]
  answers_attempt_any [where m = "GetPresignedURL E t i j b" for E t i j b]
  answers_attempt_any [where m = "Initiate E x i j q b" for E x i j q b]
  answers_attempt_any [where m = "HandleStatusUpdate E w i u" for E w i u]

lemma in_scopeI: "(\<And>o'. cx_orgID cx = Some o' \<Longrightarrow> cx_role cx \<noteq> Some ''owner'' \<Longrightarrow> o' \<noteq> uuid_Nil \<Longrightarrow>
    tenant_payload o' d b) \<Longrightarrow> in_scope cx d b"
  by (auto simp: in_scope_def split: option.splits)

lemma success_okI [ans]: "if b = PEmpty then st = 204 else st \<in> {200, 201} \<and> \<not> is_error b \<Longrightarrow>
    (\<And>o'. cx_orgID cx = Some o' \<Longrightarrow> cx_role cx \<noteq> Some ''owner'' \<Longrightarrow> o' \<noteq> uuid_Nil \<Longrightarrow> tenant_payload o' d b) \<Longrightarrow>
    success_ok cx st b d"
  by (auto simp: success_ok_def intro: in_scopeI)

lemma answers_accounts:
  "answers (\<lambda>_. True) cx (HealthCheck req cx)" "answers (\<lambda>_. True) cx (Server_Login S req cx)"
  "answers (\<lambda>_. True) cx (Server_Logout S req cx)" "answers (\<lambda>_. True) cx (Server_RefreshTokens S req cx)"
  "answers (\<lambda>_. True) cx (Server_RegisterOrganization S req cx)"
  "answers (\<lambda>_. True) cx (Server_GetMe S req cx)"
  "answers (\<lambda>_. True) cx (Server_GetOrganization S req cx)"
  "answers (\<lambda>_. True) cx (Server_UpdateOrganization S req cx)"
  "answers (\<lambda>_. True) cx (Server_DeleteOrganization S req cx)"
  "answers (\<lambda>_. True) cx (Server_CreateUser S req cx)" "answers (\<lambda>_. True) cx (Server_ListUsers S req cx)"
  "answers (\<lambda>_. True) cx (Server_UpdateUser S req cx)" "answers (\<lambda>_. True) cx (Server_DeactivateUser S req cx)"
  "answers (\<lambda>_. True) cx (Server_ListInvitations S req cx)"
  "answers (\<lambda>_. True) cx (Server_CreateInvitation S req cx)"
  "answers (\<lambda>_. True) cx (Server_DeleteInvitation S req cx)"
  unfolding HealthCheck_def Server_Login_def Server_Logout_def Server_RefreshTokens_def
    Server_RegisterOrganization_def Server_GetMe_def Server_GetOrganization_def
    Server_UpdateOrganization_def Server_DeleteOrganization_def Server_CreateUser_def Server_ListUsers_def
    Server_UpdateUser_def Server_DeactivateUser_def Server_ListInvitations_def
    Server_CreateInvitation_def Server_DeleteInvitation_def Let_def
  by (auto intro!: ans answers_bind simp: row_profile_def created_profile_def
      toInvitationResponse_def list_all_iff isOwner_def create_user_from_def update_user_from_def)

lemma answers_owner:
  assumes "cx_role cx0 = Some ''owner'' \<or> cx_orgID cx0 = None"
  shows "answers (\<lambda>_. True) cx0 (Server_OwnerListOrganizationUsers S req cx)"
    "answers (\<lambda>_. True) cx0 (Server_OwnerUpdateOrganizationUser S req cx)"
    "answers (\<lambda>_. True) cx0 (Server_OwnerDeactivateOrganizationUser S req cx)"
  unfolding Server_OwnerListOrganizationUsers_def Server_OwnerUpdateOrganizationUser_def
    Server_OwnerDeactivateOrganizationUser_def
  using assms by (auto intro!: ans)

lemma answers_sites:
  "answers (\<lambda>_. True) cx (Server_CreateConstructionSite S req cx)"
  "answers (\<lambda>_. True) cx (Server_ListConstructionSites S req cx)"
  "answers (\<lambda>_. True) cx (Server_ListRootConstructionSites S req cx)"
  "answers (\<lambda>_. True) cx (Server_GetConstructionSite S req cx)"
  "answers (\<lambda>_. True) cx (Server_ListConstructionSitesByParent S req cx)"
  "answers (\<lambda>_. True) cx (Server_UpdateConstructionSite S req cx)"
  "answers (\<lambda>_. True) cx (Server_UpdateConstructionSiteCover S req cx)"
  "answers (\<lambda>_. True) cx (Server_UpdateConstructionSiteType S req cx)"
  "answers (\<lambda>_. True) cx (Server_DeleteConstructionSite S req cx)"
  "answers (\<lambda>_. True) cx (Server_ListSiteAuditLog S req cx)"
  unfolding Server_CreateConstructionSite_def Server_ListConstructionSites_def
    Server_ListRootConstructionSites_def Server_GetConstructionSite_def
    Server_ListConstructionSitesByParent_def Server_UpdateConstructionSite_def
    Server_UpdateConstructionSiteCover_def Server_UpdateConstructionSiteType_def
    Server_DeleteConstructionSite_def Server_ListSiteAuditLog_def Let_def
  by (auto intro!: ans)

lemma answers_catalogs:
  "answers (\<lambda>_. True) cx (Server_ListContractKinds S req cx)"
  "answers (\<lambda>_. True) cx (Server_CreateContractKind S req cx)"
  "answers (\<lambda>_. True) cx (Server_GetContractKind S req cx)"
  "answers (\<lambda>_. True) cx (Server_UpdateContractKind S req cx)"
  "answers (\<lambda>_. True) cx (Server_DeleteContractKind S req cx)"
  "answers (\<lambda>_. True) cx (Server_ListFileRoles S req cx)"
  "answers (\<lambda>_. True) cx (Server_CreateFileRole S req cx)"
  "answers (\<lambda>_. True) cx (Server_GetFileRole S req cx)"
  "answers (\<lambda>_. True) cx (Server_UpdateFileRole S req cx)"
  "answers (\<lambda>_. True) cx (Server_DeleteFileRole S req cx)"
  unfolding Server_ListContractKinds_def Server_CreateContractKind_def Server_GetContractKind_def
    Server_UpdateContractKind_def Server_DeleteContractKind_def Server_ListFileRoles_def
    Server_CreateFileRole_def Server_GetFileRole_def Server_UpdateFileRole_def Server_DeleteFileRole_def
  by (auto intro!: ans)

lemma answers_comparisons:
  "answers (\<lambda>_. True) cx (Server_ListComparisonSessions S req cx)"
  "answers (\<lambda>_. True) cx (Server_CreateComparisonSession S req cx)"
  "answers (\<lambda>_. True) cx (Server_GetComparisonSession S req cx)"
  "answers (\<lambda>_. True) cx (Server_DeleteComparisonSession S req cx)"
  "answers (\<lambda>_. True) cx (Server_RemoveDocumentFromSession S req cx)"
  unfolding Server_ListComparisonSessions_def Server_CreateComparisonSession_def
    Server_GetComparisonSession_def Server_DeleteComparisonSession_def Server_RemoveDocumentFromSession_def
  by (auto intro!: ans)

lemma answers_AddDocument: "answers (\<lambda>_. True) cx (Server_AddDocumentToSession S req cx)"
proof -
  have "yields (\<lambda>d. cs_organization_id x = o' \<and> session_of o' d i) (AddDocument E i doc o' pos)
      (\<lambda>x d. session_of o' d (csd_session_id x))" for x o' E i doc pos
    using yields_AddDocument [of o' i E doc pos] by (auto simp: yields_def)
  from this [THEN answers_attempt] show ?thesis
    unfolding Server_AddDocumentToSession_def by (auto intro!: ans)
qed

lemma answers_documents:
  "answers (\<lambda>_. True) cx (Server_CreateDocument S req cx)" "answers (\<lambda>_. True) cx (Server_ListDocuments S req cx)"
  "answers (\<lambda>_. True) cx (Server_GetDocument S req cx)" "answers (\<lambda>_. True) cx (Server_DeleteDocument S req cx)"
  "answers (\<lambda>_. True) cx (Server_GetDocumentPresignedURL S req cx)"
  "answers (\<lambda>_. True) cx (Server_UpdateDocumentMeta S req cx)"
  "answers (\<lambda>_. True) cx (Server_ListDocumentTasks S req cx)" "answers (\<lambda>_. True) cx (Server_GetDocumentTask S req cx)"
  "answers (\<lambda>_. True) cx (Server_UpdateDocumentTaskStatus S req cx)"
  "answers (\<lambda>_. True) cx (Server_DeleteDocumentTask S req cx)"
  "answers (\<lambda>_. True) cx (Server_InitiateExtraction S req cx)"
  unfolding Server_CreateDocument_def Server_ListDocuments_def Server_GetDocument_def
    Server_DeleteDocument_def Server_GetDocumentPresignedURL_def Server_UpdateDocumentMeta_def
    Server_ListDocumentTasks_def Server_GetDocumentTask_def Server_UpdateDocumentTaskStatus_def
    Server_DeleteDocumentTask_def Server_InitiateExtraction_def Let_def
  by (auto intro!: ans)

lemma answers_upload: "answers (\<lambda>_. True) cx (Server_UploadDocument S req cx)"
proof -
  have create: "answers (\<lambda>_. True) cx (create_or_clean S' c p)" if "cx_orgID cx = Some (cd_OrganizationID p)" for S' c p
  proof -
    have "answer_ok cx (fst (run_state (create_or_clean S' c p) w)) (w_db (snd (run_state (create_or_clean S' c p) w)))" for w
    proof (cases "run_state (document_Create (sv_env S') p) w")
      case (Pair r w1)
      show ?thesis
      proof (cases r)
        case (Inr doc)
        then have "doc_organization_id doc = cd_OrganizationID p"
          using yields_documents(2) [of "\<lambda>_. True" "sv_env S'" p] Pair by (auto simp: yields_def)
        then have "success_ok cx 201 (PDocument doc) (w_db w1)"
          using that by (intro success_okI) auto
        then show ?thesis by (simp add: create_or_clean_def Pair Inr answer_ok_def)
      qed (auto simp: create_or_clean_def Pair ignoring_def answer_ok_def split: prod.splits)
    qed
    then show ?thesis by (simp add: answers_def)
  qed
  show ?thesis
    unfolding Server_UploadDocument_def store_and_create_def upload_params_def Let_def
    by (auto intro!: ans answers_attempt_any create)
qed

lemma answers_task_Create:
  assumes "NewServer E L X c = Inr S"
  shows "answers (\<lambda>_. True) cx (Server_CreateDocumentTask S req cx)"
proof -
  have "yields P (task_Create (sv_env S) (sv_python S) i m o') (\<lambda>x d. task_of o' d x)" for P i m o'
    by (rule yields_task_Create) (simp add: NewServer_Inr(4) [OF assms] keeps_db_Process)
  note rules = this [THEN answers_attempt]
  show ?thesis
    unfolding Server_CreateDocumentTask_def by (auto intro!: ans rules)
qed

lemma build_response_of:
  "buildExtractionRequestResponse r as = Inr y \<Longrightarrow> r \<in> set (extraction_requests d) \<Longrightarrow> req_organization_id r = o' \<Longrightarrow>
   list_all (answer_from o' (req_document_id r) d) as \<Longrightarrow> response_of o' d y"
  by (auto simp: buildExtractionRequestResponse_def response_of_def intro!: bexI [of _ r] split: option.splits)

lemma answers_extraction_request: "answers (\<lambda>_. True) cx (Server_GetExtractionRequest S req cx)"
proof -
  note rules = yields_GetAnswers [THEN answers_attempt]
  show ?thesis
    unfolding Server_GetExtractionRequest_def
    by (auto intro!: ans rules intro: build_response_of)
qed

lemma answers_worker:
  "cx_orgID cx0 = None \<Longrightarrow> answers (\<lambda>_. True) cx0 (Server_WorkerUpdateTaskStatus S req cx)"
  unfolding Server_WorkerUpdateTaskStatus_def by (auto intro!: ans)

section \<open>The table of routes\<close>

text \<open>The contexts in which the guards let a handler run.\<close>

definition admitted :: "route \<Rightarrow> gin_context \<Rightarrow> bool" where
  "admitted rt cx \<longleftrightarrow> (Owner \<in> set (rt_guards rt) \<longrightarrow> cx_role cx = Some ''owner'') \<and>
     (Service \<in> set (rt_guards rt) \<longrightarrow> cx_orgID cx = None)"

lemma answers_table:
  assumes "NewServer E L X c = Inr S"
  shows "list_all (\<lambda>rt. \<forall>req cx. admitted rt cx \<longrightarrow> answers (\<lambda>_. True) cx (rt_handler rt S req cx)) setupRouter"
  by (simp add: route_tables admitted_def answers_accounts answers_owner answers_sites answers_catalogs
      answers_comparisons answers_AddDocument answers_documents answers_upload answers_task_Create [OF assms]
      answers_extraction_request answers_worker)

text \<open>A guard answers itself, or lets the handler run in a context that it admits.\<close>

definition abort_answer :: "http_response \<Rightarrow> bool" where
  "abort_answer r \<longleftrightarrow> (\<exists>cd m. codeToStatus cd = Some (rs_status r) \<and> rs_body r = PError cd m)"

lemma abort_answers [simp]:
  "abort_answer \<lparr>rs_status = 401, rs_body = PError CodeUnauthorized m, rs_cookies = cs\<rparr>"
  "abort_answer \<lparr>rs_status = 403, rs_body = PError CodeForbidden m, rs_cookies = cs\<rparr>"
  by (simp_all add: abort_answer_def codeToStatus_def code_defs)

lemma run_guards_cases:
  assumes "run_state (run_guards gs S req cx k) w = (r, w')" and "Auth \<notin> set gs"
    and "Service \<in> set gs \<longrightarrow> cx_orgID cx = None"
  shows "(abort_answer r \<and> w' = w) \<or> (run_state (k cx) w = (r, w') \<and> (Owner \<in> set gs \<longrightarrow> cx_role cx = Some ''owner''))"
  using assms
proof (induction gs)
  case (Cons g gs)
  then show ?case
    by (cases g) (auto simp: AdminOnly_def OwnerOnly_def TenantScopedOnly_def ServiceBearerAuth_def
        split: if_splits prod.splits)
qed simp

lemma serve_route_cases:
  assumes "run_state (run_guards gs S req empty_context k) w = (r, w')" and "Auth \<notin> set (tl gs)"
    and "Service \<in> set gs \<longrightarrow> Auth \<notin> set gs"
  shows "abort_answer r \<or> (\<exists>cx. run_state (k cx) w = (r, w') \<and> (Owner \<in> set gs \<longrightarrow> cx_role cx = Some ''owner'') \<and>
    (Service \<in> set gs \<longrightarrow> cx_orgID cx = None))"
proof (cases "Auth \<in> set gs")
  case True
  then obtain gs' where gs: "gs = Auth # gs'" using assms(2) by (cases gs) auto
  show ?thesis
    using assms run_guards_cases [of gs' S req _ k w r w']
    by (auto simp: gs run_AuthMiddleware split: option.splits)
next
  case False
  then show ?thesis using run_guards_cases [OF assms(1)] by (auto simp: empty_context_def)
qed

section \<open>Properties\<close>

lemma error_statuses: "rs_status r = rs_status (error_answer e) \<Longrightarrow> rs_body r = rs_body (error_answer e) \<Longrightarrow> abort_answer r"
  by (auto simp: abort_answer_def error_answer_def respondWithError_def Let_def codeToStatus_def code_defs
      split: option.splits)

lemma serve_answer_ok:
  assumes "NewServer E L X c = Inr S" and "run_state (serve S req) w = (r, w')"
  shows "abort_answer r \<or> (find (match_route req) setupRouter = None \<and> rs_status r = 404 \<and>
      rs_body r = PText ''404 page not found'') \<or> (\<exists>cx. success_ok cx (rs_status r) (rs_body r) (w_db w'))"
proof (cases "find (match_route req) setupRouter")
  case None
  then show ?thesis using assms(2) by (auto simp: serve_def)
next
  case (Some rt)
  have "list_all (\<lambda>rt. Auth \<notin> set (tl (rt_guards rt)) \<and> (Service \<in> set (rt_guards rt) \<longrightarrow> Auth \<notin> set (rt_guards rt))) setupRouter"
    by (simp add: route_tables)
  then have guards: "Auth \<notin> set (tl (rt_guards rt))" "Service \<in> set (rt_guards rt) \<longrightarrow> Auth \<notin> set (rt_guards rt)"
    using find_route [OF Some] by (simp_all add: list_all_iff)
  obtain req' where "run_state (run_guards (rt_guards rt) S req' empty_context (rt_handler rt S req')) w = (r, w')"
    using assms(2) by (auto simp: serve_def Some serve_route_def Let_def)
  from serve_route_cases [OF this guards] show ?thesis
  proof
    assume "\<exists>cx. run_state (rt_handler rt S req' cx) w = (r, w') \<and> (Owner \<in> set (rt_guards rt) \<longrightarrow> cx_role cx = Some ''owner'') \<and>
      (Service \<in> set (rt_guards rt) \<longrightarrow> cx_orgID cx = None)"
    then obtain cx where run: "run_state (rt_handler rt S req' cx) w = (r, w')" and "admitted rt cx"
      by (auto simp: admitted_def)
    then have "answers (\<lambda>_. True) cx (rt_handler rt S req' cx)"
      using answers_table [OF assms(1)] find_route [OF Some] by (simp add: list_all_iff)
    from this [unfolded answers_def, rule_format, of w] show ?thesis
      unfolding run fst_conv snd_conv answer_ok_def using error_statuses by blast
  qed simp
qed

text \<open>
  C31. Every answer of the router, its guards and its handlers has one of four forms: an error in the format
  \<^verbatim>\<open>{"error": {"code", "message"}}\<close> whose status is the one of its code, an empty body with 204, a value
  with 200 or 201, or the text \<^verbatim>\<open>404 page not found\<close> with 404, which is answered only when no route
  matches. The answers that the CORS middleware and the recovery from a panic give instead are not
  among them.
\<close>

theorem answers_have_a_form:
  assumes "NewServer E L X c = Inr S" and "run_state (serve S req) w = (r, w')"
  shows "case rs_body r of PError cd m \<Rightarrow> codeToStatus cd = Some (rs_status r)
    | PEmpty \<Rightarrow> rs_status r = 204
    | PText t \<Rightarrow> t = ''404 page not found'' \<and> rs_status r = 404 \<and> find (match_route req) setupRouter = None
    | _ \<Rightarrow> rs_status r \<in> {200, 201}"
  using serve_answer_ok [OF assms]
  by (cases "rs_body r") (auto simp: abort_answer_def success_ok_def)

theorem answers_have_a_form_witness:
  "\<exists>r w'. run_state (serve demo_server (demo_req ''GET'' [''api'', ''v1'', ''users''] None)) demo_world = (r, w') \<and>
     (case rs_body r of PError cd m \<Rightarrow> codeToStatus cd = Some (rs_status r)
      | PEmpty \<Rightarrow> rs_status r = 204
      | PText t \<Rightarrow> t = ''404 page not found'' \<and> rs_status r = 404 \<and>
          find (match_route (demo_req ''GET'' [''api'', ''v1'', ''users''] None)) setupRouter = None
      | _ \<Rightarrow> rs_status r \<in> {200, 201})"
  by (intro exI conjI, rule surjective_pairing) (rule answers_have_a_form [OF NewServer_demo surjective_pairing])

text \<open>
  C1. Tenants read their own rows only: whatever an authenticated user of an organization requests
  below \<^verbatim>\<open>/api/v1\<close>, every row in the answer belongs to that organization in the database as the request
  leaves it (catalog entries also to nobody, which makes them system entries). An extraction request comes
  with the fields of a request of the organization, and each of its answers is a value that the database
  stores for the organization and the request's document, under the name and the type of its key.
\<close>

theorem tenants_read_their_own_rows:
  assumes "NewServer E L X cfg = Inr S" and "protected_path (rq_path req)"
    and "token_claims S req w = Some c" and "ac_Role c \<noteq> ''owner''" and "ac_OrgID c \<noteq> uuid_Nil"
    and "run_state (serve S req) w = (r, w')"
  shows "tenant_payload (ac_OrgID c) (w_db w') (rs_body r)"
proof (cases "find (match_route req) setupRouter")
  case None
  then show ?thesis using assms(6) by (auto simp: serve_def)
next
  case (Some rt)
  note found = protected_route_found [OF assms(2) Some]
  obtain gs where gs: "rt_guards rt = Auth # gs" "Auth \<notin> set gs" "Service \<notin> set gs"
    using found(2) by (auto simp: guarded_route_def split: list.splits guard.splits)
  obtain req' where "run_state (run_guards gs S req' (context_of c) (rt_handler rt S req')) w = (r, w')"
    using assms(6) by (auto simp: serve_protected [OF assms(2) Some] assms(3) gs(1))
  from run_guards_cases [OF this gs(2)] gs(3)
  consider "abort_answer r" | "run_state (rt_handler rt S req' (context_of c)) w = (r, w')"
      "Owner \<in> set gs \<longrightarrow> cx_role (context_of c) = Some ''owner''"
    by auto
  then show ?thesis
  proof cases
    assume "abort_answer r"
    then show ?thesis by (auto simp: abort_answer_def)
  next
    assume run: "run_state (rt_handler rt S req' (context_of c)) w = (r, w')"
      and "Owner \<in> set gs \<longrightarrow> cx_role (context_of c) = Some ''owner''"
    then have "answers (\<lambda>_. True) (context_of c) (rt_handler rt S req' (context_of c))"
      using answers_table [OF assms(1)] find_route [OF Some] by (simp add: list_all_iff admitted_def gs)
    from this [unfolded answers_def, rule_format, of w]
    show ?thesis unfolding run fst_conv snd_conv answer_ok_def
      using assms(4,5) by (auto simp: success_ok_def in_scope_def context_of_def error_answer_def Let_def)
  qed
qed

theorem tenants_read_their_own_rows_witness:
  "case run_state (serve demo_server (demo_req ''GET'' [''api'', ''v1'', ''users''] (Some ''admin-token''))) demo_world of
     (r, w') \<Rightarrow> tenant_payload 1 (w_db w') (rs_body r)"
  using tenants_read_their_own_rows [OF NewServer_demo, where w = demo_world
      and req = "demo_req ''GET'' [''api'', ''v1'', ''users''] (Some ''admin-token'')"
      and c = "\<lparr>ac_UserID = 2, ac_OrgID = 1, ac_Role = ''admin'', ac_ExpiresAt = 1000, ac_IssuedAt = 100\<rparr>"]
  by (simp add: protected_path_def public_paths_def token_claims_def demo_validate split: prod.split)

end
