(* ===== verification/Tokens.thy ===== *)
theory Tokens
  imports Access
begin

text \<open>
  The life of the tokens: what \<open>GenerateTokens\<close> signs, \<open>ValidateAccessToken\<close> and
  \<open>ValidateRefreshToken\<close> read back, for as long as the token lives and with the right secret.
\<close>

section \<open>What the code relies on\<close>

text \<open>
  The JWT library: dates are rounded down to seconds; a token signed with HS256 parses to its claims
  under the same secret before its expiry, and not after it or under another secret. The last is the
  idealisation of the signature: no two secrets sign alike.
\<close>

definition jwt_laws :: "libs \<Rightarrow> bool" where
  "jwt_laws L \<longleftrightarrow> (\<forall>t. lib_NewNumericDate L t = t div second) \<and>
     (\<forall>secret j tok now key e. lib_jwt_SignedString L secret j = Inr tok \<and> claims_exp j = Some e \<longrightarrow>
        (if key ''HS256'' = Inr secret \<and> now < e * second then lib_jwt_Parse L now tok key = Inr (j, True)
         else \<exists>err. lib_jwt_Parse L now tok key = Inl err))"

text \<open>The UUID library parses what it prints.\<close>

definition uuid_laws :: "env \<Rightarrow> libs \<Rightarrow> bool" where
  "uuid_laws E L \<longleftrightarrow> (\<forall>u. lib_uuid_Parse L (env_uuid_string E u) = Inr u)"

section \<open>Claims\<close>

lemma exp_of_claims [simp]:
  "claims_exp (enc_access E c) = Some (ac_ExpiresAt c)" "claims_exp (enc_refresh E r) = Some (rc_ExpiresAt r)"
  by (simp_all add: claims_exp_def enc_access_def enc_refresh_def)

text \<open>Times of our era, in microseconds, fit the integers of the claims by far.\<close>

definition clock_laws :: "libs \<Rightarrow> bool" where
  "clock_laws L \<longleftrightarrow> (\<forall>n. 0 \<le> lib_now L n \<and> lib_now L n < 2 ^ 62)"

definition dates_fit :: "int \<Rightarrow> int \<Rightarrow> bool" where
  "dates_fit e i \<longleftrightarrow> - (2 ^ 63) \<le> e \<and> e < 2 ^ 63 \<and> - (2 ^ 63) \<le> i \<and> i < 2 ^ 63"

lemma claims_decoded:
  assumes "uuid_laws E L"
  shows "dates_fit (ac_ExpiresAt c) (ac_IssuedAt c) \<Longrightarrow> dec_access L (enc_access E c) = Some c"
    "dates_fit (rc_ExpiresAt r) (rc_IssuedAt r) \<Longrightarrow> dec_refresh L (enc_refresh E r) = Some r"
    "dates_fit (rc_ExpiresAt r) (rc_IssuedAt r) \<Longrightarrow> dec_access L (enc_refresh E r) =
       Some \<lparr>ac_UserID = rc_UserID r, ac_OrgID = uuid_Nil, ac_Role = [],
         ac_ExpiresAt = rc_ExpiresAt r, ac_IssuedAt = rc_IssuedAt r\<rparr>"
    "dates_fit (ac_ExpiresAt c) (ac_IssuedAt c) \<Longrightarrow> dec_refresh L (enc_access E c) =
       Some \<lparr>rc_UserID = ac_UserID c, rc_ExpiresAt = ac_ExpiresAt c, rc_IssuedAt = ac_IssuedAt c\<rparr>"
  using assms
  by (simp_all add: uuid_laws_def dates_fit_def dec_access_def dec_refresh_def enc_access_def enc_refresh_def
      dec_uuid_def same_name_def ascii_lower_def)

lemma dates_of_tokens:
  assumes "clock_laws L" and "0 \<le> ttl" "ttl < 2 ^ 62"
  shows "dates_fit ((lib_now L n + ttl) div second) (lib_now L n div second)"
proof -
  have n: "0 \<le> lib_now L n" "lib_now L n < 2 ^ 62" using assms(1) by (simp_all add: clock_laws_def)
  then have "0 \<le> (lib_now L n + ttl) div second" "0 \<le> lib_now L n div second"
    using assms(2) by (simp_all add: second_def)
  moreover have "(lib_now L n + ttl) div second \<le> lib_now L n + ttl" "lib_now L n div second \<le> lib_now L n"
    using n assms(2) zdiv_mono2 [of "lib_now L n + ttl" 1 second] zdiv_mono2 [of "lib_now L n" 1 second]
    by (simp_all add: second_def)
  ultimately show ?thesis using n assms(3) by (simp add: dates_fit_def)
qed

section \<open>Signing and reading\<close>

text \<open>The claims that the two tokens of a pair carry, and until when.\<close>

definition issued_access :: "libs \<Rightarrow> nat \<Rightarrow> uuid \<Rightarrow> uuid \<Rightarrow> string \<Rightarrow> access_claims" where
  "issued_access L n u o' role = \<lparr>ac_UserID = u, ac_OrgID = o', ac_Role = role,
     ac_ExpiresAt = (lib_now L n + AccessTokenTTL) div second, ac_IssuedAt = lib_now L n div second\<rparr>"

definition issued_refresh :: "libs \<Rightarrow> nat \<Rightarrow> uuid \<Rightarrow> refresh_claims" where
  "issued_refresh L n u = \<lparr>rc_UserID = u,
     rc_ExpiresAt = (lib_now L n + RefreshTokenTTL) div second, rc_IssuedAt = lib_now L n div second\<rparr>"

lemma GenerateTokens_signs:
  assumes "jwt_laws L" and "run_state (GenerateTokens E L s u o' role) w = (Inr (a, r), w1)"
  shows "lib_jwt_SignedString L (as_accessSecret s) (enc_access E (issued_access L (w_tick w) u o' role)) = Inr a"
    "lib_jwt_SignedString L (as_refreshSecret s) (enc_refresh E (issued_refresh L (w_tick w) u)) = Inr r" "w1 = w"
  using assms
  by (auto simp: GenerateTokens_def at_moment_def State_Monad.get_def issued_access_def issued_refresh_def
      jwt_laws_def Let_def split: sum.splits)

lemma parse_signed:
  assumes "jwt_laws L" and "lib_jwt_SignedString L secret j = Inr tok" and "claims_exp j = Some e"
  shows "secret' = secret \<Longrightarrow> now < e * second \<Longrightarrow> lib_jwt_Parse L now tok (hs256_key secret') = Inr (j, True)"
    "secret' \<noteq> secret \<or> e * second \<le> now \<Longrightarrow> \<exists>err. lib_jwt_Parse L now tok (hs256_key secret') = Inl err"
proof -
  have "if hs256_key secret' ''HS256'' = Inr secret \<and> now < e * second
      then lib_jwt_Parse L now tok (hs256_key secret') = Inr (j, True)
      else \<exists>err. lib_jwt_Parse L now tok (hs256_key secret') = Inl err"
    using assms unfolding jwt_laws_def by blast
  then show "secret' = secret \<Longrightarrow> now < e * second \<Longrightarrow> lib_jwt_Parse L now tok (hs256_key secret') = Inr (j, True)"
    "secret' \<noteq> secret \<or> e * second \<le> now \<Longrightarrow> \<exists>err. lib_jwt_Parse L now tok (hs256_key secret') = Inl err"
    by (auto simp: hs256_key_def split: if_splits)
qed

lemma run_validate:
  assumes "jwt_laws L" and "lib_jwt_SignedString L secret j = Inr tok" and "claims_exp j = Some e"
  shows "dec_access L j = Some c \<Longrightarrow> run_state (ValidateAccessToken L s tok) w =
      (if as_accessSecret s = secret \<and> lib_now L (w_tick w) < e * second then Inr c else Inl invalid_token, w)"
    "dec_refresh L j = Some d \<Longrightarrow> run_state (ValidateRefreshToken L s tok) w =
      (if as_refreshSecret s = secret \<and> lib_now L (w_tick w) < e * second then Inr d else Inl invalid_token, w)"
  using parse_signed [OF assms, of "as_accessSecret s" "lib_now L (w_tick w)"]
    parse_signed [OF assms, of "as_refreshSecret s" "lib_now L (w_tick w)"]
  by (auto simp: ValidateAccessToken_def ValidateRefreshToken_def at_moment_def State_Monad.get_def)

section \<open>Properties\<close>

text \<open>
  C18. Round trip of a pair of tokens: what login, registration and refresh sign is read back with the
  same user, organization and role, the access token for 15 minutes and the refresh token for 30
  days (rounded down to seconds), and is rejected from then on.
\<close>

theorem tokens_round_trip:
  assumes "jwt_laws L" and "uuid_laws E L" and "clock_laws L"
    and "run_state (GenerateTokens E L s u o' role) w = (Inr (a, r), w1)"
  shows "run_state (ValidateAccessToken L s a) w2 =
      (if lib_now L (w_tick w2) < (lib_now L (w_tick w) + AccessTokenTTL) div second * second
       then Inr (issued_access L (w_tick w) u o' role) else Inl invalid_token, w2) \<and>
    run_state (ValidateRefreshToken L s r) w2 =
      (if lib_now L (w_tick w2) < (lib_now L (w_tick w) + RefreshTokenTTL) div second * second
       then Inr (issued_refresh L (w_tick w) u) else Inl invalid_token, w2)"
proof -
  note signed = GenerateTokens_signs [OF assms(1,4)]
  have fit: "dates_fit ((lib_now L (w_tick w) + AccessTokenTTL) div second) (lib_now L (w_tick w) div second)"
    "dates_fit ((lib_now L (w_tick w) + RefreshTokenTTL) div second) (lib_now L (w_tick w) div second)"
    by (rule dates_of_tokens [OF assms(3)]; simp add: AccessTokenTTL_def RefreshTokenTTL_def second_def)+
  show ?thesis
    using run_validate(1) [OF assms(1) signed(1) exp_of_claims(1) claims_decoded(1) [OF assms(2)], of s w2]
      run_validate(2) [OF assms(1) signed(2) exp_of_claims(2) claims_decoded(2) [OF assms(2)], of s w2] fit
    by (simp add: issued_access_def issued_refresh_def)
qed

text \<open>
  C36. A refresh token is no access token exactly when the two secrets differ. With equal secrets,
  which the validation of the configuration lets pass, the refresh token of any user is
  accepted as an access token for 30 days, with the nil organization and the empty role.
\<close>

theorem refresh_token_is_no_access_token:
  assumes "jwt_laws L" and "uuid_laws E L" and "clock_laws L"
    and "run_state (GenerateTokens E L s u o' role) w = (Inr (a, r), w1)"
  shows "run_state (ValidateAccessToken L s r) w2 =
      (if as_accessSecret s = as_refreshSecret s \<and>
          lib_now L (w_tick w2) < (lib_now L (w_tick w) + RefreshTokenTTL) div second * second
       then Inr \<lparr>ac_UserID = u, ac_OrgID = uuid_Nil, ac_Role = [],
              ac_ExpiresAt = (lib_now L (w_tick w) + RefreshTokenTTL) div second,
              ac_IssuedAt = lib_now L (w_tick w) div second\<rparr>
       else Inl invalid_token, w2)"
proof -
  have "dates_fit ((lib_now L (w_tick w) + RefreshTokenTTL) div second) (lib_now L (w_tick w) div second)"
    by (rule dates_of_tokens [OF assms(3)]; simp add: RefreshTokenTTL_def second_def)
  then show ?thesis
    using run_validate(1) [OF assms(1) GenerateTokens_signs(2) [OF assms(1,4)] exp_of_claims(2)
        claims_decoded(3) [OF assms(2)], of s w2]
    by (simp add: issued_refresh_def)
qed


section \<open>The concrete libraries keep the laws\<close>

lemma digits_val_snoc: "digits_val acc (s @ [c]) =
    (case digits_val acc s of None \<Rightarrow> None | Some n \<Rightarrow> (case digit_val c of None \<Rightarrow> None | Some v \<Rightarrow> Some (10 * n + v)))"
  by (induction s arbitrary: acc) (auto split: option.splits)

lemma digit_val_hex:
  assumes "n < 10" shows "digit_val (hex_digit n) = Some n"
proof -
  have "n \<in> {0, 1, 2, 3, 4, 5, 6, 7, 8, 9}" using assms by auto
  then show ?thesis by (auto simp: digit_val_def hex_digit_def)
qed

lemma digits_val_nat_digits: "digits_val 0 (nat_digits n) = Some n"
proof (induction n rule: nat_digits.induct)
  case (1 n)
  then show ?case
    by (subst nat_digits.simps) (simp add: digits_val_snoc digit_val_hex)
qed

lemma nat_digits_nonempty [simp]: "nat_digits n \<noteq> []"
  by (subst nat_digits.simps) simp

lemma demo_laws: "jwt_laws demo_libs" "uuid_laws demo_env demo_libs" "clock_laws demo_libs"
proof -
  have "find (\<lambda>(t, s, k). t = tok) demo_signed = Some (tok, secret, j)" if "demo_sign secret j = Inr tok" for secret j tok
    using that by (auto simp: demo_sign_def demo_signed_def split: if_splits)
  then show "jwt_laws demo_libs"
    by (auto simp: jwt_laws_def demo_libs_def demo_parse_def split: sum.splits)
  show "uuid_laws demo_env demo_libs"
    by (simp add: uuid_laws_def demo_libs_def demo_env_def parse_digits_def digits_val_nat_digits)
  show "clock_laws demo_libs"
    by (simp add: clock_laws_def demo_libs_def second_def)
qed

lemma demo_GenerateTokens:
  "run_state (GenerateTokens demo_env demo_libs (sv_auth demo_server) 2 1 ''admin'') w =
     (Inr (''admin-token'', ''refresh-token''), w)"
  by (simp add: GenerateTokens_def at_moment_def State_Monad.get_def demo_libs_def demo_sign_def demo_signed_def
      demo_access_def demo_refresh_def AccessTokenTTL_def RefreshTokenTTL_def second_def Let_def)

lemma demo_now [simp]: "lib_now demo_libs n = 100 * second"
  by (simp add: demo_libs_def)

theorem tokens_round_trip_witness:
  "run_state (ValidateAccessToken demo_libs (sv_auth demo_server) ''admin-token'') demo_world =
     (Inr \<lparr>ac_UserID = 2, ac_OrgID = 1, ac_Role = ''admin'', ac_ExpiresAt = 1000, ac_IssuedAt = 100\<rparr>, demo_world) \<and>
   run_state (ValidateRefreshToken demo_libs (sv_auth demo_server) ''refresh-token'') demo_world =
     (Inr \<lparr>rc_UserID = 2, rc_ExpiresAt = 2592100, rc_IssuedAt = 100\<rparr>, demo_world)"
  using tokens_round_trip [OF demo_laws demo_GenerateTokens, of demo_world demo_world]
  by (simp add: issued_access_def issued_refresh_def AccessTokenTTL_def RefreshTokenTTL_def second_def)

theorem refresh_token_is_no_access_token_witness:
  "run_state (ValidateAccessToken demo_libs (sv_auth demo_server) ''refresh-token'') demo_world =
     (Inl invalid_token, demo_world)"
  using refresh_token_is_no_access_token [OF demo_laws demo_GenerateTokens, of demo_world demo_world]
  by simp

end
