(* ===== verification/Account_Theorems.thy ===== *)
theory Account_Theorems
  imports Tokens
begin

text \<open>
  Registration, login and refresh: registration is atomic, its credentials log in, a login is one
  of an active user of an active organization, refused logins look alike, and a refresh asks for
  none of this.
\<close>

section \<open>Registration\<close>

text \<open>What a registration leaves behind: one organization, and its administrator.\<close>

definition registered :: "register_params \<Rightarrow> db \<Rightarrow> organization \<Rightarrow> user \<Rightarrow> db \<Rightarrow> bool" where
  "registered p d org u d' \<longleftrightarrow>
     d' = d\<lparr>organizations := organizations d @ [org], users := users d @ [u]\<rparr> \<and>
     org_id org \<notin> set (map org_id (organizations d)) \<and> org_name org = rp_OrgName p \<and> org_is_active org \<and>
     usr_email u \<notin> set (map usr_email (users d)) \<and> usr_email u = rp_Email p \<and>
     usr_organization_id u = Some (org_id org) \<and> usr_role u = ''admin'' \<and> usr_is_active u"

lemma stmt_CreateOrganization_Inr:
  assumes "stmt_CreateOrganization name inn g t d = (Inr x, d')"
  shows "d' = d\<lparr>organizations := organizations d @ [x]\<rparr>" "org_id x \<notin> set (map org_id (organizations d))"
    "org_name x = name" "org_is_active x"
  using assms by (auto simp: stmt_CreateOrganization_def Let_def insert_row_def new_organization_def split: option.splits)

lemma stmt_CreateUser_Inr:
  assumes "stmt_CreateUser org email hash name role g t d = (Inr x, d')"
  shows "d' = d\<lparr>users := users d @ [x]\<rparr>" "usr_email x \<notin> set (map usr_email (users d))"
    "usr_email x = email" "usr_organization_id x = org" "usr_role x = role" "usr_is_active x"
    "usr_password_hash x = hash"
  using assms by (auto simp: stmt_CreateUser_def Let_def insert_row_def new_user_def split: option.splits)

lemma register_tx_Inr:
  assumes "run_state (register_tx p inn hash q) w = (Inr (org, u), w')"
  shows "registered p (w_db w) org u (w_db w')" "usr_password_hash u = hash"
proof -
  obtain w1 where org: "run_state (CreateOrganization q (rp_OrgName p) inn) w = (Inr org, w1)"
    and u: "run_state (CreateUser q (Some (org_id org)) (rp_Email p) hash (rp_FullName p) ''admin'') w1 = (Inr u, w')"
    using assms by (auto simp: register_tx_def run_call split: prod.splits sum.splits)
  note s1 = exec_Inr [OF org [unfolded CreateOrganization_def]] and s2 = exec_Inr [OF u [unfolded CreateUser_def]]
  show "registered p (w_db w) org u (w_db w')" "usr_password_hash u = hash"
    using stmt_CreateOrganization_Inr [OF s1] stmt_CreateUser_Inr [OF s2]
    by (simp_all add: registered_def)
qed

lemma ExecTx_cases:
  assumes "run_state (ExecTx E f) w = (r, w')"
  obtains (nothing) e where "r = Inl e" "w_db w' = w_db w"
    | (committed) q w1 w2 x where "run_state (f q) w1 = (Inr x, w2)" "w_db w1 = w_db w" "w_db w' = w_db w2"
        "r = Inr x \<or> (\<exists>s. r = Inl (Other s))"
proof -
  let ?w1 = "w\<lparr>w_tick := Suc (w_tick w)\<rparr>" and ?q = "E\<lparr>env_now := (\<lambda>_. env_now E (w_tick w))\<rparr>"
  obtain x w2 where run: "run_state (f ?q) ?w1 = (x, w2)" by fastforce
  show thesis
  proof (cases "env_db E (w_tick w)")
    case NoFault
    show thesis
    proof (cases x)
      case (Inl e)
      show thesis by (rule nothing [of e]) (use Inl assms NoFault run in \<open>auto simp: ExecTx_def Let_def\<close>)
    next
      case (Inr y)
      show thesis
      proof (cases "env_db E (w_tick w2)")
        case (Rejected s)
        show thesis by (rule nothing [of "Other s"]) (use Rejected assms NoFault run Inr in \<open>auto simp: ExecTx_def Let_def\<close>)
      qed (use assms NoFault run Inr committed [of ?q ?w1 y w2] in \<open>auto simp: ExecTx_def Let_def\<close>)
    qed
  next
    case (Rejected s)
    show thesis by (rule nothing [of "Other s"]) (use Rejected assms in \<open>auto simp: ExecTx_def Let_def\<close>)
  next
    case (Lost s)
    show thesis by (rule nothing [of "Other s"]) (use Lost assms in \<open>auto simp: ExecTx_def Let_def\<close>)
  qed
qed

lemma Register_cases:
  assumes "run_state (Register E L p) w = (r, w')"
  obtains (nothing) e where "r = Inl e" "w_db w' = w_db w"
    | (stored) org u where "registered p (w_db w) org u (w_db w')" "r = Inr (org, u)"
        "\<exists>n. lib_bcrypt_Generate L n (rp_Password p) = Inr (usr_password_hash u)"
    | (lost) org u e where "registered p (w_db w) org u (w_db w')" "r = Inl e"
        "rs_status (error_answer e) = 500"
proof (cases "parseINN (rp_INN p)")
  case (Inl e)
  show thesis by (rule nothing [of e]) (use Inl assms in \<open>auto simp: Register_def\<close>)
next
  case inn: (Inr inn)
  show thesis
  proof (cases "lib_bcrypt_Generate L (w_tick w) (rp_Password p)")
    case (Inl e)
    show thesis by (rule nothing [of "internal_error e"])
      (use Inl assms inn in \<open>auto simp: Register_def run_call at_moment_def State_Monad.get_def\<close>)
  next
    case (Inr hash)
    obtain t w1 where tx: "run_state (ExecTx E (register_tx p inn hash)) w = (t, w1)" by fastforce
    have r: "r = (case t of Inl e \<Rightarrow> Inl (if as_app_err e \<noteq> None then e else internal_error e) | Inr x \<Rightarrow> Inr x)" "w' = w1"
      using assms inn Inr tx
      by (auto simp: Register_def run_call at_moment_def State_Monad.get_def split: sum.splits)
    from tx show thesis
    proof (cases rule: ExecTx_cases)
      case (nothing e)
      then show thesis using r that(1) by simp
    next
      case (committed q w0 w2 x)
      obtain org u where x: "x = (org, u)" by fastforce
      note reg = register_tx_Inr [OF committed(1) [unfolded x], unfolded committed(2), folded committed(3)]
      from committed(4) show thesis
      proof
        assume "t = Inr x"
        then show thesis using r reg Inr that(2) [of org u] by (auto simp: x)
      next
        assume "\<exists>s. t = Inl (Other s)"
        then show thesis using r reg(1) that(3) [of org u]
          by (auto simp: internal_error_def error_answer_def codeToStatus_def code_defs errs_New_def)
      qed
    qed
  qed
qed

text \<open>
  C20. Registration is all or nothing, whatever interactions fail: it adds one active organization
  together with its one active administrator under the given address, or it leaves the database as
  it was. Success is reported only with both stored; when the answer of the commit is lost they may be
  stored although the caller gets 500.
\<close>

theorem registration_is_atomic:
  assumes "run_state (Register E L p) w = (r, w')"
  shows "case r of
      Inr (org, u) \<Rightarrow> registered p (w_db w) org u (w_db w')
    | Inl e \<Rightarrow> w_db w' = w_db w \<or>
        (rs_status (error_answer e) = 500 \<and> (\<exists>org u. registered p (w_db w) org u (w_db w')))"
  using assms by (cases rule: Register_cases) auto

definition demo_registration :: register_params where
  "demo_registration = \<lparr>rp_OrgName = ''Bridge'', rp_INN = [], rp_Email = ''b@b.c'',
     rp_Password = ''password'', rp_FullName = ''Bob''\<rparr>"

theorem registration_is_atomic_witness:
  "case run_state (Register demo_env demo_libs demo_registration) demo_world of
     (Inr (org, u), w') \<Rightarrow> registered demo_registration demo_db org u (w_db w')
   | (Inl e, w') \<Rightarrow> w_db w' = demo_db \<or>
       (rs_status (error_answer e) = 500 \<and> (\<exists>org u. registered demo_registration demo_db org u (w_db w')))"
  by (auto split: prod.split sum.split dest: registration_is_atomic)

section \<open>Login\<close>

text \<open>What bcrypt is for: the hash of a password compares with this password.\<close>

definition bcrypt_law :: "libs \<Rightarrow> bool" where
  "bcrypt_law L \<longleftrightarrow> (\<forall>n pw h. lib_bcrypt_Generate L n pw = Inr h \<longrightarrow> lib_bcrypt_Compare L h pw)"

lemma find_snoc_fresh: "f y \<notin> set (map f xs) \<Longrightarrow> find (\<lambda>x. f x = f y) (xs @ [y]) = Some y"
  by (induction xs) auto

text \<open>
  C21. After a successful registration the address and the password log in, at any later moment until
  the database changes: \<open>Login\<close> issues the tokens of the new administrator and organization.
\<close>

theorem register_then_login:
  assumes "bcrypt_law L" and "db_calm E"
    and "run_state (Register E L p) w = (Inr (org, u), w1)" and "w_db w2 = w_db w1"
  shows "run_state (Login E L s (rp_Email p) (rp_Password p)) w2 =
    run_state (GenerateTokens E L s (usr_id u) (org_id org) ''admin'') (w2\<lparr>w_tick := Suc (Suc (w_tick w2))\<rparr>)"
proof -
  from assms(3) have reg: "registered p (w_db w) org u (w_db w2)"
    and "lib_bcrypt_Compare L (usr_password_hash u) (rp_Password p)"
    using assms(1,4) by (cases rule: Register_cases; auto simp: bcrypt_law_def)+
  moreover have "find (\<lambda>x. usr_email x = rp_Email p) (users (w_db w2)) = Some u"
    "find (\<lambda>x. org_id x = org_id org) (organizations (w_db w2)) = Some org"
    using reg find_snoc_fresh [of usr_email u] find_snoc_fresh [of org_id org] by (auto simp: registered_def)
  ultimately show ?thesis
    using assms(2)
    by (auto simp: Login_def GetUserByEmail_def GetOrganizationByID_def run_call run_sel_one registered_def
        pg_bytes_def split: option.splits)
qed

text \<open>
  C19. Every login that succeeds, whatever fails on the way, is one of an active user with the given
  address and password, of the platform's owner or of an active organization, and the tokens are
  those of this user, role and organization (none for the owner).
\<close>

theorem login_is_of_active_user:
  assumes "run_state (Login E L s email pw) w = (Inr tokens, w')"
  shows "\<exists>u \<in> set (users (w_db w)). usr_email u = email \<and> usr_is_active u \<and>
    lib_bcrypt_Compare L (usr_password_hash u) pw \<and>
    (if usr_role u = ''owner''
     then \<exists>w1. run_state (GenerateTokens E L s (usr_id u) uuid_Nil ''owner'') w1 = (Inr tokens, w')
     else \<exists>org \<in> set (organizations (w_db w)). org_id org = pg_bytes (usr_organization_id u) \<and> org_is_active org \<and>
       (\<exists>w1. run_state (GenerateTokens E L s (usr_id u) (org_id org) (usr_role u)) w1 = (Inr tokens, w')))"
proof -
  obtain u w1 where u: "run_state (GetUserByEmail E email) w = (Inr u, w1)"
    and cont: "lib_bcrypt_Compare L (usr_password_hash u) pw" "usr_is_active u"
      "run_state (if usr_role u = ''owner'' then GenerateTokens E L s (usr_id u) uuid_Nil (usr_role u)
        else call (GetOrganizationByID E (pg_bytes (usr_organization_id u)))
              (\<lambda>err. if is_no_rows err then errs_New CodeUnauthorized ''organization is unavailable'' None
                     else internal_error err)
              (\<lambda>org. if \<not> org_is_active org
                 then fail (errs_New CodeUnauthorized ''organization is unavailable'' None)
                 else GenerateTokens E L s (usr_id u) (pg_bytes (usr_organization_id u)) (usr_role u))) w1 = (Inr tokens, w')"
    using assms unfolding Login_def by (auto simp: run_call split: prod.splits sum.splits if_splits)
  have found: "u \<in> set (users (w_db w))" "usr_email u = email" "w_db w1 = w_db w"
    using exec_Inr [OF u [unfolded GetUserByEmail_def]] by (auto dest: find_Some_iff_mem)
  show ?thesis
  proof (cases "usr_role u = ''owner''")
    case True
    then show ?thesis using found cont by (intro bexI [of _ u]) auto
  next
    case False
    then obtain org w2 where org: "run_state (GetOrganizationByID E (pg_bytes (usr_organization_id u))) w1 = (Inr org, w2)"
      and "org_is_active org"
      and "run_state (GenerateTokens E L s (usr_id u) (pg_bytes (usr_organization_id u)) (usr_role u)) w2 = (Inr tokens, w')"
      using cont(3) by (auto simp: run_call split: prod.splits sum.splits if_splits)
    moreover have "org \<in> set (organizations (w_db w))" "org_id org = pg_bytes (usr_organization_id u)"
      using exec_Inr [OF org [unfolded GetOrganizationByID_def]] found(3) by (auto dest: find_Some_iff_mem)
    ultimately show ?thesis using found cont False
      by (intro bexI [of _ u] conjI) (auto intro!: bexI [of _ org])
  qed
qed

text \<open>
  C37. Refused logins do not tell who has an account: with the database reachable, an unknown address
  and a wrong password give the same answer, and neither sets a cookie or changes the world beyond
  the one look into the database.
\<close>

theorem refused_logins_look_alike:
  assumes "db_calm (sv_env S)" and "leading_json (rq_body req) = Some j" and "dec_login j = Some r"
    and "valid_login (sv_libs S) r"
    and "\<forall>u \<in> set (users (w_db w)). usr_email u = lr_Email r \<longrightarrow>
        \<not> lib_bcrypt_Compare (sv_libs S) (usr_password_hash u) (lr_Password r)"
  shows "run_state (Server_Login S req cx) w =
    (\<lparr>rs_status = 401, rs_body = PError CodeUnauthorized ''invalid email or password'', rs_cookies = []\<rparr>,
     w\<lparr>w_tick := Suc (w_tick w)\<rparr>)"
proof -
  have "fst (run_state (Login (sv_env S) (sv_libs S) (sv_auth S) (lr_Email r) (lr_Password r)) w) =
      Inl (errs_New CodeUnauthorized ''invalid email or password'' None)"
    "snd (run_state (Login (sv_env S) (sv_libs S) (sv_auth S) (lr_Email r) (lr_Password r)) w) =
      w\<lparr>w_tick := Suc (w_tick w)\<rparr>"
    using assms(1,5)
    by (auto simp: Login_def GetUserByEmail_def run_call run_sel_one split: option.split dest: find_Some_iff_mem)
  then have "run_state (Login (sv_env S) (sv_libs S) (sv_auth S) (lr_Email r) (lr_Password r)) w =
      (Inl (errs_New CodeUnauthorized ''invalid email or password'' None), w\<lparr>w_tick := Suc (w_tick w)\<rparr>)"
    by (metis prod.collapse)
  then show ?thesis using assms(2-4)
    by (simp add: Server_Login_def bind_json_def run_attempt error_answer_def Let_def errs_New_def
        codeToStatus_def code_defs)
qed

section \<open>Refresh\<close>

text \<open>
  C40. A refresh looks at the refresh token only: as long as the token is valid, the database answers and new
  tokens can be signed, a deactivated user, and an active user of a deactivated organization, gets a new access token and a new refresh token from it, with the
  role and the organization stored for the user.
\<close>

theorem deactivated_users_refresh:
  assumes "db_calm (sv_env S)" and "rq_cookie req ''refresh_token'' = Some tok"
    and "run_state (ValidateRefreshToken (sv_libs S) (sv_auth S) tok) w = (Inr claims, w)"
    and "find (\<lambda>x. usr_id x = rc_UserID claims) (users (w_db w)) = Some u"
    and "\<not> usr_is_active u \<or>
      (\<exists>org \<in> set (organizations (w_db w)). usr_organization_id u = Some (org_id org) \<and> \<not> org_is_active org)"
    and "run_state (GenerateTokens (sv_env S) (sv_libs S) (sv_auth S) (usr_id u)
        (pg_bytes (usr_organization_id u)) (usr_role u)) (w\<lparr>w_tick := Suc (w_tick w)\<rparr>) = (Inr (a, r), w1)"
  shows "run_state (Server_RefreshTokens S req cx) w =
    (\<lparr>rs_status = 200, rs_body = PMessage ''tokens refreshed'',
      rs_cookies = [access_cookie S a (AccessTokenTTL div second), refresh_cookie S r (RefreshTokenTTL div second)]\<rparr>, w1)"
  using assms
  by (simp add: Server_RefreshTokens_def ResolveUserForRefresh_def GetUserByID_def run_call run_sel_one
      run_attempt setAuthCookies_def run_with_cookies)

section \<open>Examples\<close>

lemma demo_bcrypt: "bcrypt_law demo_libs"
  by (auto simp: bcrypt_law_def demo_libs_def split: if_splits)

lemma trim_left_nothing [simp]: "trim_left ws [] = []"
  by (subst trim_left.simps) (auto simp: starts_with_def split: option.split dest: find_Some_iff_mem)

lemma trim_nothing [simp]: "TrimSpace [] = []"
  by (simp add: TrimSpace_def)

lemma demo_register:
  obtains org u w1 where "run_state (Register demo_env demo_libs demo_registration) demo_world = (Inr (org, u), w1)"
proof -
  have "isl (fst (run_state (Register demo_env demo_libs demo_registration) demo_world)) = False"
    by (simp add: Register_def demo_registration_def parseINN_def run_call at_moment_def State_Monad.get_def
        demo_libs_def ExecTx_def Let_def register_tx_def CreateOrganization_def CreateUser_def exec_def
        stmt_CreateOrganization_def stmt_CreateUser_def insert_row_def new_organization_def new_user_def
        user_checks_def index_conflict_def org_known_def demo_org_def demo_user_def)
  then show thesis using that
    by (cases "run_state (Register demo_env demo_libs demo_registration) demo_world"; cases "fst (run_state (Register demo_env demo_libs demo_registration) demo_world)") auto
qed

theorem register_then_login_witness:
  "\<exists>org u w1. run_state (Register demo_env demo_libs demo_registration) demo_world = (Inr (org, u), w1) \<and>
     run_state (Login demo_env demo_libs (sv_auth demo_server) ''b@b.c'' ''password'') w1 =
     run_state (GenerateTokens demo_env demo_libs (sv_auth demo_server) (usr_id u) (org_id org) ''admin'')
       (w1\<lparr>w_tick := Suc (Suc (w_tick w1))\<rparr>)"
proof -
  obtain org u w1 where reg: "run_state (Register demo_env demo_libs demo_registration) demo_world = (Inr (org, u), w1)"
    by (rule demo_register)
  show ?thesis
    using reg register_then_login [OF demo_bcrypt _ reg refl, where s = "sv_auth demo_server"]
    by (auto simp: demo_registration_def)
qed

text \<open>The administrator of the small world with a known password, active or not.\<close>

definition demo_member :: "bool \<Rightarrow> world" where
  "demo_member active = demo_world\<lparr>w_db := demo_db\<lparr>users :=
     [demo_user\<lparr>usr_password_hash := ''bcrypt:secret'', usr_is_active := active\<rparr>]\<rparr>\<rparr>"

lemma demo_member_users [simp]:
  "users (w_db (demo_member b)) = [demo_user\<lparr>usr_password_hash := ''bcrypt:secret'', usr_is_active := b\<rparr>]"
  "organizations (w_db (demo_member b)) = [demo_org]" "w_tick (demo_member b) = 0"
  by (simp_all add: demo_member_def)

theorem login_is_of_active_user_witness:
  "run_state (Login demo_env demo_libs (sv_auth demo_server) ''a@b.c'' ''secret'') (demo_member True) =
      (Inr (''admin-token'', ''refresh-token''), demo_member True\<lparr>w_tick := 2\<rparr>) \<and>
   (\<exists>u \<in> set (users (w_db (demo_member True))). usr_email u = ''a@b.c'' \<and> usr_is_active u)"
proof -
  have run: "run_state (Login demo_env demo_libs (sv_auth demo_server) ''a@b.c'' ''secret'') (demo_member True) =
      (Inr (''admin-token'', ''refresh-token''), demo_member True\<lparr>w_tick := 2\<rparr>)"
    using demo_GenerateTokens
    by (simp add: Login_def GetUserByEmail_def GetOrganizationByID_def demo_run demo_user_def demo_org_def
        demo_libs_def pg_bytes_def)
  from login_is_of_active_user [OF this] run show ?thesis by blast
qed

definition demo_login_request :: http_request where
  "demo_login_request = (demo_req ''POST'' [''api'', ''v1'', ''auth'', ''login''] None)
     \<lparr>rq_body := Whole (JObj [(''email'', JStr ''a@b.c''), (''password'', JStr ''guess'')]),
      rq_cookie := (\<lambda>k. if k = ''refresh_token'' then Some ''refresh-token'' else None)\<rparr>"

theorem refused_logins_look_alike_witness:
  "run_state (Server_Login demo_server demo_login_request empty_context) (demo_member True) =
    (\<lparr>rs_status = 401, rs_body = PError CodeUnauthorized ''invalid email or password'', rs_cookies = []\<rparr>,
     demo_member True\<lparr>w_tick := 1\<rparr>)"
  by (subst refused_logins_look_alike)
    (auto simp: demo_login_request_def dec_login_def field_def no_field_def same_name_def ascii_lower_def
      valid_login_def demo_libs_def)

text \<open>The organization of the small world, closed, with its administrator active.\<close>

definition demo_closed :: world where
  "demo_closed = demo_world\<lparr>w_db := demo_db\<lparr>users := [demo_user],
     organizations := [demo_org\<lparr>org_is_active := False\<rparr>]\<rparr>\<rparr>"

lemma demo_closed_rows [simp]: "users (w_db demo_closed) = [demo_user]"
  "organizations (w_db demo_closed) = [demo_org\<lparr>org_is_active := False\<rparr>]" "w_tick demo_closed = 0"
  by (simp_all add: demo_closed_def)

theorem deactivated_users_refresh_witness:
  "rs_status (fst (run_state (Server_RefreshTokens demo_server demo_login_request empty_context) (demo_member False))) = 200 \<and>
   rs_status (fst (run_state (Server_RefreshTokens demo_server demo_login_request empty_context) demo_closed)) = 200"
proof -
  have v: "run_state (ValidateRefreshToken demo_libs (sv_auth demo_server) ''refresh-token'') w =
      (Inr \<lparr>rc_UserID = 2, rc_ExpiresAt = 2592100, rc_IssuedAt = 100\<rparr>, w)" for w
    by (simp add: ValidateRefreshToken_def at_moment_def State_Monad.get_def demo_libs_def demo_parse_def
      demo_signed_def demo_access_def demo_refresh_def enc_access_def enc_refresh_def hs256_key_def claims_exp_def
      dec_refresh_def second_def same_name_def ascii_lower_def dec_uuid_def demo_env_def nat_digits.simps
      parse_digits_def digit_val_def hex_digit_def)
  show ?thesis
    using deactivated_users_refresh [where S = demo_server and req = demo_login_request and cx = empty_context
        and tok = "''refresh-token''", unfolded demo_server_simps, OF _ _ v]
      demo_GenerateTokens
    by (simp add: demo_login_request_def demo_user_def demo_org_def pg_bytes_def)
qed

end
