(* ===== verification/Document_Theorems.thy ===== *)
theory Document_Theorems
  imports Account_Theorems
begin

text \<open>
  Files: an upload stores the file together with its row or leaves nothing, as long as no answer is
  lost; presigned URLs are of objects that rows of the caller's organization name.
\<close>

section \<open>The bucket\<close>

lemma bucket_op_cases:
  obtains (applied) "run_state (bucket_op E f) w = (Inr (), w\<lparr>w_tick := Suc (w_tick w), w_objects := f (w_objects w)\<rparr>)"
    | (rejected) s where "run_state (bucket_op E f) w = (Inl (Other s), w\<lparr>w_tick := Suc (w_tick w)\<rparr>)"
    | (lost) s where "run_state (bucket_op E f) w =
        (Inl (Other s), w\<lparr>w_tick := Suc (w_tick w), w_objects := f (w_objects w)\<rparr>)"
  by (cases "env_store E (w_tick w)") (auto simp: bucket_op_def Let_def)

definition store_calm :: "env \<Rightarrow> bool" where
  "store_calm E \<longleftrightarrow> env_store E = (\<lambda>_. NoFault)"

lemma run_bucket_calm: "store_calm E \<Longrightarrow> run_state (bucket_op E f) w =
    (Inr (), w\<lparr>w_tick := Suc (w_tick w), w_objects := f (w_objects w)\<rparr>)"
  by (simp add: bucket_op_def store_calm_def Let_def)

text \<open>\<open>uuid.New\<close> gives names that the bucket does not have yet, with whatever extension.\<close>

definition fresh_names :: "env \<Rightarrow> (string \<rightharpoonup> stored_object) \<Rightarrow> bool" where
  "fresh_names E m \<longleftrightarrow> (\<forall>k ext. env_uuid_string E (env_go_uuid E k 0) \<noteq> [] \<and>
     m (env_uuid_string E (env_go_uuid E k 0) @ ext) = None)"

definition object_name :: "env \<Rightarrow> storage_client \<Rightarrow> nat \<Rightarrow> string \<Rightarrow> string" where
  "object_name E c n file = env_uuid_string E (env_go_uuid E n 0) @ SafeExt (sc_ToLower c) file"

lemma run_Upload_calm: "store_calm E \<Longrightarrow> run_state (storage_Upload E c content file ct) w =
    (Inr (sc_bucket c @ ''/'' @ object_name E c (w_tick w) file), w\<lparr>w_tick := Suc (w_tick w), w_objects :=
      (w_objects w)(object_name E c (w_tick w) file \<mapsto> \<lparr>ob_content = content, ob_type = ct\<rparr>)\<rparr>)"
  by (simp add: storage_Upload_def State_Monad.get_def run_call run_bucket_calm object_name_def Let_def)

lemma run_Delete_calm: "store_calm E \<Longrightarrow> n \<noteq> [] \<Longrightarrow> run_state (storage_Delete E c (sc_bucket c @ ''/'' @ n)) w =
    (Inr (), w\<lparr>w_tick := Suc (w_tick w), w_objects := (w_objects w)(n := None)\<rparr>)"
  by (simp add: storage_Delete_def objectNameFrom_path [simplified] run_call run_bucket_calm)

section \<open>Creation of a document\<close>

lemma stmt_CreateDocument_Inr:
  assumes "stmt_CreateDocument p g t d = (Inr x, d')"
  shows "documents d' = documents d @ [x]" "doc_id x \<notin> set (map doc_id (documents d))"
    "doc_storage_path x = cd_StoragePath p" "doc_organization_id x = cd_OrganizationID p"
    "doc_file_name x = cd_FileName p"
  using assms by (auto simp: stmt_CreateDocument_def insert_document_def new_document_def document_keys_def
      split: option.splits)

lemma stmt_CreateDocument_Inl: "stmt_CreateDocument p g t d = (Inl e, d') \<Longrightarrow> d' = d"
  by (auto simp: stmt_CreateDocument_def insert_document_def split: option.splits)

lemma document_Create_calm:
  assumes "db_calm E"
  obtains (refused) e where "run_state (document_Create E p) w = (Inl e, w\<lparr>w_tick := Suc (w_tick w)\<rparr>)"
    | (created) x d' where "run_state (document_Create E p) w = (Inr x, w\<lparr>w_db := d', w_tick := Suc (w_tick w)\<rparr>)"
        "stmt_CreateDocument p (env_uuid E (w_tick w)) (env_now E (w_tick w)) (w_db w) = (Inr x, d')"
proof -
  obtain v d' where v: "stmt_CreateDocument p (env_uuid E (w_tick w)) (env_now E (w_tick w)) (w_db w) = (v, d')"
    by fastforce
  have run: "run_state (CreateDocument E p) w = (v, w\<lparr>w_db := d', w_tick := Suc (w_tick w)\<rparr>)"
    unfolding CreateDocument_def by (rule run_exec_calm) (simp_all add: assms v)
  show thesis
  proof (cases v)
    case (Inl e)
    show thesis
      by (rule refused [of "internal_error e"])
        (use run Inl stmt_CreateDocument_Inl [OF v [unfolded Inl]] in \<open>simp add: document_Create_def run_call\<close>)
  next
    case (Inr x)
    show thesis
      by (rule created [of x d']) (use run Inr v in \<open>simp_all add: document_Create_def run_call\<close>)
  qed
qed

lemma error_no_success: "rs_status (error_answer e) \<notin> {200, 201, 204}"
  by (auto simp: error_answer_def respondWithError_def Let_def codeToStatus_def code_defs split: option.splits)

text \<open>Answers before anything happened, and the idioms that give them.\<close>

definition early :: "world \<Rightarrow> http_response \<Rightarrow> world \<Rightarrow> bool" where
  "early w r w' \<longleftrightarrow> (\<exists>e. r = error_answer e) \<and> unchanged w w'"

lemma early_respond [simp]: "unchanged w w' \<Longrightarrow> early w (error_answer e) w'"
  by (auto simp: early_def)

lemma unchanged_refl [simp]: "unchanged w w"
  by (simp add: unchanged_def)

lemma early_later: "unchanged w w1 \<Longrightarrow> early w1 r w' \<Longrightarrow> early w r w'"
  by (auto simp: early_def unchanged_def)

lemma early_orgID: "run_state (orgIDFromContext cx k) w = (r, w') \<Longrightarrow>
    early w r w' \<or> (\<exists>i. cx_orgID cx = Some i \<and> run_state (k i) w = (r, w'))"
  by (auto simp: orgIDFromContext_def split: option.splits)

lemma early_userID: "run_state (userIDFromContext cx k) w = (r, w') \<Longrightarrow>
    early w r w' \<or> (\<exists>i. cx_userID cx = Some i \<and> run_state (k i) w = (r, w'))"
  by (auto simp: userIDFromContext_def split: option.splits)

lemma early_unless: "run_state (unless c e k) w = (r, w') \<Longrightarrow> early w r w' \<or> (\<not> c \<and> run_state k w = (r, w'))"
  by (auto simp: unless_def split: if_splits)

lemma early_check_site: "run_state (check_site S i raw k) w = (r, w') \<Longrightarrow>
    early w r w' \<or> (\<exists>site w1. unchanged w w1 \<and> run_state (k site) w1 = (r, w'))"
proof (cases raw)
  case (Some s)
  assume run: "run_state (check_site S i raw k) w = (r, w')"
  show ?thesis
  proof (cases "lib_uuid_Parse (sv_libs S) s")
    case (Inr u)
    obtain v w1 where v: "run_state (site_Get (sv_env S) u i) w = (v, w1)" by fastforce
    then have "unchanged w w1" by (rule rel_runD [OF unchanged.rel_reading_catalogs(8)])
    then show ?thesis using run Some Inr v
      by (cases v) (auto simp: check_site_def parseUUID_def run_attempt early_def)
  qed (use run Some in \<open>auto simp: check_site_def parseUUID_def\<close>)
qed (auto simp: check_site_def unchanged_def)

section \<open>Upload\<close>

text \<open>The handler stops with an error before it touches anything, or stores the file and then the row.\<close>

lemma Upload_cases:
  assumes "run_state (Server_UploadDocument S req cx) w = (r, w')"
  shows "early w r w' \<or> (\<exists>c f o' u site content w1. unchanged w w1 \<and> sv_storage S = Some c \<and>
    rq_FormFile req maxRequestBodySize ''file'' = Inr f \<and> uf_Content f = Inr content \<and> uf_Size f \<le> maxFileSize \<and>
    cx_orgID cx = Some o' \<and> run_state (store_and_create S c o' u site f content) w1 = (r, w'))"
  using assms unfolding Server_UploadDocument_def Let_def
  by (auto dest!: early_orgID early_userID early_unless early_check_site
      split: option.splits sum.splits)

lemma store_and_create_calm:
  assumes "db_calm (sv_env S)" and "store_calm (sv_env S)" and "fresh_names (sv_env S) (w_objects w)"
    and "run_state (store_and_create S c o' u site f content) w = (r, w')"
  obtains (refused) e where "r = error_answer e" "w_db w' = w_db w" "w_objects w' = w_objects w"
    | (stored) doc n where "r = \<lparr>rs_status = 201, rs_body = PDocument doc, rs_cookies = []\<rparr>"
        "doc \<in> set (documents (w_db w'))" "doc_organization_id doc = o'"
        "doc_storage_path doc = sc_bucket c @ ''/'' @ n" "w_objects w n = None"
        "w_objects w' = (w_objects w)(n \<mapsto> \<lparr>ob_content = content, ob_type = content_type f\<rparr>)"
proof -
  let ?n = "object_name (sv_env S) c (w_tick w) (upload_name f)"
  let ?m = "(w_objects w)(?n \<mapsto> \<lparr>ob_content = content, ob_type = content_type f\<rparr>)"
  let ?w1 = "w\<lparr>w_tick := Suc (w_tick w), w_objects := ?m\<rparr>"
  let ?p = "upload_params o' u site f (sc_bucket c @ ''/'' @ ?n)"
  have n: "?n \<noteq> []" "w_objects w ?n = None" using assms(3) by (simp_all add: fresh_names_def object_name_def)
  have run: "run_state (create_or_clean S c ?p) ?w1 = (r, w')"
    using assms(4) by (simp add: store_and_create_def run_attempt run_call run_Upload_calm [OF assms(2)])
  from assms(1) show thesis
  proof (cases rule: document_Create_calm [where p = ?p and w = ?w1])
    case (refused e)
    then show thesis using run n(2) run_Delete_calm [OF assms(2) n(1)]
      by (intro that(1) [of e]) (auto simp: create_or_clean_def upload_params_def fun_upd_idem)
  next
    case (created x d')
    then show thesis using run n stmt_CreateDocument_Inr [OF created(2)]
      by (intro that(2) [of x ?n]) (auto simp: create_or_clean_def upload_params_def)
  qed
qed

text \<open>
  C22. An upload leaves no orphans as long as the database and the store answer: 201 means that the
  document is a row of the caller's organization and that the object its path names, new in the
  bucket, holds the bytes of the file; any other answer means that neither rows nor objects changed.
\<close>

theorem upload_leaves_no_orphans:
  assumes "db_calm (sv_env S)" and "store_calm (sv_env S)" and "fresh_names (sv_env S) (w_objects w)"
    and "run_state (Server_UploadDocument S req cx) w = (r, w')"
  shows "(rs_status r \<noteq> 201 \<and> w_db w' = w_db w \<and> w_objects w' = w_objects w) \<or>
    (\<exists>c f doc n content. rs_status r = 201 \<and> rs_body r = PDocument doc \<and> sv_storage S = Some c \<and>
       rq_FormFile req maxRequestBodySize ''file'' = Inr f \<and> uf_Content f = Inr content \<and> uf_Size f \<le> maxFileSize \<and>
       doc \<in> set (documents (w_db w')) \<and> cx_orgID cx = Some (doc_organization_id doc) \<and>
       doc_storage_path doc = sc_bucket c @ ''/'' @ n \<and> w_objects w n = None \<and>
       w_objects w' = (w_objects w)(n \<mapsto> \<lparr>ob_content = content, ob_type = content_type f\<rparr>))"
  using Upload_cases [OF assms(4)]
proof (elim disjE exE conjE)
  assume "early w r w'"
  then show ?thesis using error_no_success by (auto simp: early_def unchanged_def)
next
  fix c f o' u site content w1
  assume w1: "unchanged w w1" and hyps: "sv_storage S = Some c" "rq_FormFile req maxRequestBodySize ''file'' = Inr f"
    "uf_Content f = Inr content" "uf_Size f \<le> maxFileSize" "cx_orgID cx = Some o'"
    and run: "run_state (store_and_create S c o' u site f content) w1 = (r, w')"
  have "fresh_names (sv_env S) (w_objects w1)" using w1 assms(3) by (simp add: unchanged_def)
  from assms(1,2) this run show ?thesis
  proof (cases rule: store_and_create_calm)
    case (refused e)
    then show ?thesis using w1 error_no_success [of e] by (simp add: unchanged_def)
  next
    case (stored doc n)
    then show ?thesis using w1 hyps by (auto simp: unchanged_def)
  qed
qed

text \<open>
  C39. When the answer to the insertion is lost the clean-up of the upload removes the object although
  the row was stored: the caller gets 500, and the document stays without its file.
\<close>

theorem lost_insert_leaves_a_row_without_file:
  assumes "env_db (sv_env S) (Suc (w_tick w)) = Lost s" and "store_calm (sv_env S)"
    and "fresh_names (sv_env S) (w_objects w)"
    and "stmt_CreateDocument (upload_params o' u site f
          (sc_bucket c @ ''/'' @ object_name (sv_env S) c (w_tick w) (upload_name f)))
        (env_uuid (sv_env S) (Suc (w_tick w))) (env_now (sv_env S) (Suc (w_tick w))) (w_db w) = (Inr doc, d')"
    and "run_state (store_and_create S c o' u site f content) w = (r, w')"
  shows "rs_status r = 500 \<and> doc \<in> set (documents (w_db w')) \<and>
    doc_storage_path doc = sc_bucket c @ ''/'' @ object_name (sv_env S) c (w_tick w) (upload_name f) \<and>
    w_objects w' (object_name (sv_env S) c (w_tick w) (upload_name f)) = None"
proof -
  let ?n = "object_name (sv_env S) c (w_tick w) (upload_name f)"
  let ?w1 = "w\<lparr>w_tick := Suc (w_tick w), w_objects :=
      (w_objects w)(?n \<mapsto> \<lparr>ob_content = content, ob_type = content_type f\<rparr>)\<rparr>"
  have n: "?n \<noteq> []" using assms(3) by (simp add: fresh_names_def object_name_def)
  have "run_state (create_or_clean S c (upload_params o' u site f (sc_bucket c @ ''/'' @ ?n))) ?w1 = (r, w')"
    using assms(5) by (simp add: store_and_create_def run_attempt run_call run_Upload_calm [OF assms(2)])
  moreover have "run_state (document_Create (sv_env S) (upload_params o' u site f (sc_bucket c @ ''/'' @ ?n))) ?w1 =
      (Inl (internal_error (Other s)), ?w1\<lparr>w_db := d', w_tick := Suc (Suc (w_tick w))\<rparr>)"
    using assms(1,4) by (simp add: document_Create_def CreateDocument_def run_call exec_def Let_def)
  ultimately show ?thesis
    using stmt_CreateDocument_Inr [OF assms(4)] run_Delete_calm [OF assms(2) n]
    by (auto simp: create_or_clean_def upload_params_def error_answer_def Let_def internal_error_def errs_New_def
        codeToStatus_def code_defs)
qed

section \<open>Presigned URLs\<close>

text \<open>
  C23. A presigned URL is one of the object that a document of the caller's organization names, with
  the lifetime of 15 minutes; for any other document the answer is an error.
\<close>

theorem presigned_urls_are_of_own_documents:
  assumes "run_state (GetPresignedURL E storage docID orgID download) w = (Inr url, w')"
  shows "\<exists>doc c n. doc \<in> set (documents (w_db w)) \<and> doc_id doc = docID \<and> doc_organization_id doc = orgID \<and>
    storage = Some c \<and> doc_storage_path doc = sc_bucket c @ ''/'' @ n \<and>
    sc_presign c n presignedURLTTL (disposition_params download doc) = Inr url"
proof -
  obtain c where c: "storage = Some c" using assms by (cases storage) (auto simp: GetPresignedURL_def)
  obtain doc w1 where doc: "run_state (GetDocumentByID E docID) w = (Inr doc, w1)"
    and own: "doc_organization_id doc = orgID"
    and url: "run_state (PresignedURLWithParams E c (doc_storage_path doc) presignedURLTTL
        (disposition_params download doc)) w1 = (Inr url, w')"
    using assms by (auto simp: GetPresignedURL_def c run_call split: prod.splits sum.splits if_splits)
  obtain n where "objectNameFrom E c (doc_storage_path doc) = Inr n"
    "sc_presign c n presignedURLTTL (disposition_params download doc) = Inr url"
    using url by (auto simp: PresignedURLWithParams_def split: sum.splits)
  moreover have "doc \<in> set (documents (w_db w))" "doc_id doc = docID"
    using exec_Inr [OF doc [unfolded GetDocumentByID_def]] by (auto dest: find_Some_iff_mem)
  ultimately show ?thesis using c own objectNameFrom_Inr by blast
qed

text \<open>A created document has the path that the request gave.\<close>

definition create_params :: "uuid \<Rightarrow> uuid \<Rightarrow> uuid option \<Rightarrow> create_document_request \<Rightarrow> create_document_params" where
  "create_params o' u site q = \<lparr>cd_OrganizationID = o', cd_SiteID = site, cd_UploadedBy = u,
     cd_ParentID = None, cd_FileName = dr_FileName q, cd_StoragePath = dr_StoragePath q,
     cd_MimeType = dr_MimeType q, cd_FileSizeBytes = dr_FileSizeBytes q, cd_ArtifactKind = None\<rparr>"

lemma CreateDocument_early:
  assumes "run_state (Server_CreateDocument S req cx) w = (r, w1)"
  shows "early w r w1 \<or> (\<exists>q o' u site w0. Option.bind (leading_json (rq_body req)) dec_create_document = Some q \<and>
    cx_orgID cx = Some o' \<and> unchanged w w0 \<and>
    run_state (attempt (document_Create (sv_env S) (create_params o' u site q)) (\<lambda>doc. answer 201 (PDocument doc))) w0 = (r, w1))"
  using assms unfolding Server_CreateDocument_def bind_json_def create_params_def [symmetric]
  by (auto dest!: early_orgID early_userID early_unless early_check_site dest: early_later
      split: option.splits if_splits)

lemma CreateDocument_cases:
  assumes "run_state (Server_CreateDocument S req cx) w = (r, w1)" and "rs_body r = PDocument doc"
  obtains q u site w0 o' where "Option.bind (leading_json (rq_body req)) dec_create_document = Some q"
    "cx_orgID cx = Some o'" "unchanged w w0"
    "run_state (document_Create (sv_env S) (create_params o' u site q)) w0 = (Inr doc, w1)"
proof -
  have "\<not> early w r w1" using assms(2) by (auto simp: early_def error_answer_def Let_def)
  then show thesis using CreateDocument_early [OF assms(1)] assms(2) that
    by (fastforce simp: run_attempt error_answer_def Let_def split: prod.splits sum.splits)
qed

text \<open>
  C38. The path of a document is not checked to be the caller's: a member of any organization can post
  a document with the path of any object of the bucket, of another organization's file for
  instance, and then gets a presigned URL for this object.
\<close>

theorem any_object_can_be_presigned:
  assumes "db_calm (sv_env S)" and "sv_storage S = Some c"
    and "Option.bind (leading_json (rq_body req)) dec_create_document = Some q"
    and "dr_StoragePath q = sc_bucket c @ ''/'' @ n" and "n \<noteq> []"
    and "run_state (Server_CreateDocument S req cx) w = (r, w1)" and "rs_body r = PDocument doc"
    and "lib_uuid_Parse (sv_libs S) (rq_param req' ''id'') = Inr (doc_id doc)" and "query req' ''download'' = []"
    and "sc_presign c n presignedURLTTL [] = Inr url"
  shows "fst (run_state (Server_GetDocumentPresignedURL S req' cx) w1) =
    \<lparr>rs_status = 200, rs_body = PUrl url, rs_cookies = []\<rparr>"
  using assms(6,7)
proof (cases rule: CreateDocument_cases)
  case (1 q' u site w0 o')
  let ?p = "create_params o' u site q'"
  from 1 obtain w2 where stored: "run_state (CreateDocument (sv_env S) ?p) w0 = (Inr doc, w2)" "w1 = w2"
    by (auto simp: document_Create_def run_call split: prod.splits sum.splits)
  note new = stmt_CreateDocument_Inr [OF exec_Inr [OF stored(1) [unfolded CreateDocument_def]]]
  have "find (\<lambda>x. doc_id x = doc_id doc) (documents (w_db w1)) = Some doc"
    using find_snoc_fresh [of doc_id doc] new(1,2) stored(2) by simp
  moreover have "doc_storage_path doc = sc_bucket c @ ''/'' @ n" using new(3) 1(1) assms(3,4) by (simp add: create_params_def)
  ultimately show ?thesis
    using assms(1,2,5,8-10) 1(2) new(4)
    by (simp add: create_params_def Server_GetDocumentPresignedURL_def orgIDFromContext_def parseUUID_def unless_def run_attempt
        GetPresignedURL_def GetDocumentByID_def run_call run_sel_one PresignedURLWithParams_def
        objectNameFrom_path [simplified] disposition_params_def)
qed

section \<open>Examples\<close>

lemma demo_store [simp]: "store_calm demo_env"
  by (simp add: store_calm_def demo_env_def)

lemma demo_fresh: "fresh_names demo_env Map.empty"
  by (simp add: fresh_names_def demo_env_def)

lemma demo_objects [simp]: "w_objects demo_world = Map.empty"
  by (simp add: demo_world_def)

definition demo_file :: uploaded_file where
  "demo_file = \<lparr>uf_Filename = ''plan'', uf_Size = 5, uf_ContentType = ''text/plain'', uf_Content = Inr ''hello''\<rparr>"

definition demo_upload :: http_request where
  "demo_upload = (demo_req ''POST'' [''api'', ''v1'', ''documents'', ''upload''] (Some ''admin-token''))
     \<lparr>rq_FormFile := (\<lambda>_ _. Inr demo_file)\<rparr>"

definition demo_context :: gin_context where
  "demo_context = \<lparr>cx_userID = Some 2, cx_orgID = Some 1, cx_role = Some ''admin''\<rparr>"

theorem upload_leaves_no_orphans_witness:
  "case run_state (Server_UploadDocument demo_server demo_upload demo_context) demo_world of (r, w') \<Rightarrow>
     rs_status r \<noteq> 201 \<longrightarrow> w_db w' = demo_db \<and> w_objects w' = Map.empty"
  using upload_leaves_no_orphans [of demo_server demo_world demo_upload demo_context] demo_fresh
  by (auto split: prod.split)

text \<open>The server of the examples with a database whose answers get lost.\<close>

definition lossy_server :: server where
  "lossy_server = demo_server\<lparr>sv_env := demo_env\<lparr>env_db := (\<lambda>_. Lost ''reset'')\<rparr>\<rparr>"

theorem lost_insert_leaves_a_row_without_file_witness:
  "case run_state (store_and_create lossy_server demo_storage 1 2 None demo_file ''hello'') demo_world of (r, w') \<Rightarrow>
     rs_status r = 500 \<and> w_objects w' (object_name (sv_env lossy_server) demo_storage 0 (upload_name demo_file)) = None"
proof -
  have "\<exists>doc d'. stmt_CreateDocument (upload_params 1 2 None demo_file
      (sc_bucket demo_storage @ ''/'' @ object_name (sv_env lossy_server) demo_storage (w_tick demo_world) (upload_name demo_file)))
      (env_uuid (sv_env lossy_server) (Suc (w_tick demo_world)))
      (env_now (sv_env lossy_server) (Suc (w_tick demo_world))) (w_db demo_world) = (Inr doc, d')"
    by (simp add: lossy_server_def stmt_CreateDocument_def insert_document_def new_document_def upload_params_def
        document_triggers_def document_checks_def document_keys_def demo_doc_def demo_md_def demo_user_def
        demo_org_def index_conflict_def artifact_key_def org_user_exists_def)
  then obtain doc d' where "stmt_CreateDocument (upload_params 1 2 None demo_file
      (sc_bucket demo_storage @ ''/'' @ object_name (sv_env lossy_server) demo_storage (w_tick demo_world) (upload_name demo_file)))
      (env_uuid (sv_env lossy_server) (Suc (w_tick demo_world)))
      (env_now (sv_env lossy_server) (Suc (w_tick demo_world))) (w_db demo_world) = (Inr doc, d')" by blast
  from lost_insert_leaves_a_row_without_file [OF _ _ _ this] demo_fresh show ?thesis
    by (auto simp: lossy_server_def store_calm_def fresh_names_def demo_env_def split: prod.split)
qed

definition demo_post :: http_request where
  "demo_post = (demo_req ''POST'' [''api'', ''v1'', ''documents''] (Some ''admin-token''))
     \<lparr>rq_body := Whole (JObj [(''file_name'', JStr ''mine''), (''storage_path'', JStr ''tenders/secret'')]),
      rq_param := (\<lambda>_. ''1000'')\<rparr>"

theorem any_object_can_be_presigned_witness:
  "case run_state (Server_CreateDocument demo_server demo_post demo_context) demo_world of (r, w1) \<Rightarrow>
     fst (run_state (Server_GetDocumentPresignedURL demo_server demo_post demo_context) w1) =
     \<lparr>rs_status = 200, rs_body = PUrl ''https://store/secret'', rs_cookies = []\<rparr>"
proof -
  have dec: "Option.bind (leading_json (rq_body demo_post)) dec_create_document =
      Some \<lparr>dr_SiteID = None, dr_FileName = ''mine'', dr_StoragePath = ''tenders/secret'', dr_MimeType = None,
        dr_FileSizeBytes = None\<rparr>"
    by (simp add: demo_post_def dec_create_document_def field_def no_field_def same_name_def ascii_lower_def)
  obtain r w1 where run: "run_state (Server_CreateDocument demo_server demo_post demo_context) demo_world = (r, w1)"
    by fastforce
  have "\<exists>doc. rs_body r = PDocument doc \<and> doc_id doc = 1000"
    using run dec by (auto simp: Server_CreateDocument_def bind_json_def demo_context_def orgIDFromContext_def
        userIDFromContext_def check_site_def unless_def run_attempt document_Create_def CreateDocument_def
        demo_run stmt_CreateDocument_def insert_document_def new_document_def document_triggers_def
        document_checks_def document_keys_def demo_doc_def demo_md_def demo_user_def demo_org_def
        index_conflict_def artifact_key_def org_user_exists_def)
  then obtain doc where doc: "rs_body r = PDocument doc" "doc_id doc = 1000" by blast
  show ?thesis
    using any_object_can_be_presigned [OF _ _ dec _ _ run doc(1), of demo_storage "''secret''" demo_post "''https://store/secret''"]
      doc(2) run
    by (simp add: demo_storage_def demo_post_def demo_libs_def parse_digits_def digit_val_def query_def demo_req_def pg_text_def)
qed

theorem presigned_urls_are_of_own_documents_witness:
  "\<exists>doc c n. doc \<in> set (documents demo_db) \<and> doc_id doc = 3 \<and> doc_organization_id doc = 1 \<and>
    Some (demo_storage\<lparr>sc_bucket := ''o''\<rparr>) = Some c \<and> doc_storage_path doc = sc_bucket c @ ''/'' @ n \<and>
    sc_presign c n presignedURLTTL (disposition_params False doc) = Inr ''https://store/contract.pdf''"
proof -
  have "run_state (GetPresignedURL demo_env (Some (demo_storage\<lparr>sc_bucket := ''o''\<rparr>)) 3 1 False) demo_world =
      (Inr ''https://store/contract.pdf'', demo_world\<lparr>w_tick := 1\<rparr>)"
    by (simp add: GetPresignedURL_def demo_run GetDocumentByID_def demo_doc_def PresignedURLWithParams_def
        objectNameFrom_def starts_with_def demo_storage_def)
  from presigned_urls_are_of_own_documents [OF this] show ?thesis by simp
qed

end
