(* ===== verification/Consistency.thy ===== *)
theory Consistency
  imports Integrity Repo_Accounts Repo_Sites Repo_Catalogs
begin

text \<open>
  The integrity of the whole database. \<^verbatim>\<open>Integrity\<close> has the tables of the pipeline; here are
  organizations, users, sites, catalogs, invitations, the audit log and comparison sessions, and the
  references from documents to them: identifiers and unique columns are unique, every reference is
  to a row that is there and, where the schema says so, to one of the same organization, and the
  tree of sites has no cycle.
\<close>

section \<open>Rows and what they refer to\<close>

definition user_org :: "user \<Rightarrow> uuid \<times> uuid option" where
  "user_org x = (usr_id x, usr_organization_id x)"

definition site_org :: "construction_site \<Rightarrow> uuid \<times> uuid" where
  "site_org x = (site_id x, site_organization_id x)"

definition entry_org :: "catalog_entry \<Rightarrow> uuid \<times> uuid option" where
  "entry_org x = (cat_id x, cat_organization_id x)"

definition session_org :: "comparison_session \<Rightarrow> uuid \<times> uuid" where
  "session_org x = (cs_id x, cs_organization_id x)"

definition org_session_exists :: "db \<Rightarrow> uuid \<Rightarrow> uuid \<Rightarrow> bool" where
  "org_session_exists d i org \<longleftrightarrow>
     list_ex (\<lambda>x. cs_id x = i \<and> cs_organization_id x = org) (comparison_sessions d)"

lemma known_iffs:
  "org_known d i \<longleftrightarrow> i \<in> set (map org_id (organizations d))"
  "user_known d i \<longleftrightarrow> i \<in> fst ` set (map user_org (users d))"
  "org_user_exists d i o' \<longleftrightarrow> (i, Some o') \<in> set (map user_org (users d))"
  "org_site_exists d i o' \<longleftrightarrow> (i, o') \<in> set (map site_org (construction_sites d))"
  "visible_entry es i o' \<longleftrightarrow> (i, None) \<in> set (map entry_org es) \<or> (i, Some o') \<in> set (map entry_org es)"
  "org_session_exists d i o' \<longleftrightarrow> (i, o') \<in> set (map session_org (comparison_sessions d))"
  by (auto simp: org_known_def user_known_def org_user_exists_def org_site_exists_def visible_entry_def
      org_session_exists_def list_ex_iff user_org_def site_org_def entry_org_def session_org_def image_iff)

definition user_ok :: "db \<Rightarrow> user \<Rightarrow> bool" where
  "user_ok d x \<longleftrightarrow> checks_hold (user_checks x) \<and> null_or (org_known d) (usr_organization_id x)"

definition site_ok :: "db \<Rightarrow> construction_site \<Rightarrow> bool" where
  "site_ok d x \<longleftrightarrow> checks_hold (site_checks x) \<and> org_known d (site_organization_id x) \<and>
     null_or (\<lambda>p. org_site_exists d p (site_organization_id x)) (site_parent_id x) \<and>
     null_or (\<lambda>u. org_user_exists d u (site_organization_id x)) (site_created_by x)"

definition entry_ok :: "db \<Rightarrow> catalog_entry \<Rightarrow> bool" where
  "entry_ok d x \<longleftrightarrow> null_or (org_known d) (cat_organization_id x)"

definition invitation_ok :: "db \<Rightarrow> user_invitation \<Rightarrow> bool" where
  "invitation_ok d x \<longleftrightarrow> inv_role x \<in> {''admin'', ''member''} \<and> org_known d (inv_organization_id x) \<and>
     null_or (user_known d) (inv_invited_by x)"

definition audit_ok :: "db \<Rightarrow> site_audit_log \<Rightarrow> bool" where
  "audit_ok d x \<longleftrightarrow> org_known d (audit_organization_id x) \<and>
     org_site_exists d (audit_site_id x) (audit_organization_id x) \<and>
     null_or (user_known d) (audit_actor_user_id x)"

definition session_ok :: "db \<Rightarrow> comparison_session \<Rightarrow> bool" where
  "session_ok d x \<longleftrightarrow> org_known d (cs_organization_id x) \<and> null_or (user_known d) (cs_created_by x) \<and>
     null_or (\<lambda>k. visible_entry (document_contract_kinds d) k (cs_organization_id x)) (cs_contract_kind_id x)"

definition place_ok :: "db \<Rightarrow> comparison_session_document \<Rightarrow> bool" where
  "place_ok d x \<longleftrightarrow> org_session_exists d (csd_session_id x) (csd_organization_id x) \<and>
     org_document_exists d (csd_document_id x) (csd_organization_id x)"

definition file_ok :: "db \<Rightarrow> document \<Rightarrow> bool" where
  "file_ok d x \<longleftrightarrow> checks_hold (document_triggers d x)"

text \<open>The edges of the tree of sites, from parent to child.\<close>

definition site_parents :: "construction_site list \<Rightarrow> (uuid \<times> uuid) set" where
  "site_parents ss = {(p, i). \<exists>x \<in> set ss. site_id x = i \<and> site_parent_id x = Some p}"

section \<open>The invariant\<close>

abbreviation no_index :: "('r \<Rightarrow> unit option) list" where "no_index \<equiv> []"

definition organizations_ok :: "db \<Rightarrow> bool" where
  "organizations_ok d \<longleftrightarrow> table_ok org_id [org_inn] (\<lambda>_. True) (organizations d)"

definition users_ok :: "db \<Rightarrow> bool" where
  "users_ok d \<longleftrightarrow> table_ok usr_id [\<lambda>x. Some (usr_email x)] (user_ok d) (users d)"

definition sites_ok :: "db \<Rightarrow> bool" where
  "sites_ok d \<longleftrightarrow> table_ok site_id no_index (site_ok d) (construction_sites d) \<and>
     acyclic (site_parents (construction_sites d))"

definition files_ok :: "db \<Rightarrow> bool" where
  "files_ok d \<longleftrightarrow> (\<forall>x \<in> set (documents d). file_ok d x)"

definition kinds_ok :: "db \<Rightarrow> bool" where
  "kinds_ok d \<longleftrightarrow> table_ok cat_id [cat_org_name] (entry_ok d) (document_contract_kinds d)"

definition roles_ok :: "db \<Rightarrow> bool" where
  "roles_ok d \<longleftrightarrow> table_ok cat_id [cat_org_name] (entry_ok d) (document_file_roles d)"

definition invitations_ok :: "db \<Rightarrow> bool" where
  "invitations_ok d \<longleftrightarrow> table_ok inv_id [open_invitation] (invitation_ok d) (user_invitations d) \<and>
     distinct (map inv_token_hash (user_invitations d))"

definition audits_ok :: "db \<Rightarrow> bool" where
  "audits_ok d \<longleftrightarrow> table_ok audit_id no_index (audit_ok d) (site_audit_logs d)"

definition sessions_ok :: "db \<Rightarrow> bool" where
  "sessions_ok d \<longleftrightarrow> table_ok cs_id no_index (session_ok d) (comparison_sessions d)"

definition places_ok :: "db \<Rightarrow> bool" where
  "places_ok d \<longleftrightarrow> table_ok place_key no_index (place_ok d) (comparison_session_documents d)"

definition more_ok :: "db \<Rightarrow> bool" where
  "more_ok d \<longleftrightarrow> organizations_ok d \<and> users_ok d \<and> sites_ok d \<and> files_ok d \<and> kinds_ok d \<and> roles_ok d \<and>
     invitations_ok d \<and> audits_ok d \<and> sessions_ok d \<and> places_ok d"

definition consistent :: "db \<Rightarrow> bool" where
  "consistent d \<longleftrightarrow> db_ok d \<and> more_ok d"

lemmas more_row_defs = user_ok_def site_ok_def entry_ok_def invitation_ok_def audit_ok_def session_ok_def
  place_ok_def file_ok_def
lemmas more_table_defs = organizations_ok_def users_ok_def sites_ok_def files_ok_def kinds_ok_def roles_ok_def
  invitations_ok_def audits_ok_def sessions_ok_def places_ok_def

lemma consistentD: "consistent d \<Longrightarrow> db_ok d" "consistent d \<Longrightarrow> more_ok d"
  by (simp_all add: consistent_def)

section \<open>References that are kept\<close>

definition keeps_refs :: "db \<Rightarrow> db \<Rightarrow> bool" where
  "keeps_refs d d' \<longleftrightarrow>
     set (map org_id (organizations d)) \<subseteq> set (map org_id (organizations d')) \<and>
     set (map user_org (users d)) \<subseteq> set (map user_org (users d')) \<and>
     set (map site_org (construction_sites d)) \<subseteq> set (map site_org (construction_sites d')) \<and>
     set (map doc_owner (documents d)) \<subseteq> set (map doc_owner (documents d')) \<and>
     set (map entry_org (document_contract_kinds d)) \<subseteq> set (map entry_org (document_contract_kinds d')) \<and>
     set (map entry_org (document_file_roles d)) \<subseteq> set (map entry_org (document_file_roles d')) \<and>
     set (map session_org (comparison_sessions d)) \<subseteq> set (map session_org (comparison_sessions d'))"

lemma kept_exists:
  assumes "keeps_refs d d'"
  shows "org_known d i \<Longrightarrow> org_known d' i" "user_known d i \<Longrightarrow> user_known d' i"
    "org_user_exists d i o' \<Longrightarrow> org_user_exists d' i o'" "org_site_exists d i o' \<Longrightarrow> org_site_exists d' i o'"
    "org_document_exists d i o' \<Longrightarrow> org_document_exists d' i o'"
    "visible_entry (document_contract_kinds d) i o' \<Longrightarrow> visible_entry (document_contract_kinds d') i o'"
    "visible_entry (document_file_roles d) i o' \<Longrightarrow> visible_entry (document_file_roles d') i o'"
    "org_session_exists d i o' \<Longrightarrow> org_session_exists d' i o'"
  using assms unfolding keeps_refs_def known_iffs org_document_exists_iff by blast+

lemma kept_rows:
  assumes "keeps_refs d d'"
  shows "user_ok d u \<Longrightarrow> user_ok d' u" "site_ok d s \<Longrightarrow> site_ok d' s" "entry_ok d e \<Longrightarrow> entry_ok d' e"
    "invitation_ok d i \<Longrightarrow> invitation_ok d' i" "audit_ok d a \<Longrightarrow> audit_ok d' a" "session_ok d c \<Longrightarrow> session_ok d' c"
    "place_ok d p \<Longrightarrow> place_ok d' p" "file_ok d x \<Longrightarrow> file_ok d' x"
  unfolding more_row_defs document_triggers_def checks_hold_simps fst_conv
  by (auto simp: null_or_def intro: kept_exists [OF assms] split: option.splits)

lemma kept_tables:
  assumes "keeps_refs d d'"
  shows "users d' = users d \<Longrightarrow> users_ok d \<Longrightarrow> users_ok d'"
    "construction_sites d' = construction_sites d \<Longrightarrow> sites_ok d \<Longrightarrow> sites_ok d'"
    "documents d' = documents d \<Longrightarrow> files_ok d \<Longrightarrow> files_ok d'"
    "document_contract_kinds d' = document_contract_kinds d \<Longrightarrow> kinds_ok d \<Longrightarrow> kinds_ok d'"
    "document_file_roles d' = document_file_roles d \<Longrightarrow> roles_ok d \<Longrightarrow> roles_ok d'"
    "user_invitations d' = user_invitations d \<Longrightarrow> invitations_ok d \<Longrightarrow> invitations_ok d'"
    "site_audit_logs d' = site_audit_logs d \<Longrightarrow> audits_ok d \<Longrightarrow> audits_ok d'"
    "comparison_sessions d' = comparison_sessions d \<Longrightarrow> sessions_ok d \<Longrightarrow> sessions_ok d'"
    "comparison_session_documents d' = comparison_session_documents d \<Longrightarrow> places_ok d \<Longrightarrow> places_ok d'"
  unfolding more_table_defs using kept_rows [OF assms] by (auto elim: table_ok_mono)

text \<open>Each table is the same or well-formed for the old references.\<close>

lemma more_ok_changed:
  assumes "more_ok d" and kept: "keeps_refs d d'"
    and "organizations d' = organizations d \<or> table_ok org_id [org_inn] (\<lambda>_. True) (organizations d')"
    and "users d' = users d \<or> table_ok usr_id [\<lambda>x. Some (usr_email x)] (user_ok d) (users d')"
    and "construction_sites d' = construction_sites d \<or>
      table_ok site_id no_index (site_ok d) (construction_sites d') \<and> acyclic (site_parents (construction_sites d'))"
    and "documents d' = documents d \<or> (\<forall>x \<in> set (documents d'). file_ok d x)"
    and "document_contract_kinds d' = document_contract_kinds d \<or>
      table_ok cat_id [cat_org_name] (entry_ok d) (document_contract_kinds d')"
    and "document_file_roles d' = document_file_roles d \<or>
      table_ok cat_id [cat_org_name] (entry_ok d) (document_file_roles d')"
    and "user_invitations d' = user_invitations d \<or>
      table_ok inv_id [open_invitation] (invitation_ok d) (user_invitations d') \<and>
      distinct (map inv_token_hash (user_invitations d'))"
    and "site_audit_logs d' = site_audit_logs d \<or> table_ok audit_id no_index (audit_ok d) (site_audit_logs d')"
    and "comparison_sessions d' = comparison_sessions d \<or>
      table_ok cs_id no_index (session_ok d) (comparison_sessions d')"
    and "comparison_session_documents d' = comparison_session_documents d \<or>
      table_ok place_key no_index (place_ok d) (comparison_session_documents d')"
  shows "more_ok d'"
proof -
  have "organizations_ok d'" using assms(1,3) by (auto simp: more_ok_def organizations_ok_def)
  moreover have "users_ok d'" using assms(1,4) kept_tables(1) [OF kept]
    by (auto simp: more_ok_def users_ok_def elim: table_ok_mono intro: kept_rows(1) [OF kept])
  moreover have "sites_ok d'" using assms(1,5) kept_tables(2) [OF kept]
    by (auto simp: more_ok_def sites_ok_def elim: table_ok_mono intro: kept_rows(2) [OF kept])
  moreover have "files_ok d'" using assms(1,6) kept_tables(3) [OF kept]
    by (auto simp: more_ok_def files_ok_def intro: kept_rows(8) [OF kept])
  moreover have "kinds_ok d'" "roles_ok d'" using assms(1,7,8) kept_tables(4,5) [OF kept]
    by (auto simp: more_ok_def kinds_ok_def roles_ok_def elim: table_ok_mono intro: kept_rows(3) [OF kept])
  moreover have "invitations_ok d'" using assms(1,9) kept_tables(6) [OF kept]
    by (auto simp: more_ok_def invitations_ok_def elim: table_ok_mono intro: kept_rows(4) [OF kept])
  moreover have "audits_ok d'" using assms(1,10) kept_tables(7) [OF kept]
    by (auto simp: more_ok_def audits_ok_def elim: table_ok_mono intro: kept_rows(5) [OF kept])
  moreover have "sessions_ok d'" using assms(1,11) kept_tables(8) [OF kept]
    by (auto simp: more_ok_def sessions_ok_def elim: table_ok_mono intro: kept_rows(6) [OF kept])
  moreover have "places_ok d'" using assms(1,12) kept_tables(9) [OF kept]
    by (auto simp: more_ok_def places_ok_def elim: table_ok_mono intro: kept_rows(7) [OF kept])
  ultimately show ?thesis by (simp add: more_ok_def)
qed

text \<open>A statement that writes one table.\<close>

lemma more_ok_set:
  assumes "more_ok d"
  shows "set (map org_id (organizations d)) \<subseteq> set (map org_id os) \<Longrightarrow> table_ok org_id [org_inn] (\<lambda>_. True) os \<Longrightarrow>
      more_ok (d\<lparr>organizations := os\<rparr>)"
    and "set (map user_org (users d)) \<subseteq> set (map user_org us) \<Longrightarrow>
      table_ok usr_id [\<lambda>x. Some (usr_email x)] (user_ok d) us \<Longrightarrow> more_ok (d\<lparr>users := us\<rparr>)"
    and "set (map site_org (construction_sites d)) \<subseteq> set (map site_org ss) \<Longrightarrow>
      table_ok site_id no_index (site_ok d) ss \<Longrightarrow> acyclic (site_parents ss) \<Longrightarrow> more_ok (d\<lparr>construction_sites := ss\<rparr>)"
    and "set (map doc_owner (documents d)) \<subseteq> set (map doc_owner xs) \<Longrightarrow> \<forall>x \<in> set xs. file_ok d x \<Longrightarrow>
      more_ok (d\<lparr>documents := xs\<rparr>)"
    and "set (map entry_org (document_contract_kinds d)) \<subseteq> set (map entry_org es) \<Longrightarrow>
      table_ok cat_id [cat_org_name] (entry_ok d) es \<Longrightarrow> more_ok (d\<lparr>document_contract_kinds := es\<rparr>)"
    and "set (map entry_org (document_file_roles d)) \<subseteq> set (map entry_org es) \<Longrightarrow>
      table_ok cat_id [cat_org_name] (entry_ok d) es \<Longrightarrow> more_ok (d\<lparr>document_file_roles := es\<rparr>)"
    and "table_ok inv_id [open_invitation] (invitation_ok d) is \<Longrightarrow> distinct (map inv_token_hash is) \<Longrightarrow>
      more_ok (d\<lparr>user_invitations := is\<rparr>)"
    and "table_ok audit_id no_index (audit_ok d) as \<Longrightarrow> more_ok (d\<lparr>site_audit_logs := as\<rparr>)"
    and "set (map session_org (comparison_sessions d)) \<subseteq> set (map session_org cs) \<Longrightarrow>
      table_ok cs_id no_index (session_ok d) cs \<Longrightarrow> more_ok (d\<lparr>comparison_sessions := cs\<rparr>)"
    and "table_ok place_key no_index (place_ok d) ps \<Longrightarrow> more_ok (d\<lparr>comparison_session_documents := ps\<rparr>)"
  by (rule more_ok_changed [OF assms]; simp add: keeps_refs_def)+

section \<open>Insert and update\<close>

lemma uniq_put_other:
  "distinct (map k rs) \<Longrightarrow> uniq u rs \<Longrightarrow> \<not> others_conflict k u y rs \<Longrightarrow> uniq u (put_row k y rs)"
proof (induction rs)
  case (Cons x xs)
  have rest: "uniq u xs" "distinct (map k xs)" using Cons.prems by (auto simp: uniq_def split: option.splits)
  show ?case
  proof (cases "k x = k y")
    case True
    then have "k y \<notin> k ` set xs" using Cons.prems(1) by auto
    then have "del_where (\<lambda>z. k z = k y) xs = xs" "put_row k y xs = xs"
      by (auto simp: del_where_def filter_id_conv image_iff put_row_absent)
    then show ?thesis using True Cons.prems(3) rest
      by (auto simp: put_row_Cons others_conflict_def del_where_def uniq_def index_conflict_def split: option.splits)
  next
    case False
    then have "uniq u (put_row k y xs)"
      using Cons rest by (auto simp: others_conflict_def del_where_def index_conflict_def set_index_keys split: option.splits)
    moreover have "v \<notin> set (index_keys u (put_row k y xs))" if "u x = Some v" for v
      using that Cons.prems False
      by (auto simp: set_index_keys others_conflict_def index_conflict_def del_where_def uniq_def dest!: set_put_row
          split: option.splits)
    ultimately show ?thesis using False by (auto simp: put_row_Cons uniq_def split: option.splits)
  qed
qed simp

lemma index_conflict_total [simp]: "index_conflict (\<lambda>x. Some (f x)) r rs \<longleftrightarrow> f r \<in> f ` set rs"
  by (auto simp: index_conflict_def set_index_keys intro: rev_image_eqI)

lemma snd_insert_row: "snd (insert_row cs rows put r d) = (if checks_hold cs then put (rows d @ [r]) d else d)"
  by (auto simp: insert_row_def split: option.splits dest: first_violation_None [THEN iffD2])

text \<open>
  An update of a row of a well-formed table keeps what it does not touch, and a unique column that it
  does touch has been checked against the other rows.
\<close>

lemma put_row_ok:
  assumes tab: "table_ok k us p rs" and x: "x \<in> set rs" and key: "k y = k x" and proj: "proj y = proj x"
    and uniq: "\<And>u. u \<in> set us \<Longrightarrow> u y = u x \<or> \<not> others_conflict k u y rs" and p: "p y"
  shows "table_ok k us p (put_row k y rs) \<and> map proj (put_row k y rs) = map proj rs"
proof
  have same: "z = x" if "z \<in> set rs" "k z = k y" for z
    using table_ok_key [OF tab that(1) x] that(2) key by simp
  have "uniq u (put_row k y rs)" if u: "u \<in> set us" for u
    using uniq [OF u]
  proof
    assume "u y = u x"
    then show ?thesis using tab u same by (intro uniq_put_row) (auto simp: table_ok_def list_all_iff)
  next
    assume "\<not> others_conflict k u y rs"
    then show ?thesis using tab u by (intro uniq_put_other) (auto simp: table_ok_def list_all_iff)
  qed
  moreover have "\<forall>r \<in> set (put_row k y rs). p r" using tab p by (auto simp: table_ok_def dest!: set_put_rowD)
  moreover have "distinct (map k (put_row k y rs))" using tab by (simp only: table_ok_def put_row_keys)
  ultimately show "table_ok k us p (put_row k y rs)" by (simp add: table_ok_def list_all_iff)
  show "map proj (put_row k y rs) = map proj rs"
    by (rule put_row_proj) (use same proj in metis)
qed

lemma updated_ok:
  assumes "I d" and tab: "table_ok k us p (rows d)"
    and same: "\<And>x. k (f x) = k x" "\<And>x. proj (f x) = proj x"
    and uniq: "\<And>x u. checks_hold (cs (f x)) \<Longrightarrow> u \<in> set us \<Longrightarrow>
      u (f x) = u x \<or> \<not> others_conflict k u (f x) (rows d)"
    and p: "\<And>x. x \<in> set (rows d) \<Longrightarrow> p x \<Longrightarrow> checks_hold (cs (f x)) \<Longrightarrow> p (f x)"
    and put: "\<And>rs. table_ok k us p rs \<Longrightarrow> map proj rs = map proj (rows d) \<Longrightarrow> I (put rs d)"
  shows "I (snd (update_row cs rows put k q f d))"
proof (cases rule: update_row_cases [of cs rows put k q f d])
  case (updated x)
  then have "table_ok k us p (put_row k (f x) (rows d)) \<and>
      map proj (put_row k (f x) (rows d)) = map proj (rows d)"
    using tab same uniq p by (intro put_row_ok [where x = x]) (auto dest: table_ok_row)
  then show ?thesis using put updated by simp
qed (use assms(1) in simp)

lemma inserted_ok:
  assumes "I d" and "table_ok k us p (rows d)"
    and "checks_hold cs \<Longrightarrow> k r \<notin> set (map k (rows d)) \<and> (\<forall>u \<in> set us. \<not> index_conflict u r (rows d)) \<and> p r"
    and "checks_hold cs \<Longrightarrow> table_ok k us p (rows d @ [r]) \<Longrightarrow> I (put (rows d @ [r]) d)"
  shows "I (snd (insert_row cs rows put r d))"
  unfolding snd_insert_row using assms table_ok_snoc [of k us p "rows d" r] by auto

lemma more_tables:
  assumes "more_ok d"
  shows "table_ok org_id [org_inn] (\<lambda>_. True) (organizations d)"
    "table_ok usr_id [\<lambda>x. Some (usr_email x)] (user_ok d) (users d)"
    "table_ok site_id no_index (site_ok d) (construction_sites d)"
    "table_ok cat_id [cat_org_name] (entry_ok d) (document_contract_kinds d)"
    "table_ok cat_id [cat_org_name] (entry_ok d) (document_file_roles d)"
    "table_ok inv_id [open_invitation] (invitation_ok d) (user_invitations d)"
    "table_ok audit_id no_index (audit_ok d) (site_audit_logs d)"
    "table_ok cs_id no_index (session_ok d) (comparison_sessions d)"
    "table_ok place_key no_index (place_ok d) (comparison_session_documents d)"
    "acyclic (site_parents (construction_sites d))" "distinct (map inv_token_hash (user_invitations d))"
    "\<forall>x \<in> set (documents d). file_ok d x"
  using assms by (simp_all add: more_ok_def more_table_defs)

named_theorems more_stmt

lemma more_organizations [more_stmt]:
  assumes "more_ok d"
  shows "more_ok (snd (stmt_CreateOrganization name inn g t d))"
    and "more_ok (snd (stmt_UpdateOrganization i name inn b g t d))"
  unfolding stmt_CreateOrganization_def stmt_UpdateOrganization_def Let_def
  by (rule inserted_ok [where I = more_ok] updated_ok [where I = more_ok and proj = org_id],
      rule assms, rule more_tables(1) [OF assms]; auto intro!: more_ok_set(1) assms)+

lemma more_users [more_stmt]:
  assumes "more_ok d"
  shows "more_ok (snd (stmt_CreateUser a b c e h g t d))"
    and "more_ok (snd (stmt_UpdateUser i o' role active g t d))"
proof -
  show "more_ok (snd (stmt_CreateUser a b c e h g t d))"
    unfolding stmt_CreateUser_def Let_def
    by (rule inserted_ok [where I = more_ok], rule assms, rule more_tables(2) [OF assms])
      (auto simp: user_ok_def intro!: more_ok_set(2) assms)
  have "more_ok (snd (update_row user_checks users (\<lambda>rs. users_update (\<lambda>_. rs)) usr_id
      (\<lambda>x. usr_id x = i \<and> usr_organization_id x = Some o')
      (\<lambda>x. x\<lparr>usr_role := coalesce role (usr_role x),
               usr_is_active := coalesce active (usr_is_active x), usr_updated_at := t\<rparr>) d))"
    by (rule updated_ok [where I = more_ok and proj = user_org], rule assms, rule more_tables(2) [OF assms])
      (auto simp: user_ok_def user_org_def intro!: more_ok_set(2) assms simp del: set_map)
  then show "more_ok (snd (stmt_UpdateUser i o' role active g t d))"
    by (auto simp: stmt_UpdateUser_def split: prod.splits sum.splits)
qed

lemma more_invitations [more_stmt]:
  assumes "more_ok d"
  shows "more_ok (snd (stmt_CreateUserInvitation a b c e h x g t d))"
    and "more_ok (snd (stmt_AcceptUserInvitation i o' g t d))"
    and "more_ok (snd (stmt_DeleteUserInvitation i o' g t d))"
proof -
  note tokens = more_tables(11) [OF assms]
  show "more_ok (snd (stmt_CreateUserInvitation a b c e h x g t d))"
    unfolding stmt_CreateUserInvitation_def Let_def
    by (rule inserted_ok [where I = more_ok], rule assms, rule more_tables(6) [OF assms])
      (use tokens in \<open>auto simp: invitation_ok_def intro!: more_ok_set(7) assms\<close>)
  have "u (x\<lparr>inv_accepted_at := Some t\<rparr>) = None" if "u \<in> set [open_invitation]" for u x
    using that by (simp add: open_invitation_def)
  then show "more_ok (snd (stmt_AcceptUserInvitation i o' g t d))"
    unfolding stmt_AcceptUserInvitation_def
    by (intro updated_ok [where I = more_ok and d = d and rows = user_invitations and proj = inv_token_hash,
        OF assms more_tables(6) [OF assms]]) (use tokens in \<open>auto simp: invitation_ok_def others_conflict_def index_conflict_def intro!: more_ok_set(7) assms
        simp del: set_map\<close>)
  show "more_ok (snd (stmt_DeleteUserInvitation i o' g t d))"
    unfolding stmt_DeleteUserInvitation_def delete_rows_def snd_conv
    by (intro more_ok_set(7) assms table_ok_del more_tables) (simp add: del_where_def distinct_map_filter tokens)
qed

lemma create_entry_ok:
  assumes "more_ok d" and "table_ok cat_id [cat_org_name] (entry_ok d) (rows d)"
    and "\<And>es. table_ok cat_id [cat_org_name] (entry_ok d) es \<Longrightarrow>
      set (map entry_org (rows d)) \<subseteq> set (map entry_org es) \<Longrightarrow> more_ok (put es d)"
  shows "more_ok (snd (create_entry a b c rows put o' nm ord act g t d))"
    and "more_ok (snd (update_entry b rows put i oo nm ord act g t d))"
proof -
  show "more_ok (snd (create_entry a b c rows put o' nm ord act g t d))"
    unfolding create_entry_def Let_def
    by (rule inserted_ok [where I = more_ok], rule assms(1), rule assms(2))
      (auto simp: entry_ok_def new_entry_def org_known_def [abs_def] intro!: assms(3))
  show "more_ok (snd (update_entry b rows put i oo nm ord act g t d))"
    unfolding update_entry_def
    by (rule updated_ok [where I = more_ok and proj = entry_org], rule assms(1), rule assms(2))
      (auto simp: entry_ok_def entry_org_def intro!: assms(3) simp del: set_map)
qed

lemma more_catalogs [more_stmt]:
  assumes "more_ok d"
  shows "more_ok (snd (stmt_CreateContractKind o' nm ord act g t d))"
    "more_ok (snd (stmt_UpdateContractKind i oo nm ord act g t d))"
    "more_ok (snd (stmt_CreateFileRole o' nm ord act g t d))"
    "more_ok (snd (stmt_UpdateFileRole i oo nm ord act g t d))"
  unfolding stmt_CreateContractKind_def stmt_UpdateContractKind_def stmt_CreateFileRole_def stmt_UpdateFileRole_def
  by (rule create_entry_ok [OF assms]; (rule more_tables [OF assms] more_ok_set [OF assms])?; assumption?)+

subsection \<open>Sites\<close>

text \<open>What an update of a site keeps: its place in the tree.\<close>

definition site_edge :: "construction_site \<Rightarrow> uuid \<times> uuid \<times> uuid option" where
  "site_edge x = (site_id x, site_organization_id x, site_parent_id x)"

lemma site_edge_maps:
  assumes "map site_edge ss = map site_edge ss'"
  shows "map site_org ss = map site_org ss'" "site_parents ss = site_parents ss'"
proof -
  show "map site_org ss = map site_org ss'"
    using arg_cong [OF assms, of "map (\<lambda>(i, o', p). (i, o'))"] by (simp add: site_org_def [abs_def] site_edge_def comp_def)
  have "site_parents ss = {(p, i). \<exists>o'. (i, o', Some p) \<in> set (map site_edge ss)}" for ss
    by (force simp: site_parents_def site_edge_def image_iff)
  then show "site_parents ss = site_parents ss'" by (simp only: assms)
qed

lemma more_ok_set_sites:
  assumes "more_ok d" and "map site_edge ss = map site_edge (construction_sites d)"
    and "table_ok site_id no_index (site_ok d) ss"
  shows "more_ok (d\<lparr>construction_sites := ss\<rparr>)"
  by (rule more_ok_set(3)) (use assms site_edge_maps [OF assms(2)] more_tables(10) in \<open>simp_all del: set_map\<close>)

lemma new_site_acyclic:
  assumes ok: "sites_ok d" and x: "site_ok d x" "site_id x \<notin> set (map site_id (construction_sites d))"
  shows "acyclic (site_parents (construction_sites d @ [x]))"
proof (cases "site_parent_id x")
  case None
  then have "site_parents (construction_sites d @ [x]) = site_parents (construction_sites d)"
    by (auto simp: site_parents_def)
  then show ?thesis using ok by (simp add: sites_ok_def)
next
  case (Some p)
  have parents: "i \<in> set (map site_id (construction_sites d))" if "(i, c) \<in> site_parents (construction_sites d)" for i c
    using that ok by (auto simp: site_parents_def sites_ok_def site_ok_def org_site_exists_def list_ex_iff
        dest!: table_ok_row)
  have "p \<in> set (map site_id (construction_sites d))"
    using x(1) Some by (auto simp: site_ok_def org_site_exists_def list_ex_iff)
  then have "(site_id x, p) \<notin> (site_parents (construction_sites d))\<^sup>*"
    using x(2) parents by (metis converse_rtranclE)
  moreover have "site_parents (construction_sites d @ [x]) = insert (p, site_id x) (site_parents (construction_sites d))"
    using Some by (auto simp: site_parents_def)
  ultimately show ?thesis using ok by (simp add: sites_ok_def acyclic_insert)
qed

lemma site_triggers_ok: "checks_hold (site_triggers d x) \<Longrightarrow> checks_hold (site_checks x) \<Longrightarrow>
    org_known d (site_organization_id x) \<Longrightarrow> site_ok d x"
  by (simp add: site_triggers_def site_ok_def)

lemma site_ok_org: "site_ok d x \<Longrightarrow> org_known d (site_organization_id x)"
  by (simp add: site_ok_def)

lemma more_CreateConstructionSite [more_stmt]:
  assumes "more_ok d"
  shows "more_ok (snd (stmt_CreateConstructionSite p g t d))"
  unfolding stmt_CreateConstructionSite_def Let_def
proof (rule inserted_ok [where I = more_ok], rule assms, rule more_tables(3) [OF assms], goal_cases)
  case 1
  then show ?case by (auto simp: org_known_def intro!: site_triggers_ok)
next
  case 2
  let ?x = "new_site (g 0) t (sp_OrganizationID p) (sp_ParentID p) (sp_Name p) (sp_Status p) (sp_CreatedBy p)"
  have "site_ok d ?x" using 2 by (auto simp: org_known_def intro!: site_triggers_ok)
  then have "acyclic (site_parents (construction_sites d @ [?x]))"
    using 2 assms by (intro new_site_acyclic) (auto simp: more_ok_def)
  then show ?case using 2 by (intro more_ok_set(3) assms) auto
qed

lemma more_update_site:
  assumes "more_ok d" and "\<And>x. site_edge (f x) = site_edge x"
  shows "more_ok (snd (update_site i o' f d))"
proof -
  have same: "site_id (f x) = site_id x" "site_organization_id (f x) = site_organization_id x" for x
    using assms(2) [of x] by (simp_all add: site_edge_def)
  show ?thesis unfolding update_site_def
    by (rule updated_ok [where I = more_ok and proj = site_edge], rule assms, rule more_tables(3) [OF assms(1)])
      (auto simp: same assms(2) intro!: site_triggers_ok more_ok_set_sites [OF assms(1)] dest: site_ok_org simp del: set_map)
qed

lemma more_sites [more_stmt]:
  assumes "more_ok d"
  shows "more_ok (snd (stmt_UpdateConstructionSite i o' nm st g t d))"
    "more_ok (snd (stmt_UpdateConstructionSiteCover i o' path g t d))"
    "more_ok (snd (stmt_UpdateConstructionSiteType i o' ty g t d))"
  unfolding stmt_UpdateConstructionSite_def stmt_UpdateConstructionSiteCover_def stmt_UpdateConstructionSiteType_def
  by (rule more_update_site [OF assms]; simp add: site_edge_def)+

lemma more_propagate:
  assumes "more_ok d" shows "more_ok (propagate_site_activity v t d)"
proof -
  have "more_ok (d\<lparr>construction_sites := upd_where q (\<lambda>x. x\<lparr>site_last_activity_at := t, site_updated_at := t\<rparr>)
      (construction_sites d)\<rparr>)" for q
    by (intro more_ok_set_sites assms upd_where_proj table_ok_upd more_tables)
      (auto simp: site_edge_def site_ok_def site_checks_def)
  then show ?thesis using assms by (simp add: propagate_site_activity_def Let_def split: option.split)
qed

lemma more_CreateSiteAuditEvent:
  assumes "more_ok d" and "org_site_exists d s o'" shows "more_ok (snd (stmt_CreateSiteAuditEvent o' s a e j g t d))"
  unfolding stmt_CreateSiteAuditEvent_def Let_def
  by (rule inserted_ok [where I = more_ok], rule assms, rule more_tables(7) [OF assms(1)])
    (auto simp: audit_ok_def org_known_def user_known_def [abs_def] intro!: more_ok_set(8) assms)

subsection \<open>Comparison sessions\<close>

lemma more_CreateComparisonSession:
  assumes "more_ok d" and "null_or (\<lambda>i. visible_entry (document_contract_kinds d) i o') k"
  shows "more_ok (snd (stmt_CreateComparisonSession o' by' nm k g t d))"
  unfolding stmt_CreateComparisonSession_def Let_def
  by (rule inserted_ok [where I = more_ok], rule assms, rule more_tables(8) [OF assms(1)])
    (auto simp: session_ok_def new_session_def org_known_def user_known_def [abs_def]
      intro!: more_ok_set(9) assms)

lemma more_RemoveDocument [more_stmt]:
  assumes "more_ok d" shows "more_ok (snd (stmt_RemoveDocumentFromComparisonSession s doc o' g t d))"
  unfolding stmt_RemoveDocumentFromComparisonSession_def delete_rows_def snd_conv
  by (intro more_ok_set(10) assms table_ok_del more_tables)

lemma more_AddDocument:
  assumes "more_ok d" and "org_session_exists d s o'"
  shows "more_ok (snd (stmt_AddDocumentToComparisonSession s doc o' pos g t d))"
proof -
  note tab = more_tables(9) [OF assms(1)]
  let ?x = "\<lparr>csd_session_id = s, csd_document_id = doc, csd_organization_id = o', csd_position = pos\<rparr>"
  show ?thesis
  proof (cases "find (\<lambda>y. place_key y = place_key ?x) (comparison_session_documents d)")
    case None
    then have "place_key ?x \<notin> set (map place_key (comparison_session_documents d))" by (auto dest: find_None_mem)
    then have "more_ok (snd (insert_row
        [(list_ex (\<lambda>y. cs_id y = s) (comparison_sessions d), fk_violation ''comparison_session_documents_session_id_fkey''),
         (org_document_exists d doc o', fk_violation ''fk_csd_doc_org'')]
        comparison_session_documents (\<lambda>rs. comparison_session_documents_update (\<lambda>_. rs)) ?x d))"
      by (intro inserted_ok [where I = more_ok and d = d and rows = comparison_session_documents, OF assms(1) tab])
        (use assms(2) in \<open>auto simp: place_ok_def intro!: more_ok_set(10) assms(1)\<close>)
    then show ?thesis using None by (simp add: stmt_AddDocumentToComparisonSession_def)
  next
    case (Some y)
    then have y: "y \<in> set (comparison_session_documents d)" by (auto dest: find_Some_iff_mem)
    have "table_ok place_key no_index (place_ok d)
        (put_row place_key (y\<lparr>csd_position := pos\<rparr>) (comparison_session_documents d))"
      using table_ok_row [OF tab y] by (intro table_ok_put tab) (auto simp: place_ok_def)
    then show ?thesis using Some
      by (auto simp: stmt_AddDocumentToComparisonSession_def intro: more_ok_set(10) assms)
  qed
qed

subsection \<open>Documents\<close>

lemma more_insert_document:
  assumes "more_ok d" shows "more_ok (snd (insert_document x t d))"
proof -
  have "more_ok (d\<lparr>documents := documents d @ [x]\<rparr>)" if "checks_hold (document_triggers d x)"
    using that more_tables(12) [OF assms] by (intro more_ok_set(4) assms) (auto simp: file_ok_def)
  then show ?thesis using assms by (auto simp: insert_document_def intro: more_propagate split: option.split)
qed

lemma more_update_document:
  assumes "db_ok d" and "more_ok d" and f: "\<And>x. same_document x (f x)"
  shows "more_ok (snd (update_document p f d))"
proof -
  have "more_ok (d\<lparr>documents := put_row doc_id (f x) (documents d)\<rparr>)"
    if x: "x \<in> set (documents d)" and row: "checks_hold (document_triggers d (f x))" for x
  proof (intro more_ok_set(4) assms)
    have "z = x" if "z \<in> set (documents d)" "doc_id z = doc_id (f x)" for z
      using that x f table_ok_key [OF db_ok_documents [OF assms(1)]] by (simp add: same_document_def)
    then have "map doc_owner (put_row doc_id (f x) (documents d)) = map doc_owner (documents d)"
      by (intro put_row_proj) (use f in \<open>auto simp: same_document_def doc_owner_def\<close>)
    then show "set (map doc_owner (documents d)) \<subseteq> set (map doc_owner (put_row doc_id (f x) (documents d)))"
      by (simp only: order_refl)
    show "\<forall>z \<in> set (put_row doc_id (f x) (documents d)). file_ok d z"
      using row more_tables(12) [OF assms(2)] by (auto simp: file_ok_def dest!: set_put_rowD)
  qed
  then show ?thesis
    using assms(2) by (auto simp: update_document_def dest: find_Some_iff_mem split: option.splits)
qed

lemma more_documents [more_stmt]:
  assumes "db_ok d" and "more_ok d"
  shows "more_ok (snd (stmt_CreateDocument p g t d))"
    and "more_ok (snd (stmt_CreateArtifactDocument p g t d))"
    and "more_ok (snd (stmt_UpdateDocumentMeta i o' a b c g t d))"
  unfolding stmt_CreateDocument_def stmt_UpdateDocumentMeta_def stmt_CreateArtifactDocument_def Let_def
  using assms by (auto intro!: more_insert_document more_update_document
      simp: same_document_def refresh_artifact_def split: option.split)

subsection \<open>Tables of the pipeline\<close>

lemma more_ok_pipeline [simp]:
  "more_ok (d\<lparr>document_tasks := ts\<rparr>) = more_ok d" "more_ok (d\<lparr>extraction_requests := rs\<rparr>) = more_ok d"
  "more_ok (d\<lparr>extraction_keys := ks\<rparr>) = more_ok d" "more_ok (d\<lparr>document_extracted_data := xs\<rparr>) = more_ok d"
  by (simp_all add: more_ok_def more_table_defs more_row_defs [abs_def] document_triggers_def org_known_def [abs_def]
      user_known_def [abs_def] org_user_exists_def [abs_def] org_site_exists_def [abs_def] org_session_exists_def [abs_def]
      org_document_exists_def [abs_def])

lemma more_upsert_data: "upsert_data xs d = Inr d' \<Longrightarrow> more_ok d' = more_ok d"
proof (induction xs d rule: upsert_data.induct)
  case (2 x xs d)
  then show ?case by (auto simp: upsert_datum_def split: sum.splits option.splits if_splits)
qed simp

lemma more_pipeline [more_stmt]:
  assumes "more_ok d"
  shows
  "more_ok (snd (stmt_CreateDocumentTask a1 b1 c1 g t d))"
  "more_ok (snd (stmt_CreateDocumentTaskSingleton a2 b2 c2 g t d))"
  "more_ok (snd (stmt_CreateDocumentTaskForRequest a3 b3 c3 d3 g t d))"
  "more_ok (snd (stmt_UpdateDocumentTaskStatus a4 b4 c4 g t d))"
  "more_ok (snd (stmt_UpdateWorkerTaskStatus a5 g t d))"
  "more_ok (snd (stmt_UpdateTaskResultPayload a6 b6 g t d))"
  "more_ok (snd (stmt_MarkStaleTaskPending a7 b7 g t d))"
  "more_ok (snd (stmt_MarkStaleTaskFailed a8 b8 c8 g t d))"
  "more_ok (snd (stmt_DeleteDocumentTask a9 b9 g t d))"
  "more_ok (snd (stmt_CreateExtractionRequest a10 b10 c10 d10 g t d))"
  "more_ok (snd (stmt_SetExtractionRequestStatus a11 b11 c11 g t d))"
  "more_ok (snd (stmt_SetExtractionRequestResolvedSchema a12 b12 g t d))"
  "more_ok (snd (stmt_UpsertExtractionKey a13 b13 c13 d13 g t d))"
  "more_ok (snd (stmt_BatchUpsertExtractedData a14 b14 c14 d14 g t d))"
  using assms
  by (auto simp: stmt_CreateDocumentTask_def stmt_CreateDocumentTaskSingleton_def
      stmt_CreateDocumentTaskForRequest_def stmt_UpdateDocumentTaskStatus_def stmt_UpdateWorkerTaskStatus_def
      stmt_UpdateTaskResultPayload_def stmt_MarkStaleTaskPending_def stmt_MarkStaleTaskFailed_def
      stmt_DeleteDocumentTask_def stmt_CreateExtractionRequest_def stmt_SetExtractionRequestStatus_def
      stmt_SetExtractionRequestResolvedSchema_def stmt_UpsertExtractionKey_def stmt_BatchUpsertExtractedData_def
      insert_task_def insert_task_or_nothing_def update_task_def update_request_def Let_def more_upsert_data
      intro!: more_propagate
      split: option.splits sum.splits if_splits)

end
