(* ===== verification/Site_Tree.thy ===== *)
theory Site_Tree
  imports Consistency
begin

text \<open>
  The recursive queries over the tree of sites. The model runs them with the number of sites as the bound of
  their depth; here the bound is shown to be enough, and what they compute is described by the
  relation between parents and children alone.
\<close>

section \<open>The tree\<close>

definition tree_ok :: "construction_site list \<Rightarrow> bool" where
  "tree_ok ss \<longleftrightarrow> distinct (map site_id ss) \<and> acyclic (site_parents ss) \<and>
     (\<forall>x \<in> set ss. null_or (\<lambda>p. p \<in> set (map site_id ss)) (site_parent_id x))"

lemma sites_ok_tree:
  assumes "sites_ok d" shows "tree_ok (construction_sites d)"
proof -
  have "null_or (\<lambda>p. p \<in> set (map site_id (construction_sites d))) (site_parent_id x)"
    if "x \<in> set (construction_sites d)" for x
  proof -
    have "site_ok d x" using assms that by (auto simp: sites_ok_def dest: table_ok_row)
    then show ?thesis by (cases "site_parent_id x") (auto simp: site_ok_def org_site_exists_def list_ex_iff)
  qed
  then show ?thesis using assms by (simp add: sites_ok_def tree_ok_def table_ok_def del: set_map)
qed

lemma tree_edge: "(p, i) \<in> site_parents ss \<longleftrightarrow> (\<exists>x \<in> set ss. site_id x = i \<and> site_parent_id x = Some p)"
  by (simp add: site_parents_def)

lemma tree_nodes:
  assumes "tree_ok ss" and "(p, i) \<in> site_parents ss"
  shows "p \<in> set (map site_id ss)" "i \<in> set (map site_id ss)"
  using assms by (auto simp: tree_ok_def tree_edge null_or_def)

lemma tree_above:
  assumes "tree_ok ss" and "(a, i) \<in> (site_parents ss)\<^sup>+"
  shows "a \<in> set (map site_id ss)" "i \<in> set (map site_id ss)"
  using assms(2) tree_nodes [OF assms(1)] by (auto dest: tranclD tranclD2 simp del: set_map)

lemma one_parent:
  assumes "tree_ok ss" shows "single_valued ((site_parents ss)\<inverse>)"
  using assms by (auto simp: single_valued_def tree_edge tree_ok_def dest: distinct_key_inj)

lemma set_site_children: "set (site_children ss i) = {c. (i, c) \<in> site_parents ss}"
  by (auto simp: site_children_def tree_edge)

lemma distinct_site_children: "tree_ok ss \<Longrightarrow> distinct (site_children ss i)"
  by (simp add: tree_ok_def site_children_def distinct_map_filter)

text \<open>The sites below and above a site, which grow smaller along the tree.\<close>

definition below :: "construction_site list \<Rightarrow> uuid \<Rightarrow> uuid set" where
  "below ss i = {s. (i, s) \<in> (site_parents ss)\<^sup>+}"

definition above :: "construction_site list \<Rightarrow> uuid \<Rightarrow> uuid set" where
  "above ss i = {a. (a, i) \<in> (site_parents ss)\<^sup>+}"

lemma bounded:
  assumes "tree_ok ss"
  shows "below ss i \<subseteq> set (map site_id ss)" "above ss i \<subseteq> set (map site_id ss)"
    "finite (below ss i)" "finite (above ss i)" "card (below ss i) \<le> length ss" "card (above ss i) \<le> length ss"
proof -
  show sub: "below ss i \<subseteq> set (map site_id ss)" "above ss i \<subseteq> set (map site_id ss)"
    using tree_above [OF assms] by (auto simp: below_def above_def)
  then show "finite (below ss i)" "finite (above ss i)" by (auto intro: finite_subset)
  have "card (set (map site_id ss)) \<le> length ss" by (metis card_length length_map)
  then show "card (below ss i) \<le> length ss" "card (above ss i) \<le> length ss"
    using sub by (meson card_mono finite_set order_trans)+
qed

lemma smaller:
  assumes "tree_ok ss" and "(p, c) \<in> site_parents ss"
  shows "card (below ss c) < card (below ss p)" "card (above ss p) < card (above ss c)"
proof -
  have ac: "acyclic (site_parents ss)" using assms(1) by (simp add: tree_ok_def)
  have "c \<in> below ss p - below ss c" "below ss c \<subseteq> below ss p" "p \<in> above ss c - above ss p" "above ss p \<subseteq> above ss c"
    using assms(2) ac by (auto simp: below_def above_def acyclic_def intro: trancl_into_trancl2 trancl_into_trancl)
  then show "card (below ss c) < card (below ss p)" "card (above ss p) < card (above ss c)"
    using bounded(3,4) [OF assms(1)] by (auto intro!: psubset_card_mono)
qed

section \<open>Downwards\<close>

lemma set_site_subtree:
  "tree_ok ss \<Longrightarrow> card (below ss i) \<le> n \<Longrightarrow> set (site_subtree ss n i) = insert i (below ss i)"
proof (induction n arbitrary: i)
  case 0
  then show ?case using bounded(3) [of ss i] by simp
next
  case (Suc n)
  have "set (site_subtree ss n c) = insert c (below ss c)" if "(i, c) \<in> site_parents ss" for c
    using Suc.prems smaller(1) [OF Suc.prems(1) that] by (intro Suc.IH) auto
  then have "set (site_subtree ss (Suc n) i) = insert i (\<Union>c \<in> {c. (i, c) \<in> site_parents ss}. insert c (below ss c))"
    by (auto simp: set_site_children)
  also have "\<dots> = insert i (below ss i)"
    by (auto simp: below_def dest: tranclD intro: trancl_into_trancl2) (metis tranclD rtranclD)
  finally show ?case .
qed

lemma site_subtree_fuel:
  "tree_ok ss \<Longrightarrow> card (below ss i) \<le> n \<Longrightarrow> site_subtree ss (n + k) i = site_subtree ss n i"
proof (induction n arbitrary: i)
  case 0
  then have "below ss i = {}" using bounded(3) [of ss i] by simp
  then have "set (site_children ss i) = {}" by (auto simp: set_site_children below_def)
  then have "site_children ss i = []" by simp
  then show ?case by (cases k) simp_all
next
  case (Suc n)
  have "site_subtree ss (n + k) c = site_subtree ss n c" if "c \<in> set (site_children ss i)" for c
    using Suc.prems smaller(1) [OF Suc.prems(1), of i c] that by (intro Suc.IH) (auto simp: set_site_children)
  then show ?case by (simp cong: map_cong)
qed

text \<open>No site is reached twice: each has one parent, and the tree has no cycle.\<close>

lemma subtrees_disjoint:
  assumes "tree_ok ss" and "(i, a) \<in> site_parents ss" "(i, b) \<in> site_parents ss" and "a \<noteq> b"
  shows "insert a (below ss a) \<inter> insert b (below ss b) = {}"
proof -
  have ac: "acyclic (site_parents ss)" using assms(1) by (simp add: tree_ok_def)
  have no_path: "(x, y) \<notin> (site_parents ss)\<^sup>+" if "(i, x) \<in> site_parents ss" "(i, y) \<in> site_parents ss" for x y
  proof
    assume "(x, y) \<in> (site_parents ss)\<^sup>+"
    then obtain z where "(x, z) \<in> (site_parents ss)\<^sup>*" "(z, y) \<in> site_parents ss" by (auto dest: tranclD2)
    moreover have "z = i" using calculation(2) that(2) one_parent [OF assms(1)] by (auto simp: single_valued_def)
    ultimately show False using that(1) ac by (auto simp: acyclic_def dest: rtrancl_into_trancl2)
  qed
  have "s \<notin> insert b (below ss b)" if "s \<in> insert a (below ss a)" for s
  proof
    assume "s \<in> insert b (below ss b)"
    then have "(s, a) \<in> ((site_parents ss)\<inverse>)\<^sup>*" "(s, b) \<in> ((site_parents ss)\<inverse>)\<^sup>*"
      using that by (auto simp: below_def rtrancl_converse dest: trancl_into_rtrancl)
    from single_valued_confluent [OF one_parent [OF assms(1)] this]
    show False using assms(2-4) no_path by (auto simp: rtrancl_converse rtrancl_eq_or_trancl)
  qed
  then show ?thesis by blast
qed

lemma distinct_concat_map:
  "distinct xs \<Longrightarrow> (\<And>x. x \<in> set xs \<Longrightarrow> distinct (f x)) \<Longrightarrow>
   (\<And>x y. x \<in> set xs \<Longrightarrow> y \<in> set xs \<Longrightarrow> x \<noteq> y \<Longrightarrow> set (f x) \<inter> set (f y) = {}) \<Longrightarrow> distinct (concat (map f xs))"
  by (induction xs) (auto simp: disjoint_iff)

lemma distinct_site_subtree:
  "tree_ok ss \<Longrightarrow> card (below ss i) \<le> n \<Longrightarrow> distinct (site_subtree ss n i)"
proof (induction n arbitrary: i)
  case (Suc n)
  have child: "distinct (site_subtree ss n c) \<and> set (site_subtree ss n c) = insert c (below ss c) \<and> i \<notin> insert c (below ss c)"
    if "(i, c) \<in> site_parents ss" for c
  proof -
    have "card (below ss c) \<le> n" using Suc.prems smaller(1) [OF Suc.prems(1) that] by simp
    moreover have "i \<notin> insert c (below ss c)"
      using Suc.prems(1) that by (auto simp: below_def tree_ok_def acyclic_def dest: trancl_into_trancl2)
    ultimately show ?thesis using Suc by (simp add: set_site_subtree)
  qed
  have "distinct (concat (map (site_subtree ss n) (site_children ss i)))"
  proof (rule distinct_concat_map)
    show "distinct (site_children ss i)" by (rule distinct_site_children [OF Suc.prems(1)])
    show "distinct (site_subtree ss n c)" if "c \<in> set (site_children ss i)" for c
      using that child by (simp add: set_site_children)
    show "set (site_subtree ss n a) \<inter> set (site_subtree ss n b) = {}"
      if "a \<in> set (site_children ss i)" "b \<in> set (site_children ss i)" "a \<noteq> b" for a b
      using that child subtrees_disjoint [OF Suc.prems(1), of i a b] by (simp add: set_site_children)
  qed
  then show ?case using child by (auto simp: set_site_children)
qed simp

section \<open>Upwards\<close>

lemma set_site_ancestors:
  "tree_ok ss \<Longrightarrow> i \<in> set (map site_id ss) \<Longrightarrow> card (above ss i) < n \<Longrightarrow> set (site_ancestors ss n i) = insert i (above ss i)"
proof (induction n arbitrary: i)
  case (Suc n)
  obtain x where x: "find (\<lambda>x. site_id x = i) ss = Some x" "x \<in> set ss" "site_id x = i"
    using Suc.prems(2) by (metis (mono_tags, lifting) find_None_iff find_Some_iff_mem image_iff list.set_map not_None_eq)
  have edge: "(p, i) \<in> site_parents ss \<longleftrightarrow> site_parent_id x = Some p" for p
    using x Suc.prems(1) by (auto simp: tree_edge tree_ok_def dest: distinct_key_inj)
  show ?case
  proof (cases "site_parent_id x")
    case None
    then have "above ss i = {}" using edge by (auto simp: above_def dest: tranclD2)
    then show ?thesis using x None by simp
  next
    case (Some p)
    then have e: "(p, i) \<in> site_parents ss" using edge by simp
    have "set (site_ancestors ss n p) = insert p (above ss p)"
      using Suc.prems smaller(2) [OF Suc.prems(1) e] tree_nodes [OF Suc.prems(1) e] by (intro Suc.IH) auto
    moreover have "above ss i = insert p (above ss p)"
      using e edge Some by (auto simp: above_def dest: tranclD2 intro: trancl_into_trancl)
        (metis edge option.inject rtranclD tranclD2)
    ultimately show ?thesis using x Some by simp
  qed
qed simp

lemma site_ancestors_unknown: "i \<notin> set (map site_id ss) \<Longrightarrow> site_ancestors ss n i = []"
  by (cases n) (auto simp: find_None_iff image_iff split: option.split dest: find_Some_iff_mem)

lemma above_room:
  assumes "tree_ok ss" and "i \<in> set (map site_id ss)"
  shows "card (above ss i) < length ss"
proof -
  have "i \<notin> above ss i" using assms(1) by (simp add: above_def tree_ok_def acyclic_def)
  then have "card (above ss i) < card (set (map site_id ss))"
    using bounded(2) [OF assms(1), of i] assms(2) by (intro psubset_card_mono) auto
  also have "\<dots> \<le> length ss" by (metis card_length length_map)
  finally show ?thesis .
qed

lemma site_ancestors_fuel:
  "tree_ok ss \<Longrightarrow> card (above ss i) < n \<Longrightarrow> site_ancestors ss (n + k) i = site_ancestors ss n i"
proof (induction n arbitrary: i)
  case (Suc n)
  have "site_ancestors ss (n + k) p = site_ancestors ss n p"
    if "find (\<lambda>x. site_id x = i) ss = Some x" "site_parent_id x = Some p" for x p
  proof -
    have "(p, i) \<in> site_parents ss" using that by (auto simp: tree_edge dest: find_Some_iff_mem)
    then show ?thesis using Suc.prems smaller(2) [OF Suc.prems(1)] by (intro Suc.IH) force+
  qed
  then show ?case by (auto split: option.split)
qed simp

lemma site_ancestors_enough:
  assumes "tree_ok ss"
  shows "site_ancestors ss (length ss + k) i = site_ancestors ss (length ss) i"
proof (cases "i \<in> set (map site_id ss)")
  case True
  then show ?thesis by (intro site_ancestors_fuel assms above_room)
qed (simp add: site_ancestors_unknown)

lemma doc_closure_more: "doc_closure xs (n + k) ids = doc_closure xs k (doc_closure xs n ids)"
  by (induction n arbitrary: ids) simp_all

lemma doc_closure_enough:
  assumes "set ids \<subseteq> set (map doc_id xs)"
  shows "set (doc_closure xs (length xs + k) ids) = set (doc_closure xs (length xs) ids)"
proof -
  have "card (set (map doc_id xs)) \<le> length xs" by (metis card_length length_map)
  then have "child_closed xs (doc_closure xs (length xs) ids)" using assms by (intro doc_closure_closed) auto
  then show ?thesis by (simp add: doc_closure_more doc_closure_fixed)
qed

section \<open>The trigger \<open>propagate_site_activity\<close>\<close>

lemma propagate_dates_ancestors:
  assumes tree: "tree_ok (construction_sites d)"
  shows "construction_sites (propagate_site_activity (Some i) t d) =
    map (\<lambda>x. if (site_id x, i) \<in> (site_parents (construction_sites d))\<^sup>*
              then x\<lparr>site_last_activity_at := t, site_updated_at := t\<rparr> else x) (construction_sites d)"
proof (cases "i \<in> set (map site_id (construction_sites d))")
  case True
  have "set (site_ancestors (construction_sites d) (length (construction_sites d)) i) =
      {a. (a, i) \<in> (site_parents (construction_sites d))\<^sup>*}"
    using set_site_ancestors [OF tree True above_room [OF tree True]] by (auto simp: above_def rtrancl_eq_or_trancl)
  then show ?thesis by (simp add: propagate_site_activity_def Let_def upd_where_def)
next
  case False
  have "(site_id x, i) \<notin> (site_parents (construction_sites d))\<^sup>*" if "x \<in> set (construction_sites d)" for x
    using that False tree_above(2) [OF tree] by (auto simp: rtrancl_eq_or_trancl)
  then show ?thesis using False
    by (simp add: propagate_site_activity_def Let_def site_ancestors_unknown upd_where_def cong: map_cong)
qed

section \<open>The view \<open>v_site_status\<close>\<close>

text \<open>The leaves of the tree below a site.\<close>

definition leaves_below :: "construction_site list \<Rightarrow> uuid \<Rightarrow> uuid set" where
  "leaves_below ss i = {s. (i, s) \<in> (site_parents ss)\<^sup>* \<and> (\<forall>c. (s, c) \<notin> site_parents ss)}"

lemma site_leaves_set:
  assumes "tree_ok ss"
  shows "set (site_leaves ss i) = leaves_below ss i" "distinct (site_leaves ss i)"
proof -
  note room = bounded(5) [OF assms, of i]
  have "site_children ss s = [] \<longleftrightarrow> (\<forall>c. (s, c) \<notin> site_parents ss)" for s
    using set_site_children [of ss s] by (metis (no_types, lifting) empty_Collect_eq set_empty)
  then show "set (site_leaves ss i) = leaves_below ss i"
    using set_site_subtree [OF assms room]
    by (auto simp: site_leaves_def leaves_below_def below_def rtrancl_eq_or_trancl)
  show "distinct (site_leaves ss i)" by (simp add: site_leaves_def distinct_site_subtree [OF assms room])
qed

lemma leaves_below_some:
  assumes "tree_ok ss" shows "leaves_below ss i \<noteq> {}"
proof (induction "card (below ss i)" arbitrary: i rule: less_induct)
  case less
  show ?case
  proof (cases "\<exists>c. (i, c) \<in> site_parents ss")
    case True
    then obtain c where c: "(i, c) \<in> site_parents ss" by blast
    then have "leaves_below ss c \<noteq> {}" by (intro less smaller(1) [OF assms])
    then show ?thesis using c by (auto simp: leaves_below_def intro: converse_rtrancl_into_rtrancl)
  qed (auto simp: leaves_below_def)
qed

lemma leaf_status_cases: "leaf_status d s \<in> {''ready'', ''processing'', ''attention'', ''empty''}"
  by (simp add: leaf_status_def Let_def)

text \<open>What the statuses of the leaves make of a site, as the view should have it.\<close>

definition leaves_with :: "db \<Rightarrow> uuid \<Rightarrow> string \<Rightarrow> uuid set" where
  "leaves_with d i st = {s \<in> leaves_below (construction_sites d) i. leaf_status d s = st}"

definition status_spec :: "db \<Rightarrow> v_site_status \<Rightarrow> bool" where
  "status_spec d v \<longleftrightarrow>
     vs_children_ready v = card (leaves_with d (vs_site_id v) ''ready'') \<and>
     vs_children_processing v = card (leaves_with d (vs_site_id v) ''processing'') \<and>
     vs_children_attention v = card (leaves_with d (vs_site_id v) ''attention'') \<and>
     vs_children_empty v = card (leaves_with d (vs_site_id v) ''empty'') \<and>
     vs_status v =
       (if leaves_with d (vs_site_id v) ''attention'' \<noteq> {} then ''attention''
        else if leaves_with d (vs_site_id v) ''processing'' \<noteq> {} then ''processing''
        else if leaves_with d (vs_site_id v) ''ready'' \<noteq> {} then ''ready'' else ''empty'')"

lemma site_status_row_spec:
  assumes "sites_ok d" shows "status_spec d (site_status_row d x)"
proof -
  note tree = sites_ok_tree [OF assms] note leaves = site_leaves_set [OF tree, of "site_id x"]
  have count: "length (filter (\<lambda>s. s = st) (map (leaf_status d) (site_leaves (construction_sites d) (site_id x)))) =
      card (leaves_with d (site_id x) st)" for st
    by (simp add: distinct_length_filter leaves leaves_with_def Int_def conj_commute)
  have member: "st \<in> set (map (leaf_status d) (site_leaves (construction_sites d) (site_id x))) \<longleftrightarrow>
      leaves_with d (site_id x) st \<noteq> {}" for st
    by (auto simp: leaves leaves_with_def)
  have "list_all (\<lambda>s. s = ''empty'') (map (leaf_status d) (site_leaves (construction_sites d) (site_id x))) \<longleftrightarrow>
      leaves_with d (site_id x) ''ready'' = {}"
    if "leaves_with d (site_id x) ''attention'' = {}" "leaves_with d (site_id x) ''processing'' = {}"
    using that leaf_status_cases [of d] by (auto simp: list_all_iff leaves leaves_with_def)
  then show ?thesis
    unfolding status_spec_def site_status_row_def Let_def summary_status_def member count by auto
qed

lemma all_leaves_counted:
  assumes "sites_ok d"
  shows "card (leaves_with d i ''ready'') + card (leaves_with d i ''processing'') + card (leaves_with d i ''attention'') +
     card (leaves_with d i ''empty'') = card (leaves_below (construction_sites d) i)"
proof -
  have fin: "finite (leaves_below (construction_sites d) i)"
    by (simp add: site_leaves_set(1) [OF sites_ok_tree [OF assms], symmetric])
  have "leaves_below (construction_sites d) i = leaves_with d i ''ready'' \<union> leaves_with d i ''processing'' \<union>
      leaves_with d i ''attention'' \<union> leaves_with d i ''empty''"
    using leaf_status_cases [of d] by (auto simp: leaves_with_def)
  moreover have "finite (leaves_with d i st)" for st using fin by (simp add: leaves_with_def)
  moreover have "leaves_with d i a \<inter> leaves_with d i b = {}" if "a \<noteq> b" for a b using that by (auto simp: leaves_with_def)
  ultimately show ?thesis by (simp add: card_Un_disjoint Int_Un_distrib2)
qed

end
