(* ===== verification/Purge.thy ===== *)
theory Purge
  imports Consistency
begin

text \<open>
  Deletions keep the database consistent. A deletion takes with it a set of rows that is closed under
  the references with \<open>ON DELETE CASCADE\<close>; then no row that stays refers to one that is gone.
\<close>

section \<open>Closed sets of rows\<close>

definition closed_gone :: "db \<Rightarrow> gone \<Rightarrow> bool" where
  "closed_gone d g \<longleftrightarrow>
     (\<forall>x \<in> set (users d). refers (g_orgs g) (usr_organization_id x) \<longrightarrow> usr_id x \<in> set (g_users g)) \<and>
     (\<forall>x \<in> set (construction_sites d). site_organization_id x \<in> set (g_orgs g) \<longrightarrow> site_id x \<in> set (g_sites g)) \<and>
     (\<forall>x \<in> set (documents d). doc_organization_id x \<in> set (g_orgs g) \<or> doc_uploaded_by x \<in> set (g_users g) \<or>
        refers (g_documents g) (doc_parent_id x) \<longrightarrow> doc_id x \<in> set (g_documents g)) \<and>
     (\<forall>r \<in> set (extraction_requests d). req_document_id r \<in> set (g_documents g) \<longrightarrow> req_id r \<in> set (g_requests g)) \<and>
     (\<forall>k \<in> set (extraction_keys d). refers (g_orgs g) (key_organization_id k) \<longrightarrow> key_id k \<in> set (g_keys g)) \<and>
     (\<forall>x \<in> set (document_contract_kinds d). refers (g_orgs g) (cat_organization_id x) \<longrightarrow> cat_id x \<in> set (g_kinds g)) \<and>
     (\<forall>x \<in> set (document_file_roles d). refers (g_orgs g) (cat_organization_id x) \<longrightarrow> cat_id x \<in> set (g_roles g)) \<and>
     (\<forall>x \<in> set (comparison_sessions d). cs_organization_id x \<in> set (g_orgs g) \<longrightarrow> cs_id x \<in> set (g_sessions g))"

lemma closed_goneD:
  assumes "closed_gone d g"
  shows "x \<in> set (users d) \<Longrightarrow> usr_id x \<notin> set (g_users g) \<Longrightarrow> \<not> refers (g_orgs g) (usr_organization_id x)"
    "s \<in> set (construction_sites d) \<Longrightarrow> site_id s \<notin> set (g_sites g) \<Longrightarrow> site_organization_id s \<notin> set (g_orgs g)"
    "f \<in> set (documents d) \<Longrightarrow> doc_id f \<notin> set (g_documents g) \<Longrightarrow> doc_organization_id f \<notin> set (g_orgs g) \<and>
       doc_uploaded_by f \<notin> set (g_users g) \<and> \<not> refers (g_documents g) (doc_parent_id f)"
    "r \<in> set (extraction_requests d) \<Longrightarrow> req_id r \<notin> set (g_requests g) \<Longrightarrow> req_document_id r \<notin> set (g_documents g)"
    "k \<in> set (extraction_keys d) \<Longrightarrow> key_id k \<notin> set (g_keys g) \<Longrightarrow> \<not> refers (g_orgs g) (key_organization_id k)"
    "e \<in> set (document_contract_kinds d) \<Longrightarrow> cat_id e \<notin> set (g_kinds g) \<Longrightarrow> \<not> refers (g_orgs g) (cat_organization_id e)"
    "e \<in> set (document_file_roles d) \<Longrightarrow> cat_id e \<notin> set (g_roles g) \<Longrightarrow> \<not> refers (g_orgs g) (cat_organization_id e)"
    "c \<in> set (comparison_sessions d) \<Longrightarrow> cs_id c \<notin> set (g_sessions g) \<Longrightarrow> cs_organization_id c \<notin> set (g_orgs g)"
  using assms unfolding closed_gone_def by blast+

section \<open>What is still there\<close>

lemma purge_fields [simp]:
  "doc_id (purge_document g f) = doc_id f" "doc_organization_id (purge_document g f) = doc_organization_id f"
  "doc_parent_id (purge_document g f) = doc_parent_id f" "doc_artifact_kind (purge_document g f) = doc_artifact_kind f"
  "doc_uploaded_by (purge_document g f) = doc_uploaded_by f"
  "site_id (purge_site g s) = site_id s" "site_organization_id (purge_site g s) = site_organization_id s"
  "cs_id (purge_session g c) = cs_id c" "cs_organization_id (purge_session g c) = cs_organization_id c"
  by (simp_all add: purge_document_def purge_site_def purge_session_def)

lemma purge_artifact_key [simp]: "artifact_key (purge_document g x) = artifact_key x"
  by (simp add: artifact_key_def split: option.split)

lemma purge_exists:
  "org_known (purge g d) i \<longleftrightarrow> org_known d i \<and> i \<notin> set (g_orgs g)"
  "org_exists (purge g d) i \<longleftrightarrow> org_exists d i \<and> i \<notin> set (g_orgs g)"
  "user_known (purge g d) i \<longleftrightarrow> user_known d i \<and> i \<notin> set (g_users g)"
  "org_user_exists (purge g d) i o' \<longleftrightarrow> org_user_exists d i o' \<and> i \<notin> set (g_users g)"
  "org_site_exists (purge g d) i o' \<longleftrightarrow> org_site_exists d i o' \<and> i \<notin> set (g_sites g)"
  "org_document_exists (purge g d) i o' \<longleftrightarrow> org_document_exists d i o' \<and> i \<notin> set (g_documents g)"
  "document_exists (purge g d) i \<longleftrightarrow> document_exists d i \<and> i \<notin> set (g_documents g)"
  "request_exists (purge g d) i \<longleftrightarrow> request_exists d i \<and> i \<notin> set (g_requests g)"
  "visible_key (purge g d) i o' \<longleftrightarrow> visible_key d i o' \<and> i \<notin> set (g_keys g)"
  "visible_entry (document_contract_kinds (purge g d)) i o' \<longleftrightarrow>
     visible_entry (document_contract_kinds d) i o' \<and> i \<notin> set (g_kinds g)"
  "visible_entry (document_file_roles (purge g d)) i o' \<longleftrightarrow>
     visible_entry (document_file_roles d) i o' \<and> i \<notin> set (g_roles g)"
  "org_session_exists (purge g d) i o' \<longleftrightarrow> org_session_exists d i o' \<and> i \<notin> set (g_sessions g)"
  by (auto simp: purge_def del_where_def list_ex_iff org_known_def org_exists_def user_known_def org_user_exists_def
      org_site_exists_def org_document_exists_def document_exists_def request_exists_def
      visible_key_def visible_entry_def org_session_exists_def)

lemma null_or_iff: "null_or p v \<longleftrightarrow> (\<forall>i. v = Some i \<longrightarrow> p i)"
  by (cases v) simp_all

lemma refers_iff: "refers ids v \<longleftrightarrow> (\<exists>i \<in> set ids. v = Some i)"
  by (cases v) auto

lemma unref_Some: "unref ids v = Some i \<longleftrightarrow> v = Some i \<and> i \<notin> set ids"
  by (cases v) (auto simp: unref_def)

lemma unref_None: "v = None \<Longrightarrow> unref ids v = None"
  by simp

lemmas purge_refs = purge_exists null_or_iff refers_iff unref_Some purge_document_def purge_site_def purge_session_def

section \<open>The rows that stay\<close>

lemma purged_rows:
  assumes g: "closed_gone d g"
  shows "x \<in> set (users d) \<Longrightarrow> usr_id x \<notin> set (g_users g) \<Longrightarrow> user_ok d x \<Longrightarrow> user_ok (purge g d) x"
    "s \<in> set (construction_sites d) \<Longrightarrow> site_id s \<notin> set (g_sites g) \<Longrightarrow> site_ok d s \<Longrightarrow> site_ok (purge g d) (purge_site g s)"
    "e \<in> set (document_contract_kinds d) \<Longrightarrow> cat_id e \<notin> set (g_kinds g) \<Longrightarrow> entry_ok d e \<Longrightarrow> entry_ok (purge g d) e"
    "e \<in> set (document_file_roles d) \<Longrightarrow> cat_id e \<notin> set (g_roles g) \<Longrightarrow> entry_ok d e \<Longrightarrow> entry_ok (purge g d) e"
    "inv_organization_id i \<notin> set (g_orgs g) \<Longrightarrow> invitation_ok d i \<Longrightarrow>
       invitation_ok (purge g d) (i\<lparr>inv_invited_by := unref (g_users g) (inv_invited_by i)\<rparr>)"
    "audit_organization_id a \<notin> set (g_orgs g) \<Longrightarrow> audit_site_id a \<notin> set (g_sites g) \<Longrightarrow> audit_ok d a \<Longrightarrow>
       audit_ok (purge g d) (a\<lparr>audit_actor_user_id := unref (g_users g) (audit_actor_user_id a)\<rparr>)"
    "c \<in> set (comparison_sessions d) \<Longrightarrow> cs_id c \<notin> set (g_sessions g) \<Longrightarrow> session_ok d c \<Longrightarrow>
       session_ok (purge g d) (purge_session g c)"
    "csd_session_id p \<notin> set (g_sessions g) \<Longrightarrow> csd_document_id p \<notin> set (g_documents g) \<Longrightarrow> place_ok d p \<Longrightarrow>
       place_ok (purge g d) p"
    "f \<in> set (documents d) \<Longrightarrow> doc_id f \<notin> set (g_documents g) \<Longrightarrow> file_ok d f \<Longrightarrow> file_ok (purge g d) (purge_document g f)"
    "f \<in> set (documents d) \<Longrightarrow> doc_id f \<notin> set (g_documents g) \<Longrightarrow> document_ok d f \<Longrightarrow>
       document_ok (purge g d) (purge_document g f)"
  using closed_goneD [OF g]
  by (auto simp: more_row_defs purge_refs site_checks_def document_triggers_def document_ok_def document_checks_def)

lemma purged_pipeline_rows:
  assumes g: "closed_gone d g"
  shows "task_document_id t \<notin> set (g_documents g) \<Longrightarrow> \<not> refers (g_requests g) (task_extraction_request_id t) \<Longrightarrow>
       task_ok d t \<Longrightarrow> task_ok (purge g d) t"
    "r \<in> set (extraction_requests d) \<Longrightarrow> req_id r \<notin> set (g_requests g) \<Longrightarrow> request_ok d r \<Longrightarrow> request_ok (purge g d) r"
    "k \<in> set (extraction_keys d) \<Longrightarrow> key_id k \<notin> set (g_keys g) \<Longrightarrow> key_ok d k \<Longrightarrow> key_ok (purge g d) k"
    "dat_organization_id x \<notin> set (g_orgs g) \<Longrightarrow> dat_document_id x \<notin> set (g_documents g) \<Longrightarrow>
       dat_key_id x \<notin> set (g_keys g) \<Longrightarrow> datum_ok d x \<Longrightarrow> datum_ok (purge g d) x"
  using closed_goneD [OF g]
  by (auto simp: task_ok_def request_ok_def key_ok_def datum_ok_def task_fks_def request_fks_def datum_triggers_def
      datum_fks_def purge_refs)

section \<open>The tables\<close>

lemma table_ok_map_del:
  assumes "table_ok k us p rs" and "\<And>x. k (f x) = k x" and "\<And>u x. u \<in> set us \<Longrightarrow> u (f x) = u x"
    and "\<And>x. x \<in> set rs \<Longrightarrow> \<not> q x \<Longrightarrow> p x \<Longrightarrow> p' (f x)"
  shows "table_ok k us p' (map f (del_where q rs))"
proof -
  have "table_ok k us p (del_where q rs)" by (rule table_ok_del [OF assms(1)])
  then show ?thesis using assms(2-4)
    by (auto simp: table_ok_def list_all_iff uniq_map_same comp_def del_where_def)
qed

lemma table_ok_del':
  assumes "table_ok k us p rs" and "\<And>x. x \<in> set rs \<Longrightarrow> \<not> q x \<Longrightarrow> p x \<Longrightarrow> p' x"
  shows "table_ok k us p' (del_where q rs)"
  using table_ok_map_del [OF assms(1), of "\<lambda>x. x" q p'] assms(2) by simp

lemma purge_sites_acyclic:
  assumes "acyclic (site_parents ss)"
  shows "acyclic (site_parents (map (purge_site g) (del_where q ss)))"
proof (rule acyclic_subset [OF assms])
  show "site_parents (map (purge_site g) (del_where q ss)) \<subseteq> site_parents ss"
    by (auto simp: site_parents_def del_where_def purge_site_def unref_def split: if_splits)
qed

lemma purge_tables:
  "organizations (purge g d) = del_where (\<lambda>x. org_id x \<in> set (g_orgs g)) (organizations d)"
  "users (purge g d) = del_where (\<lambda>x. usr_id x \<in> set (g_users g)) (users d)"
  "construction_sites (purge g d) =
     map (purge_site g) (del_where (\<lambda>x. site_id x \<in> set (g_sites g)) (construction_sites d))"
  "documents (purge g d) =
     map (purge_document g) (del_where (\<lambda>x. doc_id x \<in> set (g_documents g)) (documents d))"
  "document_tasks (purge g d) = del_where (\<lambda>t. task_document_id t \<in> set (g_documents g) \<or>
     refers (g_requests g) (task_extraction_request_id t)) (document_tasks d)"
  "extraction_requests (purge g d) = del_where (\<lambda>r. req_id r \<in> set (g_requests g)) (extraction_requests d)"
  "extraction_keys (purge g d) = del_where (\<lambda>k. key_id k \<in> set (g_keys g)) (extraction_keys d)"
  "document_extracted_data (purge g d) = del_where (\<lambda>x. dat_organization_id x \<in> set (g_orgs g) \<or>
     dat_document_id x \<in> set (g_documents g) \<or> dat_key_id x \<in> set (g_keys g)) (document_extracted_data d)"
  "document_contract_kinds (purge g d) = del_where (\<lambda>x. cat_id x \<in> set (g_kinds g)) (document_contract_kinds d)"
  "document_file_roles (purge g d) = del_where (\<lambda>x. cat_id x \<in> set (g_roles g)) (document_file_roles d)"
  "user_invitations (purge g d) = map (\<lambda>x. x\<lparr>inv_invited_by := unref (g_users g) (inv_invited_by x)\<rparr>)
     (del_where (\<lambda>x. inv_organization_id x \<in> set (g_orgs g)) (user_invitations d))"
  "site_audit_logs (purge g d) = map (\<lambda>x. x\<lparr>audit_actor_user_id := unref (g_users g) (audit_actor_user_id x)\<rparr>)
     (del_where (\<lambda>x. audit_organization_id x \<in> set (g_orgs g) \<or> audit_site_id x \<in> set (g_sites g)) (site_audit_logs d))"
  "comparison_sessions (purge g d) =
     map (purge_session g) (del_where (\<lambda>x. cs_id x \<in> set (g_sessions g)) (comparison_sessions d))"
  "comparison_session_documents (purge g d) = del_where (\<lambda>x. csd_session_id x \<in> set (g_sessions g) \<or>
     csd_document_id x \<in> set (g_documents g)) (comparison_session_documents d)"
  by (simp_all add: purge_def)

lemma more_ok_purge:
  assumes ok: "more_ok d" and g: "closed_gone d g"
  shows "more_ok (purge g d)"
proof -
  note tabs = more_tables [OF ok] note rows = purged_rows [OF g]
  have "organizations_ok (purge g d)"
    unfolding organizations_ok_def purge_tables by (rule table_ok_del [OF tabs(1)])
  moreover have "users_ok (purge g d)"
    unfolding users_ok_def purge_tables by (rule table_ok_del' [OF tabs(2)]) (rule rows(1))
  moreover have "sites_ok (purge g d)"
    unfolding sites_ok_def purge_tables
    by (intro conjI table_ok_map_del [OF tabs(3)] purge_sites_acyclic tabs(10)) (simp_all add: rows(2))
  moreover have "files_ok (purge g d)"
    unfolding files_ok_def purge_tables using rows(9) tabs(12) by (auto simp: del_where_def)
  moreover have "kinds_ok (purge g d)"
    unfolding kinds_ok_def purge_tables by (rule table_ok_del' [OF tabs(4)]) (rule rows(3))
  moreover have "roles_ok (purge g d)"
    unfolding roles_ok_def purge_tables by (rule table_ok_del' [OF tabs(5)]) (rule rows(4))
  moreover have "invitations_ok (purge g d)"
    unfolding invitations_ok_def purge_tables
    by (intro conjI table_ok_map_del [OF tabs(6)])
      (use tabs(11) in \<open>simp_all add: rows(5) open_invitation_def del_where_def distinct_map_filter comp_def\<close>)
  moreover have "audits_ok (purge g d)"
    unfolding audits_ok_def purge_tables
    by (rule table_ok_map_del [OF tabs(7)]) (simp_all add: rows(6))
  moreover have "sessions_ok (purge g d)"
    unfolding sessions_ok_def purge_tables
    by (rule table_ok_map_del [OF tabs(8)]) (simp_all add: rows(7))
  moreover have "places_ok (purge g d)"
    unfolding places_ok_def purge_tables by (rule table_ok_del' [OF tabs(9)]) (simp add: rows(8))
  ultimately show ?thesis by (simp add: more_ok_def)
qed

lemma db_ok_purge:
  assumes ok: "db_ok d" and g: "closed_gone d g"
  shows "db_ok (purge g d)"
proof -
  note rows = purged_pipeline_rows [OF g]
  have reqs: "table_ok req_id no_index (request_ok d) (extraction_requests d)"
    using ok by (simp add: db_ok_def requests_ok_def)
  have "documents_ok (purge g d)"
    unfolding documents_ok_def purge_tables
    by (rule table_ok_map_del [OF db_ok_documents [OF ok]]) (simp_all add: purged_rows(10) [OF g])
  moreover have "tasks_ok (purge g d)"
    unfolding tasks_ok_def purge_tables by (rule table_ok_del' [OF db_ok_tasks [OF ok]]) (simp add: rows(1))
  moreover have "requests_ok (purge g d)"
    unfolding requests_ok_def purge_tables by (rule table_ok_del' [OF reqs]) (rule rows(2))
  moreover have "keys_ok (purge g d)"
    unfolding keys_ok_def purge_tables by (rule table_ok_del' [OF db_ok_keys [OF ok]]) (rule rows(3))
  moreover have "data_ok (purge g d)"
    unfolding data_ok_def purge_tables by (rule table_ok_del' [OF db_ok_data [OF ok]]) (simp add: rows(4))
  ultimately show ?thesis by (simp add: db_ok_def)
qed

lemma consistent_purge: "consistent d \<Longrightarrow> closed_gone d g \<Longrightarrow> consistent (purge g d)"
  unfolding consistent_def using db_ok_purge more_ok_purge by blast

section \<open>The deletions\<close>

text \<open>The cascade of a document is the purge of its closure and of the requests on it.\<close>

lemma cascade_is_purge:
  assumes "db_ok d"
  shows "cascade_documents ids d = purge (nothing_gone\<lparr>g_documents := ids,
    g_requests := map req_id (filter (\<lambda>r. req_document_id r \<in> set ids) (extraction_requests d))\<rparr>) d"
proof -
  have req: "(req_id r \<in> req_id ` {r \<in> set (extraction_requests d). req_document_id r \<in> set ids}) =
      (req_document_id r \<in> set ids)" if "r \<in> set (extraction_requests d)" for r
    using assms that by (auto simp: db_ok_def requests_ok_def dest: table_ok_key)
  have same: "upd_where (\<lambda>x. case doc_bundle_id x of None \<Rightarrow> False | Some b \<Rightarrow> b \<in> set ids)
      (\<lambda>x. x\<lparr>doc_bundle_id := None\<rparr>) xs = map (\<lambda>x. x\<lparr>doc_bundle_id := unref ids (doc_bundle_id x)\<rparr>) xs" for xs
    by (auto simp: upd_where_def unref_def refers_def split: option.splits)
  show ?thesis
    by (simp add: cascade_documents_def purge_def nothing_gone_def Let_def same purge_document_def [abs_def]
        purge_site_def [abs_def] purge_session_def [abs_def] del_where_def refers_def req cong: filter_cong)
qed

lemma closed_one:
  "closed_gone d (nothing_gone\<lparr>g_sites := ids\<rparr>)" "closed_gone d (nothing_gone\<lparr>g_kinds := ids\<rparr>)"
  "closed_gone d (nothing_gone\<lparr>g_roles := ids\<rparr>)" "closed_gone d (nothing_gone\<lparr>g_sessions := ids\<rparr>)"
  by (simp_all add: closed_gone_def nothing_gone_def)

lemma consistent_deletions:
  assumes "consistent d"
  shows "consistent (snd (stmt_DeleteConstructionSite i o' g t d))"
    "consistent (snd (stmt_DeleteContractKind i o' g t d))" "consistent (snd (stmt_DeleteFileRole i o' g t d))"
    "consistent (snd (stmt_DeleteComparisonSession i o' g t d))"
  using assms by (simp_all add: stmt_DeleteConstructionSite_def stmt_DeleteContractKind_def stmt_DeleteFileRole_def
      stmt_DeleteComparisonSession_def Let_def consistent_purge closed_one)

text \<open>A closure is closed, whether of one document or of all documents of an organization.\<close>

lemma closure_of_documents:
  assumes "set ids \<subseteq> set (map doc_id (documents d))"
    and "x \<in> set (documents d)" "refers (doc_closure (documents d) (length (documents d)) ids) (doc_parent_id x)"
  shows "doc_id x \<in> set (doc_closure (documents d) (length (documents d)) ids)"
proof -
  have "card (set (map doc_id (documents d))) \<le> length (documents d)" by (metis card_length length_map)
  then have "child_closed (documents d) (doc_closure (documents d) (length (documents d)) ids)"
    using assms(1) by (intro doc_closure_closed) auto
  moreover have "doc_id x \<in> set (doc_children (documents d) (doc_closure (documents d) (length (documents d)) ids))"
    using assms(2,3) by (auto simp: set_doc_children refers_iff)
  ultimately show ?thesis by (auto simp: child_closed_def)
qed

lemma consistent_DeleteDocument:
  assumes "consistent d" shows "consistent (snd (stmt_DeleteDocument i o' g t d))"
proof -
  let ?ids = "doc_closure (documents d) (length (documents d)) [i]"
  have "consistent (cascade_documents ?ids d)" if "i \<in> set (map doc_id (documents d))"
  proof -
    have "closed_gone d (nothing_gone\<lparr>g_documents := ?ids,
        g_requests := map req_id (filter (\<lambda>r. req_document_id r \<in> set ?ids) (extraction_requests d))\<rparr>)"
      using closure_of_documents [of "[i]" d] that by (auto simp: closed_gone_def nothing_gone_def)
    then show ?thesis using assms by (simp add: cascade_is_purge [OF consistentD(1)] consistent_purge)
  qed
  then show ?thesis using assms by (auto simp: stmt_DeleteDocument_def Let_def filter_empty_conv)
qed

lemma closed_organization:
  assumes "\<not> list_ex (\<lambda>x. doc_id x \<notin> set (g_documents (gone_with_org d i)) \<and>
      doc_uploaded_by x \<in> set (g_users (gone_with_org d i))) (documents d)"
  shows "closed_gone d (gone_with_org d i)"
proof -
  let ?own = "map doc_id (filter (\<lambda>x. doc_organization_id x = i) (documents d))"
  let ?docs = "doc_closure (documents d) (length (documents d)) ?own"
  have "doc_id x \<in> set ?docs" if "x \<in> set (documents d)" "doc_organization_id x = i" for x
    using that by (intro doc_closure_mem) auto
  moreover have "doc_id x \<in> set ?docs" if "x \<in> set (documents d)" "refers ?docs (doc_parent_id x)" for x
    using that by (intro closure_of_documents) auto
  ultimately show ?thesis
    using assms by (auto simp: closed_gone_def gone_with_org_def Let_def list_ex_iff refers_iff)
qed

lemma consistent_DeleteOrganization:
  assumes "consistent d" shows "consistent (snd (stmt_DeleteOrganization i g t d))"
  using assms closed_organization by (auto simp: stmt_DeleteOrganization_def Let_def consistent_purge)

end
