(* ===== verification/Tenants.thy ===== *)
theory Tenants
  imports Handler_Effects Consistency
begin

text \<open>
  What the handlers of a tenant may change, from what the statements on the tenant's organization may
  change. The interface \<open>tenant\<close> has the statements that write, each for rows of one organization,
  and the two actions that start the pipeline; the lemmas lift a relation between worlds from these to
  every handler behind a token of that organization.
\<close>

section \<open>The interface\<close>

text \<open>The server that \<open>NewServer\<close> builds.\<close>

definition wired :: "server \<Rightarrow> bool" where
  "wired S \<longleftrightarrow> sv_python S = Some (Process (sv_env S)) \<and> sv_worker S = Some (server_worker (sv_env S))"

lemma NewServer_wired: "NewServer E L X c = Inr S \<Longrightarrow> wired S"
  by (simp add: wired_def NewServer_Inr)

lemma wired_extraction: "wired S \<Longrightarrow> sv_extraction S = server_extraction (sv_env S)"
  by (simp add: wired_def sv_extraction_def server_extraction_def)

text \<open>A statement that is only issued when a condition on the database has been looked up.\<close>

definition keeps_if :: "(db \<Rightarrow> bool) \<Rightarrow> (world \<Rightarrow> world \<Rightarrow> bool) \<Rightarrow> 'a stmt \<Rightarrow> bool" where
  "keeps_if P R f \<longleftrightarrow> (\<forall>w g t n. P (w_db w) \<longrightarrow> R w (w\<lparr>w_db := snd (f g t (w_db w)), w_tick := n\<rparr>))"

definition on_db :: "(db \<Rightarrow> bool) \<Rightarrow> world \<Rightarrow> bool" where
  "on_db P w \<longleftrightarrow> P (w_db w)"

lemma attempt_call_ok:
  "attempt (call m h ok) k = State_Monad.bind m (\<lambda>r. case r of Inl e \<Rightarrow> respond (h e) | Inr x \<Rightarrow> k x)"
  by (auto simp: attempt_def call_def ok_def fail_def sum.case_distrib [of "\<lambda>m. State_Monad.bind m _"] cong: sum.case_cong)

context statements begin

lemma from_io: "state_io_rel R m \<Longrightarrow> rel_from P R m"
  by (simp add: rel_from_def state_io_rel_def)

lemma from_exec: "keeps_if P R f \<Longrightarrow> rel_from (on_db P) R (exec E f)"
  unfolding rel_from_def on_db_def
proof (intro allI impI)
  fix w :: world assume f: "keeps_if P R f" and w: "P (w_db w)"
  show "R w (snd (run_state (exec E f) w))"
  proof (cases rule: run_exec_cases [of f E w])
    case (effect d r)
    have "d = snd (f (env_uuid E (w_tick w)) (env_now E (w_tick w)) (w_db w))" using effect(1) by simp
    then show ?thesis using f w effect(2) by (simp add: keeps_if_def)
  next
    case (rejected s)
    then show ?thesis by (simp add: tick)
  next
    case (lost d r s)
    have "d = snd (f (env_uuid E (w_tick w)) (env_now E (w_tick w)) (w_db w))" using lost(1) by simp
    then show ?thesis using f w lost(2) by (simp add: keeps_if_def)
  qed
qed

lemma from_then:
  assumes "rel_from P R m" and "\<And>x. state_io_rel R (k x)"
  shows "rel_from P R (State_Monad.bind m k)"
  using assms by (auto simp: rel_from_def state_io_rel_def split: prod.split) (metis R_trans snd_conv)

lemma from_call: "rel_from P R m \<Longrightarrow> (\<And>x. state_io_rel R (k x)) \<Longrightarrow> rel_from P R (call m h k)"
  unfolding call_def by (rule from_then) (auto intro!: io_rel)

lemma from_attempt: "rel_from P R m \<Longrightarrow> (\<And>x. state_io_rel R (k x)) \<Longrightarrow> rel_from P R (attempt m k)"
  unfolding attempt_def by (rule from_then) (auto intro!: io_rel)

lemma from_bind_json: "(\<And>r. rel_from P R (k r)) \<Longrightarrow> rel_from P R (bind_json dec valid msg req k)"
  by (auto simp: bind_json_def intro: from_io rel_respond split: option.split)

lemma from_parseUUID: "(\<And>u. rel_from P R (k u)) \<Longrightarrow> rel_from P R (parseUUID L msg raw k)"
  by (auto simp: parseUUID_def intro: from_io rel_respond split: sum.split)

text \<open>A row that has been read is there when the next statement runs.\<close>

lemma rel_read_then:
  assumes "\<And>d x. f d = Some x \<Longrightarrow> P d" and "\<And>e. state_io_rel R (k (Inl e))" and "\<And>x. rel_from (on_db P) R (k (Inr x))"
  shows "state_io_rel R (State_Monad.bind (exec E (sel_one f)) k)"
  unfolding state_io_rel_def
proof
  fix w
  obtain r w1 where run: "run_state (exec E (sel_one f)) w = (r, w1)" by fastforce
  then have "R w w1" using rel_select(2) by (metis state_io_rel_def snd_conv)
  moreover have "R w1 (snd (run_state (k r) w1))"
  proof (cases r)
    case (Inr x)
    then have "f (w_db w) = Some x" "w_db w1 = w_db w" using exec_Inr [of E "sel_one f" w x w1] run by auto
    then have "on_db P w1" using assms(1) by (simp add: on_db_def)
    then show ?thesis using assms(3) Inr by (simp add: rel_from_def)
  qed (use assms(2) in \<open>simp add: state_io_rel_def\<close>)
  ultimately show "R w (snd (run_state (State_Monad.bind (exec E (sel_one f)) k) w))"
    using run by (auto intro: R_trans)
qed

lemma rel_read_call:
  "(\<And>d x. f d = Some x \<Longrightarrow> P d) \<Longrightarrow> (\<And>x. rel_from (on_db P) R (k x)) \<Longrightarrow>
   state_io_rel R (call (exec E (sel_one f)) h k)"
  unfolding call_def by (rule rel_read_then [where P = P]) (auto intro!: io_rel)

end

lemmas writing_defs = Server_CreateUser_def Server_UpdateUser_def Server_DeactivateUser_def Server_CreateInvitation_def
  Server_DeleteInvitation_def Server_CreateConstructionSite_def Server_UpdateConstructionSite_def
  Server_UpdateConstructionSiteCover_def Server_UpdateConstructionSiteType_def
  Server_DeleteConstructionSite_def Server_CreateContractKind_def Server_UpdateContractKind_def
  Server_DeleteContractKind_def Server_CreateFileRole_def Server_UpdateFileRole_def
  Server_DeleteFileRole_def Server_CreateComparisonSession_def Server_DeleteComparisonSession_def
  Server_RemoveDocumentFromSession_def Server_CreateDocument_def Server_UploadDocument_def
  Server_UpdateDocumentMeta_def Server_DeleteDocument_def Server_UpdateDocumentTaskStatus_def
  Server_DeleteDocumentTask_def Server_UpdateOrganization_def Server_DeleteOrganization_def
  Server_CreateDocumentTask_def Server_InitiateExtraction_def Server_AddDocumentToSession_def

context statements begin

text \<open>A handler of a tenant answers itself when there is no organization in the token.\<close>

lemma rel_no_organization:
  assumes [simp]: "cx_orgID cx = None"
  shows "state_io_rel R (Server_CreateUser S req cx)" "state_io_rel R (Server_UpdateUser S req cx)"
  "state_io_rel R (Server_DeactivateUser S req cx)" "state_io_rel R (Server_CreateInvitation S req cx)"
  "state_io_rel R (Server_DeleteInvitation S req cx)"
  "state_io_rel R (Server_CreateConstructionSite S req cx)" "state_io_rel R (Server_UpdateConstructionSite S req cx)"
  "state_io_rel R (Server_UpdateConstructionSiteCover S req cx)"
  "state_io_rel R (Server_UpdateConstructionSiteType S req cx)"
  "state_io_rel R (Server_DeleteConstructionSite S req cx)"
  "state_io_rel R (Server_CreateContractKind S req cx)" "state_io_rel R (Server_UpdateContractKind S req cx)"
  "state_io_rel R (Server_DeleteContractKind S req cx)"
  "state_io_rel R (Server_CreateFileRole S req cx)" "state_io_rel R (Server_UpdateFileRole S req cx)"
  "state_io_rel R (Server_DeleteFileRole S req cx)"
  "state_io_rel R (Server_CreateComparisonSession S req cx)"
  "state_io_rel R (Server_DeleteComparisonSession S req cx)"
  "state_io_rel R (Server_AddDocumentToSession S req cx)"
  "state_io_rel R (Server_RemoveDocumentFromSession S req cx)"
  "state_io_rel R (Server_CreateDocument S req cx)" "state_io_rel R (Server_UploadDocument S req cx)"
  "state_io_rel R (Server_UpdateDocumentMeta S req cx)" "state_io_rel R (Server_DeleteDocument S req cx)"
  "state_io_rel R (Server_UpdateDocumentTaskStatus S req cx)" "state_io_rel R (Server_DeleteDocumentTask S req cx)"
  "state_io_rel R (Server_UpdateOrganization S req cx)" "state_io_rel R (Server_DeleteOrganization S req cx)"
  "state_io_rel R (Server_CreateDocumentTask S req cx)" "state_io_rel R (Server_InitiateExtraction S req cx)"
  unfolding writing_defs by (simp_all add: orgIDFromContext_def rel_respond split: option.split)

end

locale tenant = statements R for R :: "world \<Rightarrow> world \<Rightarrow> bool" +
  fixes o' :: uuid
  assumes objects: "R w (w\<lparr>w_tick := n, w_objects := obs\<rparr>)"
    and update_organization: "keeps R (stmt_UpdateOrganization o' nm inn b)"
    and delete_organization: "keeps R (stmt_DeleteOrganization o')"
    and create_user: "keeps R (stmt_CreateUser (Some o') em h full role)"
    and update_user: "keeps R (stmt_UpdateUser i o' ro act)"
    and create_invitation: "keeps R (stmt_CreateUserInvitation o' em role by' h ex)"
    and delete_invitation: "keeps R (stmt_DeleteUserInvitation i o')"
    and create_site: "sp_OrganizationID sp = o' \<Longrightarrow> keeps R (stmt_CreateConstructionSite sp)"
    and update_site: "keeps R (stmt_UpdateConstructionSite i o' nm st)"
    and update_cover: "keeps R (stmt_UpdateConstructionSiteCover i o' path)"
    and update_type: "keeps R (stmt_UpdateConstructionSiteType i o' path)"
    and delete_site: "keeps R (stmt_DeleteConstructionSite i o')"
    and create_kind: "keeps R (stmt_CreateContractKind (Some o') nm ord active)"
    and update_kind: "keeps R (stmt_UpdateContractKind i o' nm ord active)"
    and delete_kind: "keeps R (stmt_DeleteContractKind i o')"
    and create_role: "keeps R (stmt_CreateFileRole (Some o') nm ord active)"
    and update_role: "keeps R (stmt_UpdateFileRole i o' nm ord active)"
    and delete_role: "keeps R (stmt_DeleteFileRole i o')"
    and create_session: "keeps_if (\<lambda>d. null_or (\<lambda>k. visible_entry (document_contract_kinds d) k o') kind) R
      (stmt_CreateComparisonSession o' by' title kind)"
    and delete_session: "keeps R (stmt_DeleteComparisonSession i o')"
    and add_place: "keeps_if (\<lambda>d. org_session_exists d i o') R (stmt_AddDocumentToComparisonSession i doc o' pos)"
    and remove_place: "keeps R (stmt_RemoveDocumentFromComparisonSession i doc o')"
    and create_document: "cd_OrganizationID dp = o' \<Longrightarrow> keeps R (stmt_CreateDocument dp)"
    and update_meta: "keeps R (stmt_UpdateDocumentMeta i o' a1 a2 a3)"
    and delete_document: "keeps R (stmt_DeleteDocument i o')"
    and update_task: "keeps R (stmt_UpdateDocumentTaskStatus i o' st)"
    and delete_task: "keeps R (stmt_DeleteDocumentTask i o')"
    and create_task: "state_io_rel R (task_Create E (Some (Process E)) doc m o')"
    and initiate: "state_io_rel R (Initiate E (server_extraction E) doc o' qs anon)"
begin

section \<open>Services\<close>

lemma rel_get [io_rel]: "state_io_rel R State_Monad.get"
  by (simp add: state_io_rel_def State_Monad.get_def R_refl)

lemma rel_users: "i = o' \<Longrightarrow> state_io_rel R (exec E (stmt_CreateUser (Some i) em h full role))"
  "i = o' \<Longrightarrow> state_io_rel R (exec E (stmt_UpdateUser u i ro act))"
  by (simp_all add: rel_exec create_user update_user)

lemmas rel_accounts = update_organization [THEN rel_exec] delete_organization [THEN rel_exec]
  create_invitation [THEN rel_exec] delete_invitation [THEN rel_exec] rel_users

lemma rel_account_services [io_rel]:
  "state_io_rel R (organization_Update E o' nm inn)" "state_io_rel R (organization_Delete E o')"
  "cu_OrgID cp = o' \<Longrightarrow> state_io_rel R (user_Create E L cp)" "uu_OrgID up = o' \<Longrightarrow> state_io_rel R (user_Update E up)"
  "state_io_rel R (Deactivate E u o')" "state_io_rel R (invitation_Create E o' em role u h ex)"
  "state_io_rel R (invitation_Delete E i o')"
  unfolding organization_Update_def organization_Delete_def user_Create_def user_Update_def Deactivate_def
    invitation_Create_def invitation_Delete_def UpdateOrganization_def DeleteOrganization_def CreateUser_def
    UpdateUser_def CreateUserInvitation_def DeleteUserInvitation_def
  by (auto intro!: io_rel rel_accounts)

lemmas rel_sites = create_site [THEN rel_exec] update_site [THEN rel_exec] update_cover [THEN rel_exec]
  update_type [THEN rel_exec] delete_site [THEN rel_exec]

lemma rel_site_services [io_rel]:
  "sp_OrganizationID sp = o' \<Longrightarrow> state_io_rel R (site_Create E sp)" "state_io_rel R (site_Update E i o' nm st)"
  "state_io_rel R (site_UpdateCover E i o' path)" "state_io_rel R (site_UpdateType E i o' path)"
  "state_io_rel R (site_Delete E i o')"
  unfolding site_Create_def site_Update_def site_UpdateCover_def site_UpdateType_def site_Delete_def
    CreateConstructionSite_def UpdateConstructionSite_def UpdateConstructionSiteCover_def
    UpdateConstructionSiteType_def DeleteConstructionSite_def
  by (auto intro!: io_rel rel_sites)

lemmas rel_catalogs = create_kind [THEN rel_exec] update_kind [THEN rel_exec] delete_kind [THEN rel_exec]
  create_role [THEN rel_exec] update_role [THEN rel_exec] delete_role [THEN rel_exec]
  delete_session [THEN rel_exec] remove_place [THEN rel_exec]

lemma rel_catalog_services [io_rel]:
  "state_io_rel R (kind_Create E o' nm ord active)" "state_io_rel R (kind_Update E i o' nm ord active)"
  "state_io_rel R (kind_Delete E i o')"
  "state_io_rel R (role_Create E o' nm ord active)" "state_io_rel R (role_Update E i o' nm ord active)"
  "state_io_rel R (role_Delete E i o')"
  "state_io_rel R (comparison_Delete E i o')" "state_io_rel R (RemoveDocument E i doc o')"
  unfolding kind_Create_def kind_Update_def kind_Delete_def role_Create_def role_Update_def role_Delete_def
    comparison_Delete_def RemoveDocument_def CreateContractKind_def UpdateContractKind_def DeleteContractKind_def
    CreateFileRole_def UpdateFileRole_def DeleteFileRole_def DeleteComparisonSession_def
    RemoveDocumentFromComparisonSession_def
  by (auto intro!: io_rel rel_catalogs)

lemma rel_comparison_Create [io_rel]: "state_io_rel R (comparison_Create E o' u name kind)"
proof -
  have create: "rel_from (on_db (\<lambda>d. null_or (\<lambda>k. visible_entry (document_contract_kinds d) k o') kind)) R
      (call (CreateComparisonSession E o' (Some u) name kind) internal_error ok)" for kind
    unfolding CreateComparisonSession_def by (intro from_call from_exec create_session rel_ok)
  show ?thesis
  proof (cases kind)
    case None
    then show ?thesis using create [of None] by (simp add: comparison_Create_def rel_from_def on_db_def state_io_rel_def)
  next
    case (Some k)
    have "state_io_rel R (call (GetContractKind E k o') h (\<lambda>_. call (CreateComparisonSession E o' (Some u) name (Some k))
        internal_error ok))" for h
      unfolding GetContractKind_def
      by (rule rel_read_call [where P = "\<lambda>d. null_or (\<lambda>k. visible_entry (document_contract_kinds d) k o') (Some k)"],
          force simp: get_entry_def visible_entry_def list_ex_iff dest: find_Some_iff_mem, rule create)
    then show ?thesis using Some by (simp add: comparison_Create_def)
  qed
qed

lemma rel_AddDocumentToSession:
  assumes "cx_orgID cx = Some o'" shows "state_io_rel R (Server_AddDocumentToSession S req cx)"
proof -
  have add: "rel_from (on_db (\<lambda>d. org_session_exists d i o')) R (AddDocument E i doc o' pos)" for E i doc pos
    unfolding AddDocument_def AddDocumentToComparisonSession_def by (intro from_call from_exec add_place rel_ok)
  have read: "state_io_rel R (attempt (comparison_Get E i o') (\<lambda>_. k))"
    if "rel_from (on_db (\<lambda>d. org_session_exists d i o')) R k" for E i k
    unfolding comparison_Get_def GetComparisonSession_def attempt_call_ok
    by (rule rel_read_then [where P = "\<lambda>d. org_session_exists d i o'"])
      (use that in \<open>auto simp: org_session_exists_def list_ex_iff dest: find_Some_iff_mem intro!: io_rel\<close>)
  show ?thesis
    unfolding Server_AddDocumentToSession_def using assms
    by (auto intro!: rel_orgIDFromContext rel_parseUUID read from_bind_json from_parseUUID from_attempt add rel_answer)
qed

lemmas rel_files = create_document [THEN rel_exec] update_meta [THEN rel_exec] delete_document [THEN rel_exec]
  update_task [THEN rel_exec] delete_task [THEN rel_exec]

lemma rel_document_services [io_rel]:
  "cd_OrganizationID dp = o' \<Longrightarrow> state_io_rel R (document_Create E dp)" "state_io_rel R (document_Delete E i o')"
  "state_io_rel R (UpdateMeta E i o' a1 a2 a3)"
  "state_io_rel R (task_UpdateStatus E i o' st)" "state_io_rel R (task_Delete E i o')"
  unfolding document_Create_def document_Delete_def UpdateMeta_def check_kind_def check_role_def check_bundle_def
    task_UpdateStatus_def task_Delete_def
    CreateDocument_def DeleteDocument_def UpdateDocumentMeta_def UpdateDocumentTaskStatus_def DeleteDocumentTask_def
    idiom_defs
  by (auto intro!: io_rel rel_files)

lemma rel_bucket_op [io_rel]: "state_io_rel R (bucket_op E f)"
proof -
  have "R w (snd (run_state (bucket_op E f) w))" for w
    using objects [where w = w and n = "Suc (w_tick w)"] tick [of w "Suc (w_tick w)"]
    by (auto simp: bucket_op_def Let_def split: fault.splits)
  then show ?thesis by (simp add: state_io_rel_def)
qed

lemma rel_storage [io_rel]:
  "state_io_rel R (storage_Upload E c content nm ty)" "state_io_rel R (storage_Delete E c path)"
  unfolding storage_Upload_def storage_Delete_def Let_def by (intro io_rel)+

section \<open>Handlers\<close>

lemma rel_create_or_clean [io_rel]:
  "cd_OrganizationID dp = o' \<Longrightarrow> state_io_rel R (create_or_clean S c dp)"
  unfolding create_or_clean_def by (intro io_rel)

lemma rel_store_and_create [io_rel]: "state_io_rel R (store_and_create S c o' u site f content)"
  unfolding store_and_create_def upload_params_def by (intro io_rel) simp

lemma rel_tenant_handlers:
  assumes [simp]: "cx_orgID cx = Some o'"
  shows "state_io_rel R (Server_CreateUser S req cx)" "state_io_rel R (Server_UpdateUser S req cx)"
  "state_io_rel R (Server_DeactivateUser S req cx)" "state_io_rel R (Server_CreateInvitation S req cx)"
  "state_io_rel R (Server_DeleteInvitation S req cx)"
  "state_io_rel R (Server_CreateConstructionSite S req cx)" "state_io_rel R (Server_UpdateConstructionSite S req cx)"
  "state_io_rel R (Server_UpdateConstructionSiteCover S req cx)"
  "state_io_rel R (Server_UpdateConstructionSiteType S req cx)"
  "state_io_rel R (Server_DeleteConstructionSite S req cx)"
  "state_io_rel R (Server_CreateContractKind S req cx)" "state_io_rel R (Server_UpdateContractKind S req cx)"
  "state_io_rel R (Server_DeleteContractKind S req cx)"
  "state_io_rel R (Server_CreateFileRole S req cx)" "state_io_rel R (Server_UpdateFileRole S req cx)"
  "state_io_rel R (Server_DeleteFileRole S req cx)"
  "state_io_rel R (Server_CreateComparisonSession S req cx)"
  "state_io_rel R (Server_DeleteComparisonSession S req cx)"
  "state_io_rel R (Server_RemoveDocumentFromSession S req cx)"
  "state_io_rel R (Server_CreateDocument S req cx)" "state_io_rel R (Server_UploadDocument S req cx)"
  "state_io_rel R (Server_UpdateDocumentMeta S req cx)" "state_io_rel R (Server_DeleteDocument S req cx)"
  "state_io_rel R (Server_UpdateDocumentTaskStatus S req cx)" "state_io_rel R (Server_DeleteDocumentTask S req cx)"
  unfolding writing_defs Let_def
  by (auto intro!: io_rel simp: create_user_from_def update_user_from_def)

lemma rel_organization_handlers:
  assumes "cx_orgID cx = Some o'" and "\<not> isOwner cx"
  shows "state_io_rel R (Server_UpdateOrganization S req cx)" "state_io_rel R (Server_DeleteOrganization S req cx)"
  unfolding Server_UpdateOrganization_def Server_DeleteOrganization_def
  using assms by (auto intro!: io_rel)

lemma rel_pipeline_handlers:
  assumes "cx_orgID cx = Some o'" and "wired S"
  shows "state_io_rel R (Server_CreateDocumentTask S req cx)" "state_io_rel R (Server_InitiateExtraction S req cx)"
  unfolding Server_CreateDocumentTask_def Server_InitiateExtraction_def Let_def wired_extraction [OF assms(2)]
  using assms by (auto simp: wired_def intro!: io_rel create_task initiate)

end

end
