(* ===== verification/Whole_Server.thy ===== *)
theory Whole_Server
  imports Tenants Access
begin

text \<open>
  From a relation between worlds that the tenants' statements, the registration and the workers' reports respect
  to every request that the server serves.
\<close>

locale whole_server = statements R for R :: "world \<Rightarrow> world \<Rightarrow> bool" +
  assumes tenants: "tenant R o'"
    and register: "state_io_rel R (Register E L p)"
    and report: "state_io_rel R (HandleStatusUpdate E (server_worker E) i upd)"
begin

lemmas rel_of_tenants [io_rel] = tenant.rel_account_services [OF tenants] register report

lemma rel_other_handlers:
  "state_io_rel R (Server_RegisterOrganization S req cx)"
  "state_io_rel R (Server_OwnerUpdateOrganizationUser S req cx)"
  "state_io_rel R (Server_OwnerDeactivateOrganizationUser S req cx)"
  "state_io_rel R (Server_UpdateOrganization S req cx)" "state_io_rel R (Server_DeleteOrganization S req cx)"
  "wired S \<Longrightarrow> state_io_rel R (Server_WorkerUpdateTaskStatus S req cx)"
  unfolding Server_RegisterOrganization_def Server_OwnerUpdateOrganizationUser_def
    Server_OwnerDeactivateOrganizationUser_def Server_UpdateOrganization_def Server_DeleteOrganization_def
    Server_WorkerUpdateTaskStatus_def
  by (auto intro!: io_rel simp: update_user_from_def wired_def)

lemma rel_handlers:
  assumes "wired S"
  shows "list_all (\<lambda>rt. \<forall>req. state_io_rel R (rt_handler rt S req cx)) setupRouter"
proof (cases "cx_orgID cx")
  case None
  then show ?thesis
    by (simp add: route_tables rel_reading_handlers rel_session_handlers rel_other_handlers assms rel_no_organization)
next
  case (Some o')
  then show ?thesis
    by (simp add: route_tables rel_reading_handlers rel_session_handlers rel_other_handlers assms
        tenant.rel_tenant_handlers [OF tenants Some] tenant.rel_pipeline_handlers [OF tenants Some]
        tenant.rel_AddDocumentToSession [OF tenants Some])
qed

lemma rel_serve:
  assumes "wired S" shows "state_io_rel R (serve S req)"
proof (cases "find (match_route req) setupRouter")
  case (Some rt)
  then have "state_io_rel R (rt_handler rt S q cx)" for q cx
    using rel_handlers [OF assms, of cx] find_route [OF Some] by (auto simp: list_all_iff)
  then show ?thesis by (simp add: serve_def Some serve_route_def Let_def rel_run_guards)
qed (simp add: serve_def rel_answer)

end

text \<open>A transaction that fails leaves the database as it was.\<close>

lemma rel_ExecTx:
  assumes R: "\<And>w w'. R w w' \<longleftrightarrow> (I (w_db w) \<longrightarrow> I (w_db w'))" and fn: "\<And>q. state_io_rel R (fn q)"
  shows "state_io_rel R (ExecTx E fn)"
proof -
  have "R w (snd (run_state (ExecTx E fn) w))" for w
  proof -
    let ?w1 = "w\<lparr>w_tick := Suc (w_tick w)\<rparr>" let ?q = "E\<lparr>env_now := (\<lambda>_. env_now E (w_tick w))\<rparr>"
    obtain r w2 where run: "run_state (fn ?q) ?w1 = (r, w2)" by fastforce
    have "R ?w1 w2" by (rule rel_runD [OF fn run])
    then show ?thesis using run by (auto simp: ExecTx_def Let_def R split: fault.split sum.split)
  qed
  then show ?thesis by (simp add: state_io_rel_def)
qed

end
