(* ===== verification/Upkeep.thy ===== *)
theory Upkeep
  imports Purge Whole_Server
begin

text \<open>
  Every statement, and with it every request, keeps the database consistent.
\<close>

section \<open>Statements\<close>

lemma db_ok_other_tables [simp]:
  "db_ok (d\<lparr>users := us\<rparr>) = db_ok d" "db_ok (d\<lparr>construction_sites := ss\<rparr>) = db_ok d"
  "db_ok (d\<lparr>document_contract_kinds := ks\<rparr>) = db_ok d" "db_ok (d\<lparr>document_file_roles := rs\<rparr>) = db_ok d"
  "db_ok (d\<lparr>user_invitations := is\<rparr>) = db_ok d" "db_ok (d\<lparr>comparison_sessions := cs\<rparr>) = db_ok d"
  "db_ok (d\<lparr>comparison_session_documents := ps\<rparr>) = db_ok d" "db_ok (d\<lparr>site_audit_logs := as\<rparr>) = db_ok d"
  by (rule iffI; erule db_ok_cong [rotated 6]; simp)+

lemma db_ok_organizations:
  assumes "db_ok d" and "set (map org_id (organizations d)) \<subseteq> set (map org_id os)"
  shows "db_ok (d\<lparr>organizations := os\<rparr>)"
proof -
  have "org_exists (d\<lparr>organizations := os\<rparr>) i" if "org_exists d i" for i
    using that assms(2) unfolding org_exists_iff by auto
  then have "document_ok d x \<Longrightarrow> document_ok (d\<lparr>organizations := os\<rparr>) x"
    "key_ok d k \<Longrightarrow> key_ok (d\<lparr>organizations := os\<rparr>) k" for x k
    by (auto simp: document_ok_def key_ok_def null_or_iff org_document_exists_def)
  then show ?thesis
    using assms(1) by (auto simp: db_ok_def tables_ok_defs elim!: table_ok_mono
        simp: task_ok_def request_ok_def datum_ok_def task_fks_def request_fks_def datum_triggers_def datum_fks_def
          document_exists_def null_or_iff request_exists_def org_document_exists_def visible_key_def)
qed

lemma db_ok_statements:
  assumes "db_ok d"
  shows "db_ok (snd (stmt_CreateOrganization a1 a2 g t d))" "db_ok (snd (stmt_UpdateOrganization b1 b2 b3 b4 g t d))"
    "db_ok (snd (stmt_CreateUser c1 c2 c3 c4 c5 g t d))" "db_ok (snd (stmt_UpdateUser d1 d2 d3 d4 g t d))"
    "db_ok (snd (stmt_CreateUserInvitation e1 e2 e3 e4 e5 e6 g t d))" "db_ok (snd (stmt_DeleteUserInvitation f1 f2 g t d))"
    "db_ok (snd (stmt_CreateConstructionSite h1 g t d))" "db_ok (snd (stmt_UpdateConstructionSite i1 i2 i3 i4 g t d))"
    "db_ok (snd (stmt_UpdateConstructionSiteCover j1 j2 j3 g t d))"
    "db_ok (snd (stmt_UpdateConstructionSiteType k1 k2 k3 g t d))"
    "db_ok (snd (stmt_CreateContractKind l1 l2 l3 l4 g t d))" "db_ok (snd (stmt_UpdateContractKind m1 m2 m3 m4 m5 g t d))"
    "db_ok (snd (stmt_CreateFileRole n1 n2 n3 n4 g t d))" "db_ok (snd (stmt_UpdateFileRole o1 o2 o3 o4 o5 g t d))"
    "db_ok (snd (stmt_CreateComparisonSession p1 p2 p3 p4 g t d))"
    "db_ok (snd (stmt_AddDocumentToComparisonSession q1 q2 q3 q4 g t d))"
    "db_ok (snd (stmt_RemoveDocumentFromComparisonSession r1 r2 r3 g t d))"
  using assms
  by (auto simp: stmt_CreateOrganization_def stmt_UpdateOrganization_def stmt_CreateUser_def stmt_UpdateUser_def
      stmt_CreateUserInvitation_def stmt_DeleteUserInvitation_def stmt_CreateConstructionSite_def
      stmt_UpdateConstructionSite_def stmt_UpdateConstructionSiteCover_def stmt_UpdateConstructionSiteType_def
      stmt_CreateContractKind_def stmt_UpdateContractKind_def stmt_CreateFileRole_def stmt_UpdateFileRole_def
      stmt_CreateComparisonSession_def stmt_AddDocumentToComparisonSession_def
      stmt_RemoveDocumentFromComparisonSession_def create_entry_def update_entry_def update_site_def
      insert_row_def update_row_def delete_rows_def Let_def split: option.splits prod.splits sum.splits
      intro!: db_ok_organizations)

section \<open>The relation\<close>

text \<open>
  \<open>upkeep\<close>: a consistent database stays consistent. The pipeline wants the stronger \<open>keeping\<close>, in which
  the pipeline's tables moreover evolve as its contracts say.
\<close>

definition upkeep :: "world \<Rightarrow> world \<Rightarrow> bool" where
  "upkeep w w' \<longleftrightarrow> (consistent (w_db w) \<longrightarrow> consistent (w_db w'))"

definition keeping :: "world \<Rightarrow> world \<Rightarrow> bool" where
  "keeping w w' \<longleftrightarrow> sound (w_db w) (w_db w') \<and> upkeep w w'"

lemma keeping_upkeep: "state_io_rel (if_ok keeping) m \<Longrightarrow> state_io_rel upkeep m"
  by (auto simp: state_io_rel_def if_ok_def keeping_def upkeep_def dest: consistentD(1))

lemma keeping_stmt:
  assumes "\<And>d g t. sound d (snd (f g t d))" and "\<And>d g t. db_ok d \<Longrightarrow> more_ok d \<Longrightarrow> more_ok (snd (f g t d))"
  shows "keeps keeping f"
  using assms by (auto simp: keeps_def keeping_def upkeep_def consistent_def sound_def)

interpretation keeping: task_publisher keeping E "Process E" for E
proof unfold_locales
  show "keeping w u" if "keeping w v" "keeping v u" for w v u
    using that by (auto simp: keeping_def upkeep_def elim: sound_trans)
  show "keeping w (snd (run_state (Process E r) w))" for w r
    by (cases rule: Process_cases [of E r w]) (auto simp: keeping_def upkeep_def)
qed (auto simp: keeping_def upkeep_def intro!: keeping_stmt sound_stmt more_stmt)

interpretation keeping_pipeline: extraction_client keeping E "Process E" "server_extraction E" for E
  by unfold_locales (simp add: server_extraction_def)

interpretation keeping_callbacks: worker_client keeping E "Process E"
    "pipeline_of E (server_extraction E)" "server_worker E" for E
  by unfold_locales (simp_all add: server_worker_def)

lemma consistent_keeps:
  "(\<And>d g t. consistent d \<Longrightarrow> consistent (snd (f g t d))) \<Longrightarrow> keeps upkeep f"
  by (simp add: keeps_def upkeep_def)

lemma consistentI: "(db_ok d \<Longrightarrow> db_ok d') \<Longrightarrow> (db_ok d \<Longrightarrow> more_ok d \<Longrightarrow> more_ok d') \<Longrightarrow> consistent d \<Longrightarrow> consistent d'"
  by (simp add: consistent_def)

interpretation upkeep: statements upkeep
  by unfold_locales (auto simp: upkeep_def)

lemma upkeep_stmt:
  assumes "\<And>d g t. db_ok d \<Longrightarrow> db_ok (snd (f g t d))" and "\<And>d g t. db_ok d \<Longrightarrow> more_ok d \<Longrightarrow> more_ok (snd (f g t d))"
  shows "keeps upkeep f"
  using assms by (simp add: keeps_def upkeep_def consistent_def)

lemma upkeep_deletion: "(\<And>d g t. consistent d \<Longrightarrow> consistent (snd (f g t d))) \<Longrightarrow> keeps upkeep f"
  by (simp add: keeps_def upkeep_def)

lemma upkeep_Process: "state_io_rel upkeep (Process E r)"
proof -
  have "upkeep w (snd (run_state (Process E r) w))" for w
    by (cases rule: Process_cases [of E r w]) (simp_all add: upkeep_def)
  then show ?thesis by (simp add: state_io_rel_def)
qed

text \<open>The contract of a tenant, for every tenant.\<close>

interpretation upkeep: tenant upkeep o' for o'
proof unfold_locales
  show "keeps_if (\<lambda>d. null_or (\<lambda>k. visible_entry (document_contract_kinds d) k o') kind) upkeep
      (stmt_CreateComparisonSession o' by' title kind)" for by' title kind
    by (simp add: keeps_if_def upkeep_def consistent_def db_ok_statements more_CreateComparisonSession)
  show "keeps_if (\<lambda>d. org_session_exists d i o') upkeep (stmt_AddDocumentToComparisonSession i doc o' pos)" for i doc pos
    by (simp add: keeps_if_def upkeep_def consistent_def db_ok_statements more_AddDocument)
  show "state_io_rel upkeep (task_Create E (Some (Process E)) doc m o')" for E doc m
    unfolding task_Create_def CreateDocumentTask_def option.case
    by (intro io_rel upkeep.rel_exec upkeep_stmt upkeep_Process stmt_CreateDocumentTask_ok more_stmt)
  show "state_io_rel upkeep (Initiate E (server_extraction E) doc o' qs anon)" for E doc qs anon
    by (rule keeping_upkeep) (rule keeping_pipeline.Initiate_rel)
qed (simp add: upkeep_def |
    (rule upkeep_deletion,
      (rule consistent_deletions consistent_DeleteDocument consistent_DeleteOrganization; assumption)) |
    (rule upkeep_stmt, (rule db_ok_statements stmt_CreateDocument_ok stmt_UpdateDocumentMeta_ok
        stmt_UpdateDocumentTaskStatus_ok stmt_DeleteDocumentTask_ok; assumption), (rule more_stmt; assumption)))+

section \<open>Every request\<close>

lemma upkeep_Register: "state_io_rel upkeep (Register E L p)"
  unfolding Register_def register_tx_def CreateOrganization_def CreateUser_def
  by (auto intro!: io_rel rel_ExecTx [where I = consistent, OF upkeep_def] upkeep.rel_exec upkeep_stmt db_ok_statements more_stmt split: sum.split)

interpretation upkeep: whole_server upkeep
  by unfold_locales (rule upkeep_Register keeping_upkeep [OF keeping_callbacks.HandleStatusUpdate_rel])+

section \<open>The running system\<close>

text \<open>
  What happens to the world: a request is served, the watchdog scans, time passes, and messages leave the queues
  (the Celery workers take them). A worker reports back by a request.
\<close>

definition scanning :: "config \<Rightarrow> watchdog_config" where
  "scanning c = \<lparr>WatchdogThreshold = cfg_WatchdogThreshold c, WatchdogMaxRetries = cfg_WatchdogMaxRetries c,
     WatchdogBatchSize = cfg_WatchdogBatchSize c\<rparr>"

inductive system_step :: "server \<Rightarrow> config \<Rightarrow> world \<Rightarrow> world \<Rightarrow> bool"
  for S :: server and c :: config where
  request: "run_state (serve S req) w = (r, w') \<Longrightarrow> system_step S c w w'"
| scan: "run_state (runOnce (sv_env S) (Process (sv_env S)) (scanning c) now) w = (r, w') \<Longrightarrow> system_step S c w w'"
| wait: "w_tick w \<le> n \<Longrightarrow> system_step S c w (w\<lparr>w_tick := n\<rparr>)"
| work: "w_redis w q = ms @ ns \<Longrightarrow> system_step S c w (w\<lparr>w_redis := (w_redis w)(q := ms)\<rparr>)"

lemma upkeep_step:
  assumes "wired S" and "system_step S c w w'"
  shows "upkeep w w'"
  using assms(2)
proof cases
  case (request req r)
  then show ?thesis by (rule rel_runD [OF upkeep.rel_serve [OF assms(1)]])
next
  case (scan now r)
  then show ?thesis by (rule rel_runD [OF keeping_upkeep [OF keeping.runOnce_rel]])
qed (simp_all add: upkeep_def)

text \<open>
  C5. The database stays consistent: in every state that the system reaches, whatever clients and workers
  request, whenever the watchdog scans, and whatever interactions fail half-way, all identifiers and
  unique columns are unique, every reference is to a row that is there and, where the schema says so,
  of the same organization, and the tree of sites has no cycle.
\<close>

theorem reachable_databases_are_consistent:
  assumes "NewServer E L X c = Inr S" and "consistent (w_db w0)" and "(system_step S c)\<^sup>*\<^sup>* w0 w"
  shows "consistent (w_db w)"
  using assms(3)
proof induction
  case (step v u)
  then show ?case using upkeep_step [OF NewServer_wired [OF assms(1)] step(2)] by (simp add: upkeep_def)
qed (rule assms(2))

lemma demo_consistent: "consistent demo_db"
proof -
  have tables: "construction_sites demo_db = []" "document_contract_kinds demo_db = []" "document_file_roles demo_db = []"
    "user_invitations demo_db = []" "site_audit_logs demo_db = []" "comparison_sessions demo_db = []"
    "comparison_session_documents demo_db = []"
    by (simp_all add: demo_db_def empty_db_def)
  have "more_ok demo_db"
    by (simp add: more_ok_def more_table_defs tables table_ok_def uniq_def site_parents_def user_ok_def file_ok_def
        user_checks_def document_triggers_def org_known_def org_user_exists_def org_document_exists_def
        demo_org_def demo_user_def demo_doc_def demo_md_def acyclic_def)
  then show ?thesis by (simp add: consistent_def)
qed

theorem reachable_databases_are_consistent_witness:
  "consistent (w_db (snd (run_state (serve demo_server
      (demo_req ''DELETE'' [''api'', ''v1'', ''documents'', ''3''] (Some ''admin-token''))) demo_world)))"
proof -
  have "(system_step demo_server demo_config)\<^sup>*\<^sup>* demo_world (snd (run_state (serve demo_server
      (demo_req ''DELETE'' [''api'', ''v1'', ''documents'', ''3''] (Some ''admin-token''))) demo_world))"
    by (rule r_into_rtranclp, rule system_step.request, rule surjective_pairing)
  moreover have "consistent (w_db demo_world)" by (simp only: demo_tables demo_consistent)
  ultimately show ?thesis by (rule reachable_databases_are_consistent [OF NewServer_demo, rotated])
qed

end
