(* ===== verification/Site_Theorems.thy ===== *)
theory Site_Theorems
  imports Site_Tree Upkeep
begin

text \<open>
  What the recursive queries of the database compute, on every database that the system reaches: the
  status of a site, the sites that an event dates, and that the recursions end.
\<close>

section \<open>The recursions end\<close>

text \<open>
  C25. The recursive queries end: on a consistent database the recursion down the tree of sites, the one
  up the tree and the cascade from a document to its artifacts find nothing more after as many levels as
  there are rows, which is the bound of the model, and the first meets no site twice.
\<close>

theorem recursive_queries_end:
  assumes "consistent d" and "set ids \<subseteq> set (map doc_id (documents d))"
  shows "site_subtree (construction_sites d) (length (construction_sites d) + k) i =
      site_subtree (construction_sites d) (length (construction_sites d)) i \<and>
    distinct (site_subtree (construction_sites d) (length (construction_sites d)) i) \<and>
    site_ancestors (construction_sites d) (length (construction_sites d) + k) i =
      site_ancestors (construction_sites d) (length (construction_sites d)) i \<and>
    set (doc_closure (documents d) (length (documents d) + k) ids) =
      set (doc_closure (documents d) (length (documents d)) ids)"
proof -
  have tree: "tree_ok (construction_sites d)"
    using assms(1) by (auto simp: consistent_def more_ok_def intro: sites_ok_tree)
  show ?thesis
    using site_subtree_fuel [OF tree bounded(5) [OF tree]] distinct_site_subtree [OF tree bounded(5) [OF tree]]
      site_ancestors_enough [OF tree] doc_closure_enough [OF assms(2)]
    by simp
qed

section \<open>Status of a site\<close>

text \<open>
  C24. The status of a site is that of the leaves of the tree below it: \<open>GetSiteStatus\<close> counts each leaf once
  under its own status, the counts add up to the number of leaves, at least one, and the site needs
  attention as soon as one leaf does, else is processing as soon as one is, else is ready
  as soon as one is, else is empty. The tree is the relation between parents and children alone.
\<close>

theorem site_status_is_that_of_its_leaves:
  assumes "consistent (w_db w)" and "run_state (GetSiteStatus E i o') w = (Inr v, w')"
  shows "vs_site_id v = i \<and> vs_organization_id v = o' \<and> status_spec (w_db w) v \<and>
    vs_children_ready v + vs_children_processing v + vs_children_attention v + vs_children_empty v =
      card (leaves_below (construction_sites (w_db w)) i) \<and>
    leaves_below (construction_sites (w_db w)) i \<noteq> {}"
proof -
  have sites: "sites_ok (w_db w)" using assms(1) by (simp add: consistent_def more_ok_def)
  have "v \<in> set (v_site_statuses (w_db w))" and v: "vs_site_id v = i" "vs_organization_id v = o'"
    using exec_Inr [OF assms(2) [unfolded GetSiteStatus_def]] by (auto dest: find_Some_iff_mem)
  then have "status_spec (w_db w) v"
    using site_status_row_spec [OF sites] by (auto simp: v_site_statuses_def)
  then show ?thesis
    using v all_leaves_counted [OF sites, of i] leaves_below_some [OF sites_ok_tree [OF sites]]
    by (simp add: status_spec_def)
qed

section \<open>Activity of a site\<close>

text \<open>
  C26. A new document dates the activity of its site and of every site above it, with the time of its own
  creation, and leaves every other site as it is.
\<close>

theorem document_dates_the_sites_above:
  assumes "consistent (w_db w)" and "run_state (CreateDocument E p) w = (Inr x, w')"
  shows "construction_sites (w_db w') =
    map (\<lambda>s. if \<exists>i. cd_SiteID p = Some i \<and> (site_id s, i) \<in> (site_parents (construction_sites (w_db w)))\<^sup>*
              then s\<lparr>site_last_activity_at := doc_created_at x, site_updated_at := doc_created_at x\<rparr> else s)
      (construction_sites (w_db w))"
proof -
  let ?d = "(w_db w)\<lparr>documents := documents (w_db w) @ [x]\<rparr>"
  have tree: "tree_ok (construction_sites ?d)"
    using assms(1) by (auto simp: consistent_def more_ok_def intro: sites_ok_tree)
  have "w_db w' = propagate_site_activity (doc_site_id x) (doc_created_at x) ?d" and site: "doc_site_id x = cd_SiteID p"
    using exec_Inr [OF assms(2) [unfolded CreateDocument_def]]
    by (auto simp: stmt_CreateDocument_def insert_document_def new_document_def split: option.splits)
  then show ?thesis
    using propagate_dates_ancestors [OF tree]
    by (cases "cd_SiteID p") (simp_all add: propagate_site_activity_def [of None])
qed

section \<open>Examples\<close>

text \<open>A site with two parts.\<close>

definition demo_site :: "uuid \<Rightarrow> uuid option \<Rightarrow> construction_site" where
  "demo_site i p = new_site i 1 1 p ''site'' ''active'' (Some 2)"

definition sites_db :: db where
  "sites_db = demo_db\<lparr>construction_sites := [demo_site 40 None, demo_site 41 (Some 40), demo_site 42 (Some 40)]\<rparr>"

definition sites_world :: world where
  "sites_world = demo_world\<lparr>w_db := sites_db\<rparr>"

lemma sites_world_db [simp]: "w_db sites_world = sites_db"
  by (simp add: sites_world_def)

lemma sites_consistent: "consistent sites_db"
proof -
  have parents: "site_parents (construction_sites sites_db) = {(40, 41), (40, 42)}"
    by (auto simp: site_parents_def sites_db_def demo_site_def new_site_def)
  have "acyclic (site_parents (construction_sites sites_db))"
    by (rule wf_acyclic, rule wf_subset [of "measure (\<lambda>i. if i = 40 then 0 else 1)"]) (auto simp: parents)
  moreover have "table_ok site_id no_index (site_ok sites_db) (construction_sites sites_db)"
    by (simp add: table_ok_def sites_db_def site_ok_def demo_site_def new_site_def site_checks_def org_known_def
        org_site_exists_def org_user_exists_def demo_user_def demo_org_def)
  ultimately have "sites_ok sites_db" by (simp add: sites_ok_def)
  moreover have "keeps_refs demo_db sites_db" by (auto simp: keeps_refs_def sites_db_def demo_db_def empty_db_def)
  ultimately have "more_ok sites_db"
    using demo_consistent kept_tables [of demo_db sites_db]
    by (simp add: consistent_def more_ok_def organizations_ok_def sites_db_def)
  moreover have "db_ok sites_db" using demo_consistent by (simp add: consistent_def sites_db_def)
  ultimately show ?thesis by (simp add: consistent_def)
qed

theorem recursive_queries_end_witness:
  "site_subtree (construction_sites sites_db) (length (construction_sites sites_db) + 5) 40 =
      site_subtree (construction_sites sites_db) (length (construction_sites sites_db)) 40 \<and>
    set (doc_closure (documents sites_db) (length (documents sites_db) + 5) [3]) =
      set (doc_closure (documents sites_db) (length (documents sites_db)) [3])"
  using recursive_queries_end [OF sites_consistent, of "[3]" 5 40] by (simp add: sites_db_def demo_doc_def)

text \<open>The service answers for every site.\<close>

lemma run_GetSiteStatus:
  assumes "db_calm E" and "sites_ok (w_db w)"
    and "s \<in> set (construction_sites (w_db w))" "site_id s = i" "site_organization_id s = o'"
  shows "\<exists>v. run_state (GetSiteStatus E i o') w = (Inr v, w\<lparr>w_tick := Suc (w_tick w)\<rparr>)"
proof -
  have "site_leaves (construction_sites (w_db w)) j \<noteq> []" for j
    using site_leaves_set(1) leaves_below_some sites_ok_tree [OF assms(2)] by (metis empty_set)
  then have "site_status_row (w_db w) s \<in> set (v_site_statuses (w_db w))"
    using assms(3) by (auto simp: v_site_statuses_def)
  moreover have "vs_site_id (site_status_row (w_db w) s) = i \<and> vs_organization_id (site_status_row (w_db w) s) = o'"
    using assms(4,5) by (simp add: site_status_row_def Let_def)
  ultimately obtain v where "find (\<lambda>v. vs_site_id v = i \<and> vs_organization_id v = o') (v_site_statuses (w_db w)) = Some v"
    by (metis (mono_tags, lifting) find_None_iff not_Some_eq)
  then show ?thesis using assms(1) by (auto simp: GetSiteStatus_def run_sel_one)
qed

theorem site_status_is_that_of_its_leaves_witness:
  "\<exists>v w'. run_state (GetSiteStatus demo_env 40 1) sites_world = (Inr v, w') \<and> status_spec sites_db v \<and>
    vs_children_ready v + vs_children_processing v + vs_children_attention v + vs_children_empty v =
      card (leaves_below (construction_sites sites_db) 40)"
proof -
  have "sites_ok (w_db sites_world)" using sites_consistent by (simp add: consistent_def more_ok_def)
  moreover have "demo_site 40 None \<in> set (construction_sites (w_db sites_world))"
    "site_id (demo_site 40 None) = 40" "site_organization_id (demo_site 40 None) = 1"
    by (simp_all add: sites_db_def demo_site_def new_site_def)
  ultimately have "\<exists>v. run_state (GetSiteStatus demo_env 40 1) sites_world =
      (Inr v, sites_world\<lparr>w_tick := Suc (w_tick sites_world)\<rparr>)"
    by (intro run_GetSiteStatus) simp_all
  then obtain v where v: "run_state (GetSiteStatus demo_env 40 1) sites_world =
      (Inr v, sites_world\<lparr>w_tick := Suc (w_tick sites_world)\<rparr>)" by blast
  moreover have "consistent (w_db sites_world)" by (simp add: sites_consistent)
  ultimately show ?thesis using site_status_is_that_of_its_leaves by fastforce
qed

definition site_file :: create_document_params where
  "site_file = \<lparr>cd_OrganizationID = 1, cd_SiteID = Some 41, cd_UploadedBy = 2, cd_ParentID = None,
     cd_FileName = ''a'', cd_StoragePath = ''o/a'', cd_MimeType = None, cd_FileSizeBytes = None, cd_ArtifactKind = None\<rparr>"

theorem document_dates_the_sites_above_witness:
  "\<exists>x w'. run_state (CreateDocument demo_env site_file) sites_world = (Inr x, w') \<and>
    construction_sites (w_db w') =
      map (\<lambda>s. if (site_id s, 41) \<in> (site_parents (construction_sites sites_db))\<^sup>*
                then s\<lparr>site_last_activity_at := doc_created_at x, site_updated_at := doc_created_at x\<rparr> else s)
        (construction_sites sites_db)"
proof -
  have "\<exists>x w'. run_state (CreateDocument demo_env site_file) sites_world = (Inr x, w')"
    by (simp add: CreateDocument_def run_exec_demo stmt_CreateDocument_def insert_document_def new_document_def
        site_file_def sites_world_def sites_db_def document_triggers_def document_checks_def document_keys_def
        index_conflict_def artifact_key_def org_user_exists_def org_site_exists_def demo_site_def new_site_def demo_defs
        checks_hold_def)
  then obtain x w' where x: "run_state (CreateDocument demo_env site_file) sites_world = (Inr x, w')" by blast
  moreover have "consistent (w_db sites_world)" by (simp add: sites_consistent)
  ultimately show ?thesis
    using document_dates_the_sites_above [OF _ x] by (auto simp: site_file_def)
qed

end
