(* ===== verification/Isolation.thy ===== *)
theory Isolation
  imports Upkeep
begin

text \<open>
  Tenants do not write to each other's rows. \<open>others\<close> is the database as it is without the rows of one
  organization; a request with a token of this organization leaves it as it is.
\<close>

section \<open>The rows of the others\<close>

text \<open>
  A task belongs to the organization of its document and to that of its request. Who invited, who acted
  and who created is left out: these columns may name a user of another organization, and
  become null when that user goes.
\<close>

definition task_of_org :: "db \<Rightarrow> uuid \<Rightarrow> document_task \<Rightarrow> bool" where
  "task_of_org d o' t \<longleftrightarrow> task_in_org d o' t \<or>
     list_ex (\<lambda>r. req_organization_id r = o' \<and> task_extraction_request_id t = Some (req_id r)) (extraction_requests d)"

definition others :: "uuid \<Rightarrow> db \<Rightarrow> db" where
  "others o' d = d\<lparr>
     organizations := filter (\<lambda>x. org_id x \<noteq> o') (organizations d),
     users := filter (\<lambda>x. usr_organization_id x \<noteq> Some o') (users d),
     construction_sites := filter (\<lambda>x. site_organization_id x \<noteq> o') (construction_sites d),
     documents := filter (\<lambda>x. doc_organization_id x \<noteq> o') (documents d),
     document_tasks := filter (\<lambda>t. \<not> task_of_org d o' t) (document_tasks d),
     extraction_requests := filter (\<lambda>r. req_organization_id r \<noteq> o') (extraction_requests d),
     extraction_keys := filter (\<lambda>k. key_organization_id k \<noteq> Some o') (extraction_keys d),
     document_extracted_data := filter (\<lambda>x. dat_organization_id x \<noteq> o') (document_extracted_data d),
     document_contract_kinds := filter (\<lambda>x. cat_organization_id x \<noteq> Some o') (document_contract_kinds d),
     document_file_roles := filter (\<lambda>x. cat_organization_id x \<noteq> Some o') (document_file_roles d),
     user_invitations := map (\<lambda>x. x\<lparr>inv_invited_by := None\<rparr>)
       (filter (\<lambda>x. inv_organization_id x \<noteq> o') (user_invitations d)),
     site_audit_logs := map (\<lambda>x. x\<lparr>audit_actor_user_id := None\<rparr>)
       (filter (\<lambda>x. audit_organization_id x \<noteq> o') (site_audit_logs d)),
     comparison_sessions := map (\<lambda>x. x\<lparr>cs_created_by := None\<rparr>)
       (filter (\<lambda>x. cs_organization_id x \<noteq> o') (comparison_sessions d)),
     comparison_session_documents := filter (\<lambda>x. csd_organization_id x \<noteq> o') (comparison_session_documents d)\<rparr>"

definition isolated :: "uuid \<Rightarrow> world \<Rightarrow> world \<Rightarrow> bool" where
  "isolated o' w w' \<longleftrightarrow> (consistent (w_db w) \<longrightarrow>
     consistent (w_db w') \<and> others o' (w_db w') = others o' (w_db w))"

lemma others_eqI:
  assumes "filter (\<lambda>x. org_id x \<noteq> o') (organizations d') = filter (\<lambda>x. org_id x \<noteq> o') (organizations d)"
    "filter (\<lambda>x. usr_organization_id x \<noteq> Some o') (users d') = filter (\<lambda>x. usr_organization_id x \<noteq> Some o') (users d)"
    "filter (\<lambda>x. site_organization_id x \<noteq> o') (construction_sites d') =
      filter (\<lambda>x. site_organization_id x \<noteq> o') (construction_sites d)"
    "filter (\<lambda>x. doc_organization_id x \<noteq> o') (documents d') = filter (\<lambda>x. doc_organization_id x \<noteq> o') (documents d)"
    "filter (\<lambda>t. \<not> task_of_org d' o' t) (document_tasks d') = filter (\<lambda>t. \<not> task_of_org d o' t) (document_tasks d)"
    "filter (\<lambda>r. req_organization_id r \<noteq> o') (extraction_requests d') =
      filter (\<lambda>r. req_organization_id r \<noteq> o') (extraction_requests d)"
    "filter (\<lambda>k. key_organization_id k \<noteq> Some o') (extraction_keys d') =
      filter (\<lambda>k. key_organization_id k \<noteq> Some o') (extraction_keys d)"
    "filter (\<lambda>x. dat_organization_id x \<noteq> o') (document_extracted_data d') =
      filter (\<lambda>x. dat_organization_id x \<noteq> o') (document_extracted_data d)"
    "filter (\<lambda>x. cat_organization_id x \<noteq> Some o') (document_contract_kinds d') =
      filter (\<lambda>x. cat_organization_id x \<noteq> Some o') (document_contract_kinds d)"
    "filter (\<lambda>x. cat_organization_id x \<noteq> Some o') (document_file_roles d') =
      filter (\<lambda>x. cat_organization_id x \<noteq> Some o') (document_file_roles d)"
    "map (\<lambda>x. x\<lparr>inv_invited_by := None\<rparr>) (filter (\<lambda>x. inv_organization_id x \<noteq> o') (user_invitations d')) =
      map (\<lambda>x. x\<lparr>inv_invited_by := None\<rparr>) (filter (\<lambda>x. inv_organization_id x \<noteq> o') (user_invitations d))"
    "map (\<lambda>x. x\<lparr>audit_actor_user_id := None\<rparr>) (filter (\<lambda>x. audit_organization_id x \<noteq> o') (site_audit_logs d')) =
      map (\<lambda>x. x\<lparr>audit_actor_user_id := None\<rparr>) (filter (\<lambda>x. audit_organization_id x \<noteq> o') (site_audit_logs d))"
    "map (\<lambda>x. x\<lparr>cs_created_by := None\<rparr>) (filter (\<lambda>x. cs_organization_id x \<noteq> o') (comparison_sessions d')) =
      map (\<lambda>x. x\<lparr>cs_created_by := None\<rparr>) (filter (\<lambda>x. cs_organization_id x \<noteq> o') (comparison_sessions d))"
    "filter (\<lambda>x. csd_organization_id x \<noteq> o') (comparison_session_documents d') =
      filter (\<lambda>x. csd_organization_id x \<noteq> o') (comparison_session_documents d)"
  shows "others o' d' = others o' d"
  unfolding others_def assms by simp

section \<open>Lists\<close>

lemma filter_put_row:
  "(\<And>z. z \<in> set rs \<Longrightarrow> k z = k y \<Longrightarrow> \<not> p z) \<Longrightarrow> \<not> p y \<Longrightarrow> filter p (put_row k y rs) = filter p rs"
  by (induction rs) (simp_all add: put_row_Cons)

lemma filter_upd_where:
  "(\<And>z. z \<in> set rs \<Longrightarrow> q z \<Longrightarrow> \<not> p z \<and> \<not> p (f z)) \<Longrightarrow> filter p (upd_where q f rs) = filter p rs"
  by (induction rs) (simp_all add: upd_where_def)

lemma filter_map_del:
  "(\<And>z. p (f z) = p z) \<Longrightarrow> (\<And>z. z \<in> set rs \<Longrightarrow> p z \<Longrightarrow> \<not> q z \<and> h (f z) = h z) \<Longrightarrow>
   map h (filter p (map f (del_where q rs))) = map h (filter p rs)"
  by (induction rs) (auto simp: del_where_def)

lemma filter_map_del':
  "(\<And>z. p (f z) = p z) \<Longrightarrow> (\<And>z. z \<in> set rs \<Longrightarrow> p z \<Longrightarrow> \<not> q z \<and> f z = z) \<Longrightarrow>
   filter p (map f (del_where q rs)) = filter p rs"
  using filter_map_del [of p f rs q "\<lambda>x. x"] by simp

lemma filter_del_where: "(\<And>z. z \<in> set rs \<Longrightarrow> p z \<Longrightarrow> \<not> q z) \<Longrightarrow> filter p (del_where q rs) = filter p rs"
  using filter_map_del [of p "\<lambda>x. x" rs q "\<lambda>x. x"] by simp

section \<open>Statements on one table\<close>

lemma task_of_org_tables [simp]:
  "task_of_org (d\<lparr>organizations := os\<rparr>) = task_of_org d" "task_of_org (d\<lparr>users := us\<rparr>) = task_of_org d"
  "task_of_org (d\<lparr>construction_sites := ss\<rparr>) = task_of_org d" "task_of_org (d\<lparr>document_tasks := ts\<rparr>) = task_of_org d"
  "task_of_org (d\<lparr>document_contract_kinds := es\<rparr>) = task_of_org d"
  "task_of_org (d\<lparr>document_file_roles := fs\<rparr>) = task_of_org d"
  "task_of_org (d\<lparr>user_invitations := is\<rparr>) = task_of_org d" "task_of_org (d\<lparr>comparison_sessions := cs\<rparr>) = task_of_org d"
  "task_of_org (d\<lparr>comparison_session_documents := ps\<rparr>) = task_of_org d"
  by (simp_all add: fun_eq_iff task_of_org_def task_in_org_def org_document_exists_def)

lemma others_set:
  "filter (\<lambda>x. org_id x \<noteq> o') os = filter (\<lambda>x. org_id x \<noteq> o') (organizations d) \<Longrightarrow>
    others o' (d\<lparr>organizations := os\<rparr>) = others o' d"
  "filter (\<lambda>x. usr_organization_id x \<noteq> Some o') us = filter (\<lambda>x. usr_organization_id x \<noteq> Some o') (users d) \<Longrightarrow>
    others o' (d\<lparr>users := us\<rparr>) = others o' d"
  "filter (\<lambda>x. site_organization_id x \<noteq> o') ss = filter (\<lambda>x. site_organization_id x \<noteq> o') (construction_sites d) \<Longrightarrow>
    others o' (d\<lparr>construction_sites := ss\<rparr>) = others o' d"
  "filter (\<lambda>t. \<not> task_of_org d o' t) ts = filter (\<lambda>t. \<not> task_of_org d o' t) (document_tasks d) \<Longrightarrow>
    others o' (d\<lparr>document_tasks := ts\<rparr>) = others o' d"
  "filter (\<lambda>x. cat_organization_id x \<noteq> Some o') es = filter (\<lambda>x. cat_organization_id x \<noteq> Some o') (document_contract_kinds d) \<Longrightarrow>
    others o' (d\<lparr>document_contract_kinds := es\<rparr>) = others o' d"
  "filter (\<lambda>x. cat_organization_id x \<noteq> Some o') es = filter (\<lambda>x. cat_organization_id x \<noteq> Some o') (document_file_roles d) \<Longrightarrow>
    others o' (d\<lparr>document_file_roles := es\<rparr>) = others o' d"
  "filter (\<lambda>x. inv_organization_id x \<noteq> o') is = filter (\<lambda>x. inv_organization_id x \<noteq> o') (user_invitations d) \<Longrightarrow>
    others o' (d\<lparr>user_invitations := is\<rparr>) = others o' d"
  "filter (\<lambda>x. cs_organization_id x \<noteq> o') cs = filter (\<lambda>x. cs_organization_id x \<noteq> o') (comparison_sessions d) \<Longrightarrow>
    others o' (d\<lparr>comparison_sessions := cs\<rparr>) = others o' d"
  "filter (\<lambda>x. csd_organization_id x \<noteq> o') ps = filter (\<lambda>x. csd_organization_id x \<noteq> o') (comparison_session_documents d) \<Longrightarrow>
    others o' (d\<lparr>comparison_session_documents := ps\<rparr>) = others o' d"
  by (simp_all add: others_def)

text \<open>Insertions of an own row, updates and deletions of own rows.\<close>

lemma others_inserted:
  "(\<And>rs. rs = rows d @ [r] \<Longrightarrow> others o' (put rs d) = others o' d) \<Longrightarrow> others o' (snd (insert_row cs rows put r d)) = others o' d"
  by (simp add: snd_insert_row)

lemma others_updated:
  assumes "distinct (map k (rows d))" and "\<And>x. k (f x) = k x" and "\<And>x. q x \<Longrightarrow> own x \<and> own (f x)"
    and "\<And>rs. filter (\<lambda>x. \<not> own x) rs = filter (\<lambda>x. \<not> own x) (rows d) \<Longrightarrow> others o' (put rs d) = others o' d"
  shows "others o' (snd (update_row cs rows put k q f d)) = others o' d"
proof (cases rule: update_row_cases [of cs rows put k q f d])
  case (updated x)
  have "filter (\<lambda>x. \<not> own x) (put_row k (f x) (rows d)) = filter (\<lambda>x. \<not> own x) (rows d)"
  proof (rule filter_put_row)
    show "\<not> \<not> own z" if "z \<in> set (rows d)" "k z = k (f x)" for z
      using distinct_key_inj [OF assms(1) that(1) updated(1)] that(2) assms(2,3) updated(2) by simp
  qed (use assms(3) updated(2) in simp)
  then show ?thesis using assms(4) updated(4) by simp
qed simp

lemma others_deleted:
  "(\<And>x. q x \<Longrightarrow> own x) \<Longrightarrow>
   (\<And>rs. filter (\<lambda>x. \<not> own x) rs = filter (\<lambda>x. \<not> own x) (rows d) \<Longrightarrow> others o' (put rs d) = others o' d) \<Longrightarrow>
   others o' (snd (delete_rows rows put q d)) = others o' d"
  unfolding delete_rows_def snd_conv by (erule meta_allE [of _ "del_where q (rows d)"], erule meta_mp)
    (auto intro: filter_del_where)

lemma table_ids: "table_ok k us p rs \<Longrightarrow> distinct (map k rs)"
  by (simp add: table_ok_def)

named_theorems others_stmt

lemma others_accounts [others_stmt]:
  assumes "consistent d"
  shows "others o' (snd (stmt_UpdateOrganization o' nm inn b g t d)) = others o' d"
    "others o' (snd (stmt_CreateUser (Some o') em h full role g t d)) = others o' d"
    "others o' (snd (stmt_UpdateUser i o' ro act g t d)) = others o' d"
    "others o' (snd (stmt_CreateUserInvitation o' em role by' h ex g t d)) = others o' d"
    "others o' (snd (stmt_DeleteUserInvitation i o' g t d)) = others o' d"
proof -
  note tabs = more_tables(1-9) [OF consistentD(2) [OF assms], THEN table_ids]
  show "others o' (snd (stmt_UpdateOrganization o' nm inn b g t d)) = others o' d"
    unfolding stmt_UpdateOrganization_def
    by (rule others_updated [where own = "\<lambda>x. org_id x = o'"], rule tabs(1)) (auto intro: others_set)
  show "others o' (snd (stmt_CreateUser (Some o') em h full role g t d)) = others o' d"
    unfolding stmt_CreateUser_def Let_def by (rule others_inserted) (simp add: others_set new_user_def)
  show "others o' (snd (stmt_CreateUserInvitation o' em role by' h ex g t d)) = others o' d"
    unfolding stmt_CreateUserInvitation_def Let_def by (rule others_inserted) (simp add: others_set new_invitation_def)
  show "others o' (snd (stmt_DeleteUserInvitation i o' g t d)) = others o' d"
    unfolding stmt_DeleteUserInvitation_def
    by (rule others_deleted [where own = "\<lambda>x. inv_organization_id x = o'"]) (auto intro: others_set)
  have "others o' (snd (update_row user_checks users (\<lambda>rs. users_update (\<lambda>_. rs)) usr_id
      (\<lambda>x. usr_id x = i \<and> usr_organization_id x = Some o')
      (\<lambda>x. x\<lparr>usr_role := coalesce ro (usr_role x),
               usr_is_active := coalesce act (usr_is_active x), usr_updated_at := t\<rparr>) d)) = others o' d"
    by (rule others_updated [where own = "\<lambda>x. usr_organization_id x = Some o'"], rule tabs(2)) (auto intro: others_set)
  then show "others o' (snd (stmt_UpdateUser i o' ro act g t d)) = others o' d"
    by (auto simp: stmt_UpdateUser_def split: prod.splits sum.splits)
qed

lemma others_CreateConstructionSite [others_stmt]:
  "sp_OrganizationID sp = o' \<Longrightarrow> others o' (snd (stmt_CreateConstructionSite sp g t d)) = others o' d"
  unfolding stmt_CreateConstructionSite_def Let_def by (rule others_inserted) (simp add: others_set new_site_def)

lemma others_sites [others_stmt]:
  assumes "consistent d"
  shows "others o' (snd (stmt_UpdateConstructionSite i o' nm st g t d)) = others o' d"
    "others o' (snd (stmt_UpdateConstructionSiteCover i o' path g t d)) = others o' d"
    "others o' (snd (stmt_UpdateConstructionSiteType i o' path g t d)) = others o' d"
  unfolding stmt_UpdateConstructionSite_def stmt_UpdateConstructionSiteCover_def stmt_UpdateConstructionSiteType_def
    update_site_def
  by (rule others_updated [where own = "\<lambda>x. site_organization_id x = o'"],
      rule more_tables(3) [OF consistentD(2) [OF assms], THEN table_ids]; auto intro: others_set)+

lemma others_catalogs [others_stmt]:
  assumes "consistent d"
  shows "others o' (snd (stmt_CreateContractKind (Some o') nm ord active g t d)) = others o' d"
    "others o' (snd (stmt_UpdateContractKind i o' nm ord active g t d)) = others o' d"
    "others o' (snd (stmt_CreateFileRole (Some o') nm ord active g t d)) = others o' d"
    "others o' (snd (stmt_UpdateFileRole i o' nm ord active g t d)) = others o' d"
proof -
  note tabs = more_tables(4,5) [OF consistentD(2) [OF assms], THEN table_ids]
  show "others o' (snd (stmt_CreateContractKind (Some o') nm ord active g t d)) = others o' d"
    "others o' (snd (stmt_CreateFileRole (Some o') nm ord active g t d)) = others o' d"
    unfolding stmt_CreateContractKind_def stmt_CreateFileRole_def create_entry_def Let_def
    by (rule others_inserted; simp add: others_set new_entry_def)+
  show "others o' (snd (stmt_UpdateContractKind i o' nm ord active g t d)) = others o' d"
    "others o' (snd (stmt_UpdateFileRole i o' nm ord active g t d)) = others o' d"
    unfolding stmt_UpdateContractKind_def stmt_UpdateFileRole_def update_entry_def
    by (rule others_updated [where own = "\<lambda>x. cat_organization_id x = Some o'"], rule tabs; auto intro: others_set)+
qed

lemma others_sessions [others_stmt]:
  "others o' (snd (stmt_CreateComparisonSession o' by' title kind g t d)) = others o' d"
  "others o' (snd (stmt_RemoveDocumentFromComparisonSession i doc o' g t d)) = others o' d"
proof -
  show "others o' (snd (stmt_CreateComparisonSession o' by' title kind g t d)) = others o' d"
    unfolding stmt_CreateComparisonSession_def Let_def by (rule others_inserted) (simp add: others_set new_session_def)
  show "others o' (snd (stmt_RemoveDocumentFromComparisonSession i doc o' g t d)) = others o' d"
    unfolding stmt_RemoveDocumentFromComparisonSession_def
    by (rule others_deleted [where own = "\<lambda>x. csd_organization_id x = o'"]) (auto intro: others_set)
qed

text \<open>An own session has own places only, so an update in place is one of an own row.\<close>

lemma others_AddDocument:
  assumes ok: "consistent d" and session: "org_session_exists d i o'"
  shows "others o' (snd (stmt_AddDocumentToComparisonSession i doc o' pos g t d)) = others o' d"
proof -
  note tabs = more_tables [OF consistentD(2) [OF ok]]
  let ?key = "(i, doc)"
  have own: "csd_organization_id y = o'" if y: "y \<in> set (comparison_session_documents d)" "place_key y = ?key" for y
  proof -
    have "org_session_exists d i (csd_organization_id y)"
      using table_ok_row [OF tabs(9) y(1)] y(2) by (simp add: place_ok_def place_key_def)
    then obtain s s' where "s \<in> set (comparison_sessions d)" "cs_id s = i" "cs_organization_id s = csd_organization_id y"
        "s' \<in> set (comparison_sessions d)" "cs_id s' = i" "cs_organization_id s' = o'"
      using session by (auto simp: org_session_exists_def list_ex_iff)
    then show ?thesis using table_ok_key [OF tabs(8), of s s'] by simp
  qed
  show ?thesis
  proof (cases "find (\<lambda>y. place_key y = ?key) (comparison_session_documents d)")
    case None
    then show ?thesis
      by (auto simp: stmt_AddDocumentToComparisonSession_def place_key_def snd_insert_row intro!: others_set)
  next
    case (Some y)
    then have y: "y \<in> set (comparison_session_documents d)" "place_key y = ?key" by (auto dest: find_Some_iff_mem)
    let ?y = "y\<lparr>csd_position := pos\<rparr>"
    have "filter (\<lambda>x. csd_organization_id x \<noteq> o') (put_row place_key ?y (comparison_session_documents d)) =
        filter (\<lambda>x. csd_organization_id x \<noteq> o') (comparison_session_documents d)"
      using own y by (intro filter_put_row) (auto simp: place_key_def)
    then show ?thesis using Some by (simp add: stmt_AddDocumentToComparisonSession_def place_key_def others_set)
  qed
qed


section \<open>Tasks\<close>

lemma task_in_org_own: "task_in_org d o' x \<Longrightarrow> task_of_org d o' x"
  by (simp add: task_of_org_def)

lemma task_of_org_same:
  "task_document_id y = task_document_id x \<Longrightarrow> task_extraction_request_id y = task_extraction_request_id x \<Longrightarrow>
   task_of_org d o' y = task_of_org d o' x"
  by (simp add: task_of_org_def task_in_org_def)

lemma others_put_task:
  assumes "consistent d" and "x \<in> set (document_tasks d)" and "task_of_org d o' x" and "same_task x y"
  shows "others o' (d\<lparr>document_tasks := put_row task_id y (document_tasks d)\<rparr>) = others o' d"
proof (rule others_set(4), rule filter_put_row)
  note ids = db_ok_distinct(1) [OF consistentD(1) [OF assms(1)]]
  show "\<not> \<not> task_of_org d o' z" if "z \<in> set (document_tasks d)" "task_id z = task_id y" for z
    using distinct_key_inj [OF ids that(1) assms(2)] that(2) assms(3,4) by (simp add: same_task_def)
  show "\<not> \<not> task_of_org d o' y" using assms(3,4) task_of_org_same [of y x] by (simp add: same_task_def)
qed

lemma others_update_task:
  assumes "consistent d" and "\<And>x. same_task x (f x)"
    and "\<And>x. x \<in> set (document_tasks d) \<Longrightarrow> p x \<Longrightarrow> task_of_org d o' x"
  shows "others o' (snd (update_task p f d)) = others o' d"
proof (cases "find p (document_tasks d)")
  case (Some x)
  then have "x \<in> set (document_tasks d)" "p x" by (auto dest: find_Some_iff_mem)
  then show ?thesis
    using Some others_put_task [OF assms(1) _ assms(3) assms(2)] by (simp add: update_task_def split: option.split)
qed (simp add: update_task_def)

lemma others_insert_task:
  "task_of_org d o' x \<Longrightarrow> others o' (snd (insert_task x d)) = others o' d"
  by (auto simp: insert_task_def split: option.split intro: others_set)

lemma others_insert_or_nothing:
  "task_of_org d o' x \<Longrightarrow> others o' (snd (insert_task_or_nothing key x d)) = others o' d"
  by (auto simp: insert_task_or_nothing_def others_insert_task split: option.split)

lemma others_tasks [others_stmt]:
  assumes "consistent d"
  shows "others o' (snd (stmt_UpdateDocumentTaskStatus i o' st g t d)) = others o' d"
    "others o' (snd (stmt_DeleteDocumentTask i o' g t d)) = others o' d"
    "others o' (snd (stmt_CreateDocumentTask doc m o' g t d)) = others o' d"
proof -
  show "others o' (snd (stmt_UpdateDocumentTaskStatus i o' st g t d)) = others o' d"
    unfolding stmt_UpdateDocumentTaskStatus_def
    by (rule others_update_task [OF assms]) (simp_all add: same_task_def task_in_org_own)
  show "others o' (snd (stmt_DeleteDocumentTask i o' g t d)) = others o' d"
    unfolding stmt_DeleteDocumentTask_def Let_def snd_conv
    by (rule others_set(4), rule filter_del_where) (auto dest: task_in_org_own)
  show "others o' (snd (stmt_CreateDocumentTask doc m o' g t d)) = others o' d"
    by (auto simp: stmt_CreateDocumentTask_def task_of_org_def task_in_org_def new_task_def org_document_exists_def
        list_ex_iff split: option.split intro!: others_insert_task dest!: find_Some_iff_mem)
qed

section \<open>Documents\<close>

text \<open>A site above an own site is an own site, so a document dates own sites only.\<close>

lemma own_ancestors:
  assumes ok: "sites_ok d" and "org_site_exists d i o'" and "s \<in> set (construction_sites d)"
    and "site_id s \<in> set (site_ancestors (construction_sites d) n i)"
  shows "site_organization_id s = o'"
  using assms(2,4)
proof (induction n arbitrary: i)
  case (Suc n)
  have sites: "table_ok site_id no_index (site_ok d) (construction_sites d)" using ok by (simp add: sites_ok_def)
  obtain x where x: "find (\<lambda>x. site_id x = i) (construction_sites d) = Some x"
    using Suc.prems(2) by (cases "find (\<lambda>x. site_id x = i) (construction_sites d)") simp_all
  then have x': "x \<in> set (construction_sites d)" "site_id x = i" by (auto dest: find_Some_iff_mem)
  have org: "site_organization_id x = o'"
    using Suc.prems(1) table_ok_key [OF sites _ x'(1)] x'(2) by (auto simp: org_site_exists_def list_ex_iff)
  show ?case
  proof (cases "site_id s = i")
    case True
    then have "s = x" by (intro table_ok_key [OF sites assms(3) x'(1)]) (simp add: x')
    then show ?thesis using org by simp
  next
    case False
    then obtain p where p: "site_parent_id x = Some p" "site_id s \<in> set (site_ancestors (construction_sites d) n p)"
      using Suc.prems(2) x by (cases "site_parent_id x") simp_all
    then have "org_site_exists d p o'" using table_ok_row [OF sites x'(1)] org by (simp add: site_ok_def)
    then show ?thesis using Suc.IH p(2) by blast
  qed
qed simp

lemma propagate_other_tables [simp]:
  "task_of_org (propagate_site_activity v t d) = task_of_org d"
  by (simp add: propagate_site_activity_def Let_def split: option.split)

lemma others_propagate:
  assumes "sites_ok d" and "null_or (\<lambda>i. org_site_exists d i o') v"
  shows "others o' (propagate_site_activity v t d) = others o' d"
proof (cases v)
  case (Some i)
  have "filter (\<lambda>x. site_organization_id x \<noteq> o') (upd_where (\<lambda>x. site_id x \<in> set (site_ancestors
      (construction_sites d) (length (construction_sites d)) i)) f (construction_sites d)) =
      filter (\<lambda>x. site_organization_id x \<noteq> o') (construction_sites d)"
    if "\<And>x. site_organization_id (f x) = site_organization_id x" for f
    using own_ancestors [OF assms(1), of i o'] assms(2) Some that by (intro filter_upd_where) auto
  then show ?thesis using Some by (simp add: propagate_site_activity_def Let_def others_set)
qed (simp add: propagate_site_activity_def)

text \<open>A new document makes no task that is there the organization's, since tasks refer to documents that are there.\<close>

lemma others_new_document:
  assumes "consistent d" and "doc_organization_id x = o'" and "doc_id x \<notin> set (map doc_id (documents d))"
  shows "others o' (d\<lparr>documents := documents d @ [x]\<rparr>) = others o' d"
proof -
  have "task_of_org (d\<lparr>documents := documents d @ [x]\<rparr>) o' y = task_of_org d o' y" if "y \<in> set (document_tasks d)" for y
  proof -
    have "document_exists d (task_document_id y)"
      using table_ok_row [OF db_ok_tasks [OF consistentD(1) [OF assms(1)]] that] by (simp add: task_ok_def task_fks_def)
    then have "task_document_id y \<noteq> doc_id x" using assms(3) by (auto simp: document_exists_def list_ex_iff) (metis image_eqI)
    then show ?thesis by (auto simp: task_of_org_def task_in_org_def org_document_exists_def)
  qed
  then have "filter (\<lambda>y. \<not> task_of_org (d\<lparr>documents := documents d @ [x]\<rparr>) o' y) (document_tasks d) =
      filter (\<lambda>y. \<not> task_of_org d o' y) (document_tasks d)"
    by (intro filter_cong) simp_all
  then show ?thesis using assms(2) by (intro others_eqI) simp_all
qed

lemma others_put_document:
  assumes "consistent d" and "x \<in> set (documents d)" and "doc_organization_id x = o'" and "same_document x y"
  shows "others o' (d\<lparr>documents := put_row doc_id y (documents d)\<rparr>) = others o' d"
proof -
  let ?d = "d\<lparr>documents := put_row doc_id y (documents d)\<rparr>"
  note ids = db_ok_distinct(2) [OF consistentD(1) [OF assms(1)]]
  have same: "z = x" if "z \<in> set (documents d)" "doc_id z = doc_id y" for z
    using distinct_key_inj [OF ids that(1) assms(2)] that(2) assms(4) by (simp add: same_document_def)
  have "map doc_owner (put_row doc_id y (documents d)) = map doc_owner (documents d)"
    using assms(4) same by (auto simp: put_row_def doc_owner_def same_document_def)
  then have "org_document_exists ?d = org_document_exists d"
    by (simp add: fun_eq_iff org_document_exists_iff del: set_map)
  then have "task_of_org ?d o' = task_of_org d o'"
    by (simp add: fun_eq_iff task_of_org_def task_in_org_def)
  moreover have "filter (\<lambda>x. doc_organization_id x \<noteq> o') (put_row doc_id y (documents d)) =
      filter (\<lambda>x. doc_organization_id x \<noteq> o') (documents d)"
    using same assms(3,4) by (intro filter_put_row) (auto simp: same_document_def)
  ultimately show ?thesis by (intro others_eqI) simp_all
qed

lemma others_documents [others_stmt]:
  assumes "consistent d"
  shows "cd_OrganizationID dp = o' \<Longrightarrow> others o' (snd (stmt_CreateDocument dp g t d)) = others o' d"
    "others o' (snd (stmt_UpdateDocumentMeta i o' k r b g t d)) = others o' d"
proof -
  assume o': "cd_OrganizationID dp = o'"
  let ?x = "new_document (g 0) t dp" let ?d = "d\<lparr>documents := documents d @ [?x]\<rparr>"
  show "others o' (snd (stmt_CreateDocument dp g t d)) = others o' d"
  proof (cases "first_violation (document_triggers d ?x @ document_checks ?x @ document_keys d ?x)")
    case None
    then have x: "checks_hold (document_triggers d ?x)" "checks_hold (document_keys d ?x)"
      by (simp_all add: checks_hold_def)
    have "null_or (\<lambda>i. org_site_exists ?d i o') (doc_site_id ?x)"
      using x(1) o' by (simp add: document_triggers_def new_document_def org_site_exists_def)
    moreover have "sites_ok ?d"
    proof -
      have "site_ok ?d = site_ok d"
        by (simp add: fun_eq_iff site_ok_def org_known_def org_site_exists_def org_user_exists_def)
      then show ?thesis using consistentD(2) [OF assms] by (simp add: more_ok_def sites_ok_def)
    qed
    moreover have "others o' ?d = others o' d"
      using x(2) o' by (intro others_new_document [OF assms]) (simp_all add: document_keys_def new_document_def)
    ultimately show ?thesis
      unfolding stmt_CreateDocument_def insert_document_def None option.case snd_conv by (simp only: others_propagate)
  qed (simp add: stmt_CreateDocument_def insert_document_def)
next
  show "others o' (snd (stmt_UpdateDocumentMeta i o' k r b g t d)) = others o' d"
    by (auto simp: stmt_UpdateDocumentMeta_def update_document_def same_document_def split: option.split
        dest!: find_Some_iff_mem intro!: others_put_document [OF assms])
qed

section \<open>Deletions\<close>

text \<open>What a tenant deletes directly is its own; then so is what goes with it.\<close>

definition own_gone :: "uuid \<Rightarrow> db \<Rightarrow> gone \<Rightarrow> bool" where
  "own_gone o' d g \<longleftrightarrow> set (g_orgs g) \<subseteq> {o'} \<and>
     (\<forall>x \<in> set (users d). usr_id x \<in> set (g_users g) \<longrightarrow> usr_organization_id x = Some o') \<and>
     (\<forall>x \<in> set (construction_sites d). site_id x \<in> set (g_sites g) \<longrightarrow> site_organization_id x = o') \<and>
     (\<forall>x \<in> set (documents d). doc_id x \<in> set (g_documents g) \<longrightarrow> doc_organization_id x = o') \<and>
     (\<forall>r \<in> set (extraction_requests d). req_id r \<in> set (g_requests g) \<longrightarrow> req_organization_id r = o') \<and>
     (\<forall>k \<in> set (extraction_keys d). key_id k \<in> set (g_keys g) \<longrightarrow> key_organization_id k = Some o') \<and>
     (\<forall>x \<in> set (document_contract_kinds d). cat_id x \<in> set (g_kinds g) \<longrightarrow> cat_organization_id x = Some o') \<and>
     (\<forall>x \<in> set (document_file_roles d). cat_id x \<in> set (g_roles g) \<longrightarrow> cat_organization_id x = Some o') \<and>
     (\<forall>x \<in> set (comparison_sessions d). cs_id x \<in> set (g_sessions g) \<longrightarrow> cs_organization_id x = o')"

lemma own_goneD:
  assumes "own_gone o' d g"
  shows "i \<in> set (g_orgs g) \<Longrightarrow> i = o'"
    "org_user_exists d i p \<Longrightarrow> i \<in> set (g_users g) \<Longrightarrow> p = o'"
    "org_site_exists d i p \<Longrightarrow> i \<in> set (g_sites g) \<Longrightarrow> p = o'"
    "org_document_exists d i p \<Longrightarrow> i \<in> set (g_documents g) \<Longrightarrow> p = o'"
    "visible_key d i p \<Longrightarrow> i \<in> set (g_keys g) \<Longrightarrow> p = o'"
    "visible_entry (document_contract_kinds d) i p \<Longrightarrow> i \<in> set (g_kinds g) \<Longrightarrow> p = o'"
    "visible_entry (document_file_roles d) i p \<Longrightarrow> i \<in> set (g_roles g) \<Longrightarrow> p = o'"
    "org_session_exists d i p \<Longrightarrow> i \<in> set (g_sessions g) \<Longrightarrow> p = o'"
  using assms unfolding own_gone_def org_user_exists_def org_site_exists_def org_document_exists_def visible_key_def
    visible_entry_def org_session_exists_def list_ex_iff by auto

lemma task_of_org_purge:
  assumes "\<not> refers (g_requests g) (task_extraction_request_id y)" and "task_document_id y \<notin> set (g_documents g)"
  shows "task_of_org (purge g d) o' y = task_of_org d o' y"
proof -
  have "list_ex (\<lambda>r. req_organization_id r = o' \<and> task_extraction_request_id y = Some (req_id r)) (extraction_requests (purge g d)) =
      list_ex (\<lambda>r. req_organization_id r = o' \<and> task_extraction_request_id y = Some (req_id r)) (extraction_requests d)"
    using assms(1) by (auto simp: purge_def del_where_def list_ex_iff refers_iff)
  then show ?thesis using assms(2) by (simp add: task_of_org_def task_in_org_def purge_exists)
qed

lemma own_gone_rows:
  assumes "own_gone o' d g"
  shows "x \<in> set (users d) \<Longrightarrow> usr_organization_id x \<noteq> Some o' \<Longrightarrow> usr_id x \<notin> set (g_users g)"
    "y \<in> set (construction_sites d) \<Longrightarrow> site_organization_id y \<noteq> o' \<Longrightarrow> site_id y \<notin> set (g_sites g)"
    "f \<in> set (documents d) \<Longrightarrow> doc_organization_id f \<noteq> o' \<Longrightarrow> doc_id f \<notin> set (g_documents g)"
    "r \<in> set (extraction_requests d) \<Longrightarrow> req_organization_id r \<noteq> o' \<Longrightarrow> req_id r \<notin> set (g_requests g)"
    "k \<in> set (extraction_keys d) \<Longrightarrow> key_organization_id k \<noteq> Some o' \<Longrightarrow> key_id k \<notin> set (g_keys g)"
    "e \<in> set (document_contract_kinds d) \<Longrightarrow> cat_organization_id e \<noteq> Some o' \<Longrightarrow> cat_id e \<notin> set (g_kinds g)"
    "e \<in> set (document_file_roles d) \<Longrightarrow> cat_organization_id e \<noteq> Some o' \<Longrightarrow> cat_id e \<notin> set (g_roles g)"
    "c \<in> set (comparison_sessions d) \<Longrightarrow> cs_organization_id c \<noteq> o' \<Longrightarrow> cs_id c \<notin> set (g_sessions g)"
  using assms unfolding own_gone_def by blast+

text \<open>A row of another organization does not refer to what is gone, but for who invited, acted or created.\<close>

lemma others_unpurged:
  assumes ok: "consistent d" and own: "own_gone o' d g"
  shows "y \<in> set (construction_sites d) \<Longrightarrow> site_organization_id y \<noteq> o' \<Longrightarrow> purge_site g y = y"
    "f \<in> set (documents d) \<Longrightarrow> doc_organization_id f \<noteq> o' \<Longrightarrow> purge_document g f = f"
    "c \<in> set (comparison_sessions d) \<Longrightarrow> cs_organization_id c \<noteq> o' \<Longrightarrow>
       (purge_session g c)\<lparr>cs_created_by := None\<rparr> = c\<lparr>cs_created_by := None\<rparr>"
    "a \<in> set (site_audit_logs d) \<Longrightarrow> audit_organization_id a \<noteq> o' \<Longrightarrow>
       audit_organization_id a \<notin> set (g_orgs g) \<and> audit_site_id a \<notin> set (g_sites g)"
    "q \<in> set (comparison_session_documents d) \<Longrightarrow> csd_organization_id q \<noteq> o' \<Longrightarrow>
       csd_session_id q \<notin> set (g_sessions g) \<and> csd_document_id q \<notin> set (g_documents g)"
    "v \<in> set (document_extracted_data d) \<Longrightarrow> dat_organization_id v \<noteq> o' \<Longrightarrow> dat_organization_id v \<notin> set (g_orgs g) \<and>
       dat_document_id v \<notin> set (g_documents g) \<and> dat_key_id v \<notin> set (g_keys g)"
proof -
  note tabs = more_tables [OF consistentD(2) [OF ok]] and gone = own_goneD [OF own]
  show "purge_site g y = y" if "y \<in> set (construction_sites d)" "site_organization_id y \<noteq> o'"
    using table_ok_row [OF tabs(3) that(1)] that(2)
    by (auto simp: purge_site_def site_ok_def null_or_iff refers_iff intro!: construction_site.equality)
      (blast dest: gone(2,3))+
  show "purge_document g f = f" if "f \<in> set (documents d)" "doc_organization_id f \<noteq> o'"
    using bspec [OF tabs(12) that(1)] that(2)
    by (auto simp: purge_document_def file_ok_def document_triggers_def null_or_iff refers_iff
        intro!: document.equality) (blast dest: gone(3,4,6,7))+
  show "(purge_session g c)\<lparr>cs_created_by := None\<rparr> = c\<lparr>cs_created_by := None\<rparr>"
    if "c \<in> set (comparison_sessions d)" "cs_organization_id c \<noteq> o'"
    using table_ok_row [OF tabs(8) that(1)] that(2)
    by (auto simp: purge_session_def session_ok_def null_or_iff refers_iff intro!: comparison_session.equality)
      (blast dest: gone(6))
  show "audit_organization_id a \<notin> set (g_orgs g) \<and> audit_site_id a \<notin> set (g_sites g)"
    if "a \<in> set (site_audit_logs d)" "audit_organization_id a \<noteq> o'"
    using table_ok_row [OF tabs(7) that(1)] that(2) by (auto simp: audit_ok_def dest: gone(1,3))
  show "csd_session_id q \<notin> set (g_sessions g) \<and> csd_document_id q \<notin> set (g_documents g)"
    if "q \<in> set (comparison_session_documents d)" "csd_organization_id q \<noteq> o'"
    using table_ok_row [OF tabs(9) that(1)] that(2) by (auto simp: place_ok_def dest: gone(4,8))
  show "dat_organization_id v \<notin> set (g_orgs g) \<and> dat_document_id v \<notin> set (g_documents g) \<and> dat_key_id v \<notin> set (g_keys g)"
    if "v \<in> set (document_extracted_data d)" "dat_organization_id v \<noteq> o'"
    using table_ok_row [OF _ that(1), of dat_id "[\<lambda>x. Some (datum_key x)]" "datum_ok d"] consistentD(1) [OF ok]
      that(2)
    by (auto simp: db_ok_def data_ok_def datum_ok_def datum_triggers_def datum_fks_def dest: gone(1,4,5))
qed

lemma others_unpurged_task:
  assumes ok: "consistent d" and own: "own_gone o' d g" and y: "y \<in> set (document_tasks d)" "\<not> task_of_org d o' y"
  shows "task_document_id y \<notin> set (g_documents g)" "\<not> refers (g_requests g) (task_extraction_request_id y)"
proof -
  have fks: "document_exists d (task_document_id y)" "null_or (request_exists d) (task_extraction_request_id y)"
    using table_ok_row [OF db_ok_tasks [OF consistentD(1) [OF ok]] y(1)] by (simp_all add: task_ok_def task_fks_def)
  show "task_document_id y \<notin> set (g_documents g)"
    using fks(1) y(2) own_gone_rows(3) [OF own]
    by (auto simp: document_exists_def task_of_org_def task_in_org_def org_document_exists_def list_ex_iff) metis
  show "\<not> refers (g_requests g) (task_extraction_request_id y)"
    using fks(2) y(2) own_gone_rows(4) [OF own]
    by (auto simp: request_exists_def task_of_org_def list_ex_iff null_or_iff refers_iff)
qed

lemma purged_tables:
  "organizations (purge g d) = del_where (\<lambda>x. org_id x \<in> set (g_orgs g)) (organizations d)"
  "users (purge g d) = del_where (\<lambda>x. usr_id x \<in> set (g_users g)) (users d)"
  "construction_sites (purge g d) = map (purge_site g) (del_where (\<lambda>x. site_id x \<in> set (g_sites g))
      (construction_sites d))"
  "documents (purge g d) = map (purge_document g) (del_where (\<lambda>x. doc_id x \<in> set (g_documents g))
      (documents d))"
  "document_tasks (purge g d) = del_where (\<lambda>t. task_document_id t \<in> set (g_documents g) \<or> refers
      (g_requests g) (task_extraction_request_id t)) (document_tasks d)"
  "extraction_requests (purge g d) = del_where (\<lambda>r. req_id r \<in> set (g_requests g))
      (extraction_requests d)"
  "extraction_keys (purge g d) = del_where (\<lambda>k. key_id k \<in> set (g_keys g)) (extraction_keys d)"
  "document_extracted_data (purge g d) = del_where (\<lambda>x. dat_organization_id x \<in> set (g_orgs g) \<or>
      dat_document_id x \<in> set (g_documents g) \<or> dat_key_id x \<in> set (g_keys g)) (document_extracted_data d)"
  "document_contract_kinds (purge g d) = del_where (\<lambda>x. cat_id x \<in> set (g_kinds g))
      (document_contract_kinds d)"
  "document_file_roles (purge g d) = del_where (\<lambda>x. cat_id x \<in> set (g_roles g)) (document_file_roles d)"
  "user_invitations (purge g d) = map (\<lambda>x. x\<lparr>inv_invited_by := unref (g_users g) (inv_invited_by
      x)\<rparr>) (del_where (\<lambda>x. inv_organization_id x \<in> set (g_orgs g)) (user_invitations d))"
  "site_audit_logs (purge g d) = map (\<lambda>x. x\<lparr>audit_actor_user_id := unref (g_users g)
      (audit_actor_user_id x)\<rparr>) (del_where (\<lambda>x. audit_organization_id x \<in> set (g_orgs g) \<or>
      audit_site_id x \<in> set (g_sites g)) (site_audit_logs d))"
  "comparison_sessions (purge g d) = map (purge_session g) (del_where (\<lambda>x. cs_id x \<in> set (g_sessions
      g)) (comparison_sessions d))"
  "comparison_session_documents (purge g d) = del_where (\<lambda>x. csd_session_id x \<in> set (g_sessions g)
      \<or> csd_document_id x \<in> set (g_documents g)) (comparison_session_documents d)"
  by (simp_all add: purge_def)

lemma others_purge:
  assumes ok: "consistent d" and own: "own_gone o' d g"
  shows "others o' (purge g d) = others o' d"
proof -
  note rows = own_gone_rows [OF own] and kept = others_unpurged [OF ok own] and gone = own_goneD(1) [OF own]
  have "filter (\<lambda>y. \<not> task_of_org (purge g d) o' y) (document_tasks (purge g d)) =
      filter (\<lambda>y. \<not> task_of_org d o' y) (document_tasks (purge g d))"
    unfolding purged_tables by (rule filter_cong) (auto simp: del_where_def task_of_org_purge)
  also have "\<dots> = filter (\<lambda>y. \<not> task_of_org d o' y) (document_tasks d)"
    unfolding purged_tables by (rule filter_del_where) (use others_unpurged_task [OF ok own] in blast)
  finally have tasks: "filter (\<lambda>y. \<not> task_of_org (purge g d) o' y) (document_tasks (purge g d)) =
      filter (\<lambda>y. \<not> task_of_org d o' y) (document_tasks d)" .
  show ?thesis
  proof (rule others_eqI)
    show "filter (\<lambda>y. \<not> task_of_org (purge g d) o' y) (document_tasks (purge g d)) =
      filter (\<lambda>y. \<not> task_of_org d o' y) (document_tasks d)" by (rule tasks)
  qed (unfold purged_tables; rule filter_del_where filter_map_del filter_map_del'; use rows kept gone in auto)+
qed

lemma own_gone_one:
  assumes "consistent d"
  shows "y \<in> set (construction_sites d) \<Longrightarrow> site_organization_id y = o' \<Longrightarrow> own_gone o' d (nothing_gone\<lparr>g_sites := [site_id y]\<rparr>)"
    "e \<in> set (document_contract_kinds d) \<Longrightarrow> cat_organization_id e = Some o' \<Longrightarrow>
       own_gone o' d (nothing_gone\<lparr>g_kinds := [cat_id e]\<rparr>)"
    "e \<in> set (document_file_roles d) \<Longrightarrow> cat_organization_id e = Some o' \<Longrightarrow>
       own_gone o' d (nothing_gone\<lparr>g_roles := [cat_id e]\<rparr>)"
    "c \<in> set (comparison_sessions d) \<Longrightarrow> cs_organization_id c = o' \<Longrightarrow>
       own_gone o' d (nothing_gone\<lparr>g_sessions := [cs_id c]\<rparr>)"
  using more_tables(3,4,5,8) [OF consistentD(2) [OF assms]]
  by (auto simp: own_gone_def nothing_gone_def dest: table_ok_key)

lemma own_doc_closure:
  assumes ok: "consistent d" and "\<forall>x \<in> set (documents d). doc_id x \<in> set ids \<longrightarrow> doc_organization_id x = o'"
  shows "\<forall>x \<in> set (documents d). doc_id x \<in> set (doc_closure (documents d) n ids) \<longrightarrow> doc_organization_id x = o'"
  using assms(2)
proof (induction n arbitrary: ids)
  case (Suc n)
  have "doc_organization_id x = o'" if x: "x \<in> set (documents d)" "doc_id x \<in> set (doc_children (documents d) ids)" for x
  proof -
    obtain z p where z: "z \<in> set (documents d)" "doc_id z = doc_id x" "doc_parent_id z = Some p" "p \<in> set ids"
      using x(2) by (auto simp: set_doc_children)
    have "z = x" using distinct_key_inj [OF db_ok_distinct(2) [OF consistentD(1) [OF ok]] z(1) x(1) z(2)] .
    then have "org_document_exists d p (doc_organization_id x)"
      using bspec [OF more_tables(12) [OF consistentD(2) [OF ok]] x(1)] z(3) by (simp add: file_ok_def document_triggers_def)
    then show ?thesis using Suc.prems z(4) by (auto simp: org_document_exists_def list_ex_iff)
  qed
  then show ?case using Suc.prems unfolding doc_closure.simps by (intro Suc.IH) auto
qed simp

lemma own_gone_documents:
  assumes ok: "consistent d" and own: "\<forall>x \<in> set (documents d). doc_id x \<in> set ids \<longrightarrow> doc_organization_id x = o'"
    and r: "r \<in> set (extraction_requests d)" and q: "q \<in> set (extraction_requests d)" "req_document_id q \<in> set ids" "req_id r = req_id q"
  shows "req_organization_id r = o'"
proof -
  have reqs: "table_ok req_id no_index (request_ok d) (extraction_requests d)"
    using consistentD(1) [OF ok] by (simp add: db_ok_def requests_ok_def)
  then have "r = q" by (rule table_ok_key [OF _ r q(1) q(3)])
  moreover have "org_document_exists d (req_document_id r) (req_organization_id r)"
    using table_ok_row [OF reqs r] by (simp add: request_ok_def request_fks_def)
  ultimately show ?thesis using own q(2) by (auto simp: org_document_exists_def list_ex_iff)
qed

lemma own_gone_closure:
  assumes "consistent d" and "\<forall>x \<in> set (documents d). doc_id x \<in> set ids \<longrightarrow> doc_organization_id x = o'"
  shows "own_gone o' d (nothing_gone\<lparr>g_documents := ids,
    g_requests := map req_id (filter (\<lambda>r. req_document_id r \<in> set ids) (extraction_requests d))\<rparr>)"
  using assms(2) own_gone_documents [OF assms] by (auto simp: own_gone_def nothing_gone_def)

lemma own_ids: "table_ok k us p rs \<Longrightarrow> x \<in> set rs \<Longrightarrow> k x \<in> set (map k (filter q rs)) \<Longrightarrow> q x"
  by (auto dest: table_ok_key)

lemma own_gone_organization:
  assumes ok: "consistent d" shows "own_gone o' d (gone_with_org d o')"
proof -
  let ?own = "map doc_id (filter (\<lambda>x. doc_organization_id x = o') (documents d))"
  let ?docs = "doc_closure (documents d) (length (documents d)) ?own"
  have docs: "\<forall>x \<in> set (documents d). doc_id x \<in> set ?docs \<longrightarrow> doc_organization_id x = o'"
    using distinct_key_inj [OF db_ok_distinct(2) [OF consistentD(1) [OF ok]]]
    by (intro own_doc_closure [OF ok]) auto
  note tabs = more_tables [OF consistentD(2) [OF ok]]
  have keys: "table_ok key_id [\<lambda>k. Some (key_org_name k)] (key_ok d) (extraction_keys d)"
    using consistentD(1) [OF ok] by (simp add: db_ok_def keys_ok_def)
  show ?thesis
    unfolding own_gone_def gone_with_org_def Let_def gone.simps
  proof (intro conjI)
    show "\<forall>r \<in> set (extraction_requests d). req_id r \<in> set (map req_id (filter (\<lambda>r. req_document_id r \<in> set ?docs)
        (extraction_requests d))) \<longrightarrow> req_organization_id r = o'"
      using own_gone_documents [OF ok docs] by auto
    show "set [o'] \<subseteq> {o'}" by simp
  qed (rule docs | (intro ballI impI, rule own_ids, rule tabs, assumption, assumption) |
      (intro ballI impI, rule own_ids, rule keys, assumption, assumption))+
qed

lemma others_deletions [others_stmt]:
  assumes ok: "consistent d"
  shows "others o' (snd (stmt_DeleteConstructionSite i o' g t d)) = others o' d"
    "others o' (snd (stmt_DeleteContractKind i o' g t d)) = others o' d"
    "others o' (snd (stmt_DeleteFileRole i o' g t d)) = others o' d"
    "others o' (snd (stmt_DeleteComparisonSession i o' g t d)) = others o' d"
    "others o' (snd (stmt_DeleteDocument i o' g t d)) = others o' d"
    "others o' (snd (stmt_DeleteOrganization o' g t d)) = others o' d"
proof -
  show "others o' (snd (stmt_DeleteConstructionSite i o' g t d)) = others o' d"
    "others o' (snd (stmt_DeleteContractKind i o' g t d)) = others o' d"
    "others o' (snd (stmt_DeleteFileRole i o' g t d)) = others o' d"
    "others o' (snd (stmt_DeleteComparisonSession i o' g t d)) = others o' d"
    using others_purge [OF ok] own_gone_one [OF ok]
    by (auto simp: stmt_DeleteConstructionSite_def stmt_DeleteContractKind_def stmt_DeleteFileRole_def
        stmt_DeleteComparisonSession_def owned_entries_def Let_def filter_empty_conv)
  show "others o' (snd (stmt_DeleteOrganization o' g t d)) = others o' d"
    by (simp add: stmt_DeleteOrganization_def Let_def others_purge [OF ok] own_gone_organization [OF ok])
  have "\<forall>x \<in> set (documents d). doc_id x \<in> set (doc_closure (documents d) n [doc_id z]) \<longrightarrow> doc_organization_id x = o'"
    if "z \<in> set (documents d)" "doc_organization_id z = o'" for z n
    using distinct_key_inj [OF db_ok_distinct(2) [OF consistentD(1) [OF ok]] _ that(1)] that(2)
    by (intro own_doc_closure [OF ok]) auto
  then have "others o' (cascade_documents (doc_closure (documents d) n [doc_id z]) d) = others o' d"
    if "z \<in> set (documents d)" "doc_organization_id z = o'" for z n
    using that unfolding cascade_is_purge [OF consistentD(1) [OF ok]]
    by (intro others_purge [OF ok] own_gone_closure [OF ok]) blast
  then show "others o' (snd (stmt_DeleteDocument i o' g t d)) = others o' d"
    by (auto simp: stmt_DeleteDocument_def Let_def filter_empty_conv)
qed

end
