(* ===== verification/Tenant_Isolation.thy ===== *)
theory Tenant_Isolation
  imports Isolation
begin

text \<open>
  The pipeline that a tenant starts works for this tenant: it writes tasks of own documents and own
  requests. With it, every request with the token of a member of an organization leaves the rows of the
  others as they are.
\<close>

section \<open>What the pipeline works on\<close>

definition own_request :: "db \<Rightarrow> uuid \<Rightarrow> uuid \<Rightarrow> bool" where
  "own_request d q o' \<longleftrightarrow> list_ex (\<lambda>r. req_id r = q \<and> req_organization_id r = o') (extraction_requests d)"

definition own_task :: "db \<Rightarrow> uuid \<Rightarrow> uuid \<Rightarrow> bool" where
  "own_task d i o' \<longleftrightarrow> list_ex (\<lambda>t. task_id t = i \<and> task_of_org d o' t) (document_tasks d)"

text \<open>\<open>working\<close>: own documents, requests and tasks at hand, and the others' rows as they were.\<close>

definition working :: "uuid \<Rightarrow> db \<Rightarrow> uuid set \<Rightarrow> uuid set \<Rightarrow> uuid set \<Rightarrow> db \<Rightarrow> bool" where
  "working o' d0 D Q T d \<longleftrightarrow> consistent d \<and> others o' d = d0 \<and> (\<forall>i \<in> D. org_document_exists d i o') \<and>
     (\<forall>q \<in> Q. own_request d q o') \<and> (\<forall>i \<in> T. own_task d i o')"

lemma own_evolves:
  assumes "evolves d d'"
  shows "org_document_exists d i o' \<Longrightarrow> org_document_exists d' i o'" "own_request d q o' \<Longrightarrow> own_request d' q o'"
    "own_task d j o' \<Longrightarrow> own_task d' j o'"
proof -
  note g = assms [unfolded evolves_def grows_def same_document_def same_request_def same_task_def doc_owner_def]
  show doc: "org_document_exists d i o' \<Longrightarrow> org_document_exists d' i o'" for i
    using g by (simp add: org_document_exists_def list_ex_iff) metis
  show req: "own_request d q o' \<Longrightarrow> own_request d' q o'" for q
    using g by (simp add: own_request_def list_ex_iff) metis
  assume "own_task d j o'"
  then obtain t where t: "t \<in> set (document_tasks d)" "task_id t = j" "task_of_org d o' t"
    by (auto simp: own_task_def list_ex_iff)
  then obtain u where u: "u \<in> set (document_tasks d')" "same_task t u"
    using assms by (auto simp: evolves_def grows_def)
  have "task_of_org d' o' t"
    using t(3) doc req unfolding task_of_org_def task_in_org_def own_request_def list_ex_iff by metis
  then have "task_of_org d' o' u" using task_of_org_same [of u t] u(2) by (simp add: same_task_def)
  then show "own_task d' j o'" using t(2) u by (auto simp: own_task_def list_ex_iff same_task_def)
qed

lemma working_stmt:
  assumes "working o' d0 D Q T d" and "others o' d' = others o' d"
    and "sound d d'" and "db_ok d \<Longrightarrow> more_ok d \<Longrightarrow> more_ok d'"
  shows "working o' d0 D Q T d'"
  using assms own_evolves [of d d'] by (simp add: working_def consistent_def sound_def)

text \<open>Such a statement, and one that answers with an own row.\<close>

definition within :: "uuid \<Rightarrow> db \<Rightarrow> uuid set \<Rightarrow> uuid set \<Rightarrow> uuid set \<Rightarrow> world \<Rightarrow> bool" where
  "within o' d0 D Q T w \<longleftrightarrow> working o' d0 D Q T (w_db w)"

definition local_stmt :: "uuid \<Rightarrow> uuid set \<Rightarrow> uuid set \<Rightarrow> uuid set \<Rightarrow> 'a stmt \<Rightarrow> bool" where
  "local_stmt o' D Q T f \<longleftrightarrow> (\<forall>d0 d g t. working o' d0 D Q T d \<longrightarrow> working o' d0 D Q T (snd (f g t d)))"

lemma local_stmtI:
  assumes "\<And>d0 d g t. working o' d0 D Q T d \<Longrightarrow> others o' (snd (f g t d)) = others o' d"
    and "\<And>d g t. sound d (snd (f g t d))" and "\<And>d g t. db_ok d \<Longrightarrow> more_ok d \<Longrightarrow> more_ok (snd (f g t d))"
  shows "local_stmt o' D Q T f"
  using working_stmt [OF _ assms] by (simp add: local_stmt_def)

lemma within_exec:
  assumes "local_stmt o' D Q T f"
  shows "post (within o' d0 D Q T) (exec E f) (\<lambda>_. within o' d0 D Q T)"
proof (rule postI)
  fix w r w' assume w: "within o' d0 D Q T w" and run: "run_state (exec E f) w = (r, w')"
  have "working o' d0 D Q T (snd (f g t (w_db w)))" for g t
    using assms w by (simp add: local_stmt_def within_def)
  then show "within o' d0 D Q T w'"
    using w run by (cases rule: run_exec_cases [of f E w]) (auto simp: within_def split: prod.splits, (metis snd_conv)+)
qed

lemma within_read: "post (within o' d0 D Q T) (exec E (sel f)) (\<lambda>_. within o' d0 D Q T)"
  by (rule within_exec) (simp add: local_stmt_def sel_def)

lemma within_stored:
  assumes "local_stmt o' D Q T f"
    and "\<And>d0 d g t x d'. working o' d0 D Q T d \<Longrightarrow> f g t d = (Inr x, d') \<Longrightarrow> own_task d' (task_id x) o'"
  shows "post (within o' d0 D Q T) (exec E f)
    (\<lambda>r. within o' d0 D Q (case r of Inl _ \<Rightarrow> T | Inr x \<Rightarrow> insert (task_id x) T))"
proof (rule postI)
  fix w r w' assume w: "within o' d0 D Q T w" and run: "run_state (exec E f) w = (r, w')"
  then have w': "within o' d0 D Q T w'" using postD [OF within_exec [OF assms(1)]] by blast
  show "within o' d0 D Q (case r of Inl _ \<Rightarrow> T | Inr x \<Rightarrow> insert (task_id x) T) w'"
  proof (cases r)
    case (Inr x)
    then have "own_task (w_db w') (task_id x) o'"
      using exec_Inr [of E f w x w'] run assms(2) w by (auto simp: within_def)
    then show ?thesis using w' Inr by (simp add: within_def working_def)
  qed (use w' in simp)
qed

section \<open>The statements of the pipeline\<close>

lemma own_task_in: "y \<in> set (document_tasks d) \<Longrightarrow> task_of_org d o' y \<Longrightarrow> own_task d (task_id y) o'"
  by (auto simp: own_task_def list_ex_iff)

lemma own_new_task:
  "org_document_exists d doc o' \<Longrightarrow> task_of_org d o' (new_task i t doc m path q)"
  by (simp add: task_of_org_def task_in_org_def new_task_def)

lemma stored_own_task:
  assumes "insert_task_or_nothing key (new_task i t doc m path q) d = (Inr y, d')" and "org_document_exists d doc o'"
  shows "own_task d' (task_id y) o'"
proof -
  have "y = new_task i t doc m path q" "d' = d\<lparr>document_tasks := document_tasks d @ [y]\<rparr>"
    using insert_task_or_nothing_Inr [OF assms(1)] by simp_all
  then show ?thesis using own_new_task [OF assms(2)] by (intro own_task_in) simp_all
qed

lemma within_new_tasks:
  assumes "doc \<in> D"
  shows "post (within o' d0 D Q T) (CreateDocumentTaskSingleton E doc m path)
      (\<lambda>r. within o' d0 D Q (case r of Inl _ \<Rightarrow> T | Inr x \<Rightarrow> insert (task_id x) T))"
    "post (within o' d0 D Q T) (CreateDocumentTaskForRequest E doc m path q)
      (\<lambda>r. within o' d0 D Q (case r of Inl _ \<Rightarrow> T | Inr x \<Rightarrow> insert (task_id x) T))"
proof -
  have doc: "org_document_exists d doc o'" if "working o' d0 D Q T d" for d d0
    using that assms by (simp add: working_def)
  show "post (within o' d0 D Q T) (CreateDocumentTaskSingleton E doc m path)
      (\<lambda>r. within o' d0 D Q (case r of Inl _ \<Rightarrow> T | Inr x \<Rightarrow> insert (task_id x) T))"
    unfolding CreateDocumentTaskSingleton_def
    by (intro within_stored local_stmtI sound_stmt more_stmt)
      (auto simp: stmt_CreateDocumentTaskSingleton_def dest: doc intro: stored_own_task others_insert_or_nothing own_new_task)
  show "post (within o' d0 D Q T) (CreateDocumentTaskForRequest E doc m path q)
      (\<lambda>r. within o' d0 D Q (case r of Inl _ \<Rightarrow> T | Inr x \<Rightarrow> insert (task_id x) T))"
    unfolding CreateDocumentTaskForRequest_def
    by (intro within_stored local_stmtI sound_stmt more_stmt)
      (auto simp: stmt_CreateDocumentTaskForRequest_def dest: doc intro: stored_own_task others_insert_or_nothing own_new_task)
qed

lemma within_task_update:
  assumes "wu_ID p \<in> T"
  shows "post (within o' d0 D Q T) (UpdateWorkerTaskStatus E p) (\<lambda>_. within o' d0 D Q T)"
  unfolding UpdateWorkerTaskStatus_def
proof (intro within_exec local_stmtI sound_stmt more_stmt)
  fix d0 d :: db and g t assume w: "working o' d0 D Q T d"
  then obtain y where y: "y \<in> set (document_tasks d)" "task_id y = wu_ID p" "task_of_org d o' y"
    using assms by (auto simp: working_def own_task_def list_ex_iff)
  have ok: "consistent d" using w by (simp add: working_def)
  have "task_of_org d o' x" if "x \<in> set (document_tasks d)" "task_id x = wu_ID p" for x
    using distinct_key_inj [OF db_ok_distinct(1) [OF consistentD(1) [OF ok]] that(1) y(1)] that(2) y(2,3) by simp
  then show "others o' (snd (stmt_UpdateWorkerTaskStatus p g t d)) = others o' d"
    unfolding stmt_UpdateWorkerTaskStatus_def
    by (intro others_update_task ok) (auto simp: same_task_def apply_worker_update_def)
qed

text \<open>Writes on own requests date the sites above the own document.\<close>

lemma own_document_site:
  assumes "consistent d" and "org_document_exists d doc o'"
  shows "null_or (\<lambda>i. org_site_exists d i o') (document_site d doc)"
proof (cases "find (\<lambda>x. doc_id x = doc) (documents d)")
  case (Some x)
  then have x: "x \<in> set (documents d)" "doc_id x = doc" by (auto dest: find_Some_iff_mem)
  have "doc_organization_id x = o'"
    using assms(2) distinct_key_inj [OF db_ok_distinct(2) [OF consistentD(1) [OF assms(1)]] _ x(1)] x(2)
    by (auto simp: org_document_exists_def list_ex_iff)
  then show ?thesis using Some bspec [OF more_tables(12) [OF consistentD(2) [OF assms(1)]] x(1)]
    by (simp add: document_site_def file_ok_def document_triggers_def)
qed (simp add: document_site_def)

lemma request_tables [simp]:
  "site_ok (d\<lparr>extraction_requests := rs\<rparr>) = site_ok d" "document_site (d\<lparr>extraction_requests := rs\<rparr>) = document_site d"
  "org_site_exists (d\<lparr>extraction_requests := rs\<rparr>) = org_site_exists d"
  "org_document_exists (d\<lparr>extraction_requests := rs\<rparr>) = org_document_exists d"
  by (simp_all add: fun_eq_iff site_ok_def org_known_def org_site_exists_def org_user_exists_def document_site_def
      org_document_exists_def)

lemma others_request_site:
  assumes ok: "consistent d" and doc: "org_document_exists d doc o'"
  shows "others o' (propagate_site_activity (document_site d doc) t (d\<lparr>extraction_requests := rs\<rparr>)) =
    others o' (d\<lparr>extraction_requests := rs\<rparr>)"
proof (rule others_propagate)
  show "sites_ok (d\<lparr>extraction_requests := rs\<rparr>)" using consistentD(2) [OF ok] by (simp add: more_ok_def sites_ok_def)
  show "null_or (\<lambda>i. org_site_exists (d\<lparr>extraction_requests := rs\<rparr>) i o') (document_site d doc)"
    using own_document_site [OF ok doc] by simp
qed

lemma others_set_requests:
  assumes "filter (\<lambda>r. req_organization_id r \<noteq> o') rs = filter (\<lambda>r. req_organization_id r \<noteq> o') (extraction_requests d)"
    and "\<And>y. y \<in> set (document_tasks d) \<Longrightarrow> list_ex (\<lambda>r. req_organization_id r = o' \<and>
        task_extraction_request_id y = Some (req_id r)) rs = list_ex (\<lambda>r. req_organization_id r = o' \<and>
        task_extraction_request_id y = Some (req_id r)) (extraction_requests d)"
  shows "others o' (d\<lparr>extraction_requests := rs\<rparr>) = others o' d"
proof -
  have "filter (\<lambda>y. \<not> task_of_org (d\<lparr>extraction_requests := rs\<rparr>) o' y) (document_tasks d) =
      filter (\<lambda>y. \<not> task_of_org d o' y) (document_tasks d)"
    by (rule filter_cong) (simp_all add: task_of_org_def task_in_org_def assms(2))
  then show ?thesis using assms(1) by (intro others_eqI) simp_all
qed

lemma others_new_request:
  assumes "consistent d" and "req_organization_id r = o'" and "req_id r \<notin> set (map req_id (extraction_requests d))"
  shows "others o' (d\<lparr>extraction_requests := extraction_requests d @ [r]\<rparr>) = others o' d"
proof (rule others_set_requests)
  fix y assume "y \<in> set (document_tasks d)"
  then have "null_or (request_exists d) (task_extraction_request_id y)"
    using table_ok_row [OF db_ok_tasks [OF consistentD(1) [OF assms(1)]]] by (simp add: task_ok_def task_fks_def)
  then have "task_extraction_request_id y \<noteq> Some (req_id r)"
    using assms(3) by (auto simp: null_or_iff request_exists_iff)
  then show "list_ex (\<lambda>r. req_organization_id r = o' \<and> task_extraction_request_id y = Some (req_id r)) (extraction_requests d @ [r]) =
      list_ex (\<lambda>r. req_organization_id r = o' \<and> task_extraction_request_id y = Some (req_id r)) (extraction_requests d)"
    by simp
qed (simp add: assms(2))

lemma others_put_request:
  assumes "consistent d" and "x \<in> set (extraction_requests d)" and "req_organization_id x = o'" and "same_request x y"
  shows "others o' (d\<lparr>extraction_requests := put_row req_id y (extraction_requests d)\<rparr>) = others o' d"
proof (rule others_set_requests)
  have same: "z = x" if "z \<in> set (extraction_requests d)" "req_id z = req_id y" for z
    using distinct_key_inj [OF db_ok_distinct(3) [OF consistentD(1) [OF assms(1)]] that(1) assms(2)] that(2) assms(4)
    by (simp add: same_request_def)
  show "filter (\<lambda>r. req_organization_id r \<noteq> o') (put_row req_id y (extraction_requests d)) =
      filter (\<lambda>r. req_organization_id r \<noteq> o') (extraction_requests d)"
    using same assms(3,4) by (intro filter_put_row) (auto simp: same_request_def)
  have "map (\<lambda>r. (req_id r, req_organization_id r)) (put_row req_id y (extraction_requests d)) =
      map (\<lambda>r. (req_id r, req_organization_id r)) (extraction_requests d)"
    using same assms(4) by (auto simp: put_row_def same_request_def)
  then have ids: "set (map (\<lambda>r. (req_id r, req_organization_id r)) (put_row req_id y (extraction_requests d))) =
      set (map (\<lambda>r. (req_id r, req_organization_id r)) (extraction_requests d))" by (rule arg_cong)
  have via: "list_ex (\<lambda>r. req_organization_id r = o' \<and> v = Some (req_id r)) rs \<longleftrightarrow>
      (\<exists>i. v = Some i \<and> (i, o') \<in> set (map (\<lambda>r. (req_id r, req_organization_id r)) rs))" for v rs
    by (auto simp: list_ex_iff image_iff)
  show "list_ex (\<lambda>r. req_organization_id r = o' \<and> task_extraction_request_id z = Some (req_id r))
      (put_row req_id y (extraction_requests d)) =
    list_ex (\<lambda>r. req_organization_id r = o' \<and> task_extraction_request_id z = Some (req_id r)) (extraction_requests d)" for z
    unfolding via ids ..
qed

lemma others_CreateExtractionRequest:
  assumes ok: "consistent d"
  shows "others o' (snd (stmt_CreateExtractionRequest doc o' qs anon g t d)) = others o' d"
proof -
  let ?r = "new_request (g 0) t doc o' qs anon"
  show ?thesis
  proof (cases "first_violation (request_checks ?r @ request_keys d ?r @ request_fks d ?r)")
    case None
    then have r: "org_document_exists d doc o'" "req_id ?r \<notin> set (map req_id (extraction_requests d))"
      by (simp_all add: checks_hold_def request_keys_def request_fks_def new_request_def)
    have "req_organization_id ?r = o'" by (simp add: new_request_def)
    then show ?thesis unfolding stmt_CreateExtractionRequest_def Let_def None option.case snd_conv
      using others_request_site [OF ok r(1)] others_new_request [OF ok _ r(2)] by simp
  qed (simp add: stmt_CreateExtractionRequest_def)
qed

lemma others_SetExtractionRequestStatus:
  assumes ok: "consistent d" and own: "own_request d q o'"
  shows "others o' (snd (stmt_SetExtractionRequestStatus q st msg g t d)) = others o' d"
proof (cases "find (\<lambda>r. req_id r = q) (extraction_requests d)")
  case (Some r)
  let ?y = "r\<lparr>req_status := st, req_error_message := msg, req_updated_at := t\<rparr>"
  have reqs: "table_ok req_id no_index (request_ok d) (extraction_requests d)"
    using consistentD(1) [OF ok] by (simp add: db_ok_def requests_ok_def)
  have r: "r \<in> set (extraction_requests d)" "req_id r = q" using Some by (auto dest: find_Some_iff_mem)
  have org: "req_organization_id r = o'"
    using own table_ok_key [OF reqs _ r(1)] r(2) by (auto simp: own_request_def list_ex_iff)
  then have doc: "org_document_exists d (req_document_id r) o'"
    using table_ok_row [OF reqs r(1)] by (simp add: request_ok_def request_fks_def)
  have "others o' (d\<lparr>extraction_requests := put_row req_id ?y (extraction_requests d)\<rparr>) = others o' d"
    by (rule others_put_request [OF ok r(1) org]) (simp add: same_request_def)
  then show ?thesis
    using Some others_request_site [OF ok doc, of t]
    by (simp add: stmt_SetExtractionRequestStatus_def update_request_def split: option.split)
qed (simp add: stmt_SetExtractionRequestStatus_def update_request_def)

section \<open>The pipeline\<close>

lemma within_Process: "post (within o' d0 D Q T) (Process E r) (\<lambda>_. within o' d0 D Q T)"
proof (rule post_of_rel)
  have "within o' d0 D Q T w \<longrightarrow> within o' d0 D Q T (snd (run_state (Process E r) w))" for w
    by (cases rule: Process_cases [of E r w]) (auto simp: within_def)
  then show "state_io_rel (\<lambda>w w'. within o' d0 D Q T w \<longrightarrow> within o' d0 D Q T w') (Process E r)"
    by (simp add: state_io_rel_def)
qed simp

lemma within_any_task: "within o' d0 D Q (insert i T) w \<Longrightarrow> within o' d0 D Q T w"
  by (simp add: within_def working_def)

lemma within_status:
  assumes "q \<in> Q"
  shows "post (within o' d0 D Q T) (SetExtractionRequestStatus E q st msg) (\<lambda>_. within o' d0 D Q T)"
  unfolding SetExtractionRequestStatus_def
  by (intro within_exec local_stmtI sound_stmt more_stmt others_SetExtractionRequestStatus)
    (use assms in \<open>auto simp: working_def\<close>)

lemma within_failures:
  "q \<in> Q \<Longrightarrow> post (within o' d0 D Q T) (MarkRequestFailed E q txt) (\<lambda>_. within o' d0 D Q T)"
  "i \<in> T \<Longrightarrow> post (within o' d0 D Q T) (extraction_markTaskFailed E i txt) (\<lambda>_. within o' d0 D Q T)"
  unfolding MarkRequestFailed_def extraction_markTaskFailed_def
  by (auto intro!: post_ignoring post_return within_status within_task_update simp: worker_update_def)

text \<open>A task that has just been stored is published; when this fails, it and its request are marked.\<close>

lemma within_stored_task:
  assumes "post (within o' d0 D Q T) m (\<lambda>r. within o' d0 D Q (case r of Inl _ \<Rightarrow> T | Inr x \<Rightarrow> insert (task_id x) T))"
    and "\<And>e. post (within o' d0 D Q T) (h e) (\<lambda>_. within o' d0 D Q T)"
    and "\<And>x. post (within o' d0 D Q (insert (task_id x) T)) (k x) (\<lambda>_. within o' d0 D Q (insert (task_id x) T))"
  shows "post (within o' d0 D Q T) (State_Monad.bind m (\<lambda>r. case r of Inl e \<Rightarrow> h e | Inr x \<Rightarrow> k x)) (\<lambda>_. within o' d0 D Q T)"
  by (rule post_bind [OF assms(1)], rule post_case_sum)
    (auto intro: assms(2) post_weaken [OF assms(3) within_any_task])

lemma within_published:
  assumes "\<And>e. post (within o' d0 D Q T) (h e) (\<lambda>_. within o' d0 D Q T)"
  shows "post (within o' d0 D Q T) (State_Monad.bind (Process E r)
    (\<lambda>p. case p of Inl e \<Rightarrow> h e | Inr _ \<Rightarrow> ok ())) (\<lambda>_. within o' d0 D Q T)"
  by (rule post_bind [OF within_Process]) (auto intro: assms post_ok post_case_sum)

lemma within_running:
  "q \<in> Q \<Longrightarrow> post (within o' d0 D Q T)
    (if c then ignoring (SetExtractionRequestStatus E q st msg) (State_Monad.return ()) else State_Monad.return ())
    (\<lambda>_. within o' d0 D Q T)"
  by (auto intro!: post_ignoring post_return within_status)

lemma within_steps:
  assumes "req_document_id rq \<in> D" "doc_id doc \<in> D" "req_id rq \<in> Q"
  shows "post (within o' d0 D Q T) (enqueueResolveKeys E (server_extraction E) rq doc target) (\<lambda>_. within o' d0 D Q T)"
    "post (within o' d0 D Q T) (ensureConvertTask E (server_extraction E) doc) (\<lambda>_. within o' d0 D Q T)"
    "post (within o' d0 D Q T) (ensureAnonymizeTask E (server_extraction E) doc md) (\<lambda>_. within o' d0 D Q T)"
proof -
  note step = post_ignoring post_fail post_ok post_return within_status post_if
  show "post (within o' d0 D Q T) (ensureConvertTask E (server_extraction E) doc) (\<lambda>_. within o' d0 D Q T)"
    "post (within o' d0 D Q T) (ensureAnonymizeTask E (server_extraction E) doc md) (\<lambda>_. within o' d0 D Q T)"
    unfolding ensureConvertTask_def ensureAnonymizeTask_def server_python option.case
    by (rule within_stored_task, rule within_new_tasks, rule assms, (intro step; assumption), rule within_published,
        rule post_ignoring, rule within_failures, rule insertI1, rule post_fail, assumption)+
  show "post (within o' d0 D Q T) (enqueueResolveKeys E (server_extraction E) rq doc target) (\<lambda>_. within o' d0 D Q T)"
    unfolding enqueueResolveKeys_def Let_def server_python option.case ListExtractionKeysByOrg_def
    by (rule post_call [OF within_read], assumption, rule post_case_option, (intro step; assumption),
        rule within_stored_task, rule within_new_tasks, rule assms, (intro step; assumption), rule post_ignoring,
        rule within_running, rule assms, rule within_published, rule post_ignoring, rule within_failures, rule insertI1,
        rule post_ignoring, rule within_failures, rule assms, rule post_fail, assumption)
qed

lemma within_found:
  assumes "\<And>d x. working o' d0 D Q T d \<Longrightarrow> f d = Some x \<Longrightarrow> P x"
  shows "post (within o' d0 D Q T) (exec E (sel_one f)) (\<lambda>r w. within o' d0 D Q T w \<and> (\<forall>x. r = Inr x \<longrightarrow> P x))"
proof (rule postI, intro conjI allI impI)
  fix w r w' assume w: "within o' d0 D Q T w" and run: "run_state (exec E (sel_one f)) w = (r, w')"
  have "local_stmt o' D Q T (sel_one f)" by (auto simp: local_stmt_def sel_one_def split: option.split)
  then show "within o' d0 D Q T w'" using postD [OF within_exec w run] by simp
  show "P x" if "r = Inr x" for x
    using exec_Inr [of E "sel_one f" w x w'] run that assms [of "w_db w"] w
    by (auto simp: sel_one_def within_def split: option.splits)
qed

lemma post_given: "(A \<Longrightarrow> post P m Q) \<Longrightarrow> post (\<lambda>s. P s \<and> A) m Q"
  by (auto simp: post_def)

lemma within_Progress:
  assumes "req_document_id rq \<in> D" "req_id rq \<in> Q"
  shows "post (within o' d0 D Q T) (Progress E (server_extraction E) rq) (\<lambda>_. within o' d0 D Q T)"
proof -
  have step: "post (within o' d0 D Q T) (case st of EnqueueResolveKeys target \<Rightarrow> enqueueResolveKeys E (server_extraction E) rq doc target
      | EnsureAnonymize md \<Rightarrow> ensureAnonymizeTask E (server_extraction E) doc md
      | EnsureConvert \<Rightarrow> ensureConvertTask E (server_extraction E) doc) (\<lambda>_. within o' d0 D Q T)"
    if "doc_id doc = req_document_id rq" for st doc
    by (cases st) (auto simp: assms that intro!: within_steps [OF assms(1) _ assms(2)])
  show ?thesis
    unfolding Progress_def GetDocumentByID_def ListDocumentsByParent_def
    by (rule post_if, rule post_ok, assumption, rule post_call [OF within_found [where P = "\<lambda>x. doc_id x = req_document_id rq"]])
      (auto dest: find_Some_iff_mem intro!: post_given post_call [OF within_read] step)
qed

text \<open>The request that \<open>Initiate\<close> records is an own one, of an own document.\<close>

lemma within_created_request:
  "post (within o' d0 {} {} {}) (CreateExtractionRequest E doc o' qs anon)
     (\<lambda>r. case r of Inl _ \<Rightarrow> within o' d0 {} {} {} | Inr rq \<Rightarrow> within o' d0 {req_document_id rq} {req_id rq} {})"
  unfolding CreateExtractionRequest_def
proof (rule postI)
  let ?f = "stmt_CreateExtractionRequest doc o' qs anon"
  fix w r w' assume w: "within o' d0 {} {} {} w" and run: "run_state (exec E ?f) w = (r, w')"
  have "local_stmt o' {} {} {} ?f"
    by (intro local_stmtI sound_stmt more_stmt) (auto simp: working_def others_CreateExtractionRequest)
  then have w': "within o' d0 {} {} {} w'" using postD [OF within_exec w run] by simp
  show "(case r of Inl _ \<Rightarrow> within o' d0 {} {} {} | Inr rq \<Rightarrow> within o' d0 {req_document_id rq} {req_id rq} {}) w'"
  proof (cases r)
    case (Inr rq)
    then have run: "?f (env_uuid E (w_tick w)) (env_now E (w_tick w)) (w_db w) = (Inr rq, w_db w')"
      using exec_Inr run by metis
    then have rq: "rq \<in> set (extraction_requests (w_db w'))" "req_organization_id rq = o'"
        "org_document_exists (w_db w') (req_document_id rq) o'"
      by (auto simp: stmt_CreateExtractionRequest_def Let_def new_request_def request_fks_def checks_hold_def
          org_document_exists_def split: option.splits dest!: sym [of _ "w_db w'"])
    then have "own_request (w_db w') (req_id rq) o'" by (auto simp: own_request_def list_ex_iff)
    then show ?thesis using Inr w' rq(3) by (simp add: within_def working_def)
  qed (use w' in simp)
qed

lemma within_less: "within o' d0 D Q T w \<Longrightarrow> within o' d0 {} {} {} w"
  by (simp add: within_def working_def)

lemma within_Initiate:
  "post (within o' d0 {} {} {}) (Initiate E (server_extraction E) doc o' qs anon) (\<lambda>_. within o' d0 {} {} {})"
  unfolding Initiate_def GetDocument_def
proof (rule post_if, rule post_fail, assumption, rule post_call [OF within_found [where P = "\<lambda>_. True"]])
  show "post (\<lambda>w. within o' d0 {} {} {} w \<and> (\<forall>x. (Inr d :: go_error + document) = Inr x \<longrightarrow> True))
      (call (CreateExtractionRequest E doc o' (enc_strings qs) anon)
        (\<lambda>err. errs_New CodeInternalError ''failed to create extraction request'' (Some err))
        (\<lambda>req. ignoring (Progress E (server_extraction E) req) (ok req))) (\<lambda>_. within o' d0 {} {} {})" for d
    by (rule post_call, rule post_conseq [OF within_created_request], simp, assumption)
      (auto intro!: post_ignoring within_Progress post_ok dest: within_less)
qed simp_all

section \<open>The contract of a tenant\<close>

lemma isolated_stmt:
  assumes "keeps upkeep f" and "\<And>d g t. consistent d \<Longrightarrow> others o' (snd (f g t d)) = others o' d"
  shows "keeps (isolated o') f"
  using assms by (simp add: keeps_def upkeep_def isolated_def)

lemma isolated_within:
  assumes "\<And>d0. post (within o' d0 {} {} {}) m (\<lambda>_. within o' d0 {} {} {})"
  shows "state_io_rel (isolated o') m"
  unfolding state_io_rel_def isolated_def
proof (intro allI impI)
  fix w :: world assume "consistent (w_db w)"
  then have "within o' (others o' (w_db w)) {} {} {} w" by (simp add: within_def working_def)
  then have "within o' (others o' (w_db w)) {} {} {} (snd (run_state m w))" using assms by (simp add: post_def)
  then show "consistent (w_db (snd (run_state m w))) \<and> others o' (w_db (snd (run_state m w))) = others o' (w_db w)"
    by (simp add: within_def working_def)
qed

interpretation isolation: statements "isolated o'" for o'
  by unfold_locales (auto simp: isolated_def)

lemma isolated_Process: "state_io_rel (isolated o') (Process E r)"
proof -
  have "isolated o' w (snd (run_state (Process E r) w))" for w
    by (cases rule: Process_cases [of E r w]) (simp_all add: isolated_def)
  then show ?thesis by (simp add: state_io_rel_def)
qed

lemmas upkeep_laws = upkeep.update_organization upkeep.delete_organization upkeep.create_user upkeep.update_user
  upkeep.create_invitation upkeep.delete_invitation upkeep.create_site upkeep.update_site upkeep.update_cover
  upkeep.update_type upkeep.delete_site upkeep.create_kind upkeep.update_kind upkeep.delete_kind upkeep.create_role
  upkeep.update_role upkeep.delete_role upkeep.delete_session upkeep.remove_place upkeep.create_document
  upkeep.update_meta upkeep.delete_document upkeep.update_task upkeep.delete_task

interpretation isolation: tenant "isolated o'" o' for o'
proof unfold_locales
  show "keeps_if (\<lambda>d. null_or (\<lambda>k. visible_entry (document_contract_kinds d) k o') kind) (isolated o')
      (stmt_CreateComparisonSession o' by' title kind)" for by' title kind
    by (simp add: keeps_if_def isolated_def others_sessions consistent_def db_ok_statements more_CreateComparisonSession)
  show "keeps_if (\<lambda>d. org_session_exists d i o') (isolated o') (stmt_AddDocumentToComparisonSession i doc o' pos)" for i doc pos
    by (simp add: keeps_if_def isolated_def others_AddDocument) (simp add: consistent_def db_ok_statements more_AddDocument)
  show "state_io_rel (isolated o') (task_Create E (Some (Process E)) doc m o')" for E doc m
    unfolding task_Create_def CreateDocumentTask_def option.case
    by (intro io_rel isolation.rel_exec isolated_stmt isolated_Process upkeep_stmt stmt_CreateDocumentTask_ok more_stmt others_stmt)
  show "state_io_rel (isolated o') (Initiate E (server_extraction E) doc o' qs anon)" for E doc qs anon
    by (rule isolated_within) (rule within_Initiate)
  show "isolated o' w (w\<lparr>w_tick := n, w_objects := obs\<rparr>)" for w n obs by (simp add: isolated_def)
qed (rule isolated_stmt, (rule upkeep_laws; assumption?), (rule others_stmt; assumption))+

end
