(* ===== verification/Callback_Isolation.thy ===== *)
theory Callback_Isolation
  imports Tenant_Isolation Worker_Properties
begin

text \<open>
  The callbacks of the workers work for the tenant whose task they report on: artifacts, tasks, requests, keys
  and values that they write are of the organization that owns the document and the request of the task.
\<close>

section \<open>The statements of the callbacks\<close>

lemma own_document_row:
  assumes "consistent d" and "org_document_exists d (doc_id x) o'" and "x \<in> set (documents d)"
  shows "doc_organization_id x = o'"
  using assms(2) distinct_key_inj [OF db_ok_distinct(2) [OF consistentD(1) [OF assms(1)]] _ assms(3)]
  by (auto simp: org_document_exists_def list_ex_iff)

lemma own_request_row:
  assumes "consistent d" and "own_request d (req_id r) o'" and "r \<in> set (extraction_requests d)"
  shows "req_organization_id r = o'" "org_document_exists d (req_document_id r) o'"
proof -
  show org: "req_organization_id r = o'"
    using assms(2) distinct_key_inj [OF db_ok_distinct(3) [OF consistentD(1) [OF assms(1)]] _ assms(3)]
    by (auto simp: own_request_def list_ex_iff)
  have "table_ok req_id no_index (request_ok d) (extraction_requests d)"
    using consistentD(1) [OF assms(1)] by (simp add: db_ok_def requests_ok_def)
  then show "org_document_exists d (req_document_id r) o'"
    using table_ok_row assms(3) org by (fastforce simp: request_ok_def request_fks_def)
qed

text \<open>An artifact that is refreshed has the parent of the new one, and with it its organization.\<close>

lemma others_CreateArtifactDocument:
  assumes ok: "consistent d" and org: "cd_OrganizationID p = o'"
  shows "others o' (snd (stmt_CreateArtifactDocument p g t d)) = others o' d"
proof -
  let ?x = "new_document (g 0) t p"
  have insert: "others o' (snd (insert_document ?x t d)) = others o' d"
    using others_documents(1) [OF ok, where dp = p and g = g and t = t] org by (simp add: stmt_CreateDocument_def)
  show ?thesis
  proof (cases "first_violation (document_triggers d ?x @ document_checks ?x)")
    case None
    then have trig: "checks_hold (document_triggers d ?x)" by (simp add: checks_hold_def)
    have own: "doc_organization_id y = o'" if y: "y \<in> set (documents d)" "artifact_key y = artifact_key ?x"
        "artifact_key ?x \<noteq> None" for y
    proof -
      obtain i where i: "doc_parent_id ?x = Some i" "doc_parent_id y = Some i"
        using y(2,3) by (auto simp: artifact_key_def split: option.splits)
      have "org_document_exists d i (doc_organization_id y)"
        using bspec [OF more_tables(12) [OF consistentD(2) [OF ok]] y(1)] i(2) by (simp add: file_ok_def document_triggers_def)
      moreover have "org_document_exists d i o'"
        using trig i(1) org by (simp add: document_triggers_def new_document_def)
      moreover obtain z where z: "z \<in> set (documents d)" "doc_id z = i" "doc_organization_id z = doc_organization_id y"
        using calculation(1) by (auto simp: org_document_exists_def list_ex_iff)
      ultimately show ?thesis using own_document_row [OF ok _ z(1), of o'] z by simp
    qed
    show ?thesis
    proof (cases "index_conflict artifact_key ?x (documents d)")
      case True
      then have key: "artifact_key ?x \<noteq> None" by (simp add: index_conflict_def split: option.splits)
      have "others o' (snd (update_document (\<lambda>y. artifact_key y = artifact_key ?x) (refresh_artifact p t) d)) = others o' d"
      proof (cases "find (\<lambda>y. artifact_key y = artifact_key ?x) (documents d)")
        case (Some y)
        then have y: "y \<in> set (documents d)" "artifact_key y = artifact_key ?x" by (auto dest: find_Some_iff_mem)
        have "others o' (d\<lparr>documents := put_row doc_id (refresh_artifact p t y) (documents d)\<rparr>) = others o' d"
          by (rule others_put_document [OF ok y(1) own [OF y key]]) (simp add: same_document_def refresh_artifact_def)
        then show ?thesis using Some by (simp add: update_document_def split: option.split)
      qed (simp add: update_document_def)
      then show ?thesis using True None by (simp add: stmt_CreateArtifactDocument_def Let_def split: option.split)
    next
      case False
      then show ?thesis using None insert by (simp add: stmt_CreateArtifactDocument_def Let_def split: option.split)
    qed
  qed (simp add: stmt_CreateArtifactDocument_def)
qed

lemma others_update_request:
  assumes "consistent d" and "own_request d q o'" and "\<And>r. same_request r (f r)"
  shows "others o' (snd (update_request q f d)) = others o' d"
proof (cases "find (\<lambda>r. req_id r = q) (extraction_requests d)")
  case (Some r)
  then have r: "r \<in> set (extraction_requests d)" "req_id r = q" by (auto dest: find_Some_iff_mem)
  have "req_organization_id r = o'" by (rule own_request_row(1) [OF assms(1) _ r(1)]) (simp add: assms(2) r(2))
  from others_put_request [OF assms(1) r(1) this assms(3)] show ?thesis
    using Some by (simp add: update_request_def split: option.split)
qed (simp add: update_request_def)

lemma others_set_keys:
  "filter (\<lambda>k. key_organization_id k \<noteq> Some o') ks = filter (\<lambda>k. key_organization_id k \<noteq> Some o') (extraction_keys d) \<Longrightarrow>
    others o' (d\<lparr>extraction_keys := ks\<rparr>) = others o' d"
  "filter (\<lambda>x. dat_organization_id x \<noteq> o') xs = filter (\<lambda>x. dat_organization_id x \<noteq> o') (document_extracted_data d) \<Longrightarrow>
    others o' (d\<lparr>document_extracted_data := xs\<rparr>) = others o' d"
  by (simp_all add: others_def task_of_org_def task_in_org_def org_document_exists_def)

lemma others_UpsertExtractionKey:
  assumes ok: "consistent d"
  shows "others o' (snd (stmt_UpsertExtractionKey (Some o') nm qy ty g t d)) = others o' d"
proof (cases "find (\<lambda>k. key_org_name k = (Some o', nm)) (extraction_keys d)")
  case (Some k)
  then have k: "k \<in> set (extraction_keys d)" "key_organization_id k = Some o'"
    by (auto simp: key_org_name_def dest: find_Some_iff_mem)
  let ?k = "k\<lparr>key_source_query := qy, key_data_type := ty\<rparr>"
  have "z = k" if "z \<in> set (extraction_keys d)" "key_id z = key_id ?k" for z
    using distinct_key_inj [OF db_ok_distinct(4) [OF consistentD(1) [OF ok]] that(1) k(1)] that(2) by simp
  then have "filter (\<lambda>k. key_organization_id k \<noteq> Some o') (put_row key_id ?k (extraction_keys d)) =
      filter (\<lambda>k. key_organization_id k \<noteq> Some o') (extraction_keys d)"
    using k(2) by (intro filter_put_row) auto
  then show ?thesis using Some by (simp add: stmt_UpsertExtractionKey_def Let_def others_set_keys)
next
  case None
  then show ?thesis
    by (auto simp: stmt_UpsertExtractionKey_def Let_def new_key_def split: option.split intro!: others_set_keys)
qed

lemma others_upsert_datum:
  assumes "distinct (map dat_id (document_extracted_data d))" and "dat_organization_id x = o'" and "upsert_datum x d = Inr d'"
  shows "others o' d' = others o' d" "distinct (map dat_id (document_extracted_data d'))"
proof -
  have "others o' d' = others o' d \<and> distinct (map dat_id (document_extracted_data d'))"
  proof (cases "find (\<lambda>y. datum_key y = datum_key x) (document_extracted_data d)")
    case (Some y)
    then have y: "y \<in> set (document_extracted_data d)" "dat_organization_id y = o'"
      using assms(2) by (auto simp: datum_key_def dest: find_Some_iff_mem)
    let ?y = "y\<lparr>dat_extracted_value := dat_extracted_value x\<rparr>"
    have "z = y" if "z \<in> set (document_extracted_data d)" "dat_id z = dat_id ?y" for z
      using distinct_key_inj [OF assms(1) that(1) y(1)] that(2) by simp
    then have "filter (\<lambda>x. dat_organization_id x \<noteq> o') (put_row dat_id ?y (document_extracted_data d)) =
        filter (\<lambda>x. dat_organization_id x \<noteq> o') (document_extracted_data d)"
      using y(2) by (intro filter_put_row) auto
    then show ?thesis using assms(1,3) Some by (auto simp: upsert_datum_def others_set_keys split: option.splits)
  next
    case None
    then show ?thesis using assms
      by (auto simp: upsert_datum_def checks_hold_def split: option.splits if_splits intro!: others_set_keys)
  qed
  then show "others o' d' = others o' d" "distinct (map dat_id (document_extracted_data d'))" by auto
qed

lemma others_upsert_data:
  assumes "distinct (map dat_id (document_extracted_data d))" and "\<forall>x \<in> set xs. dat_organization_id x = o'"
    and "upsert_data xs d = Inr d'"
  shows "others o' d' = others o' d"
  using assms
proof (induction xs arbitrary: d)
  case (Cons x xs)
  then obtain d1 where d1: "upsert_datum x d = Inr d1" "upsert_data xs d1 = Inr d'" by (auto split: sum.splits)
  from others_upsert_datum [OF Cons.prems(1) _ d1(1), of o'] Cons.prems(2)
  have "others o' d1 = others o' d" "distinct (map dat_id (document_extracted_data d1))" by simp_all
  then show ?case using Cons.IH [of d1] d1(2) Cons.prems(2) by simp
qed simp

lemma others_BatchUpsertExtractedData:
  assumes "consistent d"
  shows "others o' (snd (stmt_BatchUpsertExtractedData o' doc ks vs g t d)) = others o' d"
proof -
  let ?xs = "map2 (\<lambda>i (k, v). new_datum (g i) o' doc k (Some v)) [0..<length ks] (zip ks vs)"
  have own: "\<forall>x \<in> set ?xs. dat_organization_id x = o'" by (auto simp: new_datum_def)
  show ?thesis
    using others_upsert_data [OF db_ok_distinct(5) [OF consistentD(1) [OF assms]] own]
    by (cases "upsert_data ?xs d") (simp_all add: stmt_BatchUpsertExtractedData_def)
qed

section \<open>Steps of the callbacks\<close>

lemma within_weaker: "within o' d0 D' Q' T' w \<Longrightarrow> D \<subseteq> D' \<Longrightarrow> Q \<subseteq> Q' \<Longrightarrow> T \<subseteq> T' \<Longrightarrow> within o' d0 D Q T w"
  by (auto simp: within_def working_def)

lemma within_writes:
  "cd_OrganizationID p = o' \<Longrightarrow> post (within o' d0 D Q T) (CreateArtifactDocument E p) (\<lambda>_. within o' d0 D Q T)"
  "q \<in> Q \<Longrightarrow> post (within o' d0 D Q T) (SetExtractionRequestResolvedSchema E q j) (\<lambda>_. within o' d0 D Q T)"
  "post (within o' d0 D Q T) (UpsertExtractionKey E (Some o') nm qy ty) (\<lambda>_. within o' d0 D Q T)"
  "post (within o' d0 D Q T) (BatchUpsertExtractedData E o' doc ks vs) (\<lambda>_. within o' d0 D Q T)"
  unfolding CreateArtifactDocument_def SetExtractionRequestResolvedSchema_def UpsertExtractionKey_def
    BatchUpsertExtractedData_def
  by (intro within_exec local_stmtI sound_stmt more_stmt;
      auto simp: working_def same_request_def stmt_SetExtractionRequestResolvedSchema_def intro: others_CreateArtifactDocument others_update_request
        others_UpsertExtractionKey others_BatchUpsertExtractedData)+

lemma within_result:
  assumes "i \<in> T"
  shows "post (within o' d0 D Q T) (UpdateTaskResultPayload E i j) (\<lambda>_. within o' d0 D Q T)"
  unfolding UpdateTaskResultPayload_def
proof (intro within_exec local_stmtI sound_stmt more_stmt)
  fix d0 d :: db and g t assume w: "working o' d0 D Q T d"
  then obtain y where y: "y \<in> set (document_tasks d)" "task_id y = i" "task_of_org d o' y"
    using assms by (auto simp: working_def own_task_def list_ex_iff)
  have ok: "consistent d" using w by (simp add: working_def)
  have "task_of_org d o' x" if "x \<in> set (document_tasks d)" "task_id x = i" for x
    using distinct_key_inj [OF db_ok_distinct(1) [OF consistentD(1) [OF ok]] that(1) y(1)] that(2) y(2,3) by simp
  then show "others o' (snd (stmt_UpdateTaskResultPayload i j g t d)) = others o' d"
    unfolding stmt_UpdateTaskResultPayload_def by (intro others_update_task ok) (auto simp: same_task_def)
qed

text \<open>An own document is read back as one of the organization.\<close>

lemma within_document:
  assumes "i \<in> D"
  shows "post (within o' d0 D Q T) (GetDocumentByID E i)
    (\<lambda>r w. within o' d0 D Q T w \<and> (\<forall>x. r = Inr x \<longrightarrow> doc_id x = i \<and> doc_organization_id x = o'))"
  unfolding GetDocumentByID_def
proof (rule within_found)
  fix d x assume w: "working o' d0 D Q T d" and x: "find (\<lambda>x. doc_id x = i) (documents d) = Some x"
  then have x: "x \<in> set (documents d)" "doc_id x = i" by (auto dest: find_Some_iff_mem)
  show "doc_id x = i \<and> doc_organization_id x = o'"
    using own_document_row [OF _ _ x(1)] w x(2) assms by (auto simp: working_def)
qed

text \<open>So is an own request, with its document.\<close>

lemma within_request:
  assumes "q \<in> Q"
  shows "post (within o' d0 D Q T) (GetExtractionRequestByID E q)
    (\<lambda>r w. within o' d0 D Q T w \<and> (\<forall>x. r = Inr x \<longrightarrow> req_id x = q \<and> req_organization_id x = o' \<and>
       within o' d0 (insert (req_document_id x) D) Q T w))"
  unfolding GetExtractionRequestByID_def
proof (rule postI)
  let ?f = "sel_one (\<lambda>d. find (\<lambda>r. req_id r = q) (extraction_requests d))"
  fix w r w' assume w: "within o' d0 D Q T w" and run: "run_state (exec E ?f) w = (r, w')"
  have "within o' d0 D Q T w'" using postD [OF within_found [where P = "\<lambda>_. True"] w run] by simp
  moreover have "req_id x = q \<and> req_organization_id x = o' \<and> within o' d0 (insert (req_document_id x) D) Q T w'"
    if "r = Inr x" for x
  proof -
    have ok: "consistent (w_db w')" and own: "own_request (w_db w') q o'"
      using calculation assms by (auto simp: within_def working_def)
    have "find (\<lambda>r. req_id r = q) (extraction_requests (w_db w')) = Some x"
      using exec_Inr [of E ?f w x w'] run that by (auto simp: sel_one_def split: option.splits)
    then have x: "x \<in> set (extraction_requests (w_db w'))" "req_id x = q" by (auto dest: find_Some_iff_mem)
    show ?thesis
      using own_request_row [OF ok _ x(1), of o'] own x(2) calculation by (simp add: within_def working_def)
  qed
  ultimately show "within o' d0 D Q T w' \<and> (\<forall>x. r = Inr x \<longrightarrow> req_id x = q \<and> req_organization_id x = o' \<and>
      within o' d0 (insert (req_document_id x) D) Q T w')" by blast
qed

text \<open>The requests in flight of an own document are own ones.\<close>

lemma within_pending:
  assumes "i \<in> D"
  shows "post (within o' d0 D Q T) (ListPendingExtractionRequestsByDocument E i)
    (\<lambda>r. case r of Inl _ \<Rightarrow> within o' d0 D Q T
       | Inr rqs \<Rightarrow> (\<lambda>w. within o' d0 D (Q \<union> req_id ` set rqs) T w \<and> (\<forall>rq \<in> set rqs. req_document_id rq = i)))"
  unfolding ListPendingExtractionRequestsByDocument_def
proof (rule postI)
  let ?f = "sel (pending_requests i)"
  fix w r w' assume w: "within o' d0 D Q T w" and run: "run_state (exec E ?f) w = (r, w')"
  have w': "within o' d0 D Q T w'" using postD [OF within_read w run] .
  show "(case r of Inl _ \<Rightarrow> within o' d0 D Q T
       | Inr rqs \<Rightarrow> (\<lambda>w. within o' d0 D (Q \<union> req_id ` set rqs) T w \<and> (\<forall>rq \<in> set rqs. req_document_id rq = i))) w'"
  proof (cases r)
    case (Inr rqs)
    have ok: "consistent (w_db w')" and doc: "org_document_exists (w_db w') i o'"
      using w' assms by (auto simp: within_def working_def)
    have rqs: "rqs = pending_requests i (w_db w')"
      using exec_Inr [of E ?f w rqs w'] run Inr by (auto simp: sel_def)
    have rq: "rq \<in> set (extraction_requests (w_db w')) \<and> req_document_id rq = i" if "rq \<in> set rqs" for rq
      using that by (auto simp: rqs pending_requests_def)
    have "own_request (w_db w') (req_id rq) o'" if "rq \<in> set rqs" for rq
    proof -
      have "table_ok req_id no_index (request_ok (w_db w')) (extraction_requests (w_db w'))"
        using consistentD(1) [OF ok] by (simp add: db_ok_def requests_ok_def)
      then have "org_document_exists (w_db w') i (req_organization_id rq)"
        using table_ok_row rq [OF that] by (fastforce simp: request_ok_def request_fks_def)
      then obtain x where x: "x \<in> set (documents (w_db w'))" "doc_id x = i" "doc_organization_id x = req_organization_id rq"
        by (auto simp: org_document_exists_def list_ex_iff)
      then have "req_organization_id rq = o'" using own_document_row [OF ok _ x(1), of o'] doc by simp
      then show ?thesis using rq [OF that] by (auto simp: own_request_def list_ex_iff)
    qed
    then show ?thesis using Inr w' rq by (auto simp: within_def working_def)
  qed (use w' in simp)
qed

section \<open>Artifacts\<close>

lemma within_ListDocumentsByParent: "post (within o' d0 D Q T) (ListDocumentsByParent E i org) (\<lambda>_. within o' d0 D Q T)"
  unfolding ListDocumentsByParent_def by (rule within_read)

lemma within_artifact:
  assumes "doc_organization_id parent = o'"
  shows "post (within o' d0 D Q T) (registerArtifact E parent path nm mime kind) (\<lambda>_. within o' d0 D Q T)"
    "post (within o' d0 D Q T) (register_optional E parent path mime kind what) (\<lambda>_. within o' d0 D Q T)"
proof -
  show *: "post (within o' d0 D Q T) (registerArtifact E parent path nm mime kind) (\<lambda>_. within o' d0 D Q T)" for nm
    unfolding registerArtifact_def by (rule within_writes(1)) (simp add: artifact_params_def assms)
  show "post (within o' d0 D Q T) (register_optional E parent path mime kind what) (\<lambda>_. within o' d0 D Q T)"
    unfolding register_optional_def
    by (rule post_if, rule post_ok, assumption, rule post_call [OF *], assumption, rule post_ok, assumption)
qed

text \<open>After an own document is read, the rest of the callback knows its organization.\<close>

lemma within_with_document:
  assumes "i \<in> D" and "\<And>x. doc_id x = i \<Longrightarrow> doc_organization_id x = o' \<Longrightarrow> post (within o' d0 D Q T) (k x) (\<lambda>_. within o' d0 D Q T)"
  shows "post (within o' d0 D Q T) (call (GetDocumentByID E i) h k) (\<lambda>_. within o' d0 D Q T)"
proof (rule post_call [OF within_document [OF assms(1)]])
  fix x
  show "post (\<lambda>w. within o' d0 D Q T w \<and> (\<forall>y. (Inr x :: go_error + document) = Inr y \<longrightarrow> doc_id y = i \<and> doc_organization_id y = o'))
      (k x) (\<lambda>_. within o' d0 D Q T)"
    by (rule post_given) (simp add: assms(2))
qed simp

lemma within_converted:
  assumes "task_document_id task \<in> D" and "task_id task \<in> T"
  shows "post (within o' d0 D Q T) (registerConvertArtifacts E task) (\<lambda>_. within o' d0 D Q T)"
  unfolding registerConvertArtifacts_def
  by (rule post_case_option, rule post_fail, assumption, rule post_if, rule post_ok, assumption,
      rule within_with_document, rule assms, rule post_call, rule within_artifact, assumption, assumption,
      rule post_call, rule within_result, rule assms, assumption, rule post_ok, assumption)

lemma within_anonymized:
  assumes "task_document_id task \<in> D" and "task_id task \<in> T"
  shows "post (within o' d0 D Q T) (registerAnonymizeArtifacts E task) (\<lambda>_. within o' d0 D Q T)"
  unfolding registerAnonymizeArtifacts_def
  by (rule post_case_option, rule post_fail, assumption, rule within_with_document, rule assms,
      rule post_call, rule within_artifact, assumption, assumption, rule post_call, rule within_artifact, assumption, assumption,
      rule post_if, rule post_ok, assumption, rule post_call, rule within_result, rule assms, assumption, rule post_ok, assumption)

section \<open>The chain\<close>

lemma within_worker_failure:
  "i \<in> T \<Longrightarrow> post (within o' d0 D Q T) (worker_markTaskFailed E i txt) (\<lambda>_. within o' d0 D Q T)"
  unfolding worker_markTaskFailed_def
  by (rule post_call, rule within_task_update) (auto intro!: post_ok simp: worker_update_def)

lemma within_anonymize:
  assumes "task_document_id task \<in> D"
  shows "post (within o' d0 D Q T) (triggerAnonymize E (server_worker E) task) (\<lambda>_. within o' d0 D Q T)"
proof -
  note step = post_fail post_ok post_if
  show ?thesis
    unfolding triggerAnonymize_def server_worker_def worker_service.simps
    by (rule post_case_option, rule post_fail, assumption, rule post_if, rule post_fail, assumption,
        rule within_stored_task, rule within_new_tasks, rule assms, (intro step; assumption), rule within_published,
        rule post_ignoring, rule within_worker_failure, rule insertI1, rule post_fail, assumption)
qed

lemma within_enqueueExtract:
  assumes "req_document_id rq \<in> D" "req_id rq \<in> Q"
  shows "post (within o' d0 D Q T) (enqueueExtract E (server_extraction E) rq target schema) (\<lambda>_. within o' d0 D Q T)"
proof -
  note step = post_fail post_ok post_if
  show ?thesis
    unfolding enqueueExtract_def server_python option.case
    by (rule within_stored_task, rule within_new_tasks, rule assms, (intro step; assumption), rule within_published,
        rule post_ignoring, rule within_failures, rule insertI1, rule post_ignoring, rule within_failures, rule assms,
        rule post_fail, assumption)
qed

text \<open>The requests in flight of an own document are advanced, or failed, with it.\<close>

lemma within_in_flight:
  assumes "i \<in> D" and "\<And>Q rq. req_document_id rq = i \<Longrightarrow> req_id rq \<in> Q \<Longrightarrow> post (within o' d0 D Q T) (f rq) (\<lambda>_. within o' d0 D Q T)"
  shows "post (within o' d0 D Q T) (State_Monad.bind (ListPendingExtractionRequestsByDocument E i)
      (\<lambda>r. case r of Inl _ \<Rightarrow> State_Monad.return () | Inr rqs \<Rightarrow> for_each f rqs)) (\<lambda>_. within o' d0 D Q T)"
proof (rule post_bind [OF within_pending [OF assms(1)]], rule post_case_sum)
  fix r and rqs :: "extraction_request list" assume r: "r = Inr rqs"
  have each: "post (within o' d0 D (Q \<union> req_id ` set rqs) T) (for_each f rqs) (\<lambda>_. within o' d0 D (Q \<union> req_id ` set rqs) T)"
    if "\<forall>rq \<in> set rqs. req_document_id rq = i"
    by (rule post_for_each, rule assms(2)) (use that in auto)
  show "post ((case r of Inl _ \<Rightarrow> within o' d0 D Q T | Inr rqs \<Rightarrow> (\<lambda>w. within o' d0 D (Q \<union> req_id ` set rqs) T w \<and>
      (\<forall>rq \<in> set rqs. req_document_id rq = i)))) (for_each f rqs) (\<lambda>_. within o' d0 D Q T)"
    unfolding r sum.case by (rule post_given, rule post_weaken [OF each]) (auto elim: within_weaker)
qed (auto intro: post_return)

lemma within_pending_requests:
  assumes "i \<in> D"
  shows "post (within o' d0 D Q T) (progressPendingRequests E (server_worker E) i) (\<lambda>_. within o' d0 D Q T)"
    "post (within o' d0 D Q T) (failPendingRequests E (server_worker E) i txt) (\<lambda>_. within o' d0 D Q T)"
  unfolding progressPendingRequests_def failPendingRequests_def server_worker_def pipeline_of_def
    worker_service.simps extraction_pipeline.simps
  by (rule within_in_flight, rule assms, rule within_Progress, simp add: assms, assumption,
      rule within_in_flight, rule assms, rule within_failures)

section \<open>The callbacks of the pipeline\<close>

lemma within_with_request:
  assumes "q \<in> Q" and "\<And>x. req_id x = q \<Longrightarrow> req_organization_id x = o' \<Longrightarrow>
      post (within o' d0 (insert (req_document_id x) D) Q T) (k x) (\<lambda>_. within o' d0 (insert (req_document_id x) D) Q T)"
  shows "post (within o' d0 D Q T) (call (GetExtractionRequestByID E q) h k) (\<lambda>_. within o' d0 D Q T)"
proof (rule post_call [OF within_request [OF assms(1)]])
  fix x :: extraction_request
  show "post (\<lambda>w. within o' d0 D Q T w \<and> (\<forall>y. Inr x = Inr y \<longrightarrow> req_id y = q \<and> req_organization_id y = o' \<and>
      within o' d0 (insert (req_document_id y) D) Q T w)) (k x) (\<lambda>_. within o' d0 D Q T)"
  proof (cases "req_id x = q \<and> req_organization_id x = o'")
    case True
    then show ?thesis
      by (intro post_conseq [OF assms(2)]) (auto elim: within_weaker)
  qed (auto simp: post_def)
qed simp

lemma within_resolved:
  assumes "\<And>q. task_extraction_request_id task = Some q \<Longrightarrow> q \<in> Q"
  shows "post (within o' d0 D Q T) (OnResolveKeysCompleted E (server_extraction E) task) (\<lambda>_. within o' d0 D Q T)"
  unfolding OnResolveKeysCompleted_def
proof (rule post_case_option, rule post_fail, assumption, rule post_case_option, rule post_fail, assumption,
    rule post_if, rule post_fail, assumption, rule within_with_request, erule assms)
  fix q p and rq :: extraction_request assume q: "task_extraction_request_id task = Some q" and rq: "req_id rq = q" "req_organization_id rq = o'"
  let ?D = "insert (req_document_id rq) D"
  have key: "post (within o' d0 ?D Q T) (upsert_new_key E (req_organization_id rq) k) (\<lambda>_. within o' d0 ?D Q T)" for k
    unfolding upsert_new_key_def rq by (rule within_writes)
  show "post (within o' d0 ?D Q T)
     (ignoring (for_each (upsert_new_key E (req_organization_id rq)) (rk_NewKeys p))
         (call (SetExtractionRequestResolvedSchema E q (enc_schema (rk_ResolvedSchema p)))
               (Wrapped ''save resolved_schema'') (\<lambda>_.
          call (GetDocumentByID E (req_document_id rq)) (Wrapped ''get document'') (\<lambda>doc.
          call (ListDocumentsByParent E (doc_id doc) (doc_organization_id doc))
               (Wrapped ''list artifacts'') (\<lambda>artifacts.
          case target_artifact (req_anonymize rq) artifacts of
            None \<Rightarrow> fail (Other (''target artifact missing for extraction_request '' @
                      env_uuid_string E q))
          | Some target \<Rightarrow> enqueueExtract E (server_extraction E) rq target (rk_ResolvedSchema p)))))) (\<lambda>_. within o' d0 ?D Q T)"
    by (rule post_ignoring, rule post_for_each, rule key, rule post_call, rule within_writes, rule assms, rule q, assumption,
        rule within_with_document, rule insertI1, rule post_call, rule within_ListDocumentsByParent, assumption,
        rule post_case_option, rule post_fail, assumption, rule within_enqueueExtract, rule insertI1, simp only: rq, rule assms, rule q)
qed

lemma within_values:
  assumes "req_organization_id rq = o'"
  shows "post (within o' d0 D Q T) (persistExtractedData E rq m) (\<lambda>_. within o' d0 D Q T)"
  unfolding persistExtractedData_def Let_def assms GetExtractionKeysByNames_def
  by (rule post_call, rule within_read, assumption, rule post_if, rule post_ok, assumption, rule within_writes)

lemma within_extracted:
  assumes "\<And>q. task_extraction_request_id task = Some q \<Longrightarrow> q \<in> Q"
  shows "post (within o' d0 D Q T) (OnExtractCompleted E task) (\<lambda>_. within o' d0 D Q T)"
  unfolding OnExtractCompleted_def
  by (rule post_case_option, rule post_fail, assumption, rule post_case_option, rule post_fail, assumption,
      rule within_with_request, erule assms, rule post_call, rule post_if, erule within_values, rule post_ok, assumption, assumption,
      rule post_call, rule within_status, erule assms, assumption, rule post_ok, assumption)

section \<open>The reactions to a report\<close>

lemma within_fail_request_of:
  assumes "\<And>q. task_extraction_request_id task = Some q \<Longrightarrow> q \<in> Q"
  shows "post (within o' d0 D Q T) (fail_request_of (server_worker E) task txt) (\<lambda>_. within o' d0 D Q T)"
  unfolding fail_request_of_def server_worker_def pipeline_of_def worker_service.simps extraction_pipeline.simps
  by (rule post_case_option) (auto intro: post_return within_failures assms)

lemma within_reactions:
  assumes "task_document_id task \<in> D" and "task_id task \<in> T" and "\<And>q. task_extraction_request_id task = Some q \<Longrightarrow> q \<in> Q"
  shows "post (within o' d0 D Q T) (after_convert E (server_worker E) task) (\<lambda>_. within o' d0 D Q T)"
    "post (within o' d0 D Q T) (after_anonymize E (server_worker E) task) (\<lambda>_. within o' d0 D Q T)"
    "post (within o' d0 D Q T) (after_resolve_keys (server_worker E) task) (\<lambda>_. within o' d0 D Q T)"
    "post (within o' d0 D Q T) (after_extract (server_worker E) task) (\<lambda>_. within o' d0 D Q T)"
    "post (within o' d0 D Q T) (after_request_task_failed (server_worker E) task) (\<lambda>_. within o' d0 D Q T)"
    "post (within o' d0 D Q T) (after_prerequisite_failed E (server_worker E) task) (\<lambda>_. within o' d0 D Q T)"
proof -
  have pl: "pl_OnResolveKeysCompleted (ws_pipeline (server_worker E)) = OnResolveKeysCompleted E (server_extraction E)"
    "pl_OnExtractCompleted (ws_pipeline (server_worker E)) = OnExtractCompleted E"
    by (simp_all add: server_worker_def pipeline_of_def)
  note failed = within_fail_request_of [where task = task and Q = Q, OF assms(3)]
  show "post (within o' d0 D Q T) (after_convert E (server_worker E) task) (\<lambda>_. within o' d0 D Q T)"
    unfolding after_convert_def
    by (rule post_if, rule post_ignoring, rule within_converted, rule assms, rule assms, rule post_ignoring,
        rule within_anonymize, rule assms, rule within_pending_requests, rule assms, rule post_return, assumption)
  show "post (within o' d0 D Q T) (after_anonymize E (server_worker E) task) (\<lambda>_. within o' d0 D Q T)"
    unfolding after_anonymize_def
    by (rule post_if, rule post_ignoring, rule within_anonymized, rule assms, rule assms,
        rule within_pending_requests, rule assms, rule post_return, assumption)
  show "post (within o' d0 D Q T) (after_resolve_keys (server_worker E) task) (\<lambda>_. within o' d0 D Q T)"
    unfolding after_resolve_keys_def pl
    by (rule post_if, rule post_bind, rule within_resolved, erule assms, rule post_case_sum, rule failed, assumption,
        rule post_return, assumption, rule post_return, assumption)
  show "post (within o' d0 D Q T) (after_extract (server_worker E) task) (\<lambda>_. within o' d0 D Q T)"
    unfolding after_extract_def pl
    by (rule post_if, rule post_bind, rule within_extracted, erule assms, rule post_case_sum, rule failed, assumption,
        rule post_return, assumption, rule post_return, assumption)
  show "post (within o' d0 D Q T) (after_request_task_failed (server_worker E) task) (\<lambda>_. within o' d0 D Q T)"
    unfolding after_request_task_failed_def
    by (rule post_if, rule failed, assumption, rule post_return, assumption)
  show "post (within o' d0 D Q T) (after_prerequisite_failed E (server_worker E) task) (\<lambda>_. within o' d0 D Q T)"
    unfolding after_prerequisite_failed_def
    by (rule post_if, rule within_pending_requests, rule assms, rule post_return, assumption)
qed

text \<open>The report itself updates the task and answers with it.\<close>

lemma within_report:
  assumes "wu_ID p = i"
  shows "post (\<lambda>w. within o' d0 D Q {i} w \<and> stored_task (w_db w) i = Some t) (UpdateWorkerTaskStatus E p)
    (\<lambda>r w. within o' d0 D Q {i} w \<and> (\<forall>x. r = Inr x \<longrightarrow> task_id x = i \<and> task_document_id x = task_document_id t \<and>
       task_extraction_request_id x = task_extraction_request_id t))"
proof (rule postI, elim conjE)
  fix w r w' assume w: "within o' d0 D Q {i} w" and t: "stored_task (w_db w) i = Some t"
    and run: "run_state (UpdateWorkerTaskStatus E p) w = (r, w')"
  have "task_id t = i" using t by (auto simp: stored_task_def dest: find_Some_iff_mem)
  then have "task_id x = i \<and> task_document_id x = task_document_id t \<and>
      task_extraction_request_id x = task_extraction_request_id t" if "r = Inr x" for x
    using exec_Inr [OF run [unfolded UpdateWorkerTaskStatus_def that]] t assms
    by (auto simp: stmt_UpdateWorkerTaskStatus_def update_task_def stored_task_def apply_worker_update_def split: option.splits)
  then show "within o' d0 D Q {i} w' \<and> (\<forall>x. r = Inr x \<longrightarrow> task_id x = i \<and> task_document_id x = task_document_id t \<and>
      task_extraction_request_id x = task_extraction_request_id t)"
    using postD [OF within_task_update [of p "{i}"] w run] assms by simp
qed

lemma within_HandleStatusUpdate:
  "post (\<lambda>w. within o' d0 {task_document_id t} (set_option (task_extraction_request_id t)) {i} w \<and> stored_task (w_db w) i = Some t)
     (HandleStatusUpdate E (server_worker E) i upd)
     (\<lambda>_. within o' d0 {task_document_id t} (set_option (task_extraction_request_id t)) {i})"
  unfolding HandleStatusUpdate_def
proof (rule post_call, rule within_report, simp, blast)
  let ?I = "within o' d0 {task_document_id t} (set_option (task_extraction_request_id t)) {i}"
  fix x :: document_task
  show "post (\<lambda>w. ?I w \<and> (\<forall>y. (Inr x :: go_error + document_task) = Inr y \<longrightarrow> task_id y = i \<and>
        task_document_id y = task_document_id t \<and> task_extraction_request_id y = task_extraction_request_id t))
      (ignoring (after_convert E (server_worker E) x) (ignoring (after_anonymize E (server_worker E) x)
        (ignoring (after_resolve_keys (server_worker E) x) (ignoring (after_extract (server_worker E) x)
        (ignoring (after_request_task_failed (server_worker E) x)
        (ignoring (after_prerequisite_failed E (server_worker E) x) (ok x))))))) (\<lambda>_. ?I)"
  proof (rule post_given)
    assume "\<forall>y. (Inr x :: go_error + document_task) = Inr y \<longrightarrow> task_id y = i \<and>
        task_document_id y = task_document_id t \<and> task_extraction_request_id y = task_extraction_request_id t"
    then have x: "task_document_id x \<in> {task_document_id t}" "task_id x \<in> {i}"
        "\<And>q. task_extraction_request_id x = Some q \<Longrightarrow> q \<in> set_option (task_extraction_request_id t)" by auto
    show "post ?I (ignoring (after_convert E (server_worker E) x) (ignoring (after_anonymize E (server_worker E) x)
        (ignoring (after_resolve_keys (server_worker E) x) (ignoring (after_extract (server_worker E) x)
        (ignoring (after_request_task_failed (server_worker E) x)
        (ignoring (after_prerequisite_failed E (server_worker E) x) (ok x))))))) (\<lambda>_. ?I)"
      by (rule post_ignoring, rule within_reactions, rule x, rule x, erule x)+ (rule post_ok)
  qed
qed

end
