(* ===== verification/Task_Alignment.thy ===== *)
theory Task_Alignment
  imports Callback_Isolation
begin

text \<open>
  A task that works for an extraction request is a task of the request's document. The schema does not say so:
  \<open>extraction_request_id\<close> and \<open>document_id\<close> are two independent references. The services keep the two in line,
  since they store such a task only with both columns of a request that they have read.
\<close>

section \<open>The relation between tasks and requests\<close>

definition in_line :: "db \<Rightarrow> bool" where
  "in_line d \<longleftrightarrow> list_all (\<lambda>t. list_all (\<lambda>r. task_extraction_request_id t = Some (req_id r) \<longrightarrow>
     req_document_id r = task_document_id t) (extraction_requests d)) (document_tasks d)"

definition request_refs :: "db \<Rightarrow> (uuid \<times> uuid) set" where
  "request_refs d = (\<lambda>r. (req_id r, req_document_id r)) ` set (extraction_requests d)"

definition task_refs :: "db \<Rightarrow> (uuid \<times> uuid) set" where
  "task_refs d = {(q, i). \<exists>t \<in> set (document_tasks d). task_extraction_request_id t = Some q \<and> task_document_id t = i}"

lemma in_line_iff: "in_line d \<longleftrightarrow> (\<forall>(q, i) \<in> task_refs d. \<forall>j. (q, j) \<in> request_refs d \<longrightarrow> j = i)"
  by (auto simp: in_line_def list_all_iff task_refs_def request_refs_def)

text \<open>Statements that record neither a request nor a task of one.\<close>

definition narrows :: "db \<Rightarrow> db \<Rightarrow> bool" where
  "narrows d d' \<longleftrightarrow> task_refs d' \<subseteq> task_refs d \<and> request_refs d' \<subseteq> request_refs d"

lemma in_line_narrows: "narrows d d' \<Longrightarrow> in_line d \<Longrightarrow> in_line d'"
  unfolding narrows_def in_line_iff by (blast dest: subsetD)

lemma narrows_refl [simp]: "narrows d d"
  by (simp add: narrows_def)

lemma narrows_same:
  "document_tasks d' = document_tasks d \<Longrightarrow> extraction_requests d' = extraction_requests d \<Longrightarrow> narrows d d'"
  by (simp add: narrows_def task_refs_def request_refs_def)

lemma narrows_put_task:
  assumes "x \<in> set (document_tasks d)" and "same_task x y"
  shows "narrows d (d\<lparr>document_tasks := put_row task_id y (document_tasks d)\<rparr>)"
  using assms by (auto simp: narrows_def task_refs_def request_refs_def put_row_def same_task_def)

lemma narrows_put_request:
  assumes "x \<in> set (extraction_requests d)" and "same_request x y"
  shows "narrows d (d\<lparr>extraction_requests := put_row req_id y (extraction_requests d)\<rparr>)"
  using assms by (auto simp: narrows_def task_refs_def request_refs_def put_row_def same_request_def image_iff)

lemma narrows_purge: "narrows d (purge g d)"
  by (auto simp: narrows_def task_refs_def request_refs_def purge_def del_where_def)

lemma narrows_update_task:
  assumes "\<And>x. same_task x (f x)"
  shows "narrows d (snd (update_task p f d))"
  using assms by (auto simp: update_task_def dest!: find_Some_iff_mem split: option.split intro: narrows_put_task)

lemma narrows_update_request:
  assumes "\<And>x. same_request x (f x)"
  shows "narrows d (snd (update_request i f d))"
  using assms by (auto simp: update_request_def dest!: find_Some_iff_mem split: option.split intro: narrows_put_request)

named_theorems narrows_stmt

lemma narrows_accounts [narrows_stmt]:
  "narrows d (snd (stmt_CreateOrganization a1 a2 g t d))" "narrows d (snd (stmt_UpdateOrganization b1 b2 b3 b4 g t d))"
  "narrows d (snd (stmt_CreateUser c1 c2 c3 c4 c5 g t d))" "narrows d (snd (stmt_UpdateUser d1 d2 d3 d4 g t d))"
  "narrows d (snd (stmt_CreateUserInvitation e1 e2 e3 e4 e5 e6 g t d))"
  "narrows d (snd (stmt_DeleteUserInvitation f1 f2 g t d))"
  by (rule narrows_same; auto simp: stmt_CreateOrganization_def stmt_UpdateOrganization_def stmt_CreateUser_def stmt_UpdateUser_def
      stmt_CreateUserInvitation_def stmt_DeleteUserInvitation_def insert_row_def update_row_def delete_rows_def Let_def
      split: option.splits prod.splits sum.splits)+

lemma narrows_sites [narrows_stmt]:
  "narrows d (snd (stmt_CreateConstructionSite h1 g t d))" "narrows d (snd (stmt_UpdateConstructionSite i1 i2 i3 i4 g t d))"
  "narrows d (snd (stmt_UpdateConstructionSiteCover j1 j2 j3 g t d))"
  "narrows d (snd (stmt_UpdateConstructionSiteType k1 k2 k3 g t d))"
  by (rule narrows_same; auto simp: stmt_CreateConstructionSite_def stmt_UpdateConstructionSite_def
      stmt_UpdateConstructionSiteCover_def stmt_UpdateConstructionSiteType_def update_site_def
      insert_row_def update_row_def Let_def split: option.splits prod.splits sum.splits)+

lemma narrows_catalogs [narrows_stmt]:
  "narrows d (snd (stmt_CreateContractKind l1 l2 l3 l4 g t d))" "narrows d (snd (stmt_UpdateContractKind m1 m2 m3 m4 m5 g t d))"
  "narrows d (snd (stmt_CreateFileRole n1 n2 n3 n4 g t d))" "narrows d (snd (stmt_UpdateFileRole o1 o2 o3 o4 o5 g t d))"
  "narrows d (snd (stmt_CreateComparisonSession p1 p2 p3 p4 g t d))"
  "narrows d (snd (stmt_AddDocumentToComparisonSession q1 q2 q3 q4 g t d))"
  "narrows d (snd (stmt_RemoveDocumentFromComparisonSession r1 r2 r3 g t d))"
  by (rule narrows_same; auto simp: stmt_CreateContractKind_def stmt_UpdateContractKind_def
      stmt_CreateFileRole_def stmt_UpdateFileRole_def
      stmt_CreateComparisonSession_def stmt_AddDocumentToComparisonSession_def
      stmt_RemoveDocumentFromComparisonSession_def create_entry_def update_entry_def
      insert_row_def update_row_def delete_rows_def Let_def split: option.splits prod.splits sum.splits)+

lemma narrows_files [narrows_stmt]:
  "narrows d (snd (stmt_CreateDocument dp g t d))" "narrows d (snd (stmt_UpdateDocumentMeta s1 s2 s3 s4 s5 g t d))"
  "narrows d (snd (stmt_CreateArtifactDocument dp g t d))"
  "narrows d (snd (stmt_UpsertExtractionKey u1 u2 u3 u4 g t d))"
  by (rule narrows_same; auto simp: stmt_CreateDocument_def insert_document_def stmt_UpdateDocumentMeta_def update_document_def
      stmt_CreateArtifactDocument_def stmt_UpsertExtractionKey_def Let_def split: option.splits prod.splits sum.splits)+

lemma upsert_data_frame:
  "upsert_data xs d = Inr d' \<Longrightarrow> document_tasks d' = document_tasks d \<and> extraction_requests d' = extraction_requests d"
proof (induction xs arbitrary: d)
  case (Cons x xs)
  then obtain d1 where d1: "upsert_datum x d = Inr d1" "upsert_data xs d1 = Inr d'" by (auto split: sum.splits)
  then have "document_tasks d1 = document_tasks d \<and> extraction_requests d1 = extraction_requests d"
    by (auto simp: upsert_datum_def split: option.splits if_splits)
  then show ?case using Cons.IH [OF d1(2)] by simp
qed simp

lemma narrows_batch [narrows_stmt]: "narrows d (snd (stmt_BatchUpsertExtractedData v1 v2 v3 v4 g t d))"
  by (rule narrows_same; auto simp: stmt_BatchUpsertExtractedData_def dest: upsert_data_frame split: sum.split)

lemma narrows_deletions [narrows_stmt]:
  "narrows d (snd (stmt_DeleteConstructionSite w1 w2 g t d))" "narrows d (snd (stmt_DeleteContractKind w1 w2 g t d))"
  "narrows d (snd (stmt_DeleteFileRole w1 w2 g t d))" "narrows d (snd (stmt_DeleteComparisonSession w1 w2 g t d))"
  "narrows d (snd (stmt_DeleteOrganization w3 g t d))"
  by (simp_all add: stmt_DeleteConstructionSite_def stmt_DeleteContractKind_def stmt_DeleteFileRole_def
      stmt_DeleteComparisonSession_def stmt_DeleteOrganization_def Let_def narrows_purge)

lemma narrows_DeleteDocument [narrows_stmt]: "db_ok d \<Longrightarrow> narrows d (snd (stmt_DeleteDocument w1 w2 g t d))"
  by (simp add: stmt_DeleteDocument_def Let_def cascade_is_purge narrows_purge)

lemma narrows_tasks [narrows_stmt]:
  "narrows d (snd (stmt_UpdateDocumentTaskStatus x1 x2 x3 g t d))" "narrows d (snd (stmt_UpdateWorkerTaskStatus x4 g t d))"
  "narrows d (snd (stmt_UpdateTaskResultPayload x1 x5 g t d))"
  unfolding stmt_UpdateDocumentTaskStatus_def stmt_UpdateWorkerTaskStatus_def stmt_UpdateTaskResultPayload_def
  by (rule narrows_update_task; simp add: same_task_def apply_worker_update_def)+

lemma narrows_other_tasks [narrows_stmt]:
  "narrows d (snd (stmt_DeleteDocumentTask x1 x2 g t d))"
  "narrows d (snd (stmt_MarkStaleTaskPending x1 x6 g t d))" "narrows d (snd (stmt_MarkStaleTaskFailed x1 x6 x7 g t d))"
proof -
  show "narrows d (snd (stmt_DeleteDocumentTask x1 x2 g t d))"
    by (auto simp: stmt_DeleteDocumentTask_def narrows_def task_refs_def request_refs_def del_where_def)
  show "narrows d (snd (stmt_MarkStaleTaskPending x1 x6 g t d))" "narrows d (snd (stmt_MarkStaleTaskFailed x1 x6 x7 g t d))"
    by (auto simp: stmt_MarkStaleTaskPending_def stmt_MarkStaleTaskFailed_def claim_def same_task_def
        dest!: find_Some_iff_mem split: option.split intro!: narrows_put_task)
qed

lemma narrows_propagate [simp]: "narrows d (propagate_site_activity v t d') = narrows d d'"
  by (simp add: narrows_def task_refs_def request_refs_def)

lemma narrows_requests [narrows_stmt]:
  "narrows d (snd (stmt_SetExtractionRequestStatus y1 y2 y3 g t d))"
  "narrows d (snd (stmt_SetExtractionRequestResolvedSchema y1 y4 g t d))"
proof -
  have "narrows d (snd (update_request y1 (\<lambda>r. r\<lparr>req_status := y2, req_error_message := y3, req_updated_at := t\<rparr>) d))"
    by (rule narrows_update_request) (simp add: same_request_def)
  then show "narrows d (snd (stmt_SetExtractionRequestStatus y1 y2 y3 g t d))"
    by (auto simp: stmt_SetExtractionRequestStatus_def split: prod.split sum.split)
  show "narrows d (snd (stmt_SetExtractionRequestResolvedSchema y1 y4 g t d))"
    unfolding stmt_SetExtractionRequestResolvedSchema_def by (rule narrows_update_request) (simp add: same_request_def)
qed

lemma narrows_new_task:
  "task_extraction_request_id y = None \<Longrightarrow> narrows d (d\<lparr>document_tasks := document_tasks d @ [y]\<rparr>)"
  by (auto simp: narrows_def task_refs_def request_refs_def)

lemma narrows_new_tasks [narrows_stmt]:
  "narrows d (snd (stmt_CreateDocumentTask z1 z2 z3 g t d))"
  "narrows d (snd (stmt_CreateDocumentTaskSingleton z1 z2 z4 g t d))"
  by (auto simp: stmt_CreateDocumentTask_def stmt_CreateDocumentTaskSingleton_def insert_task_or_nothing_def insert_task_def
      new_task_def split: option.split intro!: narrows_new_task)

section \<open>Statements that record a request or a task of one\<close>

lemma in_line_CreateExtractionRequest:
  assumes ok: "consistent d" and line: "in_line d"
  shows "in_line (snd (stmt_CreateExtractionRequest doc o' qs anon g t d))"
proof -
  let ?r = "new_request (g 0) t doc o' qs anon"
  let ?d = "d\<lparr>extraction_requests := extraction_requests d @ [?r]\<rparr>"
  have "in_line ?d" if new: "req_id ?r \<notin> set (map req_id (extraction_requests d))"
  proof -
    have "task_extraction_request_id y \<noteq> Some (req_id ?r)" if "y \<in> set (document_tasks d)" for y
    proof -
      have "null_or (request_exists d) (task_extraction_request_id y)"
        using table_ok_row [OF db_ok_tasks [OF consistentD(1) [OF ok]] that] by (simp add: task_ok_def task_fks_def)
      then show ?thesis using new by (auto simp: null_or_iff request_exists_iff)
    qed
    then show ?thesis using line by (simp add: in_line_def list_all_iff)
  qed
  moreover have "in_line (propagate_site_activity v t ?d) = in_line ?d" for v by (simp add: in_line_def)
  ultimately show ?thesis
    using line by (auto simp: stmt_CreateExtractionRequest_def Let_def request_keys_def checks_hold_def split: option.split)
qed

lemma in_line_CreateDocumentTaskForRequest:
  assumes ok: "consistent d" and line: "in_line d" and ref: "(q, doc) \<in> request_refs d"
  shows "in_line (snd (stmt_CreateDocumentTaskForRequest doc m path (Some q) g t d))"
proof -
  let ?t = "new_task (g 0) t doc m path (Some q)"
  obtain r where r: "r \<in> set (extraction_requests d)" "req_id r = q" "req_document_id r = doc"
    using ref by (auto simp: request_refs_def)
  have "req_document_id x = doc" if "x \<in> set (extraction_requests d)" "req_id x = q" for x
    using distinct_key_inj [OF db_ok_distinct(3) [OF consistentD(1) [OF ok]] that(1) r(1)] that(2) r(2,3) by simp
  then have "in_line (d\<lparr>document_tasks := document_tasks d @ [?t]\<rparr>)"
    using line by (auto simp: in_line_def list_all_iff new_task_def)
  then show ?thesis
    using line by (simp add: stmt_CreateDocumentTaskForRequest_def insert_task_or_nothing_def insert_task_def split: option.split)
qed

section \<open>What the pipeline knows\<close>

text \<open>\<open>known P\<close>: the tasks are in line, and the pairs \<open>P\<close> are requests that are stored with their documents.\<close>

definition known :: "(uuid \<times> uuid) set \<Rightarrow> world \<Rightarrow> bool" where
  "known P w \<longleftrightarrow> consistent (w_db w) \<and> in_line (w_db w) \<and> P \<subseteq> request_refs (w_db w)"

definition knows :: "(uuid \<times> uuid) set \<Rightarrow> world \<Rightarrow> world \<Rightarrow> bool" where
  "knows P w w' \<longleftrightarrow> (known P w \<longrightarrow> known P w')"

interpretation lined: statements "knows P" for P
  by unfold_locales (auto simp: knows_def known_def)

lemma request_refs_evolves: "evolves d d' \<Longrightarrow> request_refs d \<subseteq> request_refs d'"
proof
  fix z assume d: "evolves d d'" and "z \<in> request_refs d"
  then obtain r where r: "r \<in> set (extraction_requests d)" "z = (req_id r, req_document_id r)" by (auto simp: request_refs_def)
  then obtain s where "s \<in> set (extraction_requests d')" "same_request r s" using d unfolding evolves_def grows_def by blast
  then show "z \<in> request_refs d'" unfolding request_refs_def by (intro image_eqI [of _ _ s]) (simp_all add: r(2) same_request_def)
qed

lemma keeps_knows:
  assumes "\<And>d g t. sound d (snd (f g t d))" and "\<And>d g t. db_ok d \<Longrightarrow> more_ok d \<Longrightarrow> more_ok (snd (f g t d))"
    and "\<And>d g t. consistent d \<Longrightarrow> in_line d \<Longrightarrow> P \<subseteq> request_refs d \<Longrightarrow> in_line (snd (f g t d))"
  shows "keeps (knows P) f"
  unfolding keeps_def knows_def
proof (intro allI impI)
  fix w g t n assume w: "known P w"
  have "db_ok (w_db w)" using w by (simp add: known_def consistent_def)
  then have d': "evolves (w_db w) (snd (f g t (w_db w)))" "db_ok (snd (f g t (w_db w)))" using assms(1) by (simp_all add: sound_def)
  then have "P \<subseteq> request_refs (snd (f g t (w_db w)))" using w request_refs_evolves by (auto simp: known_def)
  then show "known P (w\<lparr>w_db := snd (f g t (w_db w)), w_tick := n\<rparr>)"
    using w d'(2) assms(2,3) by (simp add: known_def consistent_def)
qed

lemma keeps_knows_narrow:
  assumes "\<And>d g t. sound d (snd (f g t d))" and "\<And>d g t. db_ok d \<Longrightarrow> more_ok d \<Longrightarrow> more_ok (snd (f g t d))"
    and "\<And>d g t. narrows d (snd (f g t d))"
  shows "keeps (knows P) f"
  by (rule keeps_knows [OF assms(1,2)]) (auto intro: in_line_narrows assms(3))

lemma knows_writes [io_rel]:
  "state_io_rel (knows P) (CreateDocumentTaskSingleton E z1 z2 z4)" "state_io_rel (knows P) (UpdateWorkerTaskStatus E x4)"
  "state_io_rel (knows P) (UpdateTaskResultPayload E x1 x5)" "state_io_rel (knows P) (CreateArtifactDocument E dp)"
  "state_io_rel (knows P) (SetExtractionRequestStatus E y1 y2 y3)"
  "state_io_rel (knows P) (SetExtractionRequestResolvedSchema E y1 y4)"
  "state_io_rel (knows P) (UpsertExtractionKey E u1 u2 u3 u4)"
  "state_io_rel (knows P) (BatchUpsertExtractedData E v1 v2 v3 v4)"
  "state_io_rel (knows P) (MarkStaleTaskPending E x1 x6)" "state_io_rel (knows P) (MarkStaleTaskFailed E x1 x6 x7)"
  unfolding query_defs
  by (intro lined.rel_exec keeps_knows_narrow sound_stmt more_stmt narrows_stmt; assumption?)+

lemma knows_CreateDocumentTaskForRequest [io_rel]:
  "(q, doc) \<in> P \<Longrightarrow> state_io_rel (knows P) (CreateDocumentTaskForRequest E doc m path (Some q))"
  unfolding query_defs
  by (intro lined.rel_exec keeps_knows sound_stmt more_stmt in_line_CreateDocumentTaskForRequest) auto

lemma knows_Process [io_rel]: "state_io_rel (knows P) (Process E r)"
proof -
  have "knows P w (snd (run_state (Process E r) w))" for w
    by (cases rule: Process_cases [of E r w]) (simp_all add: knows_def known_def)
  then show ?thesis by (simp add: state_io_rel_def)
qed

section \<open>The pipeline\<close>

lemma knows_reads [io_rel]:
  "state_io_rel (knows P) (GetDocumentByID E i)" "state_io_rel (knows P) (GetDocument E i o')"
  "state_io_rel (knows P) (ListDocumentsByParent E i o')" "state_io_rel (knows P) (ListExtractionKeysByOrg E o')"
  "state_io_rel (knows P) (GetExtractionKeysByNames E nms o')"
  unfolding query_defs by (intro io_rel)+

lemma knows_failures [io_rel]:
  "state_io_rel (knows P) (MarkRequestFailed E q txt)" "state_io_rel (knows P) (extraction_markTaskFailed E i txt)"
  "state_io_rel (knows P) (worker_markTaskFailed E i txt)"
  unfolding MarkRequestFailed_def extraction_markTaskFailed_def worker_markTaskFailed_def by (intro io_rel)+

lemma knows_steps [io_rel]:
  "state_io_rel (knows P) (ensureConvertTask E (server_extraction E) doc)"
  "state_io_rel (knows P) (ensureAnonymizeTask E (server_extraction E) doc md)"
  "(req_id rq, req_document_id rq) \<in> P \<Longrightarrow> state_io_rel (knows P) (enqueueResolveKeys E (server_extraction E) rq doc target)"
  "(req_id rq, req_document_id rq) \<in> P \<Longrightarrow> state_io_rel (knows P) (enqueueExtract E (server_extraction E) rq target schema)"
  unfolding ensureConvertTask_def ensureAnonymizeTask_def enqueueResolveKeys_def enqueueExtract_def Let_def server_python option.case
  by (auto intro!: io_rel)

lemma knows_Progress [io_rel]:
  "(req_id rq, req_document_id rq) \<in> P \<Longrightarrow> state_io_rel (knows P) (Progress E (server_extraction E) rq)"
  unfolding Progress_def by (auto intro!: io_rel split: next_step.split)

text \<open>A request that is read, or has just been recorded, is known from then on.\<close>

lemma known_weaker: "known Q w \<Longrightarrow> P \<subseteq> Q \<Longrightarrow> known P w"
  by (auto simp: known_def)

lemma knows_then:
  assumes "\<And>w x w'. known P w \<Longrightarrow> run_state m w = (Inr x, w') \<Longrightarrow> known (insert (f x) P) w'"
    and "state_io_rel (knows P) m" and "\<And>x. state_io_rel (knows (insert (f x) P)) (k x)"
  shows "state_io_rel (knows P) (call m h k)"
  unfolding state_io_rel_def knows_def
proof (intro allI impI)
  fix w assume w: "known P w"
  obtain r w1 where run: "run_state m w = (r, w1)" by fastforce
  have w1: "known P w1" using rel_runD [OF assms(2) run] w by (simp add: knows_def)
  show "known P (snd (run_state (call m h k) w))"
  proof (cases r)
    case (Inr x)
    then have "known (insert (f x) P) (snd (run_state (k x) w1))"
      using assms(1) [OF w] assms(3) [of x] run by (auto simp: state_io_rel_def knows_def)
    then show ?thesis using run Inr by (auto simp: run_call intro: known_weaker)
  qed (use w1 run in \<open>simp add: run_call\<close>)
qed

lemma knows_request [io_rel]:
  assumes "\<And>x. state_io_rel (knows (insert (req_id x, req_document_id x) P)) (k x)"
  shows "state_io_rel (knows P) (call (GetExtractionRequestByID E q) h k)"
proof (rule knows_then [OF _ _ assms])
  let ?f = "sel_one (\<lambda>d. find (\<lambda>r. req_id r = q) (extraction_requests d))"
  show reads: "state_io_rel (knows P) (GetExtractionRequestByID E q)" unfolding query_defs by (intro io_rel)
  fix w x w' assume w: "known P w" and run: "run_state (GetExtractionRequestByID E q) w = (Inr x, w')"
  have "x \<in> set (extraction_requests (w_db w'))"
    using exec_Inr [OF run [unfolded GetExtractionRequestByID_def]]
    by (auto simp: sel_one_def dest!: find_Some_iff_mem split: option.splits)
  then show "known (insert (req_id x, req_document_id x) P) w'"
    using rel_runD [OF reads run] w by (auto simp: knows_def known_def request_refs_def)
qed

lemma knows_new_request:
  assumes "\<And>x. state_io_rel (knows (insert (req_id x, req_document_id x) P)) (k x)"
  shows "state_io_rel (knows P) (call (CreateExtractionRequest E doc o' qs anon) h k)"
proof (rule knows_then [OF _ _ assms])
  let ?f = "stmt_CreateExtractionRequest doc o' qs anon"
  show stores: "state_io_rel (knows P) (CreateExtractionRequest E doc o' qs anon)"
    unfolding query_defs by (intro lined.rel_exec keeps_knows sound_stmt more_stmt in_line_CreateExtractionRequest)
  fix w x w' assume w: "known P w" and run: "run_state (CreateExtractionRequest E doc o' qs anon) w = (Inr x, w')"
  have "x \<in> set (extraction_requests (w_db w'))"
    using exec_Inr [OF run [unfolded CreateExtractionRequest_def]]
    by (auto simp: stmt_CreateExtractionRequest_def Let_def split: option.splits dest!: sym [of _ "w_db w'"])
  then show "known (insert (req_id x, req_document_id x) P) w'"
    using rel_runD [OF stores run] w by (auto simp: knows_def known_def request_refs_def)
qed

lemma knows_Initiate: "state_io_rel (knows P) (Initiate E (server_extraction E) doc o' qs anon)"
  unfolding Initiate_def by (auto intro!: io_rel knows_new_request)

lemma knows_in_flight:
  assumes "\<And>Q rq. (req_id rq, req_document_id rq) \<in> Q \<Longrightarrow> state_io_rel (knows Q) (f rq)"
  shows "state_io_rel (knows P) (State_Monad.bind (ListPendingExtractionRequestsByDocument E i)
    (\<lambda>r. case r of Inl _ \<Rightarrow> State_Monad.return () | Inr rqs \<Rightarrow> for_each f rqs))"
  unfolding state_io_rel_def knows_def
proof (intro allI impI)
  fix w assume w: "known P w"
  obtain r w1 where run: "run_state (ListPendingExtractionRequestsByDocument E i) w = (r, w1)" by fastforce
  have "state_io_rel (knows P) (ListPendingExtractionRequestsByDocument E i)" unfolding query_defs by (intro io_rel)
  from rel_runD [OF this run] have w1: "known P w1" using w by (simp add: knows_def)
  show "known P (snd (run_state (State_Monad.bind (ListPendingExtractionRequestsByDocument E i)
    (\<lambda>r. case r of Inl _ \<Rightarrow> State_Monad.return () | Inr rqs \<Rightarrow> for_each f rqs)) w))"
  proof (cases r)
    case (Inr rqs)
    let ?Q = "P \<union> (\<lambda>r. (req_id r, req_document_id r)) ` set rqs"
    have "set rqs \<subseteq> set (extraction_requests (w_db w1))"
      using exec_Inr [OF run [unfolded ListPendingExtractionRequestsByDocument_def Inr]]
      by (auto simp: sel_def pending_requests_def)
    then have "known ?Q w1" using w1 by (auto simp: known_def request_refs_def)
    moreover have "post (known ?Q) (for_each f rqs) (\<lambda>_. known ?Q)"
      by (rule post_for_each, rule post_of_rel, rule assms [where Q = ?Q]) (auto simp: knows_def)
    ultimately have "known ?Q (snd (run_state (for_each f rqs) w1))" by (simp add: post_def)
    then show ?thesis using run Inr by (auto intro: known_weaker)
  qed (use run w1 in simp)
qed

lemma knows_callbacks [io_rel]:
  "state_io_rel (knows P) (OnResolveKeysCompleted E (server_extraction E) task)"
  "state_io_rel (knows P) (OnExtractCompleted E task)"
  "state_io_rel (knows P) (registerConvertArtifacts E task)" "state_io_rel (knows P) (registerAnonymizeArtifacts E task)"
  "state_io_rel (knows P) (triggerAnonymize E (server_worker E) task)"
  unfolding OnResolveKeysCompleted_def upsert_new_key_def OnExtractCompleted_def persistExtractedData_def Let_def
    registerConvertArtifacts_def registerAnonymizeArtifacts_def register_optional_def registerArtifact_def
    triggerAnonymize_def server_worker_def worker_service.simps
  by (auto intro!: io_rel)

lemma knows_pending_requests [io_rel]:
  "state_io_rel (knows P) (progressPendingRequests E (server_worker E) i)"
  "state_io_rel (knows P) (failPendingRequests E (server_worker E) i txt)"
  unfolding progressPendingRequests_def failPendingRequests_def server_worker_def pipeline_of_def
    worker_service.simps extraction_pipeline.simps
  by (rule knows_in_flight, intro io_rel, assumption?)+

lemma knows_HandleStatusUpdate: "state_io_rel (knows P) (HandleStatusUpdate E (server_worker E) i upd)"
proof -
  have pl: "pl_OnResolveKeysCompleted (ws_pipeline (server_worker E)) = OnResolveKeysCompleted E (server_extraction E)"
    "pl_OnExtractCompleted (ws_pipeline (server_worker E)) = OnExtractCompleted E"
    "pl_MarkRequestFailed (ws_pipeline (server_worker E)) = MarkRequestFailed E"
    by (simp_all add: server_worker_def pipeline_of_def)
  show ?thesis
    unfolding HandleStatusUpdate_def after_convert_def after_anonymize_def after_resolve_keys_def after_extract_def
      after_request_task_failed_def after_prerequisite_failed_def fail_request_of_def pl
    by (auto intro!: io_rel)
qed

section \<open>Every request\<close>

lemma keeps_lined:
  assumes "keeps upkeep f" and "\<And>d g t. db_ok d \<Longrightarrow> narrows d (snd (f g t d))"
  shows "keeps (knows {}) f"
  unfolding keeps_def knows_def
proof (intro allI impI)
  fix w g t n assume w: "known {} w"
  then have "narrows (w_db w) (snd (f g t (w_db w)))" by (intro assms(2)) (simp add: known_def consistent_def)
  then show "known {} (w\<lparr>w_db := snd (f g t (w_db w)), w_tick := n\<rparr>)"
    using w assms(1) in_line_narrows by (simp add: keeps_def upkeep_def known_def)
qed

interpretation lined: tenant "knows {}" o' for o'
proof unfold_locales
  show "keeps_if (\<lambda>d. null_or (\<lambda>k. visible_entry (document_contract_kinds d) k o') kind) (knows {})
      (stmt_CreateComparisonSession o' by' title kind)" for by' title kind
    using upkeep.create_session [of o' kind by' title]
    by (auto simp: keeps_if_def upkeep_def knows_def known_def intro: in_line_narrows narrows_stmt)
  show "keeps_if (\<lambda>d. org_session_exists d i o') (knows {}) (stmt_AddDocumentToComparisonSession i doc o' pos)" for i doc pos
    using upkeep.add_place [of i o' doc pos]
    by (auto simp: keeps_if_def upkeep_def knows_def known_def intro: in_line_narrows narrows_stmt)
  show "state_io_rel (knows {}) (task_Create E (Some (Process E)) doc m o')" for E doc m
    unfolding task_Create_def CreateDocumentTask_def option.case
    by (intro io_rel lined.rel_exec keeps_lined upkeep_stmt stmt_CreateDocumentTask_ok more_stmt narrows_stmt)
  show "state_io_rel (knows {}) (Initiate E (server_extraction E) doc o' qs anon)" for E doc qs anon by (rule knows_Initiate)
  show "knows {} w (w\<lparr>w_tick := n, w_objects := obs\<rparr>)" for w n obs by (simp add: knows_def known_def)
qed (rule keeps_lined, (rule upkeep_laws; assumption?), (rule narrows_stmt; assumption?))+

lemma lined_Register: "state_io_rel (knows {}) (Register E L p)"
proof -
  have knows: "knows {} w w' \<longleftrightarrow> (consistent (w_db w) \<and> in_line (w_db w) \<longrightarrow> consistent (w_db w') \<and> in_line (w_db w'))" for w w'
    by (simp add: knows_def known_def)
  show ?thesis
    unfolding Register_def register_tx_def CreateOrganization_def CreateUser_def
    by (auto intro!: io_rel rel_ExecTx [where I = "\<lambda>d. consistent d \<and> in_line d", OF knows] lined.rel_exec keeps_lined
        upkeep_stmt db_ok_statements more_stmt narrows_stmt split: sum.split)
qed

interpretation lined: whole_server "knows {}"
  by unfold_locales (rule lined_Register knows_HandleStatusUpdate)+

lemma knows_publish_attempts [io_rel]: "state_io_rel (knows P) (publish_attempts E (Process E) r n)"
  by (induction n) (auto intro!: io_rel)

lemma knows_runOnce: "state_io_rel (knows {}) (runOnce E (Process E) cfg now)"
  unfolding runOnce_def processTask_def
  by (auto intro!: io_rel)

lemma lined_step:
  assumes "wired S" and "system_step S c w w'"
  shows "knows {} w w'"
  using assms(2)
proof cases
  case (request req r)
  then show ?thesis by (rule rel_runD [OF lined.rel_serve [OF assms(1)]])
next
  case (scan now r)
  then show ?thesis by (rule rel_runD [OF knows_runOnce])
qed (simp_all add: knows_def known_def)

text \<open>In every state that the system reaches, the tasks are in line with their requests.\<close>

lemma reachable_in_line:
  assumes "NewServer E L X c = Inr S" and "(system_step S c)\<^sup>*\<^sup>* w0 w" and "consistent (w_db w0)" and "in_line (w_db w0)"
  shows "consistent (w_db w)" "in_line (w_db w)"
proof -
  have "known {} w0 \<longrightarrow> known {} w"
    using assms(2) lined_step [OF NewServer_wired [OF assms(1)]] by (induction rule: rtranclp_induct) (auto simp: knows_def)
  then show "consistent (w_db w)" "in_line (w_db w)" using assms(3,4) by (simp_all add: known_def)
qed

text \<open>The request of such a task is of the organization of the task's document.\<close>

lemma own_request_of_task:
  assumes ok: "consistent d" and line: "in_line d" and t: "t \<in> set (document_tasks d)"
    and doc: "org_document_exists d (task_document_id t) o'" and q: "task_extraction_request_id t = Some q"
  shows "own_request d q o'"
proof -
  have "null_or (request_exists d) (task_extraction_request_id t)"
    using table_ok_row [OF db_ok_tasks [OF consistentD(1) [OF ok]] t] by (simp add: task_ok_def task_fks_def)
  then obtain r where r: "r \<in> set (extraction_requests d)" "req_id r = q"
    using q by (auto simp: null_or_iff request_exists_def list_ex_iff)
  then have "req_document_id r = task_document_id t" using line t q by (simp add: in_line_def list_all_iff)
  moreover have "table_ok req_id no_index (request_ok d) (extraction_requests d)"
    using consistentD(1) [OF ok] by (simp add: db_ok_def requests_ok_def)
  ultimately have "org_document_exists d (task_document_id t) (req_organization_id r)"
    using table_ok_row r(1) by (fastforce simp: request_ok_def request_fks_def)
  then obtain x where x: "x \<in> set (documents d)" "doc_id x = task_document_id t" "doc_organization_id x = req_organization_id r"
    by (auto simp: org_document_exists_def list_ex_iff)
  then have "req_organization_id r = o'" using own_document_row [OF ok _ x(1), of o'] doc by simp
  then show ?thesis using r by (auto simp: own_request_def list_ex_iff)
qed

end
