(* ===== verification/Isolation_Theorems.thy ===== *)
theory Isolation_Theorems
  imports Tenant_Isolation Answers
begin

text \<open>
  The table of routes under the relation \<open>isolated\<close>, and the property that rests on it.
\<close>

text \<open>The handlers behind a token of a tenant; those of the platform's owner are behind their own guard.\<close>

lemma isolated_handlers:
  assumes "wired S" and "cx_orgID cx = Some o'" and "\<not> isOwner cx"
  shows "list_all (\<lambda>rt. guarded_route rt \<longrightarrow> Owner \<notin> set (rt_guards rt) \<longrightarrow>
    (\<forall>req. state_io_rel (isolated o') (rt_handler rt S req cx))) setupRouter"
  by (simp add: route_tables guarded_route_def isolation.rel_reading_handlers isolation.rel_session_handlers
      isolation.rel_tenant_handlers [OF assms(2)] isolation.rel_pipeline_handlers [OF assms(2,1)]
      isolation.rel_AddDocumentToSession [OF assms(2)] isolation.rel_organization_handlers [OF assms(2,3)])

lemma isolated_request:
  assumes "NewServer E L X cfg = Inr S" and "protected_path (rq_path req)"
    and "token_claims S req w = Some c" and "ac_Role c \<noteq> ''owner''" and "ac_OrgID c \<noteq> uuid_Nil"
    and "consistent (w_db w)" and "run_state (serve S req) w = (r, w')"
  shows "others (ac_OrgID c) (w_db w') = others (ac_OrgID c) (w_db w)"
proof (cases "find (match_route req) setupRouter")
  case None
  then have "run_state (serve S req) w = run_state (answer 404 (PText ''404 page not found'')) w" by (simp add: serve_def)
  then show ?thesis using assms(7) by simp
next
  case (Some rt)
  note found = protected_route_found [OF assms(2) Some]
  obtain gs where gs: "rt_guards rt = Auth # gs" "Auth \<notin> set gs" "Service \<notin> set gs"
    using found(2) by (auto simp: guarded_route_def split: list.splits guard.splits)
  obtain req' where "run_state (run_guards gs S req' (context_of c) (rt_handler rt S req')) w = (r, w')"
    using assms(7) by (auto simp: serve_protected [OF assms(2) Some] assms(3) gs(1))
  from run_guards_cases [OF this gs(2)] gs(3)
  consider "w' = w" | "run_state (rt_handler rt S req' (context_of c)) w = (r, w')"
      "Owner \<in> set gs \<longrightarrow> cx_role (context_of c) = Some ''owner''"
    by auto
  then show ?thesis
  proof cases
    assume run: "run_state (rt_handler rt S req' (context_of c)) w = (r, w')"
      and "Owner \<in> set gs \<longrightarrow> cx_role (context_of c) = Some ''owner''"
    then have "Owner \<notin> set (rt_guards rt)" using gs(1) assms(4) by (auto simp: context_of_def)
    moreover have "cx_orgID (context_of c) = Some (ac_OrgID c)" "\<not> isOwner (context_of c)"
      using assms(4,5) by (simp_all add: context_of_def isOwner_def)
    ultimately have "state_io_rel (isolated (ac_OrgID c)) (rt_handler rt S req' (context_of c))"
      using isolated_handlers [OF NewServer_wired [OF assms(1)]] found(2) find_route [OF Some] by (simp add: list_all_iff)
    from rel_runD [OF this run] show ?thesis using assms(6) by (simp add: isolated_def)
  qed simp_all
qed

text \<open>
  C3. Tenants write their own rows only: whatever an authenticated user of an organization requests
  below \<^verbatim>\<open>/api/v1\<close>, and wherever it fails, the rows of every other organization, of none (the system's
  catalogs and keys) included, stay as they are. Left out are three columns that name who invited, acted or
  created, which become null with the user.
\<close>

theorem tenants_write_their_own_rows:
  assumes "NewServer E L X cfg = Inr S" and "protected_path (rq_path req)"
    and "token_claims S req w = Some c" and "ac_Role c \<noteq> ''owner''" and "ac_OrgID c \<noteq> uuid_Nil"
    and "consistent (w_db w)" and "run_state (serve S req) w = (r, w')"
  shows "others (ac_OrgID c) (w_db w') = others (ac_OrgID c) (w_db w)"
  by (rule isolated_request [OF assms])

text \<open>A second organization next to the one whose administrator deletes a document.\<close>

definition two_tenants :: world where
  "two_tenants = demo_world\<lparr>w_db := snd (stmt_CreateOrganization ''Other'' None (\<lambda>_. 77) 50 demo_db)\<rparr>"

lemma two_tenants_consistent: "consistent (w_db two_tenants)"
  using demo_consistent by (simp add: two_tenants_def consistent_def db_ok_statements more_stmt)

lemma two_tenants_others: "map org_id (organizations (others 1 (w_db two_tenants))) = [77]"
  by (simp add: two_tenants_def others_def stmt_CreateOrganization_def Let_def insert_row_def new_organization_def demo_db_def
      empty_db_def demo_org_def index_conflict_def)

theorem tenants_write_their_own_rows_witness:
  "map org_id (organizations (others 1 (w_db (snd (run_state (serve demo_server
      (demo_req ''DELETE'' [''api'', ''v1'', ''organizations'', ''1''] (Some ''admin-token''))) two_tenants))))) = [77]"
  using tenants_write_their_own_rows [OF NewServer_demo, where w = two_tenants
      and req = "demo_req ''DELETE'' [''api'', ''v1'', ''organizations'', ''1''] (Some ''admin-token'')"
      and c = "\<lparr>ac_UserID = 2, ac_OrgID = 1, ac_Role = ''admin'', ac_ExpiresAt = 1000, ac_IssuedAt = 100\<rparr>",
      OF _ _ _ _ two_tenants_consistent surjective_pairing] two_tenants_others
  by (simp add: protected_path_def public_paths_def token_claims_def demo_validate del: map_eq_Cons_conv)

end
