(* ===== verification/Callback_Theorems.thy ===== *)
theory Callback_Theorems
  imports Task_Alignment Isolation_Theorems Worker_Theorems
begin

text \<open>
  The property of \<^verbatim>\<open>Callback_Isolation\<close> and \<^verbatim>\<open>Task_Alignment\<close>: the reports of the workers, as requests to the
  running server.
\<close>

text \<open>A request to the endpoint of the workers changes nothing, or runs \<open>HandleStatusUpdate\<close> on the task of its path.\<close>

lemma run_report_request:
  assumes "wired S" and "rq_path req = [''internal'', ''worker'', ''tasks'', raw, ''status'']"
    and "run_state (serve S req) w = (r, w')"
  obtains "w' = w"
    | i upd q where "lib_uuid_Parse (sv_libs S) raw = Inr i"
        "run_state (HandleStatusUpdate (sv_env S) (server_worker (sv_env S)) i upd) w = (q, w')"
proof (cases "find (match_route req) setupRouter")
  case None
  then show thesis using assms(3) that(1) by (simp add: serve_def)
next
  case (Some rt)
  have "list_all (\<lambda>rt. \<forall>ps. match_path (rt_path rt) (rq_path req) = Some ps \<longrightarrow> rt_guards rt = [Service] \<and>
      rt_handler rt = Server_WorkerUpdateTaskStatus \<and> ps = [(''id'', raw)]) setupRouter"
    by (simp add: route_tables assms(2))
  moreover obtain ps where "match_path (rt_path rt) (rq_path req) = Some ps"
    using find_route [OF Some] by (auto simp: match_route_def)
  ultimately have rt: "rt_guards rt = [Service]" "rt_handler rt = Server_WorkerUpdateTaskStatus"
      "match_path (rt_path rt) (rq_path req) = Some [(''id'', raw)]"
    using find_route [OF Some] by (auto simp: list_all_iff)
  let ?req = "with_params [(''id'', raw)] req"
  have run: "run_state (ServiceBearerAuth S ?req empty_context (\<lambda>cx. Server_WorkerUpdateTaskStatus S ?req cx)) w = (r, w')"
    using assms(3) by (simp add: serve_def Some serve_route_def Let_def rt)
  have param: "rq_param ?req ''id'' = raw" by (simp add: with_params_def pg_text_def)
  have handler: "w' = w \<or> (\<exists>i upd q. lib_uuid_Parse (sv_libs S) raw = Inr i \<and>
      run_state (HandleStatusUpdate (sv_env S) (server_worker (sv_env S)) i upd) w = (q, w'))"
    if h: "run_state (Server_WorkerUpdateTaskStatus S ?req cx) w = (r, w')" for cx
  proof (cases "lib_uuid_Parse (sv_libs S) raw")
    case (Inr i)
    show ?thesis
    proof (cases "Option.bind (leading_json (rq_body ?req)) dec_worker_update")
      case (Some upd)
      obtain q w1 where q: "run_state (HandleStatusUpdate (sv_env S) (server_worker (sv_env S)) i upd) w = (q, w1)" by fastforce
      then have "w' = w \<or> w' = w1" using h assms(1) param Inr Some
        by (auto simp: Server_WorkerUpdateTaskStatus_def wired_def parseUUID_def bind_json_def unless_def attempt_def
            split: if_splits sum.splits)
      then show ?thesis using q Inr by blast
    qed (use h assms(1) param Inr in \<open>auto simp: Server_WorkerUpdateTaskStatus_def wired_def parseUUID_def bind_json_def\<close>)
  qed (use h assms(1) param in \<open>auto simp: Server_WorkerUpdateTaskStatus_def wired_def parseUUID_def\<close>)
  have "w' = w \<or> run_state (Server_WorkerUpdateTaskStatus S ?req empty_context) w = (r, w')"
    using run by (auto simp: ServiceBearerAuth_def Let_def split: prod.splits if_splits)
  then show thesis using handler that by blast
qed

text \<open>A report on a task of an organization's document leaves the rows of the others as they are.\<close>

lemma isolated_report:
  assumes "wired S" and "consistent (w_db w)" and "in_line (w_db w)"
    and "rq_path req = [''internal'', ''worker'', ''tasks'', raw, ''status'']" and "lib_uuid_Parse (sv_libs S) raw = Inr i"
    and "stored_task (w_db w) i = Some t" and "org_document_exists (w_db w) (task_document_id t) o'"
    and "run_state (serve S req) w = (r, w')"
  shows "others o' (w_db w') = others o' (w_db w)"
proof (cases rule: run_report_request [OF assms(1,4,8)])
  case (2 i' upd q)
  then have i: "i' = i" using assms(5) by simp
  note db = assms(2,3)
  have t: "t \<in> set (document_tasks (w_db w))" "task_id t = i"
    using assms(6) by (auto simp: stored_task_def dest: find_Some_iff_mem)
  have "own_task (w_db w) i o'"
    using own_task_in [OF t(1), of o'] t(2) assms(7) by (simp add: task_of_org_def task_in_org_def)
  then have "within o' (others o' (w_db w)) {task_document_id t} (set_option (task_extraction_request_id t)) {i} w"
    using db(1) assms(7) own_request_of_task [OF db t(1) assms(7)] by (auto simp: within_def working_def)
  from postD [OF within_HandleStatusUpdate conjI [OF this assms(6)] 2(2) [unfolded i]] show ?thesis
    by (simp add: within_def working_def)
qed simp

text \<open>
  C4. The workers write for the tenant only. In every state that the running system reaches from a database in
  which tasks are in line with their requests (an empty one is), and whatever a worker reports on a task of a
  document of an organization, wherever the callback fails and whatever it starts in the pipeline: the rows of
  every other organization, of none (the system's catalogs and keys) included, stay as they are. Artifacts,
  schemas, keys, values, tasks and the state of requests are all written for that organization.
\<close>

theorem reports_write_rows_of_their_tenant:
  assumes "NewServer E L X c = Inr S" and "consistent (w_db w0)" and "in_line (w_db w0)"
    and "(system_step S c)\<^sup>*\<^sup>* w0 w"
    and "rq_path req = [''internal'', ''worker'', ''tasks'', raw, ''status'']" and "lib_uuid_Parse L raw = Inr i"
    and "stored_task (w_db w) i = Some t" and "org_document_exists (w_db w) (task_document_id t) o'"
    and "run_state (serve S req) w = (r, w')"
  shows "others o' (w_db w') = others o' (w_db w)"
proof -
  note S = NewServer_wired [OF assms(1)] NewServer_Inr(2) [OF assms(1)]
  show ?thesis
    by (rule isolated_report [OF S(1) reachable_in_line [OF assms(1,4,2,3)] assms(5) _ assms(7-9)]) (simp add: S(2) assms(6))
qed

text \<open>A worker reports to the server of the examples, with the service token.\<close>

definition demo_report_request :: http_request where
  "demo_report_request = demo_req ''PATCH'' [''internal'', ''worker'', ''tasks'', ''31'', ''status''] None
     \<lparr>rq_header := \<lambda>_. ''Bearer service-token'',
      rq_body := Whole (JObj [(''status'', JStr ''completed''), (''result_payload'', JObj [(''price'', JStr ''5'')])])\<rparr>"

lemma two_tenants_tables:
  "documents (w_db two_tenants) = documents demo_db"
  "extraction_requests (w_db two_tenants) = extraction_requests demo_db"
  "document_tasks (w_db two_tenants) = document_tasks demo_db"
  by (simp_all add: two_tenants_def stmt_CreateOrganization_def Let_def insert_row_def new_organization_def demo_db_def
      empty_db_def demo_org_def index_conflict_def)

lemma two_tenants_in_line: "in_line (w_db two_tenants)"
  unfolding in_line_def two_tenants_tables
  by (simp add: demo_db_def demo_anonymize_task_def demo_extract_task_def new_task_def demo_running_request_def
      demo_request_def demo_private_request_def)

theorem reports_write_rows_of_their_tenant_witness:
  "map org_id (organizations (others 1 (w_db (snd (run_state (serve demo_server demo_report_request) two_tenants))))) = [77]"
proof -
  note tables = two_tenants_tables and line = two_tenants_in_line
  have t: "stored_task (w_db two_tenants) 31 = Some demo_extract_task"
    unfolding stored_task_def tables by (simp add: demo_db_def demo_anonymize_task_def demo_extract_task_def new_task_def)
  have doc: "org_document_exists (w_db two_tenants) (task_document_id demo_extract_task) 1"
    unfolding org_document_exists_def tables by (simp add: demo_db_def demo_extract_task_def new_task_def demo_doc_def)
  have path: "rq_path demo_report_request = [''internal'', ''worker'', ''tasks'', ''31'', ''status'']"
    by (simp add: demo_report_request_def)
  have uuid: "lib_uuid_Parse demo_libs ''31'' = Inr 31"
    by (simp add: demo_libs_def parse_digits_def digit_val_def hex_digit_def)
  show ?thesis
    using reports_write_rows_of_their_tenant [OF NewServer_demo two_tenants_consistent line rtranclp.rtrancl_refl path uuid t doc
        surjective_pairing] two_tenants_others
    by (simp del: map_eq_Cons_conv)
qed

end
