(* ===== verification/Noninterference.thy ===== *)
theory Noninterference
  imports Callback_Theorems Watchdog_Properties
begin

text \<open>
  An organization over any stretch of time in which only others act: their members, newcomers, workers that
  report on their tasks, and the watchdog. The rows of the organization stay as they are.
\<close>

section \<open>The rows of one organization\<close>

text \<open>
  All rows of the organization but its tasks, whose state is the watchdog's too; who invited, acted and created is
  left out as in \<open>others\<close>.
\<close>

definition own_rows :: "uuid \<Rightarrow> db \<Rightarrow> db" where
  "own_rows o' d = d\<lparr>
     organizations := filter (\<lambda>x. org_id x = o') (organizations d),
     users := filter (\<lambda>x. usr_organization_id x = Some o') (users d),
     construction_sites := filter (\<lambda>x. site_organization_id x = o') (construction_sites d),
     documents := filter (\<lambda>x. doc_organization_id x = o') (documents d),
     document_tasks := [],
     extraction_requests := filter (\<lambda>r. req_organization_id r = o') (extraction_requests d),
     extraction_keys := filter (\<lambda>k. key_organization_id k = Some o') (extraction_keys d),
     document_extracted_data := filter (\<lambda>x. dat_organization_id x = o') (document_extracted_data d),
     document_contract_kinds := filter (\<lambda>x. cat_organization_id x = Some o') (document_contract_kinds d),
     document_file_roles := filter (\<lambda>x. cat_organization_id x = Some o') (document_file_roles d),
     user_invitations := map (\<lambda>x. x\<lparr>inv_invited_by := None\<rparr>)
       (filter (\<lambda>x. inv_organization_id x = o') (user_invitations d)),
     site_audit_logs := map (\<lambda>x. x\<lparr>audit_actor_user_id := None\<rparr>)
       (filter (\<lambda>x. audit_organization_id x = o') (site_audit_logs d)),
     comparison_sessions := map (\<lambda>x. x\<lparr>cs_created_by := None\<rparr>)
       (filter (\<lambda>x. cs_organization_id x = o') (comparison_sessions d)),
     comparison_session_documents := filter (\<lambda>x. csd_organization_id x = o') (comparison_session_documents d)\<rparr>"

lemma filter_others:
  assumes "c \<noteq> e"
  shows "filter (\<lambda>x. k x = c) (filter (\<lambda>x. k x \<noteq> e) xs) = filter (\<lambda>x. k x = c) xs"
  using assms by (induction xs) auto

lemma map_filter_others:
  assumes "c \<noteq> e" and "\<And>x. k (f x) = k x" and "\<And>x. f (f x) = f x"
  shows "map f (filter (\<lambda>x. k x = c) (map f (filter (\<lambda>x. k x \<noteq> e) xs))) = map f (filter (\<lambda>x. k x = c) xs)"
  using assms(1) by (induction xs) (auto simp: assms(2,3))

text \<open>They are among the others' rows of every other organization.\<close>

lemma own_rows_others:
  assumes "o' \<noteq> a"
  shows "own_rows o' (others a d) = own_rows o' d"
proof -
  have some: "Some o' \<noteq> Some a" using assms by simp
  note rows = filter_others [OF assms] filter_others [OF some]
    map_filter_others [OF assms, where k = inv_organization_id and f = "inv_invited_by_update (\<lambda>_. None)"]
    map_filter_others [OF assms, where k = audit_organization_id and f = "audit_actor_user_id_update (\<lambda>_. None)"]
    map_filter_others [OF assms, where k = cs_organization_id and f = "cs_created_by_update (\<lambda>_. None)"]
  show ?thesis unfolding own_rows_def others_def by (simp del: filter_filter add: rows)
qed

lemma own_rows_of_others: "others a d' = others a d \<Longrightarrow> o' \<noteq> a \<Longrightarrow> own_rows o' d' = own_rows o' d"
  by (metis own_rows_others)

lemma own_rows_tasks: "own_rows o' (d\<lparr>document_tasks := ts\<rparr>) = own_rows o' d"
  by (simp add: own_rows_def)

section \<open>Newcomers\<close>

definition owns :: "uuid \<Rightarrow> db \<Rightarrow> db \<Rightarrow> bool" where
  "owns o' d0 d \<longleftrightarrow> consistent d \<and> own_rows o' d = d0 \<and> organizations d0 \<noteq> []"

definition owning :: "uuid \<Rightarrow> db \<Rightarrow> world \<Rightarrow> world \<Rightarrow> bool" where
  "owning o' d0 w w' \<longleftrightarrow> (owns o' d0 (w_db w) \<longrightarrow> owns o' d0 (w_db w'))"

interpretation owning: statements "owning o' d0" for o' d0
  by unfold_locales (auto simp: owning_def)

lemma owns_organization: "owns o' d0 d \<Longrightarrow> \<exists>x \<in> set (organizations d). org_id x = o'"
  by (auto simp: owns_def own_rows_def filter_empty_conv)

lemma owns_CreateOrganization:
  assumes own: "owns o' d0 d" and run: "stmt_CreateOrganization nm inn g t d = (r, d')"
  shows "owns o' d0 d' \<and> (\<forall>x. r = Inr x \<longrightarrow> org_id x \<noteq> o')"
proof -
  have "consistent d'"
    using own run db_ok_statements(1) more_stmt by (metis consistent_def owns_def snd_conv)
  obtain y where y: "y \<in> set (organizations d)" "org_id y = o'" using owns_organization [OF own] by blast
  then show ?thesis
    using own run \<open>consistent d'\<close>
    by (auto simp: owns_def own_rows_def stmt_CreateOrganization_def insert_row_def new_organization_def Let_def
        split: option.splits)
qed

lemma owns_CreateUser:
  assumes own: "owns o' d0 d" and "a \<noteq> o'"
  shows "owns o' d0 (snd (stmt_CreateUser (Some a) em h full role g t d))"
proof -
  have ok: "consistent d" using own by (simp add: owns_def)
  have "consistent (snd (stmt_CreateUser (Some a) em h full role g t d))"
    using ok db_ok_statements(3) more_stmt by (simp add: consistent_def)
  then show ?thesis
    using own own_rows_of_others [OF others_accounts(2) [OF ok]] assms(2) by (auto simp: owns_def)
qed

lemma owning_Register: "state_io_rel (owning o' d0) (Register E L p)"
proof -
  have create: "post (\<lambda>w. owns o' d0 (w_db w)) (CreateOrganization q nm inn)
      (\<lambda>r w. owns o' d0 (w_db w) \<and> (\<forall>x. r = Inr x \<longrightarrow> org_id x \<noteq> o'))" for q nm inn
    unfolding CreateOrganization_def
  proof (rule postI)
    fix w r w' assume w: "owns o' d0 (w_db w)" and run: "run_state (exec q (stmt_CreateOrganization nm inn)) w = (r, w')"
    show "owns o' d0 (w_db w') \<and> (\<forall>x. r = Inr x \<longrightarrow> org_id x \<noteq> o')"
      using w run
      by (cases rule: run_exec_cases [of "stmt_CreateOrganization nm inn" q w]) (auto dest: owns_CreateOrganization)
  qed
  have user: "post (\<lambda>w. owns o' d0 (w_db w)) (CreateUser q (Some a) em h full role) (\<lambda>_ w. owns o' d0 (w_db w))"
    if a: "a \<noteq> o'" for q a em h full role
    unfolding CreateUser_def
  proof (rule postI)
    fix w r w' assume w: "owns o' d0 (w_db w)" and run: "run_state (exec q (stmt_CreateUser (Some a) em h full role)) w = (r, w')"
    show "owns o' d0 (w_db w')"
      using w run owns_CreateUser [OF w a, of em h full role]
      by (cases rule: run_exec_cases [of "stmt_CreateUser (Some a) em h full role" q w]) (auto, (metis snd_conv)+)
  qed
  have "post (\<lambda>w. owns o' d0 (w_db w)) (register_tx p inn hash q) (\<lambda>_ w. owns o' d0 (w_db w))" for inn hash q
    unfolding register_tx_def
  proof (rule post_call [OF create])
    fix x
    show "post (\<lambda>w. owns o' d0 (w_db w) \<and> (\<forall>y. (Inr x :: go_error + organization) = Inr y \<longrightarrow> org_id y \<noteq> o'))
        (call (CreateUser q (Some (org_id x)) (rp_Email p) hash (rp_FullName p) ''admin'')
         (\<lambda>err. if IsUniqueViolation err ''users_email_key''
                then errs_New CodeConflict ''email already in use'' (Some err) else internal_error err)
         (\<lambda>user. ok (x, user))) (\<lambda>_ w. owns o' d0 (w_db w))"
      by (rule post_given, rule post_call, rule user, simp, assumption, rule post_ok)
  qed simp
  from rel_of_post [OF this] have "state_io_rel (owning o' d0) (register_tx p inn hash q)" for inn hash q
    by (simp add: state_io_rel_def owning_def)
  then have "state_io_rel (owning o' d0) (ExecTx E (register_tx p inn hash))" for inn hash
    by (rule rel_ExecTx [where I = "owns o' d0", rotated]) (simp add: owning_def)
  then show ?thesis unfolding Register_def by (auto intro!: io_rel split: sum.split)
qed

section \<open>Requests of strangers\<close>

text \<open>The path of a report of a worker, with the identifier of its task.\<close>

definition reported_task :: "string list \<Rightarrow> string option" where
  "reported_task p = (if length p = 5 \<and> take 3 p = [''internal'', ''worker'', ''tasks''] \<and> p ! 4 = ''status''
     then Some (p ! 3) else None)"

lemma reported_task_Some: "reported_task p = Some raw \<longleftrightarrow> p = [''internal'', ''worker'', ''tasks'', raw, ''status'']"
  by (auto simp: reported_task_def length_Suc_conv numeral_eq_Suc split: if_splits)

text \<open>
  A request that is not one of the organization: it has no token, that of a member of another organization, or it
  is a report on a task of another one, or it is one of those that need no token.
\<close>

definition stranger :: "server \<Rightarrow> uuid \<Rightarrow> world \<Rightarrow> http_request \<Rightarrow> bool" where
  "stranger S o' w req \<longleftrightarrow>
     (protected_path (rq_path req) \<longrightarrow> (case token_claims S req w of None \<Rightarrow> True
        | Some c \<Rightarrow> ac_Role c \<noteq> ''owner'' \<and> ac_OrgID c \<noteq> uuid_Nil \<and> ac_OrgID c \<noteq> o')) \<and>
     (case reported_task (rq_path req) of None \<Rightarrow> True
      | Some raw \<Rightarrow> (case lib_uuid_Parse (sv_libs S) raw of Inl _ \<Rightarrow> True
          | Inr i \<Rightarrow> (case stored_task (w_db w) i of None \<Rightarrow> True
              | Some t \<Rightarrow> \<not> org_document_exists (w_db w) (task_document_id t) o')))"

lemma table_open:
  "list_all (\<lambda>rt. under_api rt \<or> rt_path rt = [Lit ''health''] \<and> (\<forall>S req cx. rt_handler rt S req cx = HealthCheck req cx) \<or>
     rt_path rt = [Lit ''internal'', Lit ''worker'', Lit ''tasks'', Param ''id'', Lit ''status'']) setupRouter"
  by (simp add: route_tables under_api_def)

lemma table_public:
  assumes "p \<in> set public_paths"
  shows "list_all (\<lambda>rt. match_path (rt_path rt) p \<noteq> None \<longrightarrow> (\<forall>S req cx. state_io_rel (owning o' d0) (rt_handler rt S req cx))) setupRouter"
proof -
  have "state_io_rel (owning o' d0) (Server_RegisterOrganization S req cx)" for S req cx
    unfolding Server_RegisterOrganization_def by (auto intro!: io_rel owning_Register)
  then show ?thesis
    using assms by (auto simp: public_paths_def route_tables owning.rel_reading_handlers(1) owning.rel_session_handlers)
qed

lemma unknown_task:
  assumes "stored_task (w_db w) i = None" and "run_state (HandleStatusUpdate E s i upd) w = (r, w')"
  shows "w_db w' = w_db w"
proof -
  let ?u = "\<lparr>wu_ID = i, wu_Status = up_Status upd, wu_CeleryTaskID = up_CeleryTaskID upd,
    wu_ResultPayload = up_ResultPayload upd, wu_ErrorMessage = up_ErrorMessage upd\<rparr>"
  have stmt: "stmt_UpdateWorkerTaskStatus ?u g t (w_db w) = (Inl ErrNoRows, w_db w)" for g t
    using assms(1) by (simp add: stmt_UpdateWorkerTaskStatus_def update_task_def stored_task_def)
  show ?thesis
    using assms(2) by (cases rule: run_exec_cases [of "stmt_UpdateWorkerTaskStatus ?u" E w])
      (auto simp: HandleStatusUpdate_def UpdateWorkerTaskStatus_def run_call stmt)
qed

lemma document_of_task:
  assumes "consistent d" and "stored_task d i = Some t"
  obtains a where "org_document_exists d (task_document_id t) a"
proof -
  have "t \<in> set (document_tasks d)" using assms(2) by (auto simp: stored_task_def dest: find_Some_iff_mem)
  then have "document_exists d (task_document_id t)"
    using table_ok_row [OF db_ok_tasks [OF consistentD(1) [OF assms(1)]]] by (simp add: task_ok_def task_fks_def)
  then show thesis using that by (auto simp: document_exists_def org_document_exists_def list_ex_iff)
qed

lemma stranger_request:
  assumes S: "NewServer E L X cfg = Inr S" and own: "owns o' d0 (w_db w)" and line: "in_line (w_db w)"
    and st: "stranger S o' w req" and run: "run_state (serve S req) w = (r, w')"
  shows "own_rows o' (w_db w') = own_rows o' (w_db w)"
proof -
  note wired = NewServer_wired [OF S]
  have ok: "consistent (w_db w)" using own by (simp add: owns_def)
  consider (protected) "protected_path (rq_path req)" | (report) raw where "reported_task (rq_path req) = Some raw"
    | (public) "rq_path req \<in> set public_paths"
    | (other) "take 2 (rq_path req) \<noteq> [''api'', ''v1'']" "reported_task (rq_path req) = None"
    by (cases "reported_task (rq_path req)") (auto simp: protected_path_def)
  then show ?thesis
  proof cases
    case protected
    show ?thesis
    proof (cases "token_claims S req w")
      case None
      have "w' = w"
      proof (cases "find (match_route req) setupRouter")
        case (Some rt)
        then show ?thesis using run None by (simp add: serve_protected [OF protected Some])
      qed (use run in \<open>simp add: serve_def\<close>)
      then show ?thesis by simp
    next
      case (Some c)
      then have c: "ac_Role c \<noteq> ''owner''" "ac_OrgID c \<noteq> uuid_Nil" "ac_OrgID c \<noteq> o'"
        using st protected by (simp_all add: stranger_def)
      show ?thesis
        by (rule own_rows_of_others [OF isolated_request [OF S protected Some c(1,2) ok run]]) (use c(3) in simp)
    qed
  next
    case report
    then have path: "rq_path req = [''internal'', ''worker'', ''tasks'', raw, ''status'']" by (simp add: reported_task_Some)
    show ?thesis
    proof (cases rule: run_report_request [OF wired path run])
      case (2 i upd q)
      show ?thesis
      proof (cases "stored_task (w_db w) i")
        case None
        then show ?thesis using unknown_task [OF None 2(2)] by simp
      next
        case (Some t)
        then have not: "\<not> org_document_exists (w_db w) (task_document_id t) o'"
          using st report 2(1) by (simp add: stranger_def)
        obtain a where a: "org_document_exists (w_db w) (task_document_id t) a" by (rule document_of_task [OF ok Some])
        show ?thesis
          by (rule own_rows_of_others [OF isolated_report [OF wired ok line path 2(1) Some a run]]) (use a not in auto)
      qed
    qed simp
  next
    case public
    have "state_io_rel (owning o' d0) (serve S req)"
    proof (cases "find (match_route req) setupRouter")
      case (Some rt)
      then have "state_io_rel (owning o' d0) (rt_handler rt S q cx)" for q cx
        using table_public [OF public, of o' d0] find_route [OF Some] by (auto simp: list_all_iff)
      then show ?thesis by (simp add: serve_def Some serve_route_def Let_def owning.rel_run_guards)
    qed (simp add: serve_def owning.rel_answer)
    from rel_runD [OF this run] show ?thesis using own by (auto simp: owning_def owns_def)
  next
    case other
    have "state_io_rel unchanged (serve S req)"
    proof (cases "find (match_route req) setupRouter")
      case (Some rt)
      note found = find_route [OF Some]
      have "\<not> under_api rt"
      proof
        assume "under_api rt"
        then obtain ps where "rt_path rt = Lit ''api'' # Lit ''v1'' # ps"
          by (cases "rt_path rt" rule: remdups_adj.cases) (auto simp: under_api_def)
        then show False using match_shape found other(1) by (fastforce split: list.splits)
      qed
      moreover have "rt_path rt \<noteq> [Lit ''internal'', Lit ''worker'', Lit ''tasks'', Param ''id'', Lit ''status'']"
        using match_shape [of "rt_path rt" "rq_path req"] found other(2) by (auto simp: reported_task_def split: list.splits)
      ultimately have "rt_handler rt S q cx = HealthCheck q cx" for q cx
        using table_open found by (auto simp: list_all_iff)
      then show ?thesis
        by (simp add: serve_def Some serve_route_def Let_def unchanged.rel_run_guards unchanged.rel_reading_handlers)
    qed (simp add: serve_def unchanged.rel_answer)
    from rel_runD [OF this run] show ?thesis by (simp add: unchanged_def)
  qed
qed

section \<open>A run of strangers\<close>

text \<open>The steps of the running system in which the organization and the owner of the platform do nothing.\<close>

inductive stranger_step :: "server \<Rightarrow> config \<Rightarrow> uuid \<Rightarrow> world \<Rightarrow> world \<Rightarrow> bool"
  for S :: server and c :: config and o' :: uuid where
  request: "stranger S o' w req \<Longrightarrow> run_state (serve S req) w = (r, w') \<Longrightarrow> stranger_step S c o' w w'"
| scan: "run_state (runOnce (sv_env S) (Process (sv_env S)) (scanning c) now) w = (r, w') \<Longrightarrow> stranger_step S c o' w w'"
| wait: "w_tick w \<le> n \<Longrightarrow> stranger_step S c o' w (w\<lparr>w_tick := n\<rparr>)"
| work: "w_redis w q = ms @ ns \<Longrightarrow> stranger_step S c o' w (w\<lparr>w_redis := (w_redis w)(q := ms)\<rparr>)"

lemma stranger_step_system: "stranger_step S c o' w w' \<Longrightarrow> system_step S c w w'"
  by (induction rule: stranger_step.induct) (auto intro: system_step.intros)

lemma runOnce_own_rows:
  assumes "run_state (runOnce E (Process E) cfg now) w = (r, w')"
  shows "own_rows o' (w_db w') = own_rows o' (w_db w)"
proof -
  from rel_runD [OF only_tasks_runOnce assms] show ?thesis by (auto simp: only_tasks_def own_rows_tasks)
qed

lemma stranger_step_own_rows:
  assumes S: "NewServer E L X cfg = Inr S" and own: "owns o' d0 (w_db w)" and line: "in_line (w_db w)"
    and "stranger_step S c o' w w'"
  shows "owns o' d0 (w_db w') \<and> in_line (w_db w')"
proof -
  have "known {} w" using own line by (simp add: known_def owns_def)
  then have "known {} w'"
    using lined_step [OF NewServer_wired [OF S] stranger_step_system [OF assms(4)]] by (simp add: knows_def)
  moreover have "own_rows o' (w_db w') = own_rows o' (w_db w)"
    using assms(4)
  proof cases
    case (request req r)
    then show ?thesis by (rule stranger_request [OF S own line])
  next
    case (scan now r)
    then show ?thesis by (rule runOnce_own_rows [rotated 0])
  qed simp_all
  ultimately show ?thesis using own by (simp add: owns_def known_def)
qed

text \<open>
  C2. No one else writes an organization's rows. From any state in which the system is sound and the organization
  exists, as long as neither its members nor the owner of the platform make a request and no worker reports on a
  task of its documents, and whatever the members of other organizations, newcomers who register or log in,
  requests with no valid token, workers, the watchdog and failures of the infrastructure do, in any order: all
  rows of the organization, in every table but that of tasks, stay as they are, except three columns that
  are left out of the comparison because they become null with a user they name: who invited
  (\<open>inv_invited_by\<close>), who acted (\<open>audit_actor_user_id\<close>) and who created a session (\<open>cs_created_by\<close>).
\<close>

theorem strangers_leave_no_trace:
  assumes "NewServer E L X cfg = Inr S" and "consistent (w_db w0)" and "in_line (w_db w0)"
    and "list_ex (\<lambda>x. org_id x = o') (organizations (w_db w0))" and "(stranger_step S c o')\<^sup>*\<^sup>* w0 w"
  shows "own_rows o' (w_db w) = own_rows o' (w_db w0)"
proof -
  have "owns o' (own_rows o' (w_db w0)) (w_db w0) \<and> in_line (w_db w0)"
    using assms(2-4) by (auto simp: owns_def own_rows_def list_ex_iff filter_empty_conv)
  with assms(5) have "owns o' (own_rows o' (w_db w0)) (w_db w) \<and> in_line (w_db w)"
    by (induction rule: rtranclp_induct) (auto dest: stranger_step_own_rows [OF assms(1)])
  then show ?thesis by (simp add: owns_def)
qed

theorem strangers_leave_no_trace_witness:
  "map org_name (organizations (own_rows 77 (w_db (snd (run_state (serve demo_server
      (demo_req ''DELETE'' [''api'', ''v1'', ''organizations'', ''1''] (Some ''admin-token''))) two_tenants))))) = [''Other'']"
proof -
  let ?req = "demo_req ''DELETE'' [''api'', ''v1'', ''organizations'', ''1''] (Some ''admin-token'')"
  have st: "stranger demo_server 77 two_tenants ?req"
    by (simp add: stranger_def protected_path_def public_paths_def token_claims_def demo_validate reported_task_def)
  have step: "(stranger_step demo_server demo_config 77)\<^sup>*\<^sup>* two_tenants (snd (run_state (serve demo_server ?req) two_tenants))"
    by (rule r_into_rtranclp) (rule stranger_step.request [OF st surjective_pairing])
  have orgs: "organizations (w_db two_tenants) = organizations demo_db @ [new_organization 77 50 ''Other'' None]"
    by (simp add: two_tenants_def stmt_CreateOrganization_def Let_def insert_row_def new_organization_def demo_db_def
        empty_db_def demo_org_def index_conflict_def)
  have "list_ex (\<lambda>x. org_id x = 77) (organizations (w_db two_tenants))"
    "map org_name (organizations (own_rows 77 (w_db two_tenants))) = [''Other'']"
    unfolding own_rows_def by (simp_all add: orgs new_organization_def demo_db_def demo_org_def)
  then show ?thesis
    using strangers_leave_no_trace [OF NewServer_demo two_tenants_consistent two_tenants_in_line _ step] by simp
qed

end
