(* ===== verification/Process_Life.thy ===== *)
theory Process_Life
  imports Upkeep
begin

text \<open>
  \<^verbatim>\<open>cmd/api/main.go\<close>: how the process starts, what runs in it side by side (requests, the watchdog and \<open>main\<close>
  itself), and how it stops; with \<open>MustLoad\<close> of \<^verbatim>\<open>internal/config/config.go\<close> and the CORS policy of
  \<^verbatim>\<open>internal/server/server.go\<close>.
\<close>

section \<open>Configuration\<close>

text \<open>
  The library that reads the configuration: what it fills in from the file \<^verbatim>\<open>.env\<close>, its error being ignored,
  and from the environment.
\<close>

record cleanenv =
  ce_ReadConfig :: "string \<Rightarrow> config \<Rightarrow> config"
  ce_ReadEnv :: "config \<Rightarrow> go_error + config"

definition zero_config :: config where
  "zero_config = \<lparr>cfg_AppEnv = [], cfg_AppPort = [], cfg_DBURL = [], cfg_RedisURL = [],
     cfg_WatchdogInterval = 0, cfg_WatchdogThreshold = 0, cfg_WatchdogMaxRetries = 0, cfg_WatchdogBatchSize = 0,
     cfg_JWTAccessSecret = [], cfg_JWTRefreshSecret = [], cfg_ServiceToken = [], cfg_S3Endpoint = [],
     cfg_S3Region = [], cfg_S3AccessKey = [], cfg_S3SecretKey = [], cfg_S3Bucket = [], cfg_S3UseSSL = False\<rparr>"

text \<open>A panic is \<open>Inl\<close> with its message.\<close>

definition MustLoad :: "env \<Rightarrow> outside \<Rightarrow> cleanenv \<Rightarrow> string + config" where
  "MustLoad E X ce =
     (case ce_ReadEnv ce (ce_ReadConfig ce ''.env'' zero_config) of
        Inl err \<Rightarrow> Inl (''config: '' @ error_text (env_error_text E) err)
      | Inr cfg \<Rightarrow>
          (case config_validate E X cfg of
             Some err \<Rightarrow> Inl (''config: '' @ error_text (env_error_text E) err)
           | None \<Rightarrow> Inr cfg))"

lemma MustLoad_valid: "MustLoad E X ce = Inr cfg \<Longrightarrow> config_validate E X cfg = None"
  by (auto simp: MustLoad_def split: sum.splits option.splits)

text \<open>What the CORS middleware is built from; the library applies it.\<close>

record cors_config =
  cors_AllowAllOrigins :: bool
  cors_AllowOrigins :: "string list"
  cors_AllowMethods :: "string list"
  cors_AllowHeaders :: "string list"
  cors_ExposeHeaders :: "string list"
  cors_AllowCredentials :: bool
  cors_MaxAge :: int

definition corsMiddleware :: "string \<Rightarrow> cors_config" where
  "corsMiddleware appEnv =
     (let cfg = \<lparr>cors_AllowAllOrigins = False, cors_AllowOrigins = [],
        cors_AllowMethods = [''GET'', ''POST'', ''PUT'', ''PATCH'', ''DELETE'', ''OPTIONS''],
        cors_AllowHeaders = [''Origin'', ''Content-Type'', ''Authorization''],
        cors_ExposeHeaders = [''Content-Length''], cors_AllowCredentials = True,
        cors_MaxAge = 12 * 3600 * second\<rparr>
      in if appEnv = ''local'' then cfg\<lparr>cors_AllowAllOrigins := True\<rparr>
         else cfg\<lparr>cors_AllowOrigins := [''https://*.kpi-tenders.kz'']\<rparr>)"

section \<open>Starting\<close>

record postgres =
  pgxpool_New :: "string \<Rightarrow> go_error option"
  pool_Ping :: "go_error option"

text \<open>The statement that \<open>main\<close> is about to execute, once everything has been started.\<close>

datatype main_at =
    AwaitSignal        \<comment> \<open>\<^verbatim>\<open>sig := <-quit\<close>\<close>
  | CancelWatchdog     \<comment> \<open>\<^verbatim>\<open>watchdogCancel()\<close>\<close>
  | JoinWatchdog       \<comment> \<open>\<^verbatim>\<open>watchdogDone.Wait()\<close>\<close>
  | ShutdownHttp       \<comment> \<open>\<^verbatim>\<open>httpSrv.Shutdown(shutdownCtx)\<close>\<close>
  | AbortClose         \<comment> \<open>\<^verbatim>\<open>_ = srv.Close()\<close>, after a forced shutdown\<close>
  | AbortExit          \<comment> \<open>\<^verbatim>\<open>os.Exit(1)\<close>, after a forced shutdown\<close>
  | CloseServer        \<comment> \<open>\<^verbatim>\<open>srv.Close()\<close>\<close>
  | Exited int

datatype watchdog_at = FirstScan | Ticking | Stopped

record process =
  pr_config :: config
  pr_main :: main_at
  pr_watchdog_ctx_done :: bool
  pr_watchdog :: watchdog_at
  pr_serving :: bool       \<comment> \<open>the HTTP server accepts requests or has some under way\<close>
  pr_publisher :: bool     \<comment> \<open>the Redis client is open\<close>
  pr_world :: world

datatype start_failure = Panic string | Exit int

definition main_start :: "env \<Rightarrow> libs \<Rightarrow> outside \<Rightarrow> cleanenv \<Rightarrow> postgres \<Rightarrow> world \<Rightarrow> start_failure + process" where
  "main_start E L X ce pg w =
     (case MustLoad E X ce of
        Inl msg \<Rightarrow> Inl (Panic msg)
      | Inr cfg \<Rightarrow>
          (case pgxpool_New pg (cfg_DBURL cfg) of
             Some _ \<Rightarrow> Inl (Exit 1)
           | None \<Rightarrow>
               (case pool_Ping pg of
                  Some _ \<Rightarrow> Inl (Exit 1)
                | None \<Rightarrow>
                    (case NewServer E L X cfg of
                       Inl _ \<Rightarrow> Inl (Exit 1)
                     | Inr srv \<Rightarrow> Inr \<lparr>pr_config = cfg, pr_main = AwaitSignal, pr_watchdog_ctx_done = False,
                         pr_watchdog = FirstScan, pr_serving = True, pr_publisher = True, pr_world = w\<rparr>))))"

section \<open>Running and stopping\<close>

text \<open>A closed Redis client rejects what it is given (\<^verbatim>\<open>redis.ErrClosed\<close>).\<close>

definition closed_env :: "env \<Rightarrow> env" where
  "closed_env E = E\<lparr>env_push := (\<lambda>_. Rejected ''redis: client is closed'')\<rparr>"

definition env_of :: "env \<Rightarrow> process \<Rightarrow> env" where
  "env_of E p = (if pr_publisher p then E else closed_env E)"

definition alive :: "process \<Rightarrow> bool" where
  "alive p \<longleftrightarrow> (case pr_main p of Exited _ \<Rightarrow> False | _ \<Rightarrow> True)"

text \<open>The steps of \<open>main\<close>.\<close>

inductive main_step :: "process \<Rightarrow> process \<Rightarrow> bool" where
  signal: "pr_main p = AwaitSignal \<Longrightarrow> main_step p (p\<lparr>pr_main := CancelWatchdog\<rparr>)"
| cancel: "pr_main p = CancelWatchdog \<Longrightarrow> main_step p (p\<lparr>pr_main := JoinWatchdog, pr_watchdog_ctx_done := True\<rparr>)"
| joined: "pr_main p = JoinWatchdog \<Longrightarrow> pr_watchdog p = Stopped \<Longrightarrow> main_step p (p\<lparr>pr_main := ShutdownHttp\<rparr>)"
| drained: "pr_main p = ShutdownHttp \<Longrightarrow> main_step p (p\<lparr>pr_main := CloseServer, pr_serving := False\<rparr>)"
| forced: "pr_main p = ShutdownHttp \<Longrightarrow> main_step p (p\<lparr>pr_main := AbortClose\<rparr>)"
| abort_close: "pr_main p = AbortClose \<Longrightarrow> main_step p (p\<lparr>pr_main := AbortExit, pr_publisher := False\<rparr>)"
| abort_exit: "pr_main p = AbortExit \<Longrightarrow> main_step p (p\<lparr>pr_main := Exited 1\<rparr>)"
| close: "pr_main p = CloseServer \<Longrightarrow> main_step p (p\<lparr>pr_main := Exited 0, pr_publisher := False\<rparr>)"

text \<open>
  The steps of the process: those of \<open>main\<close>, of the goroutine that listens and fails, of the handlers, and of
  the watchdog, which looks at its context between two scans; and what happens outside.
\<close>

inductive process_step :: "env \<Rightarrow> libs \<Rightarrow> outside \<Rightarrow> process \<Rightarrow> process \<Rightarrow> bool"
  for E :: env and L :: libs and X :: outside where
  main: "main_step p p' \<Longrightarrow> process_step E L X p p'"
| listen_failed: "pr_main p \<in> {AwaitSignal, CancelWatchdog, JoinWatchdog, ShutdownHttp} \<Longrightarrow>
    process_step E L X p (p\<lparr>pr_main := Exited 1\<rparr>)"
| request: "alive p \<Longrightarrow> pr_serving p \<Longrightarrow> NewServer (env_of E p) L X (pr_config p) = Inr S \<Longrightarrow>
    run_state (serve S req) (pr_world p) = (r, w) \<Longrightarrow> process_step E L X p (p\<lparr>pr_world := w\<rparr>)"
| scan: "alive p \<Longrightarrow> pr_watchdog p \<noteq> Stopped \<Longrightarrow>
    run_state (runOnce (env_of E p) (Process (env_of E p)) (scanning (pr_config p)) now) (pr_world p) = (r, w) \<Longrightarrow>
    process_step E L X p (p\<lparr>pr_watchdog := Ticking, pr_world := w\<rparr>)"
| watchdog_stops: "alive p \<Longrightarrow> pr_watchdog p = Ticking \<Longrightarrow> pr_watchdog_ctx_done p \<Longrightarrow>
    process_step E L X p (p\<lparr>pr_watchdog := Stopped\<rparr>)"
| wait: "w_tick (pr_world p) \<le> n \<Longrightarrow> process_step E L X p (p\<lparr>pr_world := (pr_world p)\<lparr>w_tick := n\<rparr>\<rparr>)"
| work: "w_redis (pr_world p) q = ms @ ns \<Longrightarrow>
    process_step E L X p (p\<lparr>pr_world := (pr_world p)\<lparr>w_redis := (w_redis (pr_world p))(q := ms)\<rparr>\<rparr>)"


section \<open>The order of the shutdown\<close>

text \<open>What holds at each place in \<open>main\<close>.\<close>

definition main_inv :: "process \<Rightarrow> bool" where
  "main_inv p \<longleftrightarrow>
     (pr_watchdog p = Stopped \<longrightarrow> pr_watchdog_ctx_done p) \<and>
     (case pr_main p of
        AwaitSignal \<Rightarrow> pr_publisher p \<and> pr_serving p \<and> \<not> pr_watchdog_ctx_done p
      | CancelWatchdog \<Rightarrow> pr_publisher p \<and> pr_serving p \<and> \<not> pr_watchdog_ctx_done p
      | JoinWatchdog \<Rightarrow> pr_publisher p \<and> pr_serving p \<and> pr_watchdog_ctx_done p
      | ShutdownHttp \<Rightarrow> pr_publisher p \<and> pr_serving p \<and> pr_watchdog p = Stopped
      | AbortClose \<Rightarrow> pr_publisher p \<and> pr_serving p \<and> pr_watchdog p = Stopped
      | AbortExit \<Rightarrow> \<not> pr_publisher p \<and> pr_serving p \<and> pr_watchdog p = Stopped
      | CloseServer \<Rightarrow> pr_publisher p \<and> \<not> pr_serving p \<and> pr_watchdog p = Stopped
      | Exited n \<Rightarrow> n = 1 \<or> n = 0 \<and> \<not> pr_publisher p \<and> \<not> pr_serving p \<and> pr_watchdog p = Stopped)"

lemma main_inv_start: "main_start E L X ce pg w = Inr p \<Longrightarrow> main_inv p"
  by (auto simp: main_start_def main_inv_def split: sum.splits option.splits)

lemma main_inv_main: "main_step p p' \<Longrightarrow> main_inv p \<Longrightarrow> main_inv p'"
  by (induction rule: main_step.induct) (auto simp: main_inv_def)

lemma main_inv_world [simp]: "main_inv (p\<lparr>pr_world := w\<rparr>) = main_inv p"
  by (cases "pr_main p") (simp_all add: main_inv_def)

lemma main_inv_step:
  assumes "process_step E L X p p'" and "main_inv p"
  shows "main_inv p'"
  using assms
proof (induction rule: process_step.induct)
  case (watchdog_stops p)
  then show ?case by (cases "pr_main p") (simp_all add: main_inv_def)
next
  case (scan p now r w)
  then show ?case by (cases "pr_main p") (simp_all add: main_inv_def alive_def)
next
  case (listen_failed p)
  then show ?case by (auto simp: main_inv_def)
qed (simp_all add: main_inv_main)

lemma main_inv_run: "(process_step E L X)\<^sup>*\<^sup>* p p' \<Longrightarrow> main_inv p \<Longrightarrow> main_inv p'"
  by (induction rule: rtranclp_induct) (auto intro: main_inv_step)

text \<open>The configuration is the one that was validated, and the database stays consistent.\<close>

lemma main_step_keeps: "main_step p p' \<Longrightarrow> pr_config p' = pr_config p \<and> pr_world p' = pr_world p"
  by (induction rule: main_step.induct) simp_all

lemma config_step: "process_step E L X p p' \<Longrightarrow> pr_config p' = pr_config p"
  by (induction rule: process_step.induct) (simp_all add: main_step_keeps)

lemma world_step:
  assumes "process_step E L X p p'" and "consistent (w_db (pr_world p))"
  shows "consistent (w_db (pr_world p'))"
  using assms
proof cases
  case (request S req r w)
  then show ?thesis using rel_runD [OF upkeep.rel_serve [OF NewServer_wired]] assms(2) by (auto simp: upkeep_def)
next
  case (scan now r w)
  then show ?thesis using rel_runD [OF keeping_upkeep [OF keeping.runOnce_rel]] assms(2) by (auto simp: upkeep_def)
qed (simp_all add: main_step_keeps)

text \<open>Steps that are left for \<open>main\<close>.\<close>

fun steps_left :: "main_at \<Rightarrow> nat" where
  "steps_left AwaitSignal = 6"
| "steps_left CancelWatchdog = 5"
| "steps_left JoinWatchdog = 4"
| "steps_left ShutdownHttp = 3"
| "steps_left AbortClose = 2"
| "steps_left AbortExit = 1"
| "steps_left CloseServer = 1"
| "steps_left (Exited n) = 0"

lemma main_step_decreases: "main_step p p' \<Longrightarrow> steps_left (pr_main p') < steps_left (pr_main p)"
  by (induction rule: main_step.induct) simp_all

text \<open>\<open>main\<close> waits for the signal and for the watchdog only, and for that once it has cancelled its context.\<close>

lemma main_waits_for_watchdog:
  assumes "main_inv p" and "alive p"
  shows "(\<exists>p'. main_step p p') \<or> pr_main p = JoinWatchdog \<and> pr_watchdog_ctx_done p \<and>
    (pr_watchdog p = FirstScan \<or> process_step E L X p (p\<lparr>pr_watchdog := Stopped\<rparr>))"
proof (cases "pr_main p")
  case JoinWatchdog
  then have ctx: "pr_watchdog_ctx_done p" using assms(1) by (simp add: main_inv_def)
  show ?thesis
  proof (cases "pr_watchdog p")
    case Ticking
    then show ?thesis using JoinWatchdog ctx assms(2) process_step.watchdog_stops by simp
  qed (use JoinWatchdog ctx main_step.joined in auto)
qed (use assms(2) in \<open>auto simp: alive_def intro: main_step.intros\<close>)

text \<open>The database of a process that has been started stays consistent until it ends, and after.\<close>

lemma process_database_consistent:
  "(process_step E L X)\<^sup>*\<^sup>* p p' \<Longrightarrow> consistent (w_db (pr_world p)) \<Longrightarrow> consistent (w_db (pr_world p'))"
  by (induction rule: rtranclp_induct) (auto intro: world_step)

lemma config_run: "(process_step E L X)\<^sup>*\<^sup>* p p' \<Longrightarrow> pr_config p' = pr_config p"
  by (induction rule: rtranclp_induct) (auto dest: config_step)

lemma main_start_valid: "main_start E L X ce pg w = Inr p \<Longrightarrow> config_validate E X (pr_config p) = None"
  by (auto simp: main_start_def dest: MustLoad_valid split: sum.splits option.splits)

text \<open>
  C34. Redis is closed last. From the start of the process to its end, in whatever order requests, scans and the
  steps of \<open>main\<close> alternate: while the watchdog runs the publisher is open; a request meets a closed one only
  between \<open>Close\<close> and \<open>os.Exit(1)\<close> of a shutdown that timed out; the exit code is 0 or 1, and with 0 the
  watchdog has stopped, no request is under way and the publisher is closed; and the ticker's interval is
  positive, so that creating it does not panic.
\<close>

theorem publisher_outlives_its_users:
  assumes "main_start E L X ce pg w = Inr p0" and "(process_step E L X)\<^sup>*\<^sup>* p0 p"
  shows "(alive p \<and> pr_watchdog p \<noteq> Stopped \<longrightarrow> pr_publisher p) \<and>
    (alive p \<and> pr_serving p \<and> \<not> pr_publisher p \<longrightarrow> pr_main p = AbortExit) \<and>
    (pr_main p = Exited n \<longrightarrow> n = 1 \<or> n = 0 \<and> pr_watchdog p = Stopped \<and> \<not> pr_serving p \<and> \<not> pr_publisher p) \<and>
    0 < cfg_WatchdogInterval (pr_config p)"
proof (intro conjI)
  have inv: "main_inv p" by (rule main_inv_run [OF assms(2) main_inv_start [OF assms(1)]])
  then show "alive p \<and> pr_watchdog p \<noteq> Stopped \<longrightarrow> pr_publisher p"
    and "alive p \<and> pr_serving p \<and> \<not> pr_publisher p \<longrightarrow> pr_main p = AbortExit"
    by (cases "pr_main p"; simp add: main_inv_def alive_def)+
  from inv show "pr_main p = Exited n \<longrightarrow> n = 1 \<or> n = 0 \<and> pr_watchdog p = Stopped \<and> \<not> pr_serving p \<and> \<not> pr_publisher p"
    by (auto simp: main_inv_def)
  show "0 < cfg_WatchdogInterval (pr_config p)"
    using config_validate_None(4) [OF main_start_valid [OF assms(1)]] config_run [OF assms(2)] by simp
qed

text \<open>A process over the example's libraries, with secrets that are long enough.\<close>

definition demo_environment :: cleanenv where
  "demo_environment = \<lparr>ce_ReadConfig = (\<lambda>_ c. c),
     ce_ReadEnv = (\<lambda>_. Inr (demo_config\<lparr>cfg_JWTAccessSecret := replicate 32 CHR ''a'',
       cfg_JWTRefreshSecret := replicate 32 CHR ''r'', cfg_ServiceToken := replicate 32 CHR ''s''\<rparr>))\<rparr>"

definition demo_postgres :: postgres where
  "demo_postgres = \<lparr>pgxpool_New = (\<lambda>_. None), pool_Ping = None\<rparr>"

lemma demo_started:
  obtains p where "main_start demo_env demo_libs demo_outside demo_environment demo_postgres demo_world = Inr p"
    and "pr_main p = AwaitSignal" "pr_watchdog p = FirstScan" "\<not> pr_watchdog_ctx_done p"
proof -
  have "\<exists>p. main_start demo_env demo_libs demo_outside demo_environment demo_postgres demo_world = Inr p \<and>
      pr_main p = AwaitSignal \<and> pr_watchdog p = FirstScan \<and> \<not> pr_watchdog_ctx_done p"
    by (simp add: main_start_def MustLoad_def demo_environment_def demo_postgres_def demo_config_def demo_outside_def
        config_validate_def minSecretLen_def second_def NewServer_def pythonworker_New_def NewWorkerService_def
        server_storage_def storage_New_def)
  then show thesis using that by blast
qed

theorem publisher_outlives_its_users_witness:
  "\<exists>p0 p. main_start demo_env demo_libs demo_outside demo_environment demo_postgres demo_world = Inr p0 \<and>
     (process_step demo_env demo_libs demo_outside)\<^sup>*\<^sup>* p0 p \<and> pr_main p = Exited 0 \<and>
     pr_watchdog p = Stopped \<and> \<not> pr_serving p \<and> \<not> pr_publisher p"
proof -
  obtain p0 where start: "main_start demo_env demo_libs demo_outside demo_environment demo_postgres demo_world = Inr p0"
    and p0: "pr_main p0 = AwaitSignal" "pr_watchdog p0 = FirstScan" "\<not> pr_watchdog_ctx_done p0"
    by (rule demo_started)
  let ?R = "process_step demo_env demo_libs demo_outside"
  obtain r w where "run_state (runOnce (env_of demo_env p0) (Process (env_of demo_env p0)) (scanning (pr_config p0)) 0)
      (pr_world p0) = (r, w)" by (metis surj_pair)
  then have s1: "?R p0 (p0\<lparr>pr_watchdog := Ticking, pr_world := w\<rparr>)" (is "process_step _ _ _ _ ?p1")
    using p0 by (intro process_step.scan) (simp_all add: alive_def)
  have s2: "?R ?p1 (?p1\<lparr>pr_main := CancelWatchdog\<rparr>)" (is "process_step _ _ _ _ ?p2") by (intro process_step.main main_step.signal) (simp add: p0)
  have s3: "?R ?p2 (?p2\<lparr>pr_main := JoinWatchdog, pr_watchdog_ctx_done := True\<rparr>)" (is "process_step _ _ _ _ ?p3")
    by (intro process_step.main main_step.cancel) simp
  have s4: "?R ?p3 (?p3\<lparr>pr_watchdog := Stopped\<rparr>)" (is "process_step _ _ _ _ ?p4") by (intro process_step.watchdog_stops) (simp_all add: alive_def)
  have s5: "?R ?p4 (?p4\<lparr>pr_main := ShutdownHttp\<rparr>)" (is "process_step _ _ _ _ ?p5") by (intro process_step.main main_step.joined) simp_all
  have s6: "?R ?p5 (?p5\<lparr>pr_main := CloseServer, pr_serving := False\<rparr>)" (is "process_step _ _ _ _ ?p6")
    by (intro process_step.main main_step.drained) simp
  have s7: "?R ?p6 (?p6\<lparr>pr_main := Exited 0, pr_publisher := False\<rparr>)" (is "process_step _ _ _ _ ?p7")
    by (intro process_step.main main_step.close) simp
  note step = rtranclp.rtrancl_into_rtrancl [where r = ?R]
  have run: "?R\<^sup>*\<^sup>* p0 ?p7"
    by (rule step [OF _ s7], rule step [OF _ s6], rule step [OF _ s5], rule step [OF _ s4], rule step [OF _ s3],
        rule step [OF _ s2], rule r_into_rtranclp, rule s1)
  show ?thesis
    using start run publisher_outlives_its_users [OF start run, of 0] by (intro exI [of _ p0] exI [of _ ?p7]) simp
qed

end
