(* ===== verification/Spec2Isabelle.thy ===== *)
theory Spec2Isabelle
  imports Extraction_Theorems Worker_Theorems Watchdog_Theorems Answers Document_Theorems Site_Theorems Noninterference Process_Life
begin

text \<open>
  A verification development for the backend of \<^verbatim>\<open>kpi-tenders-go\<close>: a server over HTTP (gin), a PostgreSQL
  database, an object store (MinIO), and Celery workers in Python that are reached through Redis. File names
  are relative to \<^verbatim>\<open>src/\<close>.

  \<^bold>\<open>The program.\<close> Users of an organization (a tenant) keep construction sites, documents, catalogs and
  comparison sessions. A document passes through a pipeline of tasks: \<open>convert\<close>, \<open>anonymize\<close>,
  \<open>resolve_keys\<close>, \<open>extract\<close>. \<^verbatim>\<open>ExtractionService\<close> decides the next task of an extraction request, stores it
  and publishes it on Redis; the workers report to \<^verbatim>\<open>/internal/worker/tasks/:id/status\<close>, where
  \<^verbatim>\<open>WorkerService\<close> records the result and drives the requests that wait for it; the watchdog publishes tasks that
  have been silent for too long again, or fails them. The database is shared by all of them, and its
  constraints, triggers and cascades are part of the model.

  \<^bold>\<open>How code becomes definitions.\<close> A definition has the name of the Go function, method or query, with a
  prefix where two share one (\<open>task_Create\<close>, \<open>document_Create\<close>, \<open>comparison_Create\<close>); names that begin with
  \<open>stmt_\<close> are SQL statements as functions of the database. The actions are in the state monad over \<open>world\<close>
  (database, Redis lists, objects of the bucket, number of interactions so far); \<open>'a act\<close> has a sum as its
  result, \<open>Inl\<close> the Go error. \<open>call\<close> is \<^verbatim>\<open>if err != nil { return wrap(err) }\<close>, \<open>ignoring\<close> an error
  that is logged only. What the outside decides is the argument \<open>env\<close>, indexed by the number of the
  interaction: new identifiers, the time, and a fault of each interaction: it may be rejected, or take effect
  with its answer lost. Time-outs and cancelled contexts are such faults. So every theorem about all \<open>env\<close>
  covers every pattern of failures. UUIDs are 128-bit words, batch sizes are truncated to 32 bits as in the code.
  Libraries (bcrypt, JWT, MinIO, gin's binding, multipart, \<^verbatim>\<open>time.Duration\<close> parsing) are parameters: records
  of functions (\<open>libs\<close>, \<open>env\<close>) with what is relied on as named hypotheses; \<open>Example_World\<close> and
  \<open>Example_Server\<close> give concrete ones.

  \<^bold>\<open>The theories, bottom up.\<close>
  \<^item> \<open>Prelude\<close>: table operations, the monad, well-formed tables, relations between the state before and
    after (\<open>effect_rel\<close>), \<open>post\<close>; the collections \<open>io_rel\<close>, \<open>act_simps\<close>, \<open>post_intro\<close>.
  \<^item> \<open>Errs\<close> (\<^verbatim>\<open>pkg/errs\<close>, \<^verbatim>\<open>internal/pgutil\<close>, \<^verbatim>\<open>server/errors.go\<close>), \<open>Json\<close>, \<open>Go_Text\<close> (strings, numbers, paths).
  \<^item> \<open>Schema\<close> (\<^verbatim>\<open>repository/models.go\<close>, \<^verbatim>\<open>sql/migrations\<close>): rows, database, checks, foreign keys, triggers;
    \<open>World\<close>: interactions.
  \<^item> \<open>Repo_Tasks\<close>, \<open>Repo_Documents\<close>, \<open>Repo_Extraction\<close>, \<open>Repo_Base\<close>, \<open>Repo_Accounts\<close>, \<open>Repo_Sites\<close>,
    \<open>Repo_Catalogs\<close>: the queries of \<^verbatim>\<open>repository/*.sql.go\<close>, one statement each, with what cascades.
  \<^item> \<open>Python_Worker\<close> (\<^verbatim>\<open>pythonworker/client.go\<close>), \<open>Storage\<close> (\<^verbatim>\<open>storage/client.go\<close>).
  \<^item> \<open>Extraction_Service\<close>, \<open>Worker_Service\<close>, \<open>Account_Services\<close>, \<open>Auth_Service\<close>, \<open>Catalog_Services\<close>,
    \<open>Document_Services\<close> (\<^verbatim>\<open>service/service_*.go\<close>, \<^verbatim>\<open>store/store.go\<close>), \<open>Watchdog\<close> (\<^verbatim>\<open>watchdog/watchdog.go\<close>).
  \<^item> \<open>Http\<close>, \<open>Http_Accounts\<close>, \<open>Http_Sites\<close>, \<open>Http_Documents\<close> (\<^verbatim>\<open>server/handler_*.go\<close>), \<open>Http_Router\<close>
    (\<^verbatim>\<open>server/middleware.go\<close>, \<open>setupRouter\<close>: a table of routes with their guards; \<open>serve\<close> dispatches),
    \<open>Config\<close> (\<^verbatim>\<open>config/config.go\<close>, \<open>NewServer\<close>), \<open>Process_Life\<close> (\<^verbatim>\<open>cmd/api/main.go\<close>: \<open>main_start\<close>, and
    \<open>main_step\<close> and \<open>process_step\<close> for what runs side by side until the process ends).

  \<^bold>\<open>The interfaces.\<close> They are locales whose parameter is a relation \<open>R\<close> between worlds; an
  interpretation discharges the laws for the statements, and the lemmas lift \<open>R\<close> to services and handlers.
  \<open>statements\<close> (reads and ticks respect \<open>R\<close>), \<open>querier\<close> (the statements of the pipeline), \<open>task_publisher\<close>
  (tasks are published after they are recorded), \<open>extraction_client\<close>, \<open>pipeline\<close> (the Go interface
  \<open>extractionPipeline\<close>), \<open>worker_client\<close>: theory \<open>Contracts\<close>; \<open>tenant\<close> (every statement that a handler issues for
  one organization): theory \<open>Tenants\<close>; \<open>whole_server\<close> (all tenants, the registration and the reports): theory
  \<open>Whole_Server\<close>, which lifts \<open>R\<close> to \<open>serve\<close>. They are interpreted for integrity and evolution of the database, for what
  is sent, for consistency (\<open>upkeep\<close>), for tasks in line with requests (\<open>lined\<close>) and for the isolation of tenants
  (\<open>isolation\<close>).

  \<^bold>\<open>What is proved.\<close>
  \<^item> The whole system. \<open>Integrity\<close>, \<open>Consistency\<close>, \<open>Purge\<close>, \<open>Upkeep\<close>: the invariant \<open>consistent\<close> of all
    tables (unique keys, references within the organization, no cycle of sites), kept by every statement, every
    cascade, every request and every scan; \<open>system_step\<close> is the step relation of the running system.
    \<open>Isolation\<close>, \<open>Tenant_Isolation\<close>, \<open>Isolation_Theorems\<close>: a tenant's requests leave the rows of the others as they
    are; \<open>Callback_Isolation\<close>, \<open>Callback_Theorems\<close>: so do the reports of workers on its
    tasks, because the services keep a task and its request on one document (\<open>Task_Alignment\<close>); \<open>Noninterference\<close>:
    over any run in which the members of an organization do nothing its rows stay as they are; \<open>Answers\<close>: a tenant's
    answers hold own rows only, the values of an extraction request included, and every answer of the router has
    one of four forms; \<open>Access\<close>: who reaches which handler.
  \<^item> The pipeline. \<open>Evolution\<close>, \<open>Extraction_Properties\<close>, \<open>Extracted_Answers\<close>, \<open>Extraction_Theorems\<close>: soundness for all
    faults, the file that a worker gets (never the original where anonymization was asked for), idempotence, and
    the refinement of a completed extraction by an update of the map from keys to values (\<open>key_for\<close> says which key a
    name stands for, apart from the query that finds it), which \<open>GetAnswers\<close> reads back. \<open>Worker_Properties\<close>, \<open>Worker_Theorems\<close>: no request is left running after the task that it waits
    for has failed or finished, when the interactions succeed; \<open>Pipeline_Progress\<close>: a finished task of a request
    leads to the next one, whether or not Redis can be reached.
  \<^item> The watchdog. \<open>Watchdog_Properties\<close>, \<open>Watchdog_Theorems\<close>: what a scan does to each stale task, the bound on
    the retries of each, and that replicas which interleave do not treat a task twice within the threshold.
  \<^item> Accounts and files. \<open>Tokens\<close>, \<open>Account_Theorems\<close>: round trip of tokens, login, atomic registration;
    \<open>Document_Theorems\<close>: uploads leave no orphan unless an answer is lost, presigned URLs are of own rows.
  \<^item> The process. \<open>Process_Life\<close>: a validated configuration, the order of the shutdown (the watchdog, the requests,
    then Redis), what \<open>main\<close> may wait for, and consistency from the start to the end.
  \<^item> Recursive queries. \<open>Site_Tree\<close>, \<open>Site_Theorems\<close>: status and dating of sites, against the relation between
    parents and children.

  \<^bold>\<open>Bounds.\<close> The recursive queries (\<open>site_subtree\<close>, \<open>site_ancestors\<close>, \<open>doc_closure\<close>) run with the number of
  rows of their table as fuel; \<open>recursive_queries_end\<close> shows that more fuel changes nothing on a consistent
  database. The other recursions are structural or end by a measure (decimal digits, trimming of strings, runes).
  The loop of the watchdog is the list of its scans.

  \<^bold>\<open>Concurrency.\<close> A statement is atomic, as in PostgreSQL. In \<open>system_step\<close> and \<open>process_step\<close> whole requests and whole scans
  alternate; statements of several watchdogs and workers on a task interleave freely in \<open>claims_not_repeated\<close>.
  Integrity holds for any interleaving of statements too, since each statement preserves it, with three
  exceptions: the catalog entry of a new comparison session and the session of a new place in it, which the
  handler has looked up before, and the site of an audit event, which no handler writes.

  \<^bold>\<open>Not modelled, and why.\<close>
  \<^item> What the CORS library makes of its policy (\<open>corsMiddleware\<close> is the policy), the request log, panic recovery (the answers of CORS and of the recovery are not among those of \<open>serve\<close>), gin's redirects for trailing slashes, the encoding of answers as
    bytes: library code, or output only. Parsing of a request (paths, cookies, JSON bodies, multipart) is gin's and
    \<^verbatim>\<open>net/http\<close>'s: a request arrives as a record of its parts.
  \<^item> The sources of the configuration, the connection pool and the ticker are parameters or nondeterminism of
    \<open>Process_Life\<close>; \<^verbatim>\<open>pkg/logging\<close> and \<^verbatim>\<open>scripts/gen-secrets\<close> are input and output only.
  \<^item> Length limits and numeric ranges of columns (a violation is a fault of the interaction), plain indexes,
    the seed rows of the migrations.
  \<^item> \<^verbatim>\<open>querier.go\<close>, \<^verbatim>\<open>storage_iface.go\<close> (interface declarations), mocks and tests.
  \<^item> Cryptography: \<open>jwt_laws\<close> idealise the signatures (what one secret signs is never valid under another), and
    bcrypt is a function that compares.
  \<^item> The dummy comparison of \<open>Login\<close> that equalises its time, and log records.
\<close>

end
